(* ===== verification/Prelude.thy ===== *)
theory Prelude
  imports Main "HOL-Library.Word"
begin

section \<open>Prelude: machine types, results and the automation the components share\<close>

text \<open>
  Names for the machine types of the Rust sources, the \<open>Result\<close> and saturating/checked
  arithmetic of the standard library as far as the sources use them, and the lemma
  collections of the development.

  \<^item> \<open>config_simps\<close>: the values of the constants of \<open>runtime/src/lib.rs\<close> and
    \<open>runtime/src/configs/mod.rs\<close>, as numerals.
  \<^item> \<open>result_simps\<close>: how the combinators on results act and when they give \<open>Ok\<close>.
\<close>

named_theorems config_simps \<open>numeral values of the runtime's constants\<close>
named_theorems result_simps \<open>equations of the combinators on results\<close>

subsection \<open>Machine types\<close>

type_synonym u8 = "8 word"
type_synonym u16 = "16 word"
type_synonym u32 = "32 word"
type_synonym u64 = "64 word"
type_synonym u128 = "128 word"

text \<open>
  Byte vectors, and the fixed-size arrays \<open>[u8; 32]\<close> behind \<open>AccountId32\<close> and \<open>H256\<close>,
  are lists of bytes, whose length the Rust type fixes.
\<close>

type_synonym bytes = "u8 list"
type_synonym account_id = bytes
type_synonym h256 = bytes
type_synonym domain_hash = bytes

definition h256_default :: h256 where
  "h256_default = replicate 32 0"

subsection \<open>Results\<close>

text \<open>\<open>Result<A, E>\<close> is \<open>'e + 'a\<close>, with \<open>Inl\<close> for \<open>Err\<close> and \<open>Inr\<close> for \<open>Ok\<close>.\<close>

primrec res_map :: "('a \<Rightarrow> 'b) \<Rightarrow> 'e + 'a \<Rightarrow> 'e + 'b" where
  "res_map f (Inl e) = Inl e"
| "res_map f (Inr a) = Inr (f a)"

primrec res_map_err :: "('e \<Rightarrow> 'f) \<Rightarrow> 'e + 'a \<Rightarrow> 'f + 'a" where
  "res_map_err f (Inl e) = Inl (f e)"
| "res_map_err f (Inr a) = Inr a"

primrec res_bind :: "'e + 'a \<Rightarrow> ('a \<Rightarrow> 'e + 'b) \<Rightarrow> 'e + 'b" where
  "res_bind (Inl e) f = Inl e"
| "res_bind (Inr a) f = f a"

primrec is_ok :: "'e + 'a \<Rightarrow> bool" where
  "is_ok (Inl e) = False"
| "is_ok (Inr a) = True"

definition is_err :: "'e + 'a \<Rightarrow> bool" where
  "is_err r \<longleftrightarrow> \<not> is_ok r"

text \<open>\<open>Option::ok_or\<close>.\<close>

primrec ok_or :: "'a option \<Rightarrow> 'e \<Rightarrow> 'e + 'a" where
  "ok_or None e = Inl e"
| "ok_or (Some a) e = Inr a"

lemma is_err_simps [result_simps, simp]: "is_err (Inl e)" "\<not> is_err (Inr a)"
  by (simp_all add: is_err_def)

lemma res_map_eq_Inr [result_simps]: "res_map f r = Inr b \<longleftrightarrow> (\<exists>a. r = Inr a \<and> f a = b)"
  by (cases r) auto

lemma res_map_eq_Inl [result_simps]: "res_map f r = Inl e \<longleftrightarrow> r = Inl e"
  by (cases r) auto

lemma res_map_err_eq_Inr [result_simps]: "res_map_err f r = Inr a \<longleftrightarrow> r = Inr a"
  by (cases r) auto

lemma res_map_err_eq_Inl [result_simps]: "res_map_err f r = Inl e \<longleftrightarrow> (\<exists>d. r = Inl d \<and> f d = e)"
  by (cases r) auto

lemma res_bind_eq_Inr [result_simps]: "res_bind r f = Inr b \<longleftrightarrow> (\<exists>a. r = Inr a \<and> f a = Inr b)"
  by (cases r) auto

lemma res_bind_eq_Inl [result_simps]:
  "res_bind r f = Inl e \<longleftrightarrow> r = Inl e \<or> (\<exists>a. r = Inr a \<and> f a = Inl e)"
  by (cases r) auto

lemma ok_or_eq [result_simps]:
  "ok_or x e = Inr a \<longleftrightarrow> x = Some a" "ok_or x e = Inl d \<longleftrightarrow> x = None \<and> d = e"
  by (cases x; auto)+

lemma is_ok_iff: "is_ok r \<longleftrightarrow> (\<exists>a. r = Inr a)"
  by (cases r) auto

subsection \<open>Saturating and checked arithmetic\<close>

definition sat_add :: "'a::len word \<Rightarrow> 'a word \<Rightarrow> 'a word" where
  "sat_add a b = (if unat a + unat b < 2 ^ LENGTH('a) then a + b else - 1)"

definition sat_mul :: "'a::len word \<Rightarrow> 'a word \<Rightarrow> 'a word" where
  "sat_mul a b = (if unat a * unat b < 2 ^ LENGTH('a) then a * b else - 1)"

definition sat_sub :: "'a::len word \<Rightarrow> 'a word \<Rightarrow> 'a word" where
  "sat_sub a b = (if b \<le> a then a - b else 0)"

lemma unat_max: "unat (- 1 :: 'a::len word) = 2 ^ LENGTH('a) - 1"
  by transfer (simp add: take_bit_minus_one_eq_mask mask_eq_exp_minus_1 nat_diff_distrib nat_power_eq)

lemma unat_sat_add: "unat (sat_add a b) = min (unat a + unat b) (2 ^ LENGTH('a) - 1)"
  for a b :: "'a::len word"
  by (auto simp: sat_add_def unat_max unat_word_ariths min_def)

lemma unat_sat_mul: "unat (sat_mul a b) = min (unat a * unat b) (2 ^ LENGTH('a) - 1)"
  for a b :: "'a::len word"
proof (cases "unat a * unat b < 2 ^ LENGTH('a)")
  case True
  then show ?thesis by (auto simp: sat_mul_def unat_word_ariths)
next
  case False
  then show ?thesis by (simp add: sat_mul_def unat_max)
qed

lemma unat_sat_sub: "unat (sat_sub a b) = unat a - unat b" for a b :: "'a::len word"
  by (auto simp: sat_sub_def unat_sub word_le_nat_alt)

lemma unat_lt_exp: "unat w < 2 ^ LENGTH('a)" for w :: "'a::len word"
  by (fact unsigned_less)

lemma unat_exp_lower: "m < LENGTH('a) \<Longrightarrow> unat (2 ^ m :: 'a::len word) = 2 ^ m"
  by transfer (simp add: take_bit_eq_mod nat_mod_distrib nat_power_eq)

text \<open>
  \<open>uN::checked_next_power_of_two\<close>: the least power of two not below the argument, \<open>None\<close>
  when it does not fit the width.
\<close>

definition checked_next_power_of_two :: "'a::len word \<Rightarrow> 'a word option" where
  "checked_next_power_of_two w =
     map_option of_nat (find (\<lambda>p. unat w \<le> p) (map (\<lambda>k. 2 ^ k) [0..<LENGTH('a)]))"

end
