(* ===== verification/Runtime_Types.thy ===== *)
theory Runtime_Types
  imports Prelude
begin

section \<open>Runtime types and constants (\<open>runtime/src/lib.rs\<close>)\<close>

text \<open>
  Block times and token units, the runtime version, the order of the transaction
  extensions, and the pallets of the runtime with the index each is given.
\<close>

subsection \<open>Block times and units\<close>

definition MILLI_SECS_PER_BLOCK :: u64 where
  "MILLI_SECS_PER_BLOCK = 6000"

definition SLOT_DURATION :: u64 where
  "SLOT_DURATION = MILLI_SECS_PER_BLOCK"

definition MINUTES :: u32 where
  "MINUTES = 60000 div ucast MILLI_SECS_PER_BLOCK"

definition HOURS :: u32 where
  "HOURS = MINUTES * 60"

definition DAYS :: u32 where
  "DAYS = HOURS * 24"

definition BLOCK_HASH_COUNT :: u32 where
  "BLOCK_HASH_COUNT = 2400"

definition UNIT :: u128 where
  "UNIT = 1000000000000"

definition MILLI_UNIT :: u128 where
  "MILLI_UNIT = 1000000000"

definition MICRO_UNIT :: u128 where
  "MICRO_UNIT = 1000000"

definition EXISTENTIAL_DEPOSIT :: u128 where
  "EXISTENTIAL_DEPOSIT = MILLI_UNIT"

lemmas [config_simps] =
  MILLI_SECS_PER_BLOCK_def SLOT_DURATION_def BLOCK_HASH_COUNT_def
  UNIT_def MILLI_UNIT_def MICRO_UNIT_def EXISTENTIAL_DEPOSIT_def

lemma MINUTES_value [config_simps]: "MINUTES = 10"
  by (simp add: MINUTES_def config_simps)

lemma HOURS_value [config_simps]: "HOURS = 600"
  by (simp add: HOURS_def config_simps)

lemma DAYS_value [config_simps]: "DAYS = 14400"
  by (simp add: DAYS_def config_simps)

subsection \<open>Version\<close>

text \<open>The API versions are generated by \<open>impl_runtime_apis!\<close> and stay a parameter.\<close>

record 'api runtime_version =
  spec_name :: string
  impl_name :: string
  authoring_version :: u32
  spec_version :: u32
  impl_version :: u32
  ver_apis :: 'api
  transaction_version :: u32
  system_version :: u8

definition VERSION :: "'api \<Rightarrow> 'api runtime_version" where
  "VERSION runtime_api_versions =
     \<lparr>spec_name = ''paseo-runtime'', impl_name = ''paseo-runtime'',
      authoring_version = 1, spec_version = 200, impl_version = 1,
      ver_apis = runtime_api_versions, transaction_version = 1, system_version = 1\<rparr>"

text \<open>
  The native version of \<open>std\<close> builds; \<open>can_author_with\<close> is the default of \<open>sp_version\<close>, a
  parameter.
\<close>

record ('api, 'can) native_version =
  nv_runtime_version :: "'api runtime_version"
  nv_can_author_with :: 'can

definition native_version :: "'api \<Rightarrow> 'can \<Rightarrow> ('api, 'can) native_version" where
  "native_version runtime_api_versions default_can_author =
     \<lparr>nv_runtime_version = VERSION runtime_api_versions,
      nv_can_author_with = default_can_author\<rparr>"

subsection \<open>Transaction extensions\<close>

datatype tx_extension =
    AuthorizeCall | CheckNonZeroSender | CheckSpecVersion | CheckTxVersion | CheckGenesis
  | CheckEra | CheckNonce | CheckWeight | ChargeTransactionPayment | CheckMetadataHash
  | WeightReclaim

definition TxExtension :: "tx_extension list" where
  "TxExtension =
     [AuthorizeCall, CheckNonZeroSender, CheckSpecVersion, CheckTxVersion, CheckGenesis,
      CheckEra, CheckNonce, CheckWeight, ChargeTransactionPayment, CheckMetadataHash,
      WeightReclaim]"

subsection \<open>Pallets\<close>

datatype pallet =
    System | Timestamp | Aura | Grandpa | Balances | TransactionPayment | Sudo | Proxy
  | PnsNft | PnsPriceOracle | PnsRegistry | PnsRegistrar | PnsResolvers | PnsMarketplace
  | Scheduler | Authorship | InsecureRandomness | ZkPki | SecretSquirrel

primrec pallet_index :: "pallet \<Rightarrow> u8" where
  "pallet_index System = 0"
| "pallet_index Timestamp = 1"
| "pallet_index Aura = 2"
| "pallet_index Grandpa = 3"
| "pallet_index Balances = 4"
| "pallet_index TransactionPayment = 5"
| "pallet_index Sudo = 6"
| "pallet_index Proxy = 7"
| "pallet_index PnsNft = 8"
| "pallet_index PnsPriceOracle = 9"
| "pallet_index PnsRegistry = 10"
| "pallet_index PnsRegistrar = 11"
| "pallet_index PnsResolvers = 12"
| "pallet_index PnsMarketplace = 13"
| "pallet_index Scheduler = 20"
| "pallet_index Authorship = 21"
| "pallet_index InsecureRandomness = 22"
| "pallet_index ZkPki = 30"
| "pallet_index SecretSquirrel = 40"

lemma pallet_index_inject: "pallet_index p = pallet_index q \<Longrightarrow> p = q"
  by (cases p; cases q) simp_all

text \<open>The pallets in the order \<open>mod runtime\<close> declares them.\<close>

definition runtime_pallets :: "pallet list" where
  "runtime_pallets =
     [System, Timestamp, Aura, Grandpa, Balances, TransactionPayment, Sudo, Proxy,
      PnsNft, PnsPriceOracle, PnsRegistry, PnsRegistrar, PnsResolvers, PnsMarketplace,
      Scheduler, Authorship, InsecureRandomness, ZkPki, SecretSquirrel]"

lemma set_runtime_pallets: "set runtime_pallets = UNIV"
proof -
  have "p \<in> set runtime_pallets" for p
    by (cases p) (simp_all add: runtime_pallets_def)
  then show ?thesis by blast
qed

text \<open>Pallets are ordered by their index.\<close>

instantiation pallet :: linorder
begin

definition less_eq_pallet :: "pallet \<Rightarrow> pallet \<Rightarrow> bool" where
  "less_eq_pallet p q \<longleftrightarrow> pallet_index p \<le> pallet_index q"

definition less_pallet :: "pallet \<Rightarrow> pallet \<Rightarrow> bool" where
  "less_pallet p q \<longleftrightarrow> pallet_index p < pallet_index q"

instance
proof
  fix p q r :: pallet
  show "p < q \<longleftrightarrow> p \<le> q \<and> \<not> q \<le> p"
    by (auto simp: less_eq_pallet_def less_pallet_def)
  show "p \<le> p" and "p \<le> q \<or> q \<le> p"
    by (auto simp: less_eq_pallet_def)
  show "p \<le> q \<Longrightarrow> q \<le> r \<Longrightarrow> p \<le> r"
    by (auto simp: less_eq_pallet_def)
  show "p \<le> q \<Longrightarrow> q \<le> p \<Longrightarrow> p = q"
    by (auto simp: less_eq_pallet_def dest: order_antisym pallet_index_inject)
qed

end

subsection \<open>Properties\<close>

text \<open>
  The pallets are declared in the order of their indices, each pallet once and none left
  out, so the declaration is the sorted enumeration of all pallets and no two calls, events or
  errors of different pallets share an encoded index.
\<close>

theorem runtime_pallets_sorted:
  "runtime_pallets = sorted_list_of_set UNIV \<and> inj pallet_index"
proof -
  have sorted: "sorted_wrt (<) runtime_pallets"
    by (simp add: runtime_pallets_def less_pallet_def)
  have "finite (UNIV :: pallet set)" by (simp flip: set_runtime_pallets)
  then have "runtime_pallets = sorted_list_of_set UNIV"
    using sorted set_runtime_pallets
    by (metis sorted_list_of_set.idem_if_sorted_distinct strict_sorted_iff)
  then show ?thesis by (simp add: inj_def pallet_index_inject)
qed

end
