(* ===== verification/Runtime_Config.thy ===== *)
theory Runtime_Config
  imports Runtime_Types
begin

section \<open>Pallet configuration (\<open>runtime/src/configs/mod.rs\<close>)\<close>

text \<open>
  The \<open>parameter_types!\<close> constants, computed at the width Rust computes them at, and the
  \<open>impl ... Config for Runtime\<close> blocks as records of the values they bind. Types a block
  binds to a provider inside this repository (\<open>AuraAccountFinder\<close>, \<open>PnsSs58Updater\<close>, ...)
  are modelled where the provider is; types of other crates are not modelled.
\<close>

subsection \<open>System, timestamp, aura, grandpa\<close>

definition BlockHashCount :: u32 where
  "BlockHashCount = 2400"

definition SS58Prefix :: u8 where
  "SS58Prefix = 42"

record weight =
  ref_time :: u64
  proof_size :: u64

text \<open>
  \<open>WEIGHT_REF_TIME_PER_SECOND\<close> is a constant of \<open>frame_support\<close> and a parameter here;
  \<open>RuntimeBlockWeights\<close> is the block weight handed to \<open>with_sensible_defaults\<close>.
\<close>

definition RuntimeBlockWeights :: "u64 \<Rightarrow> weight" where
  "RuntimeBlockWeights ref_time_per_second =
     \<lparr>ref_time = 2 * ref_time_per_second, proof_size = - 1\<rparr>"

datatype dispatch_class = Normal | Operational | Mandatory

definition NORMAL_DISPATCH_PERCENT :: u32 where
  "NORMAL_DISPATCH_PERCENT = 75"

text \<open>\<open>Perbill * u32\<close> is arithmetic of \<open>sp_runtime\<close>: the parameter \<open>mul_percent\<close>.\<close>

definition RuntimeBlockLength :: "(u32 \<Rightarrow> u32 \<Rightarrow> u32) \<Rightarrow> dispatch_class \<Rightarrow> u32" where
  "RuntimeBlockLength mul_percent c =
     (let m = 5 * 1024 * 1024
      in case c of Normal \<Rightarrow> mul_percent NORMAL_DISPATCH_PERCENT m | _ \<Rightarrow> m)"

record system_config =
  sys_block_hash_count :: u32
  sys_ss58_prefix :: u8
  sys_max_consumers :: u32

definition system_config :: system_config where
  "system_config =
     \<lparr>sys_block_hash_count = BlockHashCount, sys_ss58_prefix = SS58Prefix,
      sys_max_consumers = 16\<rparr>"

record consensus_config =
  aura_max_authorities :: u32
  aura_allow_multiple_blocks_per_slot :: bool
  grandpa_max_authorities :: u32
  grandpa_max_nominators :: u32
  grandpa_max_set_id_session_entries :: u64
  timestamp_minimum_period :: u64

definition consensus_config :: consensus_config where
  "consensus_config =
     \<lparr>aura_max_authorities = 32, aura_allow_multiple_blocks_per_slot = False,
      grandpa_max_authorities = 32, grandpa_max_nominators = 0,
      grandpa_max_set_id_session_entries = 0,
      timestamp_minimum_period = SLOT_DURATION div 2\<rparr>"

record balances_config =
  bal_max_locks :: u32
  bal_existential_deposit :: u128
  fee_operational_multiplier :: u8

definition balances_config :: balances_config where
  "balances_config =
     \<lparr>bal_max_locks = 50, bal_existential_deposit = EXISTENTIAL_DEPOSIT,
      fee_operational_multiplier = 5\<rparr>"

subsection \<open>PNS\<close>

definition GracePeriod :: u64 where
  "GracePeriod = 30 * ucast DAYS * MILLI_SECS_PER_BLOCK"

definition OfferWindow :: u64 where
  "OfferWindow = 90 * ucast DAYS * MILLI_SECS_PER_BLOCK"

definition DefaultCapacity :: u32 where
  "DefaultCapacity = 10"

definition MinRegistrationDuration :: u64 where
  "MinRegistrationDuration = 28 * ucast DAYS * MILLI_SECS_PER_BLOCK"

definition MaxRegistrationDuration :: u64 where
  "MaxRegistrationDuration = 365 * ucast DAYS * MILLI_SECS_PER_BLOCK"

definition MaxContentLen :: u32 where
  "MaxContentLen = 1024"

definition PnsCustodianAccount :: account_id where
  "PnsCustodianAccount = replicate 32 0xFE"

definition MarketplaceListingDeposit :: u128 where
  "MarketplaceListingDeposit = 10 * MILLI_UNIT"

definition MarketplaceListingGracePeriod :: u64 where
  "MarketplaceListingGracePeriod = 7 * ucast DAYS * MILLI_SECS_PER_BLOCK"

record registrar_config =
  reg_grace_period :: u64
  reg_default_capacity :: u32
  reg_min_duration :: u64
  reg_max_duration :: u64
  reg_offer_window :: u64

definition registrar_config :: registrar_config where
  "registrar_config =
     \<lparr>reg_grace_period = GracePeriod, reg_default_capacity = DefaultCapacity,
      reg_min_duration = MinRegistrationDuration, reg_max_duration = MaxRegistrationDuration,
      reg_offer_window = OfferWindow\<rparr>"

record marketplace_config =
  mkt_listing_deposit :: u128
  mkt_listing_grace_period :: u64

definition marketplace_config :: marketplace_config where
  "marketplace_config =
     \<lparr>mkt_listing_deposit = MarketplaceListingDeposit,
      mkt_listing_grace_period = MarketplaceListingGracePeriod\<rparr>"

record nft_config =
  nft_max_class_metadata :: u32
  nft_max_token_metadata :: u32

definition nft_config :: nft_config where
  "nft_config = \<lparr>nft_max_class_metadata = 0, nft_max_token_metadata = 0\<rparr>"

definition OffchainPrefix :: string where
  "OffchainPrefix = ''pns/''"

record resolvers_config =
  res_offchain_prefix :: string
  res_max_content_len :: u32

definition resolvers_config :: resolvers_config where
  "resolvers_config = \<lparr>res_offchain_prefix = ''pns/'', res_max_content_len = MaxContentLen\<rparr>"

lemma pns_duration_values [config_simps]:
  "GracePeriod = 2592000000" "OfferWindow = 7776000000"
  "MinRegistrationDuration = 2419200000" "MaxRegistrationDuration = 31536000000"
  "MarketplaceListingGracePeriod = 604800000"
  by (simp_all add: GracePeriod_def OfferWindow_def MinRegistrationDuration_def
      MaxRegistrationDuration_def MarketplaceListingGracePeriod_def config_simps)

subsection \<open>Scheduler\<close>

definition MaxScheduledPerBlock :: u32 where
  "MaxScheduledPerBlock = 50"

definition MaximumSchedulerWeight :: "u64 \<Rightarrow> weight" where
  "MaximumSchedulerWeight ref_time_per_second =
     \<lparr>ref_time = ref_time_per_second, proof_size = - 1\<rparr>"

record scheduler_config =
  sch_maximum_weight :: weight
  sch_max_scheduled_per_block :: u32

definition scheduler_config :: "u64 \<Rightarrow> scheduler_config" where
  "scheduler_config ref_time_per_second =
     \<lparr>sch_maximum_weight = MaximumSchedulerWeight ref_time_per_second,
      sch_max_scheduled_per_block = MaxScheduledPerBlock\<rparr>"

subsection \<open>ZK-PKI\<close>

definition PkiInactivePurgePeriod :: u32 where
  "PkiInactivePurgePeriod = 14400 * 30"

definition PkiContractOfferTtlBlocks :: u32 where
  "PkiContractOfferTtlBlocks = 14400"

definition PkiMaxRootTtlBlocks :: u32 where
  "PkiMaxRootTtlBlocks = 14400 * 365 * 5"

definition PkiMaxIssuersPerRoot :: u32 where
  "PkiMaxIssuersPerRoot = 5"

definition PkiChallengeWindowBlocks :: u32 where
  "PkiChallengeWindowBlocks = 14400 * 45"

definition PkiCertDeposit :: u128 where
  "PkiCertDeposit = UNIT"

definition PkiOfferDeposit :: u128 where
  "PkiOfferDeposit = UNIT div 10"

definition PkiMinRootTtlBlocks :: u32 where
  "PkiMinRootTtlBlocks = 14400 * 90"

definition PkiMinIssuerTtlBlocks :: u32 where
  "PkiMinIssuerTtlBlocks = 14400 * 30"

definition PkiTtlCheckInterval :: u32 where
  "PkiTtlCheckInterval = 14400"

definition PkiTemplateDeposit :: u128 where
  "PkiTemplateDeposit = 10 * UNIT"

definition PkiMaxTemplatesPerIssuer :: u32 where
  "PkiMaxTemplatesPerIssuer = 256"

definition PkiProtocolFeeBasisPoints :: u32 where
  "PkiProtocolFeeBasisPoints = 1000"

definition PkiBlockCreatorCapBasisPoints :: u32 where
  "PkiBlockCreatorCapBasisPoints = 4000"

definition PkiDepositBasisPoints :: u32 where
  "PkiDepositBasisPoints = 500"

definition PkiMinDeposit :: u128 where
  "PkiMinDeposit = UNIT div 10"

definition PkiMintFeePoP :: u128 where
  "PkiMintFeePoP = UNIT"

definition PkiMintFeePacked :: u128 where
  "PkiMintFeePacked = UNIT + UNIT div 2"

definition PkiMintFeeNone :: u128 where
  "PkiMintFeeNone = 2 * UNIT"

definition PkiProtocolFeeRecipient :: account_id where
  "PkiProtocolFeeRecipient = replicate 32 0"

record zk_pki_config =
  pki_inactive_purge_period :: u32
  pki_contract_offer_ttl :: u32
  pki_max_root_ttl :: u32
  pki_max_issuers_per_root :: u32
  pki_challenge_window :: u32
  pki_cert_deposit :: u128
  pki_offer_deposit :: u128
  pki_min_root_ttl :: u32
  pki_min_issuer_ttl :: u32
  pki_ttl_check_interval :: u32
  pki_template_deposit :: u128
  pki_max_templates_per_issuer :: u32
  pki_protocol_fee_recipient :: account_id
  pki_protocol_fee_bp :: u32
  pki_block_creator_cap_bp :: u32
  pki_deposit_bp :: u32
  pki_min_deposit :: u128
  pki_mint_fee_pop :: u128
  pki_mint_fee_packed :: u128
  pki_mint_fee_none :: u128

definition zk_pki_config :: zk_pki_config where
  "zk_pki_config =
     \<lparr>pki_inactive_purge_period = PkiInactivePurgePeriod,
      pki_contract_offer_ttl = PkiContractOfferTtlBlocks,
      pki_max_root_ttl = PkiMaxRootTtlBlocks,
      pki_max_issuers_per_root = PkiMaxIssuersPerRoot,
      pki_challenge_window = PkiChallengeWindowBlocks,
      pki_cert_deposit = PkiCertDeposit,
      pki_offer_deposit = PkiOfferDeposit,
      pki_min_root_ttl = PkiMinRootTtlBlocks,
      pki_min_issuer_ttl = PkiMinIssuerTtlBlocks,
      pki_ttl_check_interval = PkiTtlCheckInterval,
      pki_template_deposit = PkiTemplateDeposit,
      pki_max_templates_per_issuer = PkiMaxTemplatesPerIssuer,
      pki_protocol_fee_recipient = PkiProtocolFeeRecipient,
      pki_protocol_fee_bp = PkiProtocolFeeBasisPoints,
      pki_block_creator_cap_bp = PkiBlockCreatorCapBasisPoints,
      pki_deposit_bp = PkiDepositBasisPoints,
      pki_min_deposit = PkiMinDeposit,
      pki_mint_fee_pop = PkiMintFeePoP,
      pki_mint_fee_packed = PkiMintFeePacked,
      pki_mint_fee_none = PkiMintFeeNone\<rparr>"

lemma pki_block_values [config_simps]:
  "PkiInactivePurgePeriod = 432000" "PkiContractOfferTtlBlocks = 14400"
  "PkiMaxRootTtlBlocks = 26280000" "PkiChallengeWindowBlocks = 648000"
  "PkiMinRootTtlBlocks = 1296000" "PkiMinIssuerTtlBlocks = 432000"
  "PkiTtlCheckInterval = 14400"
  by (simp_all add: PkiInactivePurgePeriod_def PkiContractOfferTtlBlocks_def
      PkiMaxRootTtlBlocks_def PkiChallengeWindowBlocks_def PkiMinRootTtlBlocks_def
      PkiMinIssuerTtlBlocks_def PkiTtlCheckInterval_def)

lemma pki_balance_values [config_simps]:
  "PkiCertDeposit = 1000000000000" "PkiOfferDeposit = 100000000000"
  "PkiTemplateDeposit = 10000000000000" "PkiMinDeposit = 100000000000"
  "PkiMintFeePoP = 1000000000000" "PkiMintFeePacked = 1500000000000"
  "PkiMintFeeNone = 2000000000000"
  by (simp_all add: PkiCertDeposit_def PkiOfferDeposit_def PkiTemplateDeposit_def
      PkiMinDeposit_def PkiMintFeePoP_def PkiMintFeePacked_def PkiMintFeeNone_def UNIT_def)

lemmas [config_simps] =
  PkiProtocolFeeBasisPoints_def PkiBlockCreatorCapBasisPoints_def PkiDepositBasisPoints_def

subsection \<open>Proxy and Secret Squirrel\<close>

record proxy_config =
  prx_deposit_base :: u128
  prx_deposit_factor :: u128
  prx_max_proxies :: u32
  prx_max_pending :: u32
  prx_announcement_deposit_base :: u128
  prx_announcement_deposit_factor :: u128

definition proxy_config :: proxy_config where
  "proxy_config =
     \<lparr>prx_deposit_base = 0, prx_deposit_factor = 0, prx_max_proxies = 32,
      prx_max_pending = 32, prx_announcement_deposit_base = 0,
      prx_announcement_deposit_factor = 0\<rparr>"

definition SsDepositBase :: u128 where
  "SsDepositBase = 100 * MILLI_UNIT"

definition SsDepositPerByte :: u128 where
  "SsDepositPerByte = MILLI_UNIT"

definition SsDepositPerBlock :: u128 where
  "SsDepositPerBlock = MILLI_UNIT"

definition SsMaxActiveSlots :: u32 where
  "SsMaxActiveSlots = 10000"

record secret_squirrel_config =
  ss_deposit_base :: u128
  ss_deposit_per_byte :: u128
  ss_deposit_per_block :: u128
  ss_max_active_slots :: u32

definition secret_squirrel_config :: secret_squirrel_config where
  "secret_squirrel_config =
     \<lparr>ss_deposit_base = SsDepositBase, ss_deposit_per_byte = SsDepositPerByte,
      ss_deposit_per_block = SsDepositPerBlock, ss_max_active_slots = SsMaxActiveSlots\<rparr>"

lemmas config_record_defs =
  registrar_config_def marketplace_config_def zk_pki_config_def consensus_config_def
  balances_config_def proxy_config_def secret_squirrel_config_def system_config_def

subsection \<open>Properties\<close>

text \<open>
  The PNS durations are what their names say in milliseconds, with no wrap-around in
  \<open>u32\<close> or \<open>u64\<close> on the way: 30 days of grace, a 90-day offer window, registrations of 28 to
  365 days, 7 days of listing grace. A registration of the shortest duration is longer than a
  listing's grace, and grace period and offer window fit into the longest one.
\<close>

theorem pns_durations_exact:
  "unat (reg_grace_period registrar_config) = 30 * 24 * 60 * 60 * 1000 \<and>
   unat (reg_offer_window registrar_config) = 90 * 24 * 60 * 60 * 1000 \<and>
   unat (reg_min_duration registrar_config) = 28 * 24 * 60 * 60 * 1000 \<and>
   unat (reg_max_duration registrar_config) = 365 * 24 * 60 * 60 * 1000 \<and>
   unat (mkt_listing_grace_period marketplace_config) = 7 * 24 * 60 * 60 * 1000 \<and>
   mkt_listing_grace_period marketplace_config < reg_min_duration registrar_config \<and>
   reg_grace_period registrar_config + reg_offer_window registrar_config
     < reg_max_duration registrar_config"
  by (simp add: registrar_config_def marketplace_config_def config_simps)

text \<open>
  The ZK-PKI periods, counted in blocks, are the intended number of days at the runtime's
  block time, and they are ordered: an issuer may live shorter than any root, every root TTL
  allowed lies between 90 days and five years, an offer runs out before the first TTL check
  can fall due twice, and the challenge window outlasts the inactivity purge.
\<close>

theorem pki_periods_exact:
  "unat (pki_min_root_ttl zk_pki_config) * unat MILLI_SECS_PER_BLOCK = 90 * 24 * 60 * 60 * 1000 \<and>
   unat (pki_max_root_ttl zk_pki_config) * unat MILLI_SECS_PER_BLOCK = 5 * 365 * 24 * 60 * 60 * 1000 \<and>
   unat (pki_min_issuer_ttl zk_pki_config) * unat MILLI_SECS_PER_BLOCK = 30 * 24 * 60 * 60 * 1000 \<and>
   unat (pki_contract_offer_ttl zk_pki_config) * unat MILLI_SECS_PER_BLOCK = 24 * 60 * 60 * 1000 \<and>
   unat (pki_ttl_check_interval zk_pki_config) * unat MILLI_SECS_PER_BLOCK = 24 * 60 * 60 * 1000 \<and>
   unat (pki_challenge_window zk_pki_config) * unat MILLI_SECS_PER_BLOCK = 45 * 24 * 60 * 60 * 1000 \<and>
   unat (pki_inactive_purge_period zk_pki_config) * unat MILLI_SECS_PER_BLOCK = 30 * 24 * 60 * 60 * 1000 \<and>
   pki_min_issuer_ttl zk_pki_config < pki_min_root_ttl zk_pki_config \<and>
   pki_min_root_ttl zk_pki_config < pki_max_root_ttl zk_pki_config \<and>
   pki_contract_offer_ttl zk_pki_config < 2 * pki_ttl_check_interval zk_pki_config \<and>
   pki_inactive_purge_period zk_pki_config < pki_challenge_window zk_pki_config"
  by (simp add: zk_pki_config_def config_simps)

end
