(* ===== verification/Chain_State.thy ===== *)
theory Chain_State
  imports Runtime_Config
begin

section \<open>The on-chain state the runtime's own code reads\<close>

text \<open>
  One record for the storage items \<open>runtime/src\<close> reads by name: the timestamp, the offered
  names, the marketplace listings, the proxies, the Aura authorities and the Secret Squirrel
  slots. The rows hold the fields the sources use. \<open>st_pallets\<close>, of arbitrary type, is the
  storage of the external pallets, which only their own functions read and write.
\<close>

record pending_offer =
  of_recipient :: account_id
  of_buyer :: account_id
  offered_at :: u64

record listing =
  ls_seller :: account_id
  ls_price :: u128
  ls_expires_at :: u64

datatype proxy_type = AnyProxy

record proxy_definition =
  delegate :: account_id
  prx_type :: proxy_type
  prx_delay :: u32

record secret_slot =
  sl_payload :: bytes

record ('auth, 'p) chain_state =
  st_now :: u64
  st_offered_names :: "domain_hash \<rightharpoonup> pending_offer"
  st_listings :: "domain_hash \<rightharpoonup> listing"
  st_proxies :: "account_id \<Rightarrow> proxy_definition list \<times> u128"
  st_authorities :: "'auth list"
  st_slots :: "h256 \<rightharpoonup> secret_slot"
  st_pallets :: 'p

end
