(* ===== verification/Aura_Author.thy ===== *)
theory Aura_Author
  imports Chain_State
begin

section \<open>Finding the block author (\<open>AuraAccountFinder\<close>)\<close>

text \<open>
  \<open>AuraAccountFinder::find_author\<close> of \<open>runtime/src/configs/mod.rs\<close>: the loop over the
  pre-runtime digests, with its early exits. The engine id, the SCALE decoder of a slot and
  the conversion of an authority key to an account are code of other crates: the fields of
  \<open>aura_ext\<close>. The runtime is compiled to wasm32, so \<open>usize\<close> is 32 bits wide.
\<close>

type_synonym usize = u32
type_synonym engine_id = bytes
type_synonym digest = "engine_id \<times> bytes"

record 'auth aura_ext =
  aura_engine_id :: engine_id
  decode_slot :: "bytes \<Rightarrow> u64 option"
  to_account :: "'auth \<Rightarrow> account_id"

definition vec_len :: "'a list \<Rightarrow> usize" where
  "vec_len xs = of_nat (length xs)"

definition vec_get :: "'a list \<Rightarrow> usize \<Rightarrow> 'a option" where
  "vec_get xs i = (if unat i < length xs then Some (xs ! unat i) else None)"

fun find_author ::
  "('auth, 'z) aura_ext_scheme \<Rightarrow> 'auth list \<Rightarrow> digest list \<Rightarrow> account_id option" where
  "find_author ext authorities [] = None"
| "find_author ext authorities ((engine, data) # digests) =
     (if engine = aura_engine_id ext
      then case decode_slot ext data of
             None \<Rightarrow> None
           | Some slot \<Rightarrow>
               if authorities = [] then None
               else let idx = slot mod ucast (vec_len authorities)
                    in case vec_get authorities (ucast idx) of
                         None \<Rightarrow> None
                       | Some authority \<Rightarrow> Some (to_account ext authority)
      else find_author ext authorities digests)"

subsection \<open>The contract a \<open>FindAuthor\<close> implementation is used under\<close>

text \<open>
  \<open>pallet_authorship\<close>, \<open>zk_pki_pallet\<close> and \<open>pallet_secret_squirrel\<close> call the finder with
  all pre-runtime digests of a block, whatever engines they come from.
\<close>

locale author_finder =
  fixes engine :: engine_id
    and find_aut :: "digest list \<Rightarrow> account_id option"
    and authors :: "account_id set"
  assumes find_nil: "find_aut [] = None"
    and find_skip: "e \<noteq> engine \<Longrightarrow> find_aut ((e, d) # ds) = find_aut ds"
    and find_first: "find_aut ((engine, d) # ds) = find_aut [(engine, d)]"
    and find_sound: "find_aut ds = Some a \<Longrightarrow> a \<in> authors"
begin

lemma find_skips_prefix:
  "\<forall>(e, d) \<in> set pre. e \<noteq> engine \<Longrightarrow> find_aut (pre @ ds) = find_aut ds"
  by (induction pre) (auto simp: find_skip)

lemma find_only_own_engine: "find_aut (filter (\<lambda>(e, d). e = engine) ds) = find_aut ds"
proof (induction ds)
  case Nil
  then show ?case by simp
next
  case (Cons x ds)
  obtain e d where x: "x = (e, d)" by (cases x)
  show ?case
  proof (cases "e = engine")
    case True
    then show ?thesis by (simp add: x) (metis find_first)
  next
    case False
    with Cons show ?thesis by (simp add: x find_skip)
  qed
qed

lemma find_first_own_digest:
  "\<forall>(e, d) \<in> set pre. e \<noteq> engine \<Longrightarrow>
   find_aut (pre @ (engine, d) # post) = find_aut [(engine, d)]"
  by (metis find_skips_prefix find_first)

lemma find_foreign_None: "\<forall>(e, d) \<in> set ds. e \<noteq> engine \<Longrightarrow> find_aut ds = None"
  using find_skips_prefix [of ds "[]"] by (simp add: find_nil)

end

lemma find_author_in_authorities:
  "find_author ext auths ds = Some a \<Longrightarrow> a \<in> to_account ext ` set auths"
  by (induction ext auths ds rule: find_author.induct)
    (auto simp: Let_def vec_get_def split: if_splits option.splits)

interpretation aura_finder:
  author_finder "aura_engine_id ext" "find_author ext auths" "to_account ext ` set auths"
  for ext :: "('auth, 'z) aura_ext_scheme" and auths
  by unfold_locales
    (simp_all, auto simp: Let_def vec_get_def split: if_splits option.splits
       dest: find_author_in_authorities)

subsection \<open>The index computation\<close>

definition max_aura_authorities :: nat where
  "max_aura_authorities = unat (aura_max_authorities consensus_config)"

lemma max_aura_authorities_value: "max_aura_authorities = 32"
  by (simp add: max_aura_authorities_def consensus_config_def)

text \<open>
  Within \<open>MaxAuthorities\<close> neither \<open>len as u64\<close> nor \<open>idx as usize\<close> loses bits, so the
  lookup hits the authority at the slot's remainder.
\<close>

lemma author_index:
  assumes "xs \<noteq> []" and "length xs \<le> max_aura_authorities"
  shows "unat (ucast (slot mod ucast (vec_len xs)) :: usize) = unat (slot :: u64) mod length xs"
proof -
  have len: "length xs \<le> 32" using assms(2) by (simp add: max_aura_authorities_value)
  then have n: "unat (ucast (vec_len xs) :: u64) = length xs"
    by (simp add: vec_len_def unsigned_ucast_eq unat_of_nat take_bit_nat_eq_self)
  have m: "unat (slot mod ucast (vec_len xs)) = unat slot mod length xs"
    by (simp add: unat_mod_distrib n)
  have "unat slot mod length xs < 32"
    using assms(1) len by (metis length_greater_0_conv mod_less_divisor order_less_le_trans)
  then show ?thesis by (simp add: unsigned_ucast_eq m take_bit_nat_eq_self)
qed

lemma find_author_hit:
  assumes "auths \<noteq> []" and "length auths \<le> max_aura_authorities"
    and "decode_slot ext data = Some slot"
  shows "find_author ext auths ((aura_engine_id ext, data) # ds) =
     Some (to_account ext (auths ! (unat slot mod length auths)))"
  using assms author_index [OF assms(1,2), of slot]
  by (simp add: Let_def vec_get_def)

lemma find_author_first:
  assumes "auths \<noteq> []" and "length auths \<le> max_aura_authorities"
  shows "find_author ext auths ds =
    (case find (\<lambda>(engine, data). engine = aura_engine_id ext) ds of
       None \<Rightarrow> None
     | Some (engine, data) \<Rightarrow>
         map_option (\<lambda>slot. to_account ext (auths ! (unat slot mod length auths)))
           (decode_slot ext data))"
proof (induction ds)
  case Nil
  then show ?case by simp
next
  case (Cons x ds)
  obtain engine data where x: "x = (engine, data)" by (cases x)
  show ?case
  proof (cases "engine = aura_engine_id ext")
    case True
    then show ?thesis
      by (cases "decode_slot ext data") (simp add: x, simp add: x find_author_hit [OF assms] del: find_author.simps)
  next
    case False
    then show ?thesis using Cons by (simp add: x)
  qed
qed

subsection \<open>Properties\<close>

text \<open>
  C13: with a nonempty authority set within the pallet's bound, the author is decided by the
  first pre-runtime digest of the Aura engine alone: the authority at the slot modulo the
  number of authorities, or none when that digest does not decode (later Aura digests are not
  tried) or when there is no such digest. No conversion on the way loses bits.
\<close>

theorem find_author_spec:
  assumes "auths \<noteq> []" and "length auths \<le> max_aura_authorities"
  shows "find_author ext auths ds =
    (case find (\<lambda>(engine, data). engine = aura_engine_id ext) ds of
       None \<Rightarrow> None
     | Some (engine, data) \<Rightarrow>
         map_option (\<lambda>slot. to_account ext (auths ! (unat slot mod length auths)))
           (decode_slot ext data))"
  by (rule find_author_first [OF assms])

definition sample_aura :: "u8 aura_ext" where
  "sample_aura = \<lparr>aura_engine_id = [97],
     decode_slot = (\<lambda>d. case d of [] \<Rightarrow> None | b # _ \<Rightarrow> Some (ucast b)),
     to_account = (\<lambda>a. replicate 32 a)\<rparr>"

theorem find_author_spec_witness:
  "find_author sample_aura [5, 6, 7] [([98], [0]), ([97], [4]), ([97], [0])] =
     Some (replicate 32 6)"
  by (subst find_author_spec) (simp_all add: max_aura_authorities_value sample_aura_def)

text \<open>
  C33: Authorship is a round robin. Over as many consecutive slots as there are authorities
  (slots that do not run over \<open>u64\<close>, digests that decode to their slot), the authors are the
  authorities in order, each once, starting from the slot's remainder.
\<close>

theorem find_author_round_robin:
  assumes "auths \<noteq> []" and "length auths \<le> max_aura_authorities"
    and "unat slot + length auths \<le> 2 ^ 64"
    and "\<And>s. decode_slot ext (enc s) = Some s"
  shows "map (\<lambda>k. find_author ext auths [(aura_engine_id ext, enc (slot + of_nat k))])
      [0..<length auths] =
    map (\<lambda>a. Some (to_account ext a)) (rotate (unat slot) auths)"
proof (rule nth_equalityI)
  fix k assume "k < length (map (\<lambda>k. find_author ext auths
      [(aura_engine_id ext, enc (slot + of_nat k))]) [0..<length auths])"
  then have k: "k < length auths" by simp
  then have u: "unat (slot + of_nat k) = unat slot + k"
    using assms(3) by (simp add: unat_word_ariths unat_of_nat mod_simps)
  show "map (\<lambda>k. find_author ext auths [(aura_engine_id ext, enc (slot + of_nat k))])
      [0..<length auths] ! k =
    map (\<lambda>a. Some (to_account ext a)) (rotate (unat slot) auths) ! k"
    using k by (simp add: find_author_hit [OF assms(1,2) assms(4)] u nth_rotate
        del: find_author.simps)
qed simp

theorem find_author_round_robin_witness:
  "map (\<lambda>k. find_author (sample_aura\<lparr>decode_slot := (\<lambda>d. Some (of_nat (length d)))\<rparr>) [5, 6, 7]
      [([97], replicate (unat (4 + of_nat k :: u64)) 0)]) [0..<3] =
    [Some (replicate 32 6), Some (replicate 32 7), Some (replicate 32 5)]"
  using find_author_round_robin [of "[5, 6, 7]" 4
      "sample_aura\<lparr>decode_slot := (\<lambda>d. Some (of_nat (length d)))\<rparr>" "\<lambda>s. replicate (unat s) 0"]
  by (simp add: max_aura_authorities_value sample_aura_def upt_rec rotate_drop_take
      del: find_author.simps)

end
