(* ===== verification/Runtime_Hooks.thy ===== *)
theory Runtime_Hooks
  imports Chain_State
begin

section \<open>Origins, proxies and the hooks handed to the pallets\<close>

text \<open>
  The small trait implementations of \<open>runtime/src/configs/mod.rs\<close> and
  \<open>runtime/src/proxy_validator.rs\<close>: the root origin that yields an account, the proxy
  filter and the proxy validator, the PNS hooks that forward to the resolver pallet, and
  the checker the resolver pallet asks whether a node may be written.
\<close>

subsection \<open>\<open>EnsureRootAsAccountId\<close>\<close>

text \<open>\<open>frame_system::EnsureRoot::try_origin\<close> is the parameter \<open>ensure_root\<close>.\<close>

definition EnsureRootAsAccountId_try_origin ::
  "('o \<Rightarrow> 'o + 'r) \<Rightarrow> 'o \<Rightarrow> 'o + account_id" where
  "EnsureRootAsAccountId_try_origin ensure_root o' =
     res_map (\<lambda>_. replicate 32 0) (ensure_root o')"

text \<open>
  Under \<open>runtime-benchmarks\<close> the struct also makes an origin that succeeds. \<open>raw_origin\<close> is
  \<open>frame_system::RawOrigin\<close>; \<open>into\<close> embeds it into the runtime's origin.
\<close>

datatype raw_origin = RawRoot | RawSigned account_id | RawNone

definition EnsureRootAsAccountId_try_successful_origin ::
  "(raw_origin \<Rightarrow> 'o) \<Rightarrow> unit + 'o" where
  "EnsureRootAsAccountId_try_successful_origin into = Inr (into RawRoot)"

lemma ensure_root_account:
  "EnsureRootAsAccountId_try_origin er o' = Inr a \<longleftrightarrow>
     is_ok (er o') \<and> a = PkiProtocolFeeRecipient"
  by (auto simp: EnsureRootAsAccountId_try_origin_def PkiProtocolFeeRecipient_def
      result_simps is_ok_iff)

subsection \<open>Proxies\<close>

primrec ProxyType_filter :: "proxy_type \<Rightarrow> 'call \<Rightarrow> bool" where
  "ProxyType_filter AnyProxy call = True"

definition has_proxy ::
  "('auth, 'p, 'z) chain_state_scheme \<Rightarrow> account_id \<Rightarrow> account_id \<Rightarrow> bool" where
  "has_proxy s delegator delegatee =
     (let (proxies, deposit) = st_proxies s delegator
      in list_ex (\<lambda>def. delegate def = delegatee) proxies)"

definition delegates :: "('auth, 'p, 'z) chain_state_scheme \<Rightarrow> account_id \<Rightarrow> account_id set" where
  "delegates s d = delegate ` set (fst (st_proxies s d))"

lemma has_proxy_iff: "has_proxy s d e \<longleftrightarrow> e \<in> delegates s d"
  by (auto simp: has_proxy_def delegates_def list_ex_iff split: prod.splits)

subsection \<open>The external pallet functions the runtime calls\<close>

text \<open>
  \<open>reg_get_info\<close> and \<open>reg_check_expires_useable\<close> are functions of \<open>pns_registrar::registrar\<close>,
  \<open>registry_verify\<close> of \<open>pns_registrar::registry\<close>, \<open>nft_tokens\<close> of \<open>pns_registrar::nft\<close>, the
  \<open>res_\<close> functions of \<open>pns_resolvers\<close>, \<open>label_*\<close> and \<open>parse_name_to_node\<close> of the name
  types, \<open>authorship_author\<close> of \<open>pallet_authorship\<close>. None of them is under \<open>src/\<close>.
\<close>

record registrar_info =
  ri_expire :: u64
  ri_capacity :: u32
  ri_register_fee :: u128
  ri_last_block :: u32

record nft_token =
  tk_owner :: account_id

record ('st, 'rt, 'lbl, 'e) pns_ext =
  reg_get_info :: "'st \<Rightarrow> domain_hash \<rightharpoonup> registrar_info"
  reg_check_expires_useable :: "'st \<Rightarrow> domain_hash \<Rightarrow> 'e + unit"
  registry_verify :: "'st \<Rightarrow> account_id \<Rightarrow> domain_hash \<Rightarrow> 'e + unit"
  nft_tokens :: "'st \<Rightarrow> u32 \<Rightarrow> domain_hash \<rightharpoonup> nft_token"
  res_lookup :: "'st \<Rightarrow> domain_hash \<Rightarrow> 'rt list \<Rightarrow> ('rt \<times> bytes) list"
  res_set_ss58_record :: "domain_hash \<Rightarrow> account_id \<Rightarrow> 'st \<Rightarrow> ('e + unit) \<times> 'st"
  res_set_origin_record :: "domain_hash \<Rightarrow> bytes \<Rightarrow> 'st \<Rightarrow> ('e + unit) \<times> 'st"
  res_clear_records_except_ss58 :: "domain_hash \<Rightarrow> 'st \<Rightarrow> 'st"
  res_clear_all_records :: "domain_hash \<Rightarrow> 'st \<Rightarrow> 'st"
  authorship_author :: "'st \<Rightarrow> account_id option"
  label_new_with_len :: "bytes \<Rightarrow> ('lbl \<times> nat) option"
  label_encode_with_node :: "'lbl \<Rightarrow> domain_hash \<Rightarrow> domain_hash"
  parse_name_to_node :: "bytes \<Rightarrow> domain_hash \<Rightarrow> domain_hash option"
  NATIVE_BASENODE :: domain_hash

definition BaseNode :: "('st, 'rt, 'lbl, 'e, 'z) pns_ext_scheme \<Rightarrow> domain_hash" where
  "BaseNode ext = NATIVE_BASENODE ext"

subsection \<open>The PNS hooks\<close>

definition PnsIsOpen_is_open :: bool where
  "PnsIsOpen_is_open = True"

definition PnsSs58Updater_update_ss58 ::
  "('st, 'rt, 'lbl, 'e, 'z) pns_ext_scheme \<Rightarrow> domain_hash \<Rightarrow> account_id \<Rightarrow> 'st \<Rightarrow> ('e + unit) \<times> 'st"
  where "PnsSs58Updater_update_ss58 ext node owner s = res_set_ss58_record ext node owner s"

definition PnsOriginRecorder_record_origin ::
  "('st, 'rt, 'lbl, 'e, 'z) pns_ext_scheme \<Rightarrow> domain_hash \<Rightarrow> bytes \<Rightarrow> 'st \<Rightarrow> ('e + unit) \<times> 'st"
  where "PnsOriginRecorder_record_origin ext node block_hash s =
           res_set_origin_record ext node block_hash s"

definition PnsRecordCleaner_clear_records_except_ss58 ::
  "('st, 'rt, 'lbl, 'e, 'z) pns_ext_scheme \<Rightarrow> domain_hash \<Rightarrow> 'st \<Rightarrow> 'st" where
  "PnsRecordCleaner_clear_records_except_ss58 ext node s =
     res_clear_records_except_ss58 ext node s"

definition PnsRecordCleaner_clear_all_records ::
  "('st, 'rt, 'lbl, 'e, 'z) pns_ext_scheme \<Rightarrow> domain_hash \<Rightarrow> 'st \<Rightarrow> 'st" where
  "PnsRecordCleaner_clear_all_records ext node s = res_clear_all_records ext node s"

definition PnsCustodian_get :: account_id where
  "PnsCustodian_get = PnsCustodianAccount"

definition PnsBlockAuthor_author ::
  "('st, 'rt, 'lbl, 'e, 'z) pns_ext_scheme \<Rightarrow> 'st \<Rightarrow> account_id option" where
  "PnsBlockAuthor_author ext s = authorship_author ext s"

subsection \<open>\<open>PnsRegistryChecker\<close>\<close>

definition check_node_useable ::
  "('st, 'rt, 'lbl, 'e, 'z) pns_ext_scheme \<Rightarrow> 'st \<Rightarrow> domain_hash \<Rightarrow> account_id \<Rightarrow> bool" where
  "check_node_useable ext s node owner =
     (if is_err (registry_verify ext s owner node) then False
      else case map_option (\<lambda>_. is_ok (reg_check_expires_useable ext s node))
                  (reg_get_info ext s node) of
             Some b \<Rightarrow> b
           | None \<Rightarrow> True)"

definition registry_checker_base_node ::
  "('st, 'rt, 'lbl, 'e, 'z) pns_ext_scheme \<Rightarrow> domain_hash" where
  "registry_checker_base_node ext = BaseNode ext"

lemma check_node_useable_iff:
  "check_node_useable ext s node owner \<longleftrightarrow>
     is_ok (registry_verify ext s owner node) \<and>
     (reg_get_info ext s node = None \<or> is_ok (reg_check_expires_useable ext s node))"
  by (auto simp: check_node_useable_def is_err_def split: option.splits)

subsection \<open>Properties\<close>

text \<open>
  The resolver pallet may write a node for an account exactly when the registry verifies
  the account on it and, for a node the registrar knows, its registration has not run out.
\<close>

theorem check_node_useable_spec:
  "check_node_useable ext s node owner \<longleftrightarrow>
     registry_verify ext s owner node = Inr () \<and>
     (case reg_get_info ext s node of None \<Rightarrow> True
      | Some info \<Rightarrow> reg_check_expires_useable ext s node = Inr ())"
  by (auto simp: check_node_useable_iff is_ok_iff split: option.splits)

text \<open>
  With \<open>EnsureRoot\<close> accepting the root origin and handing any other origin back, the
  wrapper accepts root alone, as the account that receives protocol fees, and hands every
  other origin back unchanged for the next check.
\<close>

theorem ensure_root_as_account_spec:
  assumes "\<And>o'. ensure_root o' = (if is_root o' then Inr () else Inl o')"
  shows "EnsureRootAsAccountId_try_origin ensure_root o' =
    (if is_root o' then Inr (pki_protocol_fee_recipient zk_pki_config) else Inl o')"
  by (simp add: EnsureRootAsAccountId_try_origin_def assms zk_pki_config_def
      PkiProtocolFeeRecipient_def)

theorem ensure_root_as_account_spec_witness:
  "EnsureRootAsAccountId_try_origin (\<lambda>o'. if o' then Inr () else Inl o') False = Inl False"
  by (subst ensure_root_as_account_spec [where is_root = "\<lambda>o'. o'"]) simp_all

text \<open>
  The origin made for benchmarks is one the wrapper accepts, and of the raw origins it is the
  only one: signed and unsigned calls are refused.
\<close>

theorem successful_origin_accepted:
  assumes "\<And>r. ensure_root (into r) = (if r = RawRoot then Inr () else Inl (into r))"
  shows "is_ok (EnsureRootAsAccountId_try_origin ensure_root (into r)) \<longleftrightarrow>
    EnsureRootAsAccountId_try_successful_origin into = (Inr (into r) :: unit + 'o)"
proof (cases "r = RawRoot")
  case False
  then have "ensure_root (into r) = Inl (into r)" by (simp add: assms)
  moreover from this have "into r \<noteq> into RawRoot" by (metis assms sum.distinct(1))
  ultimately show ?thesis
    by (simp add: EnsureRootAsAccountId_try_origin_def
        EnsureRootAsAccountId_try_successful_origin_def)
qed (simp add: EnsureRootAsAccountId_try_origin_def assms
    EnsureRootAsAccountId_try_successful_origin_def)

theorem successful_origin_accepted_witness:
  "\<not> is_ok (EnsureRootAsAccountId_try_origin
     (\<lambda>r. if r = RawRoot then Inr () else Inl r) (RawSigned []))"
  by (subst successful_origin_accepted [where into = "\<lambda>r. r"])
    (simp_all add: EnsureRootAsAccountId_try_successful_origin_def)

text \<open>
  After the proxies of one account are replaced, the validator accepts for that account
  exactly the delegates listed, whatever their proxy type and delay, and its answer for
  every other account is what it was.
\<close>

theorem has_proxy_after_update:
  "has_proxy (s\<lparr>st_proxies := (st_proxies s)(d := (ps, deposit))\<rparr>) d' e \<longleftrightarrow>
     (if d' = d then e \<in> delegate ` set ps else has_proxy s d' e)"
  by (simp add: has_proxy_iff delegates_def)

end
