(* ===== verification/Pns_Storage_Api.thy ===== *)
theory Pns_Storage_Api
  imports Chain_State
begin

section \<open>The interface between the runtime and the node's RPC\<close>

text \<open>
  The answers of \<open>pns_runtime_api::PnsStorageApi\<close> and its contract: what the runtime
  (\<open>Pns_Api\<close>) promises of the five queries and the RPC handlers (\<open>Pns_Rpc\<close>) rely on.
\<close>

record name_record =
  nr_owner :: account_id
  nr_expire :: u64
  nr_capacity :: u32
  nr_register_fee :: u128
  nr_for_sale :: bool
  nr_last_block :: u32
  nr_read_block_number :: u32
  nr_read_block_hash :: h256

record listing_info =
  li_seller :: account_id
  li_price :: u128
  li_expires_at :: u64
  li_read_block_number :: u32
  li_read_block_hash :: h256

locale pns_storage_api =
  fixes get_info :: "'st \<Rightarrow> domain_hash \<Rightarrow> name_record option"
    and resolve_name :: "'st \<Rightarrow> bytes \<Rightarrow> name_record option"
    and get_listing :: "'st \<Rightarrow> bytes \<Rightarrow> listing_info option"
    and lookup :: "'st \<Rightarrow> domain_hash \<Rightarrow> 'rt list \<Rightarrow> ('rt \<times> bytes) list"
    and lookup_by_name :: "'st \<Rightarrow> bytes \<Rightarrow> 'rt list \<Rightarrow> ('rt \<times> bytes) list"
    and clock :: "'st \<Rightarrow> u64"
    and listings :: "'st \<Rightarrow> domain_hash \<rightharpoonup> listing"
    and hidden_until :: "'st \<Rightarrow> domain_hash \<Rightarrow> nat"
    and node_of :: "bytes \<Rightarrow> domain_hash option"
    and parsed_node :: "bytes \<Rightarrow> domain_hash"
  assumes get_info_live: "get_info s n = Some r \<Longrightarrow> clock s < nr_expire r"
    and get_info_offer_over: "get_info s n = Some r \<Longrightarrow> hidden_until s n \<le> unat (clock s)"
    and get_info_for_sale: "get_info s n = Some r \<Longrightarrow> nr_for_sale r \<longleftrightarrow> listings s n \<noteq> None"
    and get_info_unstamped:
      "get_info s n = Some r \<Longrightarrow> nr_read_block_number r = 0 \<and> nr_read_block_hash r = h256_default"
    and resolve_as_get_info: "resolve_name s name = Option.bind (node_of name) (get_info s)"
    and get_listing_row: "get_listing s name =
      Option.bind (node_of name) (\<lambda>n. map_option
        (\<lambda>l. \<lparr>li_seller = ls_seller l, li_price = ls_price l, li_expires_at = ls_expires_at l,
              li_read_block_number = 0, li_read_block_hash = h256_default\<rparr>) (listings s n))"
    and lookup_by_name_as_lookup: "lookup_by_name s name rts = lookup s (parsed_node name) rts"
begin

lemma resolve_live: "resolve_name s name = Some r \<Longrightarrow> clock s < nr_expire r"
  by (auto simp: resolve_as_get_info bind_eq_Some_conv dest: get_info_live)

lemma resolve_offer_over:
  "resolve_name s name = Some r \<Longrightarrow>
     \<exists>n. node_of name = Some n \<and> hidden_until s n \<le> unat (clock s)"
  by (auto simp: resolve_as_get_info bind_eq_Some_conv dest: get_info_offer_over)

lemma resolve_for_sale:
  "resolve_name s name = Some r \<Longrightarrow> nr_for_sale r \<longleftrightarrow> get_listing s name \<noteq> None"
  by (auto simp: resolve_as_get_info get_listing_row bind_eq_Some_conv dest: get_info_for_sale)

end

end
