(* ===== verification/Pns_Api.thy ===== *)
theory Pns_Api
  imports Runtime_Hooks Pns_Storage_Api
begin

section \<open>The PNS runtime API (\<open>runtime/src/apis.rs\<close>)\<close>

text \<open>
  \<open>impl PnsStorageApi for Runtime\<close>: the five queries, each with its checks in the order the
  source makes them, over the chain state and the external pallet functions. \<open>pns_get_info\<close>
  and \<open>pns_resolve_name\<close> are written out separately, as the source writes them.
\<close>

type_synonym ('auth, 'p, 'rt, 'lbl, 'e) pns_pallets =
  "(('auth, 'p) chain_state, 'rt, 'lbl, 'e) pns_ext"

definition pns_get_info ::
  "('auth, 'p, 'rt, 'lbl, 'e) pns_pallets \<Rightarrow> ('auth, 'p) chain_state \<Rightarrow>
   domain_hash \<Rightarrow> name_record option" where
  "pns_get_info ext s id' =
     (if (case st_offered_names s id' of
            Some offer \<Rightarrow> st_now s < sat_add (offered_at offer) OfferWindow
          | None \<Rightarrow> False)
      then None
      else case reg_get_info ext s id' of
        None \<Rightarrow> None
      | Some info \<Rightarrow>
          if ri_expire info \<le> st_now s then None
          else case nft_tokens ext s 0 id' of
            None \<Rightarrow> None
          | Some token \<Rightarrow>
              let for_sale = st_listings s id' \<noteq> None
              in Some \<lparr>nr_owner = tk_owner token,
                       nr_expire = ri_expire info,
                       nr_capacity = ri_capacity info,
                       nr_register_fee = ri_register_fee info,
                       nr_for_sale = for_sale,
                       nr_last_block = ri_last_block info,
                       nr_read_block_number = 0,
                       nr_read_block_hash = h256_default\<rparr>)"

definition pns_lookup ::
  "('auth, 'p, 'rt, 'lbl, 'e) pns_pallets \<Rightarrow> ('auth, 'p) chain_state \<Rightarrow>
   domain_hash \<Rightarrow> 'rt list \<Rightarrow> ('rt \<times> bytes) list" where
  "pns_lookup ext s id' record_types = res_lookup ext s id' record_types"

definition pns_get_listing ::
  "('auth, 'p, 'rt, 'lbl, 'e) pns_pallets \<Rightarrow> ('auth, 'p) chain_state \<Rightarrow>
   bytes \<Rightarrow> listing_info option" where
  "pns_get_listing ext s name =
     (case label_new_with_len ext name of
        None \<Rightarrow> None
      | Some (label, _) \<Rightarrow>
          let node = label_encode_with_node ext label (NATIVE_BASENODE ext)
          in case st_listings s node of
               None \<Rightarrow> None
             | Some l \<Rightarrow>
                 Some \<lparr>li_seller = ls_seller l,
                       li_price = ls_price l,
                       li_expires_at = ls_expires_at l,
                       li_read_block_number = 0,
                       li_read_block_hash = h256_default\<rparr>)"

definition pns_resolve_name ::
  "('auth, 'p, 'rt, 'lbl, 'e) pns_pallets \<Rightarrow> ('auth, 'p) chain_state \<Rightarrow>
   bytes \<Rightarrow> name_record option" where
  "pns_resolve_name ext s name =
     (case label_new_with_len ext name of
        None \<Rightarrow> None
      | Some (label, _) \<Rightarrow>
          let base_node = NATIVE_BASENODE ext;
              node = label_encode_with_node ext label base_node
          in if (case st_offered_names s node of
                   Some offer \<Rightarrow> st_now s < sat_add (offered_at offer) OfferWindow
                 | None \<Rightarrow> False)
             then None
             else case reg_get_info ext s node of
               None \<Rightarrow> None
             | Some info \<Rightarrow>
                 if ri_expire info \<le> st_now s then None
                 else case nft_tokens ext s 0 node of
                   None \<Rightarrow> None
                 | Some token \<Rightarrow>
                     let for_sale = st_listings s node \<noteq> None
                     in Some \<lparr>nr_owner = tk_owner token,
                              nr_expire = ri_expire info,
                              nr_capacity = ri_capacity info,
                              nr_register_fee = ri_register_fee info,
                              nr_for_sale = for_sale,
                              nr_last_block = ri_last_block info,
                              nr_read_block_number = 0,
                              nr_read_block_hash = h256_default\<rparr>)"

definition pns_lookup_by_name ::
  "('auth, 'p, 'rt, 'lbl, 'e) pns_pallets \<Rightarrow> ('auth, 'p) chain_state \<Rightarrow>
   bytes \<Rightarrow> 'rt list \<Rightarrow> ('rt \<times> bytes) list" where
  "pns_lookup_by_name ext s name record_types =
     (let node = (case parse_name_to_node ext name (NATIVE_BASENODE ext) of
                    Some n \<Rightarrow> n | None \<Rightarrow> h256_default)
      in res_lookup ext s node record_types)"

subsection \<open>What the queries promise\<close>

text \<open>
  The specification side: the instant from which a pending offer no longer hides a name,
  and the record a visible name is shown with.
\<close>

definition offer_end :: "('auth, 'p) chain_state \<Rightarrow> domain_hash \<Rightarrow> nat" where
  "offer_end s n = (case st_offered_names s n of
     None \<Rightarrow> 0 | Some offer \<Rightarrow> unat (sat_add (offered_at offer) OfferWindow))"

definition name_record_of ::
  "account_id \<Rightarrow> registrar_info \<Rightarrow> bool \<Rightarrow> name_record" where
  "name_record_of own info sale =
     \<lparr>nr_owner = own, nr_expire = ri_expire info, nr_capacity = ri_capacity info,
      nr_register_fee = ri_register_fee info, nr_for_sale = sale,
      nr_last_block = ri_last_block info, nr_read_block_number = 0,
      nr_read_block_hash = h256_default\<rparr>"

text \<open>The node a name stands for: its label hashed under the native base node.\<close>

definition name_node ::
  "('auth, 'p, 'rt, 'lbl, 'e) pns_pallets \<Rightarrow> bytes \<Rightarrow> domain_hash option" where
  "name_node ext name = map_option (\<lambda>(label, _). label_encode_with_node ext label (NATIVE_BASENODE ext))
     (label_new_with_len ext name)"

text \<open>The node \<open>lookup_by_name\<close> queries: the default hash when the name does not parse.\<close>

definition lookup_node ::
  "('auth, 'p, 'rt, 'lbl, 'e) pns_pallets \<Rightarrow> bytes \<Rightarrow> domain_hash" where
  "lookup_node ext name = (case parse_name_to_node ext name (NATIVE_BASENODE ext) of
     Some n \<Rightarrow> n | None \<Rightarrow> h256_default)"

lemma pns_get_info_Some:
  "pns_get_info ext s n = Some r \<longleftrightarrow>
     (\<exists>info token. reg_get_info ext s n = Some info \<and> nft_tokens ext s 0 n = Some token \<and>
        offer_end s n \<le> unat (st_now s) \<and> unat (st_now s) < unat (ri_expire info) \<and>
        r = name_record_of (tk_owner token) info (st_listings s n \<noteq> None))"
  by (auto simp: pns_get_info_def offer_end_def name_record_of_def Let_def
      word_less_nat_alt word_le_nat_alt split: option.splits)

lemma pns_get_info_None:
  "pns_get_info ext s n = None \<longleftrightarrow>
     \<not> (\<exists>info token. reg_get_info ext s n = Some info \<and> nft_tokens ext s 0 n = Some token \<and>
        offer_end s n \<le> unat (st_now s) \<and> unat (st_now s) < unat (ri_expire info))"
  by (auto simp: pns_get_info_def offer_end_def Let_def word_less_nat_alt word_le_nat_alt
      split: option.splits)

lemma pns_resolve_name_eq:
  "pns_resolve_name ext s name = Option.bind (name_node ext name) (pns_get_info ext s)"
  by (simp add: pns_resolve_name_def name_node_def pns_get_info_def Let_def
      split: option.splits prod.splits)

lemma pns_lookup_by_name_eq:
  "pns_lookup_by_name ext s name rts = pns_lookup ext s (lookup_node ext name) rts"
  by (simp add: pns_lookup_by_name_def pns_lookup_def lookup_node_def Let_def)

lemma pns_get_listing_eq:
  "pns_get_listing ext s name = Option.bind (name_node ext name) (\<lambda>n. map_option
     (\<lambda>l. \<lparr>li_seller = ls_seller l, li_price = ls_price l, li_expires_at = ls_expires_at l,
           li_read_block_number = 0, li_read_block_hash = h256_default\<rparr>) (st_listings s n))"
  by (simp add: pns_get_listing_def name_node_def Let_def split: option.splits prod.splits)

subsection \<open>The runtime provides the API's contract\<close>

interpretation pns_runtime:
  pns_storage_api "pns_get_info ext" "pns_resolve_name ext" "pns_get_listing ext"
    "pns_lookup ext" "pns_lookup_by_name ext" st_now st_listings offer_end
    "name_node ext" "lookup_node ext"
  for ext :: "('auth, 'p, 'rt, 'lbl, 'e) pns_pallets"
  by unfold_locales
    (auto simp: pns_get_info_Some name_record_of_def word_less_nat_alt pns_resolve_name_eq
       pns_get_listing_eq pns_lookup_by_name_eq split: option.splits)

subsection \<open>Sample pallets for the witnesses\<close>

text \<open>
  A small instance of the external functions: one registered node \<open>[1]\<close> owned by the account
  of sevens, names of one byte are valid, and a name's node is the name itself.
\<close>

definition sample_info :: registrar_info where
  "sample_info = \<lparr>ri_expire = 9000000000, ri_capacity = 10, ri_register_fee = 5, ri_last_block = 3\<rparr>"

definition sample_pallets :: "(unit, unit, u16, bytes, unit) pns_pallets" where
  "sample_pallets =
     \<lparr>reg_get_info = (\<lambda>s n. if n = [1] then Some sample_info else None),
      reg_check_expires_useable = (\<lambda>s n. if st_now s < 9000000000 then Inr () else Inl ()),
      registry_verify = (\<lambda>s a n. if a = replicate 32 7 then Inr () else Inl ()),
      nft_tokens = (\<lambda>s c n. if n = [1] then Some \<lparr>tk_owner = replicate 32 7\<rparr> else None),
      res_lookup = (\<lambda>s n rts. if n = [1] then map (\<lambda>rt. (rt, [9])) rts else []),
      res_set_ss58_record = (\<lambda>n a s. (Inr (), s)),
      res_set_origin_record = (\<lambda>n b s. (Inr (), s)),
      res_clear_records_except_ss58 = (\<lambda>n s. s),
      res_clear_all_records = (\<lambda>n s. s),
      authorship_author = (\<lambda>s. None),
      label_new_with_len = (\<lambda>name. if length name = 1 then Some (name, 1) else None),
      label_encode_with_node = (\<lambda>l b. l @ b),
      parse_name_to_node = (\<lambda>name b. if length name = 1 then Some (name @ b) else None),
      NATIVE_BASENODE = []\<rparr>"

text \<open>Node \<open>[1]\<close> was offered at 1,000,000,000 and is listed, with a listing that has expired.\<close>

definition sample_state :: "u64 \<Rightarrow> (unit, unit) chain_state" where
  "sample_state t =
     \<lparr>st_now = t,
      st_offered_names =
        [[1] \<mapsto> \<lparr>of_recipient = replicate 32 8, of_buyer = replicate 32 8, offered_at = 1000000000\<rparr>],
      st_listings = [[1] \<mapsto> \<lparr>ls_seller = replicate 32 7, ls_price = 100, ls_expires_at = 4\<rparr>],
      st_proxies = (\<lambda>a. ([], 0)), st_authorities = [], st_slots = Map.empty, st_pallets = ()\<rparr>"

lemmas sample_defs = sample_info_def sample_pallets_def sample_state_def

subsection \<open>Properties\<close>

lemma OfferWindow_unat: "unat OfferWindow = 90 * 24 * 60 * 60 * 1000"
  by (simp add: config_simps)

lemma offer_end_eq:
  "offer_end s n = (case st_offered_names s n of None \<Rightarrow> 0
     | Some offer \<Rightarrow> min (unat (offered_at offer) + 90 * 24 * 60 * 60 * 1000) (2 ^ 64 - 1))"
  by (simp add: offer_end_def unat_sat_add OfferWindow_unat split: option.splits)

text \<open>
  C1: \<open>get_info\<close> answers exactly when the registrar knows the node and its NFT exists, any
  offer was made at least 90 days (in milliseconds, clipped to the clock's range) ago, and
  the registration has not expired at the current timestamp; the answer then carries the NFT
  owner, the registrar's data, whether a listing exists, and unset read-block fields.
\<close>

theorem pns_get_info_spec:
  "pns_get_info ext s n = Some r \<longleftrightarrow>
     (\<exists>info token. reg_get_info ext s n = Some info \<and> nft_tokens ext s 0 n = Some token \<and>
        (case st_offered_names s n of None \<Rightarrow> True
         | Some offer \<Rightarrow> min (unat (offered_at offer) + 90 * 24 * 60 * 60 * 1000) (2 ^ 64 - 1)
             \<le> unat (st_now s)) \<and>
        unat (st_now s) < unat (ri_expire info) \<and>
        r = \<lparr>nr_owner = tk_owner token, nr_expire = ri_expire info,
             nr_capacity = ri_capacity info, nr_register_fee = ri_register_fee info,
             nr_for_sale = (n \<in> dom (st_listings s)), nr_last_block = ri_last_block info,
             nr_read_block_number = 0, nr_read_block_hash = h256_default\<rparr>)"
  by (simp add: pns_get_info_Some offer_end_eq name_record_of_def domIff split: option.splits)

text \<open>
  C14: over time a name is visible in one half-open window. If the registrar's entry and the
  NFT of a node do not depend on the timestamp, the timestamps at which \<open>get_info\<close> shows the
  node are exactly those from the end of its offer (or 0) up to, and not including, its expiry.
\<close>

theorem pns_visible_window:
  assumes "\<And>t. reg_get_info ext (s\<lparr>st_now := t\<rparr>) n = Some info"
    and "\<And>t. nft_tokens ext (s\<lparr>st_now := t\<rparr>) 0 n = Some token"
  shows "{t. pns_get_info ext (s\<lparr>st_now := t\<rparr>) n \<noteq> None} =
    {t. offer_end s n \<le> unat t \<and> t < ri_expire info}"
proof -
  have "offer_end (s\<lparr>st_now := t\<rparr>) n = offer_end s n" for t by (simp add: offer_end_def)
  then show ?thesis
    using assms by (simp add: pns_get_info_None word_less_nat_alt)
qed

theorem pns_visible_window_witness:
  "{t. pns_get_info sample_pallets (sample_state 0\<lparr>st_now := t\<rparr>) [1] \<noteq> None} =
    {t. offer_end (sample_state 0) [1] \<le> unat t \<and> t < 9000000000}"
proof -
  have e: "ri_expire sample_info = 9000000000" by (simp add: sample_info_def)
  show ?thesis
    unfolding e [symmetric]
    by (rule pns_visible_window [where token = "\<lparr>tk_owner = replicate 32 7\<rparr>"])
      (simp_all add: sample_pallets_def)
qed

text \<open>
  C15: an offered name is hidden for the whole 90-day window, from both queries that describe
  names. The one exception is the last instant the clock can represent, where the saturated
  end of the window is reached.
\<close>

theorem pns_offer_hides:
  assumes "st_offered_names s n = Some offer"
    and "unat (st_now s) < unat (offered_at offer) + 90 * 24 * 60 * 60 * 1000"
    and "unat (st_now s) \<noteq> 2 ^ 64 - 1"
  shows "pns_get_info ext s n = None \<and>
    (name_node ext name = Some n \<longrightarrow> pns_resolve_name ext s name = None)"
proof -
  have "unat (st_now s) < 2 ^ 64"
    using unat_lt_exp [of "st_now s"] by simp
  then have "unat (st_now s) < offer_end s n"
    using assms by (simp add: offer_end_eq)
  then have "pns_get_info ext s n = None"
    by (simp add: pns_get_info_None)
  then show ?thesis by (simp add: pns_resolve_name_eq)
qed

theorem pns_offer_hides_witness:
  "pns_resolve_name sample_pallets (sample_state 8775999999) [1] = None"
  using pns_offer_hides [of "sample_state 8775999999" "[1]"
      "\<lparr>of_recipient = replicate 32 8, of_buyer = replicate 32 8, offered_at = 1000000000\<rparr>"
      sample_pallets "[1]"]
  by (simp add: sample_state_def name_node_def sample_pallets_def)

text \<open>
  C20: resolving a name is \<open>get_info\<close> of the node its label has under the native base node,
  and \<open>None\<close> for a name whose label is invalid, although the source writes the checks twice.
\<close>

theorem pns_resolve_name_spec:
  "pns_resolve_name ext s name =
     (case label_new_with_len ext name of None \<Rightarrow> None
      | Some (label, len) \<Rightarrow>
          pns_get_info ext s (label_encode_with_node ext label (NATIVE_BASENODE ext)))"
  by (simp add: pns_resolve_name_eq name_node_def split: option.splits prod.splits)

text \<open>
  The \<open>for_sale\<close> flag of a resolved name agrees with \<open>get_listing\<close> on that name: the flag
  is set exactly when there is a listing to show, whatever the listing's own expiry.
\<close>

theorem pns_for_sale_agrees:
  assumes "pns_resolve_name ext s name = Some r"
  shows "nr_for_sale r \<longleftrightarrow> pns_get_listing ext s name \<noteq> None"
  using assms by (rule pns_runtime.resolve_for_sale)

theorem pns_for_sale_agrees_witness:
  "pns_get_listing sample_pallets (sample_state 8800000000) [1] \<noteq> None"
  using pns_for_sale_agrees [of sample_pallets "sample_state 8800000000" "[1]"
      "name_record_of (replicate 32 7) sample_info True"]
  by (simp add: sample_state_def sample_pallets_def pns_resolve_name_eq name_node_def
      pns_get_info_Some offer_end_eq sample_info_def name_record_of_def)

end
