(* ===== verification/Pns_Rpc.thy ===== *)
theory Pns_Rpc
  imports Pns_Api
begin

section \<open>The PNS JSON-RPC methods (\<open>node/src/pns_rpc.rs\<close>)\<close>

text \<open>
  \<open>PnsRpc\<close>: the length guards, the read of the best block, the runtime call at that block's
  hash and the shaping of the answer. The client is a world that answers \<open>info()\<close> from a
  sequence indexed by a clock, so the best block may change between any two calls, and that
  logs the runtime calls made. The runtime's API as the client offers it (\<open>api_ext\<close>: one
  fallible function per query) and the record-type conversions (\<open>dns_ext\<close>, of
  \<open>hickory_proto\<close> and \<open>pns_types\<close>) are parameters.
\<close>

subsection \<open>Client, errors, world\<close>

record chain_info =
  best_hash :: h256
  best_number :: u32

datatype rpc_code = INVALID_PARAMS_CODE | INTERNAL_ERROR_CODE

record rpc_error =
  err_code :: rpc_code
  err_message :: string
  err_data :: "string option"

datatype 'rt api_call =
    CallGetInfo h256 domain_hash
  | CallResolveName h256 bytes
  | CallLookup h256 domain_hash "'rt list"
  | CallGetListing h256 bytes
  | CallLookupByName h256 bytes "'rt list"

record ('rt, 'err) api_ext =
  api_get_info :: "h256 \<Rightarrow> domain_hash \<Rightarrow> 'err + name_record option"
  api_resolve_name :: "h256 \<Rightarrow> bytes \<Rightarrow> 'err + name_record option"
  api_lookup :: "h256 \<Rightarrow> domain_hash \<Rightarrow> 'rt list \<Rightarrow> 'err + ('rt \<times> bytes) list"
  api_get_listing :: "h256 \<Rightarrow> bytes \<Rightarrow> 'err + listing_info option"
  api_lookup_by_name :: "h256 \<Rightarrow> bytes \<Rightarrow> 'rt list \<Rightarrow> 'err + ('rt \<times> bytes) list"
  api_debug :: "'err \<Rightarrow> string"

record 'rt dns_ext =
  rt_from_u16 :: "u16 \<Rightarrow> 'rt"
  u16_from_rt :: "'rt \<Rightarrow> u16"

record 'rt rpc_world =
  rw_clock :: nat
  rw_chain :: "nat \<Rightarrow> chain_info"
  rw_calls :: "'rt api_call list"

definition client_info :: "'rt rpc_world \<Rightarrow> chain_info \<times> 'rt rpc_world" where
  "client_info w = (rw_chain w (rw_clock w), w\<lparr>rw_clock := Suc (rw_clock w)\<rparr>)"

definition runtime_call :: "'rt api_call \<Rightarrow> 'rt rpc_world \<Rightarrow> 'rt rpc_world" where
  "runtime_call c w = w\<lparr>rw_clock := Suc (rw_clock w), rw_calls := rw_calls w @ [c]\<rparr>"

definition invalid_params :: "string \<Rightarrow> rpc_error" where
  "invalid_params msg = \<lparr>err_code = INVALID_PARAMS_CODE, err_message = msg, err_data = None\<rparr>"

definition internal_error :: "('rt, 'err) api_ext \<Rightarrow> 'err \<Rightarrow> rpc_error" where
  "internal_error api e =
     \<lparr>err_code = INTERNAL_ERROR_CODE, err_message = ''Runtime error'',
      err_data = Some (api_debug api e)\<rparr>"

subsection \<open>The methods\<close>

definition rpc_get_info ::
  "('rt, 'err) api_ext \<Rightarrow> domain_hash \<Rightarrow> 'rt rpc_world \<Rightarrow>
   (rpc_error + name_record option) \<times> 'rt rpc_world" where
  "rpc_get_info api node w =
     (let (chain, w) = client_info w;
          r = api_get_info api (best_hash chain) node;
          w = runtime_call (CallGetInfo (best_hash chain) node) w
      in (res_map
            (map_option (\<lambda>r. r\<lparr>nr_read_block_hash := best_hash chain,
                               nr_read_block_number := best_number chain\<rparr>))
            (res_map_err (internal_error api) r), w))"

definition rpc_resolve_name ::
  "('rt, 'err) api_ext \<Rightarrow> bytes \<Rightarrow> 'rt rpc_world \<Rightarrow>
   (rpc_error + name_record option) \<times> 'rt rpc_world" where
  "rpc_resolve_name api name w =
     (if 128 < length name then (Inl (invalid_params ''name too long''), w)
      else let (chain, w) = client_info w;
               r = api_resolve_name api (best_hash chain) name;
               w = runtime_call (CallResolveName (best_hash chain) name) w
           in (res_map
                 (map_option (\<lambda>r. r\<lparr>nr_read_block_hash := best_hash chain,
                                    nr_read_block_number := best_number chain\<rparr>))
                 (res_map_err (internal_error api) r), w))"

definition rpc_lookup ::
  "('rt, 'err) api_ext \<Rightarrow> 'rt dns_ext \<Rightarrow> domain_hash \<Rightarrow> u32 list \<Rightarrow> 'rt rpc_world \<Rightarrow>
   (rpc_error + (u32 \<times> bytes) list) \<times> 'rt rpc_world" where
  "rpc_lookup api dns node record_types w =
     (if 50 < length record_types
      then (Inl (invalid_params ''too many record types (max 50)''), w)
      else let (chain, w) = client_info w;
               best = best_hash chain;
               pns_types = map (\<lambda>code. rt_from_u16 dns (ucast code)) record_types;
               r = api_lookup api best node pns_types;
               w = runtime_call (CallLookup best node pns_types) w
           in (res_map (map (\<lambda>(rt, data). (ucast (u16_from_rt dns rt), data)))
                 (res_map_err (internal_error api) r), w))"

definition rpc_get_listing ::
  "('rt, 'err) api_ext \<Rightarrow> bytes \<Rightarrow> 'rt rpc_world \<Rightarrow>
   (rpc_error + listing_info option) \<times> 'rt rpc_world" where
  "rpc_get_listing api name w =
     (if 128 < length name then (Inl (invalid_params ''name too long''), w)
      else let (chain, w) = client_info w;
               r = api_get_listing api (best_hash chain) name;
               w = runtime_call (CallGetListing (best_hash chain) name) w
           in (res_map
                 (map_option (\<lambda>r. r\<lparr>li_read_block_hash := best_hash chain,
                                    li_read_block_number := best_number chain\<rparr>))
                 (res_map_err (internal_error api) r), w))"

definition rpc_lookup_by_name ::
  "('rt, 'err) api_ext \<Rightarrow> 'rt dns_ext \<Rightarrow> bytes \<Rightarrow> u32 list \<Rightarrow> 'rt rpc_world \<Rightarrow>
   (rpc_error + (u32 \<times> bytes) list) \<times> 'rt rpc_world" where
  "rpc_lookup_by_name api dns name record_types w =
     (if 128 < length name then (Inl (invalid_params ''name too long''), w)
      else if 50 < length record_types
      then (Inl (invalid_params ''too many record types (max 50)''), w)
      else let (chain, w) = client_info w;
               best = best_hash chain;
               pns_types = map (\<lambda>code. rt_from_u16 dns (ucast code)) record_types;
               r = api_lookup_by_name api best name pns_types;
               w = runtime_call (CallLookupByName best name pns_types) w
           in (res_map (map (\<lambda>(rt, data). (ucast (u16_from_rt dns rt), data)))
                 (res_map_err (internal_error api) r), w))"

lemmas rpc_defs = rpc_get_info_def rpc_resolve_name_def rpc_lookup_def rpc_get_listing_def
  rpc_lookup_by_name_def client_info_def runtime_call_def invalid_params_def internal_error_def

subsection \<open>The handlers over the runtime's contract\<close>

text \<open>
  \<open>mount\<close> is the client offering a runtime's queries: a query runs on the state of the block
  it names, and fails when that state is not available.
\<close>

definition mount ::
  "('err \<Rightarrow> string) \<Rightarrow> (h256 \<Rightarrow> 'err + 'st) \<Rightarrow>
   ('st \<Rightarrow> domain_hash \<Rightarrow> name_record option) \<Rightarrow> ('st \<Rightarrow> bytes \<Rightarrow> name_record option) \<Rightarrow>
   ('st \<Rightarrow> bytes \<Rightarrow> listing_info option) \<Rightarrow>
   ('st \<Rightarrow> domain_hash \<Rightarrow> 'rt list \<Rightarrow> ('rt \<times> bytes) list) \<Rightarrow>
   ('st \<Rightarrow> bytes \<Rightarrow> 'rt list \<Rightarrow> ('rt \<times> bytes) list) \<Rightarrow> ('rt, 'err) api_ext" where
  "mount dbg state_at gi rn gl lk lbn =
     \<lparr>api_get_info = (\<lambda>h n. res_map (\<lambda>s. gi s n) (state_at h)),
      api_resolve_name = (\<lambda>h n. res_map (\<lambda>s. rn s n) (state_at h)),
      api_lookup = (\<lambda>h n rts. res_map (\<lambda>s. lk s n rts) (state_at h)),
      api_get_listing = (\<lambda>h n. res_map (\<lambda>s. gl s n) (state_at h)),
      api_lookup_by_name = (\<lambda>h n rts. res_map (\<lambda>s. lbn s n rts) (state_at h)),
      api_debug = dbg\<rparr>"

abbreviation runtime_api ::
  "('e2 \<Rightarrow> string) \<Rightarrow> (h256 \<Rightarrow> 'e2 + ('auth, 'p) chain_state) \<Rightarrow>
   ('auth, 'p, 'rt, 'lbl, 'e) pns_pallets \<Rightarrow> ('rt, 'e2) api_ext" where
  "runtime_api dbg state_at ext \<equiv>
     mount dbg state_at (pns_get_info ext) (pns_resolve_name ext) (pns_get_listing ext)
       (pns_lookup ext) (pns_lookup_by_name ext)"

context pns_storage_api begin

lemma rpc_resolve_name_live:
  assumes "fst (rpc_resolve_name (mount dbg st_at get_info resolve_name get_listing lookup
     lookup_by_name) name w) = Inr (Some r)"
  shows "\<exists>s n. st_at (nr_read_block_hash r) = Inr s \<and> node_of name = Some n \<and>
     hidden_until s n \<le> unat (clock s) \<and> clock s < nr_expire r \<and>
     (nr_for_sale r \<longleftrightarrow> get_listing s name \<noteq> None)"
proof -
  let ?ci = "rw_chain w (rw_clock w)"
  obtain s z where s: "st_at (best_hash ?ci) = Inr s" and z: "resolve_name s name = Some z"
    and r: "r = z\<lparr>nr_read_block_hash := best_hash ?ci, nr_read_block_number := best_number ?ci\<rparr>"
    using assms by (auto simp: rpc_defs mount_def Let_def result_simps map_option_eq_Some
        split: if_splits)
  show ?thesis
    using s r resolve_live [OF z] resolve_offer_over [OF z] resolve_for_sale [OF z] by simp
qed

lemma rpc_resolve_as_get_info:
  assumes "length name \<le> 128" and "node_of name = Some n"
  shows "fst (rpc_resolve_name (mount dbg st_at get_info resolve_name get_listing lookup
      lookup_by_name) name w) =
    fst (rpc_get_info (mount dbg st_at get_info resolve_name get_listing lookup
      lookup_by_name) n w)"
  using assms by (simp add: rpc_defs mount_def Let_def resolve_as_get_info)

end

subsection \<open>Properties\<close>

definition rejected :: "rpc_error + 'a \<Rightarrow> bool" where
  "rejected r \<longleftrightarrow> (case r of Inl e \<Rightarrow> err_code e = INVALID_PARAMS_CODE | Inr _ \<Rightarrow> False)"

lemma rejected_simps [simp]:
  "rejected (Inl (invalid_params m))" "\<not> rejected (Inr a)"
  "\<not> rejected (res_map f (res_map_err (internal_error api) r))"
  by (simp_all add: rejected_def invalid_params_def)
    (cases r; simp add: internal_error_def)

text \<open>
  C19: the four guarded methods answer \<open>INVALID_PARAMS\<close> exactly for names over 128 bytes and
  for more than 50 record types, and then the runtime is not called; a request that passes
  makes exactly one runtime call.
\<close>

theorem rpc_guards:
  "(rejected (fst (rpc_resolve_name api name w)) \<longleftrightarrow> 128 < length name) \<and>
   (rejected (fst (rpc_get_listing api name w)) \<longleftrightarrow> 128 < length name) \<and>
   (rejected (fst (rpc_lookup api dns node rts w)) \<longleftrightarrow> 50 < length rts) \<and>
   (rejected (fst (rpc_lookup_by_name api dns name rts w)) \<longleftrightarrow>
      128 < length name \<or> 50 < length rts) \<and>
   length (rw_calls (snd (rpc_resolve_name api name w))) =
     length (rw_calls w) + (if 128 < length name then 0 else 1) \<and>
   length (rw_calls (snd (rpc_get_listing api name w))) =
     length (rw_calls w) + (if 128 < length name then 0 else 1) \<and>
   length (rw_calls (snd (rpc_lookup api dns node rts w))) =
     length (rw_calls w) + (if 50 < length rts then 0 else 1) \<and>
   length (rw_calls (snd (rpc_lookup_by_name api dns name rts w))) =
     length (rw_calls w) + (if 128 < length name \<or> 50 < length rts then 0 else 1)"
  by (simp add: rpc_resolve_name_def rpc_get_listing_def rpc_lookup_def rpc_lookup_by_name_def
      client_info_def runtime_call_def Let_def)

text \<open>
  C17: a record is stamped with the block it was read at. Whatever the client's best block does
  between the calls, the stamped hash is the one the runtime call was made at, the stamped
  number belongs to the same \<open>info()\<close>, and the rest of the record is the runtime's answer.
\<close>

theorem rpc_resolve_name_stamp:
  assumes "rpc_resolve_name api name w = (Inr (Some r), w')"
  shows "\<exists>k r0. nr_read_block_hash r = best_hash (rw_chain w k) \<and>
    nr_read_block_number r = best_number (rw_chain w k) \<and>
    rw_calls w' = rw_calls w @ [CallResolveName (nr_read_block_hash r) name] \<and>
    api_resolve_name api (nr_read_block_hash r) name = Inr (Some r0) \<and>
    r = r0\<lparr>nr_read_block_hash := nr_read_block_hash r,
           nr_read_block_number := nr_read_block_number r\<rparr>"
  using assms by (auto simp: rpc_defs Let_def result_simps map_option_eq_Some split: if_splits)

definition sample_record :: name_record where
  "sample_record = \<lparr>nr_owner = [7], nr_expire = 9, nr_capacity = 1, nr_register_fee = 2,
     nr_for_sale = False, nr_last_block = 3, nr_read_block_number = 0,
     nr_read_block_hash = h256_default\<rparr>"

text \<open>A runtime that knows the name \<open>[1]\<close> at every block but \<open>[0]\<close>, and a moving best block.\<close>

definition sample_api :: "(u16, unit) api_ext" where
  "sample_api =
     \<lparr>api_get_info = (\<lambda>h n. Inr None),
      api_resolve_name = (\<lambda>h n. if h = [0] then Inl () else Inr (if n = [1] then Some sample_record else None)),
      api_lookup = (\<lambda>h n rts. if h = [0] then Inl () else Inr (map (\<lambda>rt. (rt, n)) rts)),
      api_get_listing = (\<lambda>h n. Inr None),
      api_lookup_by_name = (\<lambda>h n rts. if h = [0] then Inl () else Inr (map (\<lambda>rt. (rt, n)) rts)),
      api_debug = (\<lambda>e. ''unknown block'')\<rparr>"

definition sample_world :: "u16 rpc_world" where
  "sample_world = \<lparr>rw_clock = 4,
     rw_chain = (\<lambda>k. \<lparr>best_hash = [of_nat k], best_number = of_nat k\<rparr>), rw_calls = []\<rparr>"

lemmas sample_rpc_defs = sample_record_def sample_api_def sample_world_def

theorem rpc_resolve_name_stamp_witness:
  "\<exists>k. nr_read_block_hash (sample_record\<lparr>nr_read_block_hash := [4], nr_read_block_number := 4\<rparr>) =
     best_hash (rw_chain sample_world k)"
  using rpc_resolve_name_stamp [of sample_api "[1]" sample_world
      "sample_record\<lparr>nr_read_block_hash := [4], nr_read_block_number := 4\<rparr>"
      "snd (rpc_resolve_name sample_api [1] sample_world)"]
  by (auto simp: rpc_defs sample_rpc_defs Let_def)

lemma ucast_cut: "(ucast c :: u16) = of_nat (unat c mod 65536)" for c :: u32
  by (simp add: word_unat_eq_iff unsigned_ucast_eq unat_of_nat take_bit_eq_mod)

lemma map_cut:
  "map (\<lambda>c. f (ucast c :: u16)) codes = map (\<lambda>m. f (of_nat m)) (map (\<lambda>c. unat c mod 65536) codes)"
  for codes :: "u32 list"
  by (simp add: ucast_cut)

text \<open>
  C18: record-type codes are cut to 16 bits. Requests whose codes agree modulo 65536 are
  indistinguishable in answer and effect (65537 is answered as 1), so an answer is labelled
  with codes below 65536 that need not be the ones requested.
\<close>

theorem rpc_lookup_truncates:
  assumes "map (\<lambda>c. unat c mod 65536) codes = map (\<lambda>c. unat c mod 65536) codes'"
  shows "rpc_lookup api dns node codes w = rpc_lookup api dns node codes' w \<and>
    rpc_lookup_by_name api dns name codes w = rpc_lookup_by_name api dns name codes' w \<and>
    (case fst (rpc_lookup api dns node codes w) of Inl e \<Rightarrow> True
     | Inr answers \<Rightarrow> list_all (\<lambda>(code, data). unat code < 65536) answers)"
proof -
  have len: "length codes = length codes'" using assms by (rule map_eq_imp_length_eq)
  have cut: "map (\<lambda>c. rt_from_u16 dns (ucast c)) codes =
      map (\<lambda>c. rt_from_u16 dns (ucast c)) codes'"
    by (simp only: map_cut [of _ codes] map_cut [of _ codes'] assms)
  have small: "unat (ucast (x :: u16) :: u32) < 65536" for x
    using unat_lt_exp [of x] by (simp add: unsigned_ucast_eq take_bit_nat_eq_self)
  have "case fst (rpc_lookup api dns node codes w) of Inl e \<Rightarrow> True
     | Inr answers \<Rightarrow> list_all (\<lambda>(code, data). unat code < 65536) answers"
    using small by (auto simp: rpc_defs Let_def result_simps list_all_iff split: sum.splits)
  then show ?thesis
    using len cut by (simp add: rpc_lookup_def rpc_lookup_by_name_def)
qed

theorem rpc_lookup_truncates_witness:
  "fst (rpc_lookup sample_api \<lparr>rt_from_u16 = (\<lambda>x. x), u16_from_rt = (\<lambda>x. x)\<rparr> [9] [65537] sample_world)
     = Inr [(1, [9])]"
  using rpc_lookup_truncates [of "[65537]" "[1]" sample_api
      "\<lparr>rt_from_u16 = (\<lambda>x. x), u16_from_rt = (\<lambda>x. x)\<rparr>" "[9]" sample_world]
  by (simp add: rpc_defs sample_rpc_defs Let_def)

text \<open>
  C22: every failure of \<open>lookup_by_name\<close> is accounted for: an over-long name is reported
  first, then too many record types, and otherwise it is the runtime call that failed, at the
  best block, reported as \<open>INTERNAL_ERROR\<close> with the error's debug text.
\<close>

theorem rpc_lookup_by_name_failure:
  assumes "fst (rpc_lookup_by_name api dns name rts w) = Inl err"
  shows "(128 < length name \<and> err = invalid_params ''name too long'') \<or>
    (length name \<le> 128 \<and> 50 < length rts \<and>
      err = invalid_params ''too many record types (max 50)'') \<or>
    (length name \<le> 128 \<and> length rts \<le> 50 \<and>
      (\<exists>e. api_lookup_by_name api (best_hash (rw_chain w (rw_clock w))) name
             (map (\<lambda>c. rt_from_u16 dns (ucast c)) rts) = Inl e \<and>
           err_code err = INTERNAL_ERROR_CODE \<and> err_data err = Some (api_debug api e)))"
  using assms
  by (auto simp: rpc_lookup_by_name_def client_info_def runtime_call_def internal_error_def
      Let_def result_simps not_less split: if_splits)

theorem rpc_lookup_by_name_failure_witness:
  "128 < length (replicate 129 (0 :: u8)) \<and>
   fst (rpc_lookup_by_name sample_api \<lparr>rt_from_u16 = (\<lambda>x. x), u16_from_rt = (\<lambda>x. x)\<rparr>
     (replicate 129 0) (replicate 51 0) sample_world) = Inl (invalid_params ''name too long'')"
  using rpc_lookup_by_name_failure [of sample_api "\<lparr>rt_from_u16 = (\<lambda>x. x), u16_from_rt = (\<lambda>x. x)\<rparr>"
      "replicate 129 0" "replicate 51 0" sample_world "invalid_params ''name too long''"]
  by (simp add: rpc_lookup_by_name_def)

end
