(* ===== verification/Rpc_Server.thy ===== *)
theory Rpc_Server
  imports Pns_Rpc
begin

section \<open>Concurrent requests and block imports\<close>

text \<open>
  The RPC server runs the handlers of \<open>node/src/pns_rpc.rs\<close> for many requests at once while
  blocks are imported. A handler touches shared state twice: it reads the best block
  (\<open>client.info()\<close>) and then calls the runtime at that block's hash. Between the two any other
  request may move and any block may become the best one. The theory splits every handler at
  these two points, interleaves the pieces, and shows that each request is still answered as
  by the handler run alone at one block that was the best one at some time.
\<close>

subsection \<open>Requests and the handlers as one function\<close>

datatype rpc_request =
    ReqGetInfo domain_hash
  | ReqResolveName bytes
  | ReqLookup domain_hash "u32 list"
  | ReqGetListing bytes
  | ReqLookupByName bytes "u32 list"

datatype rpc_answer =
    AnsRecord "name_record option"
  | AnsListing "listing_info option"
  | AnsRecords "(u32 \<times> bytes) list"

type_synonym rpc_result = "rpc_error + rpc_answer"

primrec handle ::
  "('rt, 'err) api_ext \<Rightarrow> 'rt dns_ext \<Rightarrow> rpc_request \<Rightarrow> 'rt rpc_world \<Rightarrow>
   rpc_result \<times> 'rt rpc_world" where
  "handle api dns (ReqGetInfo node) w = apfst (res_map AnsRecord) (rpc_get_info api node w)"
| "handle api dns (ReqResolveName name) w =
     apfst (res_map AnsRecord) (rpc_resolve_name api name w)"
| "handle api dns (ReqLookup node rts) w =
     apfst (res_map AnsRecords) (rpc_lookup api dns node rts w)"
| "handle api dns (ReqGetListing name) w =
     apfst (res_map AnsListing) (rpc_get_listing api name w)"
| "handle api dns (ReqLookupByName name rts) w =
     apfst (res_map AnsRecords) (rpc_lookup_by_name api dns name rts w)"

subsection \<open>The handlers in two stages\<close>

text \<open>The guards, before anything shared is read.\<close>

primrec request_guard :: "rpc_request \<Rightarrow> string option" where
  "request_guard (ReqGetInfo node) = None"
| "request_guard (ReqResolveName name) =
     (if 128 < length name then Some ''name too long'' else None)"
| "request_guard (ReqLookup node rts) =
     (if 50 < length rts then Some ''too many record types (max 50)'' else None)"
| "request_guard (ReqGetListing name) =
     (if 128 < length name then Some ''name too long'' else None)"
| "request_guard (ReqLookupByName name rts) =
     (if 128 < length name then Some ''name too long''
      else if 50 < length rts then Some ''too many record types (max 50)'' else None)"

text \<open>The runtime call at the block read before, and the shaping of its answer.\<close>

definition stamp_record :: "chain_info \<Rightarrow> name_record \<Rightarrow> name_record" where
  "stamp_record ci r = r\<lparr>nr_read_block_hash := best_hash ci, nr_read_block_number := best_number ci\<rparr>"

definition stamp_listing :: "chain_info \<Rightarrow> listing_info \<Rightarrow> listing_info" where
  "stamp_listing ci l = l\<lparr>li_read_block_hash := best_hash ci, li_read_block_number := best_number ci\<rparr>"

definition from_codes :: "'rt dns_ext \<Rightarrow> u32 list \<Rightarrow> 'rt list" where
  "from_codes dns rts = map (\<lambda>code. rt_from_u16 dns (ucast code)) rts"

definition to_codes :: "'rt dns_ext \<Rightarrow> ('rt \<times> bytes) list \<Rightarrow> (u32 \<times> bytes) list" where
  "to_codes dns records = map (\<lambda>(rt, data). (ucast (u16_from_rt dns rt), data)) records"

primrec answer_at ::
  "('rt, 'err) api_ext \<Rightarrow> 'rt dns_ext \<Rightarrow> chain_info \<Rightarrow> rpc_request \<Rightarrow> rpc_result" where
  "answer_at api dns ci (ReqGetInfo node) =
     res_map (AnsRecord \<circ> map_option (stamp_record ci))
       (res_map_err (internal_error api) (api_get_info api (best_hash ci) node))"
| "answer_at api dns ci (ReqResolveName name) =
     res_map (AnsRecord \<circ> map_option (stamp_record ci))
       (res_map_err (internal_error api) (api_resolve_name api (best_hash ci) name))"
| "answer_at api dns ci (ReqLookup node rts) =
     res_map (AnsRecords \<circ> to_codes dns)
       (res_map_err (internal_error api) (api_lookup api (best_hash ci) node (from_codes dns rts)))"
| "answer_at api dns ci (ReqGetListing name) =
     res_map (AnsListing \<circ> map_option (stamp_listing ci))
       (res_map_err (internal_error api) (api_get_listing api (best_hash ci) name))"
| "answer_at api dns ci (ReqLookupByName name rts) =
     res_map (AnsRecords \<circ> to_codes dns)
       (res_map_err (internal_error api)
         (api_lookup_by_name api (best_hash ci) name (from_codes dns rts)))"

primrec call_at :: "'rt dns_ext \<Rightarrow> chain_info \<Rightarrow> rpc_request \<Rightarrow> 'rt api_call" where
  "call_at dns ci (ReqGetInfo node) = CallGetInfo (best_hash ci) node"
| "call_at dns ci (ReqResolveName name) = CallResolveName (best_hash ci) name"
| "call_at dns ci (ReqLookup node rts) = CallLookup (best_hash ci) node (from_codes dns rts)"
| "call_at dns ci (ReqGetListing name) = CallGetListing (best_hash ci) name"
| "call_at dns ci (ReqLookupByName name rts) =
     CallLookupByName (best_hash ci) name (from_codes dns rts)"

lemma res_map_comp: "res_map f (res_map g r) = res_map (f \<circ> g) r"
  by (cases r) simp_all

text \<open>The two stages in sequence are the handler.\<close>

lemma handle_in_stages:
  "handle api dns req w =
     (case request_guard req of
        Some msg \<Rightarrow> (Inl (invalid_params msg), w)
      | None \<Rightarrow>
          (answer_at api dns (rw_chain w (rw_clock w)) req,
           runtime_call (call_at dns (rw_chain w (rw_clock w)) req) (snd (client_info w))))"
  by (cases req)
    (simp_all add: rpc_get_info_def rpc_resolve_name_def rpc_lookup_def rpc_get_listing_def
      rpc_lookup_by_name_def client_info_def Let_def stamp_record_def [abs_def]
      stamp_listing_def [abs_def] from_codes_def to_codes_def [abs_def] res_map_comp)

subsection \<open>The server\<close>

datatype phase = Received | Chain_read chain_info | Answered rpc_result

text \<open>
  \<open>srv_bests\<close> lists the best blocks so far, the current one first. \<open>srv_arrivals\<close> notes for every
  request how many there had been when it arrived; no step reads it. \<open>since a bests\<close> are the
  blocks that were the best one at some time since then.
\<close>

record 'rt server =
  srv_bests :: "chain_info list"
  srv_requests :: "(rpc_request \<times> phase) list"
  srv_arrivals :: "nat list"
  srv_calls :: "'rt api_call list"

definition server_init :: "chain_info \<Rightarrow> 'rt server" where
  "server_init ci = \<lparr>srv_bests = [ci], srv_requests = [], srv_arrivals = [], srv_calls = []\<rparr>"

definition since :: "nat \<Rightarrow> chain_info list \<Rightarrow> chain_info list" where
  "since a bests = take (Suc (length bests - a)) bests"

text \<open>What the environment does: a block becomes the best one, a request arrives.\<close>

inductive env_step :: "'rt server \<Rightarrow> 'rt server \<Rightarrow> bool" where
  import_block: "env_step s (s\<lparr>srv_bests := ci # srv_bests s\<rparr>)"
| arrive: "env_step s (s\<lparr>srv_requests := srv_requests s @ [(req, Received)],
       srv_arrivals := srv_arrivals s @ [length (srv_bests s)]\<rparr>)"

text \<open>What the handlers do, each request on its own.\<close>

inductive work_step ::
  "('rt, 'err) api_ext \<Rightarrow> 'rt dns_ext \<Rightarrow> 'rt server \<Rightarrow> 'rt server \<Rightarrow> bool"
  for api dns where
  reject: "i < length (srv_requests s) \<Longrightarrow> srv_requests s ! i = (req, Received) \<Longrightarrow>
     request_guard req = Some msg \<Longrightarrow>
     work_step api dns s
       (s\<lparr>srv_requests := (srv_requests s)[i := (req, Answered (Inl (invalid_params msg)))]\<rparr>)"
| read_chain: "i < length (srv_requests s) \<Longrightarrow> srv_requests s ! i = (req, Received) \<Longrightarrow>
     request_guard req = None \<Longrightarrow>
     work_step api dns s
       (s\<lparr>srv_requests := (srv_requests s)[i := (req, Chain_read (hd (srv_bests s)))]\<rparr>)"
| call_runtime: "i < length (srv_requests s) \<Longrightarrow> srv_requests s ! i = (req, Chain_read ci) \<Longrightarrow>
     work_step api dns s
       (s\<lparr>srv_requests := (srv_requests s)[i := (req, Answered (answer_at api dns ci req))],
          srv_calls := srv_calls s @ [call_at dns ci req]\<rparr>)"

text \<open>A run, with the number of handler steps in it; environment steps come anywhere between.\<close>

inductive server_run ::
  "('rt, 'err) api_ext \<Rightarrow> 'rt dns_ext \<Rightarrow> 'rt server \<Rightarrow> nat \<Rightarrow> 'rt server \<Rightarrow> bool"
  for api dns where
  run_start: "server_run api dns s 0 s"
| run_env: "server_run api dns s n t \<Longrightarrow> env_step t u \<Longrightarrow> server_run api dns s n u"
| run_work: "server_run api dns s n t \<Longrightarrow> work_step api dns t u \<Longrightarrow> server_run api dns s (Suc n) u"

inductive_cases work_stepE: "work_step api dns s t"
inductive_cases env_stepE: "env_step s t"

subsection \<open>The invariant\<close>

text \<open>
  The phase of a request is justified by a block of the history: a block read is one of the
  best blocks so far, and an answer is the guard's error or the runtime's answer at such a
  block, with the call in the log.
\<close>

definition phase_ok ::
  "('rt, 'err) api_ext \<Rightarrow> 'rt dns_ext \<Rightarrow> chain_info set \<Rightarrow> 'rt api_call set \<Rightarrow>
   rpc_request \<times> phase \<Rightarrow> bool" where
  "phase_ok api dns bests calls rp =
     (case rp of (req, p) \<Rightarrow>
        (case p of
           Received \<Rightarrow> True
         | Chain_read ci \<Rightarrow> request_guard req = None \<and> ci \<in> bests
         | Answered r \<Rightarrow>
             (case request_guard req of
                Some msg \<Rightarrow> r = Inl (invalid_params msg)
              | None \<Rightarrow> \<exists>ci \<in> bests. r = answer_at api dns ci req \<and> call_at dns ci req \<in> calls)))"

definition server_inv :: "('rt, 'err) api_ext \<Rightarrow> 'rt dns_ext \<Rightarrow> 'rt server \<Rightarrow> bool" where
  "server_inv api dns s \<longleftrightarrow> srv_bests s \<noteq> [] \<and>
     list_all2 (\<lambda>a rp. a \<le> length (srv_bests s) \<and>
         phase_ok api dns (set (since a (srv_bests s))) (set (srv_calls s)) rp)
       (srv_arrivals s) (srv_requests s)"

lemma phase_ok_mono:
  "phase_ok api dns bests calls rp \<Longrightarrow> bests \<subseteq> bests' \<Longrightarrow> calls \<subseteq> calls' \<Longrightarrow>
     phase_ok api dns bests' calls' rp"
  by (auto simp: phase_ok_def split: phase.splits option.splits) blast

lemma since_Cons: "a \<le> length bests \<Longrightarrow> set (since a bests) \<subseteq> set (since a (ci # bests))"
  by (auto simp: since_def Suc_diff_le)

lemma phase_ok_import:
  "phase_ok api dns (set (since a bests)) calls rp \<Longrightarrow> a \<le> length bests \<Longrightarrow>
     phase_ok api dns (set (since a (ci # bests))) calls rp"
  by (erule phase_ok_mono) (auto dest: since_Cons)

lemma hd_since: "bests \<noteq> [] \<Longrightarrow> hd bests \<in> set (since a bests)"
  by (cases bests) (simp_all add: since_def)

lemma server_inv_env: "env_step s t \<Longrightarrow> server_inv api dns s \<Longrightarrow> server_inv api dns t"
proof (elim env_stepE)
  fix ci
  assume "server_inv api dns s" and t: "t = s\<lparr>srv_bests := ci # srv_bests s\<rparr>"
  then show ?thesis
    by (auto simp: server_inv_def elim!: list_all2_mono intro: phase_ok_import)
next
  fix req
  assume "server_inv api dns s"
    and "t = s\<lparr>srv_requests := srv_requests s @ [(req, Received)],
      srv_arrivals := srv_arrivals s @ [length (srv_bests s)]\<rparr>"
  then show ?thesis
    by (auto simp: server_inv_def phase_ok_def intro: list_all2_appendI)
qed

lemma server_inv_update:
  assumes inv: "server_inv api dns s" and i: "i < length (srv_requests s)"
    and calls: "set (srv_calls s) \<subseteq> set calls"
    and p: "phase_ok api dns (set (since (srv_arrivals s ! i) (srv_bests s))) (set calls) rp"
  shows "server_inv api dns (s\<lparr>srv_requests := (srv_requests s)[i := rp], srv_calls := calls\<rparr>)"
proof -
  let ?ok = "\<lambda>a rp. a \<le> length (srv_bests s) \<and>
    phase_ok api dns (set (since a (srv_bests s))) (set calls) rp"
  have "list_all2 ?ok (srv_arrivals s) (srv_requests s)"
    using inv calls unfolding server_inv_def
    by (auto elim!: list_all2_mono intro: phase_ok_mono)
  moreover from this i have "srv_arrivals s ! i \<le> length (srv_bests s)"
    by (auto dest: list_all2_nthD2)
  ultimately have "list_all2 ?ok ((srv_arrivals s)[i := srv_arrivals s ! i]) ((srv_requests s)[i := rp])"
    using p by (intro list_all2_update_cong conjI)
  then show ?thesis using inv by (simp add: server_inv_def)
qed

lemma server_inv_work:
  assumes "work_step api dns s t" and inv: "server_inv api dns s"
  shows "server_inv api dns t"
  using assms(1)
proof (cases rule: work_step.cases)
  case (reject i req msg)
  then show ?thesis
    using server_inv_update [OF inv, of i "srv_calls s"] by (simp add: phase_ok_def)
next
  case (read_chain i req)
  then show ?thesis
    using server_inv_update [OF inv, of i "srv_calls s"] hd_since inv
    by (simp add: phase_ok_def server_inv_def)
next
  case (call_runtime i req ci)
  then have "phase_ok api dns (set (since (srv_arrivals s ! i) (srv_bests s))) (set (srv_calls s))
      (req, Chain_read ci)"
    using inv by (auto simp: server_inv_def dest: list_all2_nthD2)
  then have "phase_ok api dns (set (since (srv_arrivals s ! i) (srv_bests s)))
      (set (srv_calls s @ [call_at dns ci req])) (req, Answered (answer_at api dns ci req))"
    by (auto simp: phase_ok_def)
  with call_runtime show ?thesis
    by (auto intro!: server_inv_update [OF inv])
qed

lemma server_run_inv: "server_run api dns s n t \<Longrightarrow> server_inv api dns s \<Longrightarrow> server_inv api dns t"
  by (induction rule: server_run.induct) (auto intro: server_inv_env server_inv_work)

lemma server_inv_init: "server_inv api dns (server_init ci)"
  by (simp add: server_inv_def server_init_def)

subsection \<open>Handler steps are bounded, and never stuck\<close>

primrec phase_cost :: "phase \<Rightarrow> nat" where
  "phase_cost Received = 2"
| "phase_cost (Chain_read ci) = 1"
| "phase_cost (Answered r) = 0"

definition server_cost :: "'rt server \<Rightarrow> nat" where
  "server_cost s = sum_list (map (\<lambda>(req, p). phase_cost p) (srv_requests s))"

definition answered :: "rpc_request \<times> phase \<Rightarrow> bool" where
  "answered rp \<longleftrightarrow> phase_cost (snd rp) = 0"

lemma phase_cost_le: "phase_cost p \<le> 2"
  by (cases p) simp_all

lemma server_cost_le: "server_cost s \<le> 2 * length (srv_requests s)"
proof -
  have "sum_list (map (\<lambda>(req, p). phase_cost p) xs) \<le> 2 * length xs" for xs :: "(rpc_request \<times> phase) list"
  proof (induction xs)
    case (Cons x xs)
    then show ?case using phase_cost_le [of "snd x"] by (cases x) simp
  qed simp
  then show ?thesis by (simp add: server_cost_def)
qed

lemma server_cost_0: "server_cost s = 0 \<longleftrightarrow> list_all answered (srv_requests s)"
  by (auto simp: server_cost_def answered_def list_all_iff)

lemma cost_update:
  "i < length xs \<Longrightarrow> xs ! i = (req, p) \<Longrightarrow>
     sum_list (map (\<lambda>(req, p). phase_cost p) (xs[i := (req', p')])) + phase_cost p =
     sum_list (map (\<lambda>(req, p). phase_cost p) xs) + phase_cost p'"
proof (induction xs arbitrary: i)
  case Nil
  then show ?case by simp
next
  case (Cons x xs)
  then show ?case by (cases i) (auto simp: add.assoc)
qed

lemma cost_decreases:
  "i < length xs \<Longrightarrow> xs ! i = (req, p) \<Longrightarrow> phase_cost p' < phase_cost p \<Longrightarrow>
     sum_list (map (\<lambda>(req, p). phase_cost p) (xs[i := (req', p')])) <
     sum_list (map (\<lambda>(req, p). phase_cost p) xs)"
  using cost_update [of i xs req p req' p'] by simp

lemma work_step_cost: "work_step api dns s t \<Longrightarrow> server_cost t < server_cost s"
  by (induction rule: work_step.induct)
    (auto simp: server_cost_def intro!: cost_decreases)

lemma work_step_exists:
  assumes "\<not> answered (srv_requests s ! i)" and "i < length (srv_requests s)"
  shows "\<exists>t. work_step api dns s t"
proof -
  obtain req p where rp: "srv_requests s ! i = (req, p)" by fastforce
  show ?thesis
  proof (cases p)
    case Received
    then show ?thesis
      using rp assms(2) reject [of i s req] read_chain [of i s req]
      by (cases "request_guard req") blast+
  next
    case (Chain_read ci)
    then show ?thesis using rp assms(2) call_runtime [of i s req ci] by blast
  next
    case (Answered r)
    then show ?thesis using rp assms(1) by (simp add: answered_def)
  qed
qed

lemma work_stuck: "(\<nexists>t. work_step api dns s t) \<longleftrightarrow> list_all answered (srv_requests s)"
proof
  assume "\<nexists>t. work_step api dns s t"
  then show "list_all answered (srv_requests s)"
    using work_step_exists by (fastforce simp: list_all_length)
next
  assume "list_all answered (srv_requests s)"
  then have "server_cost s = 0" by (simp add: server_cost_0)
  then show "\<nexists>t. work_step api dns s t" by (auto dest: work_step_cost)
qed

lemma work_completes:
  "\<exists>n t. n \<le> server_cost s \<and> (work_step api dns ^^ n) s t \<and> list_all answered (srv_requests t)"
proof (induction "server_cost s" arbitrary: s rule: less_induct)
  case less
  show ?case
  proof (cases "list_all answered (srv_requests s)")
    case True
    then show ?thesis by (intro exI [of _ 0]) auto
  next
    case False
    then obtain t where t: "work_step api dns s t" using work_stuck by blast
    then have lt: "server_cost t < server_cost s" by (rule work_step_cost)
    from less [OF lt] obtain n u where "n \<le> server_cost t" and "(work_step api dns ^^ n) t u"
      and "list_all answered (srv_requests u)" by blast
    moreover from t this(2) have "(work_step api dns ^^ Suc n) s u" by (rule relpowp_Suc_I2)
    ultimately show ?thesis
      using lt by (intro exI [of _ "Suc n"] exI [of _ u] conjI) simp_all
  qed
qed

lemma answered_at_block:
  assumes "server_run api dns (server_init ci\<^sub>0) n s"
    and "i < length (srv_requests s)" and "srv_requests s ! i = (req, Answered r)"
  shows "\<exists>ci \<in> set (since (srv_arrivals s ! i) (srv_bests s)).
    \<forall>w. rw_chain w (rw_clock w) = ci \<longrightarrow> fst (handle api dns req w) = r"
proof -
  let ?bests = "since (srv_arrivals s ! i) (srv_bests s)"
  have "server_inv api dns s" using assms(1) server_inv_init by (rule server_run_inv)
  then have "hd (srv_bests s) \<in> set ?bests"
    and "phase_ok api dns (set ?bests) (set (srv_calls s)) (req, Answered r)"
    using assms(2,3) by (auto simp: server_inv_def hd_since dest: list_all2_nthD2)
  then show ?thesis
    by (cases "request_guard req") (auto simp: phase_ok_def handle_in_stages)
qed

subsection \<open>Properties\<close>

text \<open>
  C3: concurrent requests are linearizable. However the stages of any number of requests and
  the imports of blocks interleave, every request that has been answered got exactly the
  answer of its handler run without interruption at some block that was the best one after
  the request arrived: no answer mixes two blocks, and none is older than its request.
\<close>

theorem rpc_interleaving_linearizes:
  assumes "server_run api dns (server_init ci\<^sub>0) n s"
    and "i < length (srv_requests s)" and "srv_requests s ! i = (req, Answered r)"
  shows "\<exists>ci \<in> set (since (srv_arrivals s ! i) (srv_bests s)).
    \<forall>w. rw_chain w (rw_clock w) = ci \<longrightarrow> fst (handle api dns req w) = r"
  by (rule answered_at_block [OF assms])

text \<open>A request read at one block, with another imported before its runtime call.\<close>

definition sample_dns :: "u16 dns_ext" where
  "sample_dns = \<lparr>rt_from_u16 = (\<lambda>x. x), u16_from_rt = (\<lambda>x. x)\<rparr>"

definition sample_block :: "u8 \<Rightarrow> chain_info" where
  "sample_block k = \<lparr>best_hash = [k], best_number = ucast k\<rparr>"

text \<open>A server that answered one request, read at \<open>ci\<close>, with \<open>ci'\<close> imported before the runtime call.\<close>

definition one_request_server ::
  "('rt, 'err) api_ext \<Rightarrow> 'rt dns_ext \<Rightarrow> chain_info \<Rightarrow> chain_info \<Rightarrow> rpc_request \<Rightarrow> 'rt server" where
  "one_request_server api dns ci ci' req =
     \<lparr>srv_bests = [ci', ci], srv_requests = [(req, Answered (answer_at api dns ci req))],
      srv_arrivals = [1], srv_calls = [call_at dns ci req]\<rparr>"

lemma one_request_run:
  assumes "request_guard req = None"
  shows "server_run api dns (server_init ci) 2 (one_request_server api dns ci ci' req)"
proof -
  let ?s0 = "server_init ci :: 'a server"
  let ?s1 = "?s0\<lparr>srv_requests := [(req, Received)], srv_arrivals := [1]\<rparr>"
  let ?s2 = "?s0\<lparr>srv_requests := [(req, Chain_read ci)], srv_arrivals := [1]\<rparr>"
  let ?s3 = "?s2\<lparr>srv_bests := [ci', ci]\<rparr>"
  have "env_step ?s0 ?s1"
    using arrive [of ?s0 req] by (simp add: server_init_def)
  moreover have "work_step api dns ?s1 ?s2"
    using read_chain [of 0 ?s1 req] assms by (simp add: server_init_def)
  moreover have "env_step ?s2 ?s3"
    using import_block [of ?s2 ci'] by (simp add: server_init_def)
  moreover have "work_step api dns ?s3 (one_request_server api dns ci ci' req)"
    using call_runtime [of 0 ?s3 req ci api dns]
    by (simp add: server_init_def one_request_server_def)
  ultimately have "server_run api dns ?s0 (Suc (Suc 0)) (one_request_server api dns ci ci' req)"
    by (meson run_start run_env run_work)
  then show ?thesis by (simp add: numeral_2_eq_2)
qed

definition sample_server :: "u16 server" where
  "sample_server =
     one_request_server sample_api sample_dns (sample_block 4) (sample_block 5) (ReqResolveName [1])"

lemma sample_server_run:
  "server_run sample_api sample_dns (server_init (sample_block 4)) 2 sample_server"
  by (simp add: sample_server_def one_request_run)

lemma sample_server_parts:
  "srv_bests sample_server = [sample_block 5, sample_block 4]"
  "srv_requests sample_server =
     [(ReqResolveName [1], Answered (Inr (AnsRecord (Some (stamp_record (sample_block 4) sample_record)))))]"
  "srv_arrivals sample_server = [1]"
  by (simp_all add: sample_server_def one_request_server_def sample_api_def sample_block_def)

theorem rpc_interleaving_linearizes_witness:
  "\<exists>ci \<in> set (srv_bests sample_server).
     \<exists>w. rw_chain w (rw_clock w) = ci \<and> fst (handle sample_api sample_dns (ReqResolveName [1]) w) =
       Inr (AnsRecord (Some (stamp_record (sample_block 4) sample_record)))"
proof -
  obtain ci where "ci \<in> set (srv_bests sample_server)"
    and "\<forall>w. rw_chain w (rw_clock w) = ci \<longrightarrow>
      fst (handle sample_api sample_dns (ReqResolveName [1]) w) =
      Inr (AnsRecord (Some (stamp_record (sample_block 4) sample_record)))"
    using rpc_interleaving_linearizes [OF sample_server_run, of 0 "ReqResolveName [1]"
        "Inr (AnsRecord (Some (stamp_record (sample_block 4) sample_record)))"]
    by (auto simp: sample_server_parts since_def)
  then show ?thesis
    by (intro bexI [of _ ci] exI [of _ "\<lparr>rw_clock = 0, rw_chain = \<lambda>_. ci, rw_calls = []\<rparr>"]) simp_all
qed

end
