(* ===== verification/Rpc_Progress.thy ===== *)
theory Rpc_Progress
  imports Rpc_Server "HOL-Library.Multiset"
begin

section \<open>Handlers left alone\<close>

text \<open>
  \<open>Rpc_Server\<close> shows what an answered request was answered with. Here the handlers of a server
  that has come to any state are run on, in any order, while no block is imported and no request
  arrives: they stop, and where they stop does not depend on the order. \<open>alone\<close> is the answer
  and the runtime calls a request has before it when its handler goes on from its phase.
\<close>

definition at_block :: "chain_info \<Rightarrow> 'rt rpc_world" where
  "at_block ci = \<lparr>rw_clock = 0, rw_chain = (\<lambda>_. ci), rw_calls = []\<rparr>"

definition alone ::
  "('rt, 'err) api_ext \<Rightarrow> 'rt dns_ext \<Rightarrow> chain_info \<Rightarrow> rpc_request \<times> phase \<Rightarrow>
   rpc_result \<times> 'rt rpc_world" where
  "alone api dns best rp =
     (case rp of (req, p) \<Rightarrow>
        (case p of
           Received \<Rightarrow> handle api dns req (at_block best)
         | Chain_read ci \<Rightarrow> handle api dns req (at_block ci)
         | Answered r \<Rightarrow> (r, at_block best)))"

definition pending_calls ::
  "('rt, 'err) api_ext \<Rightarrow> 'rt dns_ext \<Rightarrow> chain_info \<Rightarrow> (rpc_request \<times> phase) list \<Rightarrow>
   'rt api_call list" where
  "pending_calls api dns best rps = concat (map (\<lambda>rp. rw_calls (snd (alone api dns best rp))) rps)"

lemma rw_calls_at_block [simp]: "rw_calls (at_block ci) = []"
  by (simp add: at_block_def)

lemma handle_at_block:
  "fst (handle api dns req (at_block ci)) =
     (case request_guard req of Some msg \<Rightarrow> Inl (invalid_params msg)
      | None \<Rightarrow> answer_at api dns ci req)"
  "rw_calls (snd (handle api dns req (at_block ci))) =
     (case request_guard req of Some msg \<Rightarrow> [] | None \<Rightarrow> [call_at dns ci req])"
  by (simp_all add: handle_in_stages runtime_call_def client_info_def at_block_def
      split: option.split)

lemma alone_phases:
  "alone api dns best (req, Received) = handle api dns req (at_block best)"
  "alone api dns best (req, Chain_read ci) = handle api dns req (at_block ci)"
  "alone api dns best (req, Answered r) = (r, at_block best)"
  by (simp_all add: alone_def)

subsection \<open>What handler steps keep\<close>

text \<open>
  The final answer of every request, and the runtime calls made with those still to be made.
\<close>

definition outcome ::
  "('rt, 'err) api_ext \<Rightarrow> 'rt dns_ext \<Rightarrow> 'rt server \<Rightarrow>
   (rpc_request \<times> rpc_result) list \<times> 'rt api_call multiset" where
  "outcome api dns s =
     (map (\<lambda>rp. (fst rp, fst (alone api dns (hd (srv_bests s)) rp))) (srv_requests s),
      mset (srv_calls s) + mset (pending_calls api dns (hd (srv_bests s)) (srv_requests s)))"

lemma mset_concat_update:
  "i < length xs \<Longrightarrow>
     mset (concat (map f (xs[i := y]))) + mset (f (xs ! i)) = mset (concat (map f xs)) + mset (f y)"
proof (induction xs arbitrary: i)
  case (Cons x xs)
  then show ?case by (cases i) (auto simp: ac_simps)
qed simp

lemma outcome_update:
  assumes i: "i < length (srv_requests s)"
    and req: "fst rp = fst (srv_requests s ! i)"
    and answer: "fst (alone api dns (hd (srv_bests s)) rp) =
      fst (alone api dns (hd (srv_bests s)) (srv_requests s ! i))"
    and calls: "mset new + mset (rw_calls (snd (alone api dns (hd (srv_bests s)) rp))) =
      mset (rw_calls (snd (alone api dns (hd (srv_bests s)) (srv_requests s ! i))))"
  shows "outcome api dns (s\<lparr>srv_requests := (srv_requests s)[i := rp],
    srv_calls := srv_calls s @ new\<rparr>) = outcome api dns s"
proof -
  let ?f = "\<lambda>rp. (fst rp, fst (alone api dns (hd (srv_bests s)) rp))"
  let ?g = "\<lambda>rp. rw_calls (snd (alone api dns (hd (srv_bests s)) rp))"
  have "map ?f ((srv_requests s)[i := rp]) = (map ?f (srv_requests s))[i := ?f rp]"
    by (rule map_update)
  also have "?f rp = map ?f (srv_requests s) ! i" using i req answer by simp
  finally have first: "map ?f ((srv_requests s)[i := rp]) = map ?f (srv_requests s)" by simp
  have "mset (concat (map ?g ((srv_requests s)[i := rp]))) + mset (?g (srv_requests s ! i)) =
      mset (concat (map ?g (srv_requests s))) + mset (?g rp)"
    by (rule mset_concat_update [OF i])
  then have "mset new + mset (concat (map ?g ((srv_requests s)[i := rp]))) =
      mset (concat (map ?g (srv_requests s)))"
    unfolding calls [symmetric] by (simp add: ac_simps)
  with first show ?thesis by (simp add: outcome_def pending_calls_def ac_simps)
qed

lemma outcome_work:
  assumes "work_step api dns s t" and inv: "server_inv api dns s"
  shows "outcome api dns t = outcome api dns s"
  using assms(1)
proof (cases rule: work_step.cases)
  case (reject i req msg)
  then show ?thesis
    using outcome_update [of i s "(req, Answered (Inl (invalid_params msg)))" api dns "[]"]
    by (simp add: alone_phases handle_at_block)
next
  case (read_chain i req)
  then show ?thesis
    using outcome_update [of i s "(req, Chain_read (hd (srv_bests s)))" api dns "[]"]
    by (simp add: alone_phases)
next
  case (call_runtime i req ci)
  then have "request_guard req = None"
    using inv by (auto simp: server_inv_def phase_ok_def dest: list_all2_nthD2)
  with call_runtime show ?thesis
    using outcome_update [of i s "(req, Answered (answer_at api dns ci req))" api dns
        "[call_at dns ci req]"]
    by (simp add: alone_phases handle_at_block)
qed

lemma outcome_works:
  assumes "(work_step api dns)\<^sup>*\<^sup>* s t" and "server_inv api dns s"
  shows "outcome api dns t = outcome api dns s \<and> server_inv api dns t"
  using assms by (induction rule: rtranclp_induct) (auto simp: outcome_work server_inv_work)

lemma work_steps_bounded: "(work_step api dns ^^ m) s t \<Longrightarrow> m + server_cost t \<le> server_cost s"
proof (induction m arbitrary: t)
  case (Suc m)
  then obtain u where "(work_step api dns ^^ m) s u" and step: "work_step api dns u t" by auto
  with Suc.IH [of u] work_step_cost [OF step] show ?case by simp
qed simp

lemma outcome_answered:
  assumes "list_all answered (srv_requests t)"
  shows "outcome api dns t = (rs, calls) \<longleftrightarrow>
    srv_requests t = map (\<lambda>(req, r). (req, Answered r)) rs \<and> mset (srv_calls t) = calls"
proof -
  have answered: "\<exists>r. snd rp = Answered r" if "rp \<in> set (srv_requests t)" for rp
    using that assms by (cases "snd rp") (auto simp: list_all_iff answered_def)
  have "pending_calls api dns best (srv_requests t) = []" for best
    using answered by (fastforce simp: pending_calls_def alone_def split: prod.split phase.split)
  moreover have "map (\<lambda>rp. (fst rp, fst (alone api dns best rp))) xs = rs \<longleftrightarrow>
      xs = map (\<lambda>(req, r). (req, Answered r)) rs"
    if "\<forall>rp \<in> set xs. \<exists>r. snd rp = Answered r" for xs best
    using that
  proof (induction xs arbitrary: rs)
    case (Cons x xs)
    then show ?case by (cases rs; cases x) (auto simp: alone_phases)
  qed auto
  ultimately show ?thesis using answered by (auto simp: outcome_def)
qed

subsection \<open>Properties\<close>

text \<open>
  C21: every request gets the answer of its handler. From any state a server can come to, with
  any requests in any phases, the handlers left alone make at most two steps per request, reach a
  state in which none of them can move, and every such state is the same up to the order of the
  calls in the log: a request not yet looked at has the answer of its handler run alone at the
  best block there is now, one that has read the chain its handler's answer at the block it read,
  an answered one keeps its answer; and the runtime was called exactly as by those handlers, so
  not at all for a request its guard refuses.
\<close>

theorem rpc_requests_settle:
  assumes "server_run api dns (server_init ci\<^sub>0) n s"
  shows "(\<forall>m t. (work_step api dns ^^ m) s t \<longrightarrow> m \<le> 2 * length (srv_requests s)) \<and>
    (\<exists>t. (work_step api dns)\<^sup>*\<^sup>* s t \<and> (\<nexists>u. work_step api dns t u)) \<and>
    (\<forall>t. (work_step api dns)\<^sup>*\<^sup>* s t \<longrightarrow> (\<nexists>u. work_step api dns t u) \<longrightarrow>
       srv_requests t =
         map (\<lambda>(req, p). (req, Answered (fst (alone api dns (hd (srv_bests s)) (req, p)))))
           (srv_requests s) \<and>
       mset (srv_calls t) =
         mset (srv_calls s) + mset (pending_calls api dns (hd (srv_bests s)) (srv_requests s)))"
proof (intro conjI allI impI)
  fix m t assume "(work_step api dns ^^ m) s t"
  from work_steps_bounded [OF this] server_cost_le [of s]
  show "m \<le> 2 * length (srv_requests s)" by simp
next
  show "\<exists>t. (work_step api dns)\<^sup>*\<^sup>* s t \<and> (\<nexists>u. work_step api dns t u)"
    using work_completes [of s api dns] work_stuck [of api dns] by (meson relpowp_imp_rtranclp)
next
  fix t assume run: "(work_step api dns)\<^sup>*\<^sup>* s t" and "\<nexists>u. work_step api dns t u"
  then have "list_all answered (srv_requests t)" using work_stuck [of api dns t] by blast
  moreover have "outcome api dns t = outcome api dns s"
    using outcome_works [OF run server_run_inv [OF assms server_inv_init]] by blast
  ultimately have "srv_requests t = map (\<lambda>(req, r). (req, Answered r)) (fst (outcome api dns s)) \<and>
      mset (srv_calls t) = snd (outcome api dns s)"
    using outcome_answered [of t api dns "fst (outcome api dns s)" "snd (outcome api dns s)"] by simp
  then show "srv_requests t =
      map (\<lambda>(req, p). (req, Answered (fst (alone api dns (hd (srv_bests s)) (req, p)))))
        (srv_requests s)"
    and "mset (srv_calls t) =
      mset (srv_calls s) + mset (pending_calls api dns (hd (srv_bests s)) (srv_requests s))"
    by (simp_all add: outcome_def split_beta)
qed

text \<open>
  Two requests under way: one that has read block 4, one that arrived after block 5 and is too
  long a name.
\<close>

definition waiting_server :: "u16 server" where
  "waiting_server =
     \<lparr>srv_bests = [sample_block 5, sample_block 4],
      srv_requests = [(ReqResolveName [1], Chain_read (sample_block 4)),
        (ReqGetListing (replicate 129 0), Received)],
      srv_arrivals = [1, 2], srv_calls = []\<rparr>"

lemma waiting_server_run:
  "server_run sample_api sample_dns (server_init (sample_block 4)) 1 waiting_server"
proof -
  let ?req = "ReqResolveName [1]"
  let ?s0 = "server_init (sample_block 4) :: u16 server"
  let ?s1 = "?s0\<lparr>srv_requests := [(?req, Received)], srv_arrivals := [1]\<rparr>"
  let ?s2 = "?s0\<lparr>srv_requests := [(?req, Chain_read (sample_block 4))], srv_arrivals := [1]\<rparr>"
  let ?s3 = "?s2\<lparr>srv_bests := [sample_block 5, sample_block 4]\<rparr>"
  have "env_step ?s0 ?s1"
    using arrive [of ?s0 ?req] by (simp add: server_init_def)
  moreover have "work_step sample_api sample_dns ?s1 ?s2"
    using read_chain [of 0 ?s1 ?req] by (simp add: server_init_def)
  moreover have "env_step ?s2 ?s3"
    using import_block [of ?s2 "sample_block 5"] by (simp add: server_init_def)
  moreover have "env_step ?s3 waiting_server"
    using arrive [of ?s3 "ReqGetListing (replicate 129 0)"]
    by (simp add: server_init_def waiting_server_def numeral_2_eq_2)
  ultimately have "server_run sample_api sample_dns ?s0 (Suc 0) waiting_server"
    by (meson run_start run_env run_work)
  then show ?thesis by simp
qed

theorem rpc_requests_settle_witness:
  "\<exists>t. (work_step sample_api sample_dns)\<^sup>*\<^sup>* waiting_server t \<and>
     srv_requests t =
       [(ReqResolveName [1],
           Answered (Inr (AnsRecord (Some (stamp_record (sample_block 4) sample_record))))),
        (ReqGetListing (replicate 129 0), Answered (Inl (invalid_params ''name too long'')))] \<and>
     srv_calls t = [CallResolveName [4] [1]]"
proof -
  have requests: "map (\<lambda>(req, p). (req, Answered (fst (alone sample_api sample_dns
          (hd (srv_bests waiting_server)) (req, p))))) (srv_requests waiting_server) =
      [(ReqResolveName [1],
          Answered (Inr (AnsRecord (Some (stamp_record (sample_block 4) sample_record))))),
       (ReqGetListing (replicate 129 0), Answered (Inl (invalid_params ''name too long'')))]"
    and calls: "mset (srv_calls waiting_server) + mset (pending_calls sample_api sample_dns
        (hd (srv_bests waiting_server)) (srv_requests waiting_server)) =
      {#CallResolveName [4] [1]#}"
    by (simp_all add: waiting_server_def alone_phases handle_at_block pending_calls_def
        sample_api_def sample_block_def del: handle.simps)
  obtain t where run: "(work_step sample_api sample_dns)\<^sup>*\<^sup>* waiting_server t"
    and "\<nexists>u. work_step sample_api sample_dns t u"
    using rpc_requests_settle [OF waiting_server_run, THEN conjunct2, THEN conjunct1] by blast
  with rpc_requests_settle [OF waiting_server_run, THEN conjunct2, THEN conjunct2,
      unfolded requests calls, rule_format, of t]
  show ?thesis by (intro exI [of _ t]) simp
qed

end
