(* ===== verification/Build_Guard.thy ===== *)
theory Build_Guard
  imports Runtime_Types
begin

section \<open>Cargo features, the compile-time guard and what a build wires\<close>

text \<open>
  The features of the runtime crate (\<open>runtime/Cargo.toml\<close>), the \<open>compile_error!\<close> of
  \<open>runtime/src/lib.rs\<close> that keeps \<open>test-attestation\<close> and \<open>production\<close> apart, the verifiers
  \<open>impl zk_pki_pallet::Config for Runtime\<close> binds under the enabled features, and the choice
  of wasm build in \<open>runtime/build.rs\<close>. Entries of the form \<open>crate/feature\<close> enable features of
  other crates and add nothing here.
\<close>

datatype feature =
    Default_features | Kusama | Test_attestation | Production | Std | Runtime_benchmarks
  | Try_runtime | Metadata_hash | On_chain_release_build

primrec feature_entries :: "feature \<Rightarrow> feature list" where
  "feature_entries Default_features = [Std, Test_attestation]"
| "feature_entries Kusama = []"
| "feature_entries Test_attestation = []"
| "feature_entries Production = []"
| "feature_entries Std = []"
| "feature_entries Runtime_benchmarks = []"
| "feature_entries Try_runtime = []"
| "feature_entries Metadata_hash = []"
| "feature_entries On_chain_release_build = [Metadata_hash]"

text \<open>
  The features a cargo invocation enables: the requested ones, \<open>default\<close> unless
  \<open>--no-default-features\<close> is given, and what they list. The entries of an entry are empty,
  so one round is the closure.
\<close>

definition enabled_features :: "bool \<Rightarrow> feature list \<Rightarrow> feature set" where
  "enabled_features no_default requested =
     (let fs = (if no_default then requested else Default_features # requested)
      in set fs \<union> \<Union> (set ` feature_entries ` set fs))"

lemma enabled_features_closed:
  "f \<in> enabled_features nd fs \<Longrightarrow> set (feature_entries f) \<subseteq> enabled_features nd fs"
proof -
  have "g \<in> set (feature_entries f') \<Longrightarrow> feature_entries g = []" for f' g
    by (cases f') auto
  then show "f \<in> enabled_features nd fs \<Longrightarrow> ?thesis"
    by (auto simp: enabled_features_def Let_def)
qed

definition guard_message :: string where
  "guard_message = 
     ''paseo-runtime: `test-attestation` and `production` features are mutually '' @
     ''exclusive. `test-attestation` enables bypass-crypto attestation verifiers '' @
     ''(NoopBindingProofVerifier, TpmTestAttestationVerifier) that accept '' @
     ''attacker-controlled EK hashes. Enabling it alongside `production` would '' @
     ''ship a runtime with no hardware-attestation Sybil resistance. Build with '' @
     ''`--no-default-features --features std,production` for a production build.''"

definition production_guard :: "feature set \<Rightarrow> string + unit" where
  "production_guard feats =
     (if Test_attestation \<in> feats \<and> Production \<in> feats then Inl guard_message else Inr ())"

datatype attestation_verifier = TpmTestAttestationVerifier | TpmAttestationVerifier
datatype binding_verifier = NoopBindingProofVerifier | ProductionBindingProofVerifier
datatype proxy_validator = PalletProxyValidator | NoopProxyValidator

record zk_pki_wiring =
  wire_attestation :: attestation_verifier
  wire_binding :: binding_verifier
  wire_proxy :: proxy_validator

definition zk_pki_wiring :: "feature set \<Rightarrow> zk_pki_wiring" where
  "zk_pki_wiring feats =
     \<lparr>wire_attestation = TpmTestAttestationVerifier,
      wire_binding = NoopBindingProofVerifier,
      wire_proxy = (if Runtime_benchmarks \<in> feats then NoopProxyValidator
                    else PalletProxyValidator)\<rparr>"

definition build_runtime :: "bool \<Rightarrow> feature list \<Rightarrow> string + zk_pki_wiring" where
  "build_runtime no_default requested =
     (let feats = enabled_features no_default requested
      in res_map (\<lambda>_. zk_pki_wiring feats) (production_guard feats))"

datatype wasm_build =
    Build_with_metadata_hash string nat
  | Build_using_defaults
  | No_wasm_build

definition wasm_build :: "feature set \<Rightarrow> wasm_build" where
  "wasm_build feats =
     (if Std \<in> feats \<and> Metadata_hash \<in> feats then Build_with_metadata_hash ''UNIT'' 12
      else if Std \<in> feats \<and> Metadata_hash \<notin> feats then Build_using_defaults
      else No_wasm_build)"

lemma production_enabled_iff: "Production \<in> enabled_features nd fs \<longleftrightarrow> Production \<in> set fs"
proof -
  have "Production \<notin> set (feature_entries f)" for f by (cases f) auto
  then show ?thesis by (auto simp: enabled_features_def Let_def)
qed

lemma test_attestation_enabled_iff:
  "Test_attestation \<in> enabled_features nd fs \<longleftrightarrow>
     \<not> nd \<or> Test_attestation \<in> set fs \<or> Default_features \<in> set fs"
proof -
  have "Test_attestation \<in> set (feature_entries f) \<longleftrightarrow> f = Default_features" for f
    by (cases f) auto
  then show ?thesis by (auto simp: enabled_features_def Let_def)
qed

lemma runtime_benchmarks_enabled_iff:
  "Runtime_benchmarks \<in> enabled_features nd fs \<longleftrightarrow> Runtime_benchmarks \<in> set fs"
proof -
  have "Runtime_benchmarks \<notin> set (feature_entries f)" for f by (cases f) auto
  then show ?thesis by (auto simp: enabled_features_def Let_def)
qed

subsection \<open>Properties\<close>

text \<open>
  C28: what a cargo invocation on the runtime gives. It is stopped by the guard exactly when it
  asks for \<open>production\<close> while \<open>test-attestation\<close> is on, which it is unless default features are
  turned off and neither it nor \<open>default\<close> is requested. Every invocation that is not stopped, for
  \<open>production\<close> or not, has the test verifier for attestations and the one that accepts any binding
  proof in its \<open>zk_pki_pallet\<close> configuration; only the proxy validator depends on the features, and
  only on \<open>runtime-benchmarks\<close>.
\<close>

theorem build_runtime_spec:
  "build_runtime no_default requested =
     (if Production \<in> set requested \<and>
         (\<not> no_default \<or> Test_attestation \<in> set requested \<or> Default_features \<in> set requested)
      then Inl guard_message
      else Inr \<lparr>wire_attestation = TpmTestAttestationVerifier,
                wire_binding = NoopBindingProofVerifier,
                wire_proxy = (if Runtime_benchmarks \<in> set requested then NoopProxyValidator
                              else PalletProxyValidator)\<rparr>)"
  by (simp add: build_runtime_def production_guard_def Let_def production_enabled_iff
      test_attestation_enabled_iff runtime_benchmarks_enabled_iff zk_pki_wiring_def)

text \<open>The build the guard's message recommends, and one with the default features.\<close>

theorem build_runtime_spec_witness:
  "build_runtime True [Std, Production] =
     Inr \<lparr>wire_attestation = TpmTestAttestationVerifier, wire_binding = NoopBindingProofVerifier,
          wire_proxy = PalletProxyValidator\<rparr> \<and>
   build_runtime False [Production] = Inl guard_message"
  by (simp add: build_runtime_spec)

text \<open>
  The metadata hash. It is computed exactly in \<open>std\<close> builds with \<open>metadata-hash\<close>, which
  \<open>on-chain-release-build\<close> turns on, and then with the decimals that the runtime's \<open>UNIT\<close> has.
\<close>

theorem wasm_build_metadata:
  "((\<exists>token decimals. wasm_build (enabled_features False requested) =
        Build_with_metadata_hash token decimals \<and> 10 ^ decimals = unat UNIT) \<longleftrightarrow>
     Metadata_hash \<in> set requested \<or> On_chain_release_build \<in> set requested) \<and>
   wasm_build (enabled_features False requested) \<noteq> No_wasm_build"
proof -
  have "Metadata_hash \<in> set (feature_entries f) \<longleftrightarrow> f = On_chain_release_build"
    and "Std \<in> set (feature_entries f) \<longleftrightarrow> f = Default_features" for f
    by (cases f; auto)+
  then show ?thesis
    by (auto simp: wasm_build_def enabled_features_def Let_def UNIT_def)
qed

end
