(* ===== verification/Runtime_Api.thy ===== *)
theory Runtime_Api
  imports Chain_State
begin

section \<open>The other runtime APIs (\<open>runtime/src/apis.rs\<close>)\<close>

text \<open>
  The Secret Squirrel queries over the slot map, the authorities of the Aura API, the
  GRANDPA API, and the APIs that hand every call to \<open>Executive\<close>, \<open>TransactionPayment\<close> or
  \<open>zk_pki_pallet\<close>. The functions forwarded to are fields of the \<open>_ext\<close> records.
\<close>

subsection \<open>Secret Squirrel\<close>

definition retrieve_slot :: "('auth, 'p) chain_state \<Rightarrow> h256 \<Rightarrow> bytes option" where
  "retrieve_slot s slot_hash = map_option sl_payload (st_slots s slot_hash)"

definition slot_exists :: "('auth, 'p) chain_state \<Rightarrow> h256 \<Rightarrow> bool" where
  "slot_exists s slot_hash = (st_slots s slot_hash \<noteq> None)"

subsection \<open>Consensus\<close>

record ('st, 'gauth) consensus_ext =
  aura_slot_duration :: "'st \<Rightarrow> u64"
  grandpa_authority_list :: "'st \<Rightarrow> 'gauth list"
  grandpa_set_id :: "'st \<Rightarrow> u64"

definition api_slot_duration :: "('st, 'g, 'z) consensus_ext_scheme \<Rightarrow> 'st \<Rightarrow> u64" where
  "api_slot_duration ext s = aura_slot_duration ext s"

definition api_authorities :: "('auth, 'p) chain_state \<Rightarrow> 'auth list" where
  "api_authorities s = st_authorities s"

definition api_grandpa_authorities :: "('st, 'g, 'z) consensus_ext_scheme \<Rightarrow> 'st \<Rightarrow> 'g list" where
  "api_grandpa_authorities ext s = grandpa_authority_list ext s"

definition api_current_set_id :: "('st, 'g, 'z) consensus_ext_scheme \<Rightarrow> 'st \<Rightarrow> u64" where
  "api_current_set_id ext s = grandpa_set_id ext s"

definition submit_report_equivocation_unsigned_extrinsic :: "'proof \<Rightarrow> 'key_proof \<Rightarrow> unit option" where
  "submit_report_equivocation_unsigned_extrinsic equivocation_proof key_owner_proof = None"

definition generate_key_ownership_proof :: "u64 \<Rightarrow> 'id \<Rightarrow> 'key_proof option" where
  "generate_key_ownership_proof set_id' authority_id = None"

subsection \<open>Forwarding APIs\<close>

text \<open>
  \<open>Executive\<close>, \<open>System\<close>, \<open>SessionKeys\<close> and \<open>TransactionPayment\<close>: \<open>'tx\<close> extrinsics, \<open>'blk\<close> blocks,
  \<open>'hdr\<close> headers, \<open>'src\<close> transaction sources. The two fee APIs price an extrinsic and a call
  with the functions of the same pallet.
\<close>

record ('st, 'blk, 'hdr, 'tx, 'src, 'apply, 'validity, 'mode) executive_ext =
  exe_execute_block :: "'blk \<Rightarrow> 'st \<Rightarrow> 'st"
  exe_initialize_block :: "'hdr \<Rightarrow> 'st \<Rightarrow> 'mode \<times> 'st"
  exe_apply_extrinsic :: "'tx \<Rightarrow> 'st \<Rightarrow> 'apply \<times> 'st"
  exe_finalize_block :: "'st \<Rightarrow> 'hdr \<times> 'st"
  exe_validate_transaction :: "'src \<Rightarrow> 'tx \<Rightarrow> h256 \<Rightarrow> 'st \<Rightarrow> 'validity"
  exe_offchain_worker :: "'hdr \<Rightarrow> 'st \<Rightarrow> 'st"

definition api_execute_block where
  "api_execute_block ext block s = exe_execute_block ext block s"

definition api_initialize_block where
  "api_initialize_block ext header s = exe_initialize_block ext header s"

definition api_apply_extrinsic where
  "api_apply_extrinsic ext extrinsic s = exe_apply_extrinsic ext extrinsic s"

definition api_finalize_block where
  "api_finalize_block ext s = exe_finalize_block ext s"

definition api_validate_transaction where
  "api_validate_transaction ext source tx block_hash s =
     exe_validate_transaction ext source tx block_hash s"

definition api_offchain_worker where
  "api_offchain_worker ext header s = exe_offchain_worker ext header s"

record ('st, 'tx, 'call, 'info, 'details) fee_ext =
  sys_account_nonce :: "'st \<Rightarrow> account_id \<Rightarrow> u32"
  tp_query_info :: "'st \<Rightarrow> 'tx \<Rightarrow> u32 \<Rightarrow> 'info"
  tp_query_fee_details :: "'st \<Rightarrow> 'tx \<Rightarrow> u32 \<Rightarrow> 'details"
  tp_query_call_info :: "'st \<Rightarrow> 'call \<Rightarrow> u32 \<Rightarrow> 'info"
  tp_query_call_fee_details :: "'st \<Rightarrow> 'call \<Rightarrow> u32 \<Rightarrow> 'details"
  tp_weight_to_fee :: "'st \<Rightarrow> weight \<Rightarrow> u128"
  tp_length_to_fee :: "'st \<Rightarrow> u32 \<Rightarrow> u128"

definition api_account_nonce where
  "api_account_nonce ext s account = sys_account_nonce ext s account"

record ('st, 'subject, 'info, 'details) payment_api =
  pay_query_info :: "'st \<Rightarrow> 'subject \<Rightarrow> u32 \<Rightarrow> 'info"
  pay_query_fee_details :: "'st \<Rightarrow> 'subject \<Rightarrow> u32 \<Rightarrow> 'details"
  pay_query_weight_to_fee :: "'st \<Rightarrow> weight \<Rightarrow> u128"
  pay_query_length_to_fee :: "'st \<Rightarrow> u32 \<Rightarrow> u128"

definition transaction_payment_api ::
  "('st, 'tx, 'call, 'info, 'details) fee_ext \<Rightarrow> ('st, 'tx, 'info, 'details) payment_api" where
  "transaction_payment_api ext =
     \<lparr>pay_query_info = (\<lambda>s uxt len. tp_query_info ext s uxt len),
      pay_query_fee_details = (\<lambda>s uxt len. tp_query_fee_details ext s uxt len),
      pay_query_weight_to_fee = (\<lambda>s w. tp_weight_to_fee ext s w),
      pay_query_length_to_fee = (\<lambda>s len. tp_length_to_fee ext s len)\<rparr>"

definition transaction_payment_call_api ::
  "('st, 'tx, 'call, 'info, 'details) fee_ext \<Rightarrow> ('st, 'call, 'info, 'details) payment_api" where
  "transaction_payment_call_api ext =
     \<lparr>pay_query_info = (\<lambda>s call len. tp_query_call_info ext s call len),
      pay_query_fee_details = (\<lambda>s call len. tp_query_call_fee_details ext s call len),
      pay_query_weight_to_fee = (\<lambda>s w. tp_weight_to_fee ext s w),
      pay_query_length_to_fee = (\<lambda>s len. tp_length_to_fee ext s len)\<rparr>"

record ('st, 'status, 'summary, 'entity) zk_pki_ext =
  query_cert_status :: "'st \<Rightarrow> bytes \<Rightarrow> 'status option"
  query_certs_by_issuer :: "'st \<Rightarrow> account_id \<Rightarrow> 'summary list"
  query_certs_by_user :: "'st \<Rightarrow> account_id \<Rightarrow> 'summary list"
  query_certs_by_root :: "'st \<Rightarrow> account_id \<Rightarrow> 'summary list"
  query_entity_status :: "'st \<Rightarrow> account_id \<Rightarrow> 'entity option"
  query_ek_lookup :: "'st \<Rightarrow> account_id \<Rightarrow> bytes \<Rightarrow> bytes option"
  query_chain_valid_at :: "'st \<Rightarrow> bytes \<Rightarrow> u64 \<Rightarrow> bool"

record ('st, 'status, 'summary, 'entity) zk_pki_api =
  zk_cert_status :: "'st \<Rightarrow> bytes \<Rightarrow> 'status option"
  zk_certs_by_issuer :: "'st \<Rightarrow> account_id \<Rightarrow> 'summary list"
  zk_certs_by_user :: "'st \<Rightarrow> account_id \<Rightarrow> 'summary list"
  zk_certs_by_root :: "'st \<Rightarrow> account_id \<Rightarrow> 'summary list"
  zk_entity_status :: "'st \<Rightarrow> account_id \<Rightarrow> 'entity option"
  zk_ek_lookup :: "'st \<Rightarrow> account_id \<Rightarrow> bytes \<Rightarrow> bytes option"
  zk_chain_valid_at :: "'st \<Rightarrow> bytes \<Rightarrow> u64 \<Rightarrow> bool"

definition zk_pki_api ::
  "('st, 'status, 'summary, 'entity) zk_pki_ext \<Rightarrow> ('st, 'status, 'summary, 'entity) zk_pki_api"
  where
  "zk_pki_api ext =
     \<lparr>zk_cert_status = (\<lambda>s thumbprint. query_cert_status ext s thumbprint),
      zk_certs_by_issuer = (\<lambda>s issuer. query_certs_by_issuer ext s issuer),
      zk_certs_by_user = (\<lambda>s user. query_certs_by_user ext s user),
      zk_certs_by_root = (\<lambda>s root. query_certs_by_root ext s root),
      zk_entity_status = (\<lambda>s address. query_entity_status ext s address),
      zk_ek_lookup = (\<lambda>s root ek_hash. query_ek_lookup ext s root ek_hash),
      zk_chain_valid_at = (\<lambda>s thumbprint n. query_chain_valid_at ext s thumbprint n)\<rparr>"

subsection \<open>Metadata, inherents and session keys\<close>

text \<open>
  \<open>Runtime\<close> (metadata and view functions, generated), \<open>InherentData\<close> and \<open>SessionKeys\<close>.
\<close>

record ('md, 'vf, 'vr, 'inh, 'tx, 'blk, 'chk, 'keys) generated_ext =
  gen_metadata :: 'md
  gen_metadata_at_version :: "u32 \<Rightarrow> 'md option"
  gen_metadata_versions :: "u32 list"
  gen_execute_view_function :: "'vf \<Rightarrow> bytes \<Rightarrow> 'vr"
  inh_create_extrinsics :: "'inh \<Rightarrow> 'tx list"
  inh_check_extrinsics :: "'inh \<Rightarrow> 'blk \<Rightarrow> 'chk"
  keys_generate :: "bytes \<Rightarrow> bytes option \<Rightarrow> 'keys"
  keys_decode :: "bytes \<Rightarrow> (bytes \<times> bytes) list option"

definition api_metadata where
  "api_metadata ext = gen_metadata ext"

definition api_metadata_at_version where
  "api_metadata_at_version ext version = gen_metadata_at_version ext version"

definition api_metadata_versions where
  "api_metadata_versions ext = gen_metadata_versions ext"

definition api_execute_view_function where
  "api_execute_view_function ext i input = gen_execute_view_function ext i input"

definition api_inherent_extrinsics where
  "api_inherent_extrinsics ext data = inh_create_extrinsics ext data"

definition api_check_inherents where
  "api_check_inherents ext block data = inh_check_extrinsics ext data block"

definition api_generate_session_keys where
  "api_generate_session_keys ext own seed = keys_generate ext own seed"

definition api_decode_session_keys where
  "api_decode_session_keys ext encoded = keys_decode ext encoded"

text \<open>
  The opaque session keys of \<open>lib.rs\<close>: one field, bound to the Aura pallet. The macro
  \<open>impl_opaque_keys\<close> makes decoding give one raw key per field, with the key type of the field's
  pallet, which is \<open>opaque_keys_law\<close>.
\<close>

definition SessionKeys :: "(string \<times> pallet) list" where
  "SessionKeys = [(''aura'', Aura)]"

definition opaque_keys_law ::
  "('md, 'vf, 'vr, 'inh, 'tx, 'blk, 'chk, 'keys) generated_ext \<Rightarrow> (pallet \<Rightarrow> bytes) \<Rightarrow> bool" where
  "opaque_keys_law ext key_type \<longleftrightarrow>
     (\<forall>encoded ks. keys_decode ext encoded = Some ks \<longrightarrow>
        map snd ks = map (\<lambda>(field, p). key_type p) SessionKeys)"

text \<open>
  Session keys hold one Aura key and no GRANDPA key: whatever a node registers as session keys,
  the runtime decodes to a single key, of Aura's type. A GRANDPA voter (\<open>service.rs\<close> starts one
  with the node's keystore on every authority) gets no key from them.
\<close>

theorem session_keys_without_grandpa:
  assumes "opaque_keys_law ext key_type" and "key_type Grandpa \<noteq> key_type Aura"
    and "api_decode_session_keys ext encoded = Some ks"
  shows "map snd ks = [key_type Aura] \<and> key_type Grandpa \<notin> snd ` set ks"
proof -
  have "map snd ks = [key_type Aura]"
    using assms(1,3) by (auto simp: opaque_keys_law_def api_decode_session_keys_def SessionKeys_def)
  moreover from this have "snd ` set ks = {key_type Aura}" by (metis list.set(1,2) set_map)
  ultimately show ?thesis using assms(2) by simp
qed

definition sample_generated ::
  "(unit, unit, unit, unit, unit, unit, unit, unit) generated_ext" where
  "sample_generated = \<lparr>gen_metadata = (), gen_metadata_at_version = (\<lambda>v. None),
     gen_metadata_versions = [], gen_execute_view_function = (\<lambda>i d. ()),
     inh_create_extrinsics = (\<lambda>d. []), inh_check_extrinsics = (\<lambda>d b. ()),
     keys_generate = (\<lambda>own seed. ()),
     keys_decode = (\<lambda>e. if length e = 32 then Some [(e, [97, 117])] else None)\<rparr>"

theorem session_keys_without_grandpa_witness:
  "\<exists>ks. api_decode_session_keys sample_generated (replicate 32 5) = Some ks \<and>
     [103, 114] \<notin> snd ` set ks"
  using session_keys_without_grandpa [of sample_generated
      "\<lambda>p. if p = Grandpa then [103, 114] else [97, 117]" "replicate 32 5" "[(replicate 32 5, [97, 117])]"]
  by (simp add: opaque_keys_law_def sample_generated_def SessionKeys_def api_decode_session_keys_def)

definition api_version :: "'api \<Rightarrow> 'api runtime_version" where
  "api_version versions = VERSION versions"

subsection \<open>Try-runtime\<close>

text \<open>
  \<open>Executive::try_runtime_upgrade\<close> and \<open>try_execute_block\<close> are fallible; the API unwraps
  both, so their failures are panics.
\<close>

record ('st, 'checks, 'select, 'blk, 'err) try_ext =
  try_runtime_upgrade :: "'checks \<Rightarrow> 'st \<Rightarrow> 'err + weight"
  try_execute_block :: "'blk \<Rightarrow> bool \<Rightarrow> bool \<Rightarrow> 'select \<Rightarrow> 'st \<Rightarrow> 'err + weight"

definition api_on_runtime_upgrade ::
  "('st, 'checks, 'select, 'blk, 'err) try_ext \<Rightarrow> u64 \<Rightarrow> 'checks \<Rightarrow> 'st \<Rightarrow> string + weight \<times> weight"
  where
  "api_on_runtime_upgrade ext ref_time_per_second checks s =
     res_bind (res_map_err (\<lambda>_. ''unwrap on Err'') (try_runtime_upgrade ext checks s)) (\<lambda>w.
       Inr (w, RuntimeBlockWeights ref_time_per_second))"

definition api_try_execute_block ::
  "('st, 'checks, 'select, 'blk, 'err) try_ext \<Rightarrow> 'blk \<Rightarrow> bool \<Rightarrow> bool \<Rightarrow> 'select \<Rightarrow> 'st \<Rightarrow>
   string + weight" where
  "api_try_execute_block ext block state_root_check signature_check select s =
     res_map_err (\<lambda>_. ''execute-block failed'')
       (try_execute_block ext block state_root_check signature_check select s)"

end
