(* ===== verification/Runtime_Wiring.thy ===== *)
theory Runtime_Wiring
  imports Runtime_Config
begin

section \<open>What the pallets are wired to (\<open>runtime/src/configs/mod.rs\<close>)\<close>

text \<open>
  The pallets are generic: each names the hooks it needs, and its \<open>Config\<close> block binds every
  hook to a pallet of the runtime or to one of the small structs of \<open>configs/mod.rs\<close> (modelled
  in \<open>Runtime_Hooks\<close> and \<open>Aura_Author\<close>). One list per block holds these bindings, in the
  order of the source. Unit bindings have lists of their own, and so has the source of
  each pallet's weights; the numeric bounds are in \<open>Runtime_Config\<close>. Event and call types, and
  types of other crates that no second pallet shares, are left out.
\<close>

datatype hook =
    OnTimestampSet | AccountStore | Currency | Fungible | OnChargeTransaction
  | ManagerOrigin | ScheduleOrigin | ExchangeRate | PriceOracleHook | RegistrarHook
  | RegistryHook | Ss58Updater | RecordCleaner | OriginRecorder | NowProvider | BaseNodeHook
  | IsOpenHook | OfficialHook | CustodianHook | BlockAuthorHook | RegistryCheckerHook
  | NameRegistry | BlockNumberProvider | FindAuthorHook | ProxyTypeHook | RandomnessHook
  | SchedulerHook | FeeRecipientHook | WeightToFeeHook | LengthToFeeHook | FeeMultiplierHook

datatype provider =
    Pallet_provider pallet
  | EnsureRootAsAccountId | EnsureRoot
  | PnsSs58Updater | PnsRecordCleaner | PnsOriginRecorder | PnsIsOpen | PnsCustodian
  | PnsBlockAuthor | PnsRegistryChecker | AuraAccountFinder | ProxyType_provider
  | FungibleAdapter pallet | BaseNode_provider | PkiProtocolFeeRecipient_provider
  | IdentityFee | ConstFeeMultiplier nat

type_synonym wiring = "(hook \<times> provider) list"

definition timestamp_wiring :: wiring where
  "timestamp_wiring = [(OnTimestampSet, Pallet_provider Aura)]"

definition balances_wiring :: wiring where
  "balances_wiring = [(AccountStore, Pallet_provider System)]"

text \<open>\<open>Multiplier::one()\<close>, the fee multiplier that never changes.\<close>

definition FeeMultiplier :: nat where
  "FeeMultiplier = 1"

definition transaction_payment_wiring :: wiring where
  "transaction_payment_wiring =
     [(OnChargeTransaction, FungibleAdapter Balances), (WeightToFeeHook, IdentityFee),
      (LengthToFeeHook, IdentityFee), (FeeMultiplierHook, ConstFeeMultiplier FeeMultiplier)]"

definition price_oracle_wiring :: wiring where
  "price_oracle_wiring =
     [(Currency, Pallet_provider Balances), (ExchangeRate, Pallet_provider PnsPriceOracle),
      (ManagerOrigin, EnsureRootAsAccountId)]"

definition registry_wiring :: wiring where
  "registry_wiring =
     [(RegistrarHook, Pallet_provider PnsRegistrar), (ManagerOrigin, EnsureRootAsAccountId),
      (Ss58Updater, PnsSs58Updater), (RecordCleaner, PnsRecordCleaner),
      (OriginRecorder, PnsOriginRecorder)]"

definition registrar_wiring :: wiring where
  "registrar_wiring =
     [(RegistryHook, Pallet_provider PnsRegistry), (Currency, Pallet_provider Balances),
      (Fungible, Pallet_provider Balances), (NowProvider, Pallet_provider Timestamp),
      (BaseNodeHook, BaseNode_provider), (PriceOracleHook, Pallet_provider PnsPriceOracle),
      (ManagerOrigin, EnsureRootAsAccountId), (IsOpenHook, PnsIsOpen),
      (OfficialHook, Pallet_provider PnsRegistry), (Ss58Updater, PnsSs58Updater),
      (OriginRecorder, PnsOriginRecorder), (RecordCleaner, PnsRecordCleaner),
      (CustodianHook, PnsCustodian), (BlockAuthorHook, PnsBlockAuthor)]"

definition resolvers_wiring :: wiring where
  "resolvers_wiring = [(RegistryCheckerHook, PnsRegistryChecker)]"

definition marketplace_wiring :: wiring where
  "marketplace_wiring =
     [(Currency, Pallet_provider Balances), (Fungible, Pallet_provider Balances),
      (NowProvider, Pallet_provider Timestamp), (NameRegistry, Pallet_provider PnsRegistrar),
      (Ss58Updater, PnsSs58Updater), (RecordCleaner, PnsRecordCleaner),
      (OriginRecorder, PnsOriginRecorder), (BaseNodeHook, BaseNode_provider)]"

definition scheduler_wiring :: wiring where
  "scheduler_wiring =
     [(ScheduleOrigin, EnsureRoot), (BlockNumberProvider, Pallet_provider System)]"

definition authorship_wiring :: wiring where
  "authorship_wiring = [(FindAuthorHook, AuraAccountFinder)]"

definition proxy_wiring :: wiring where
  "proxy_wiring =
     [(Currency, Pallet_provider Balances), (ProxyTypeHook, ProxyType_provider),
      (BlockNumberProvider, Pallet_provider System)]"

definition pki_wiring :: wiring where
  "pki_wiring =
     [(Currency, Pallet_provider Balances), (FindAuthorHook, AuraAccountFinder),
      (FeeRecipientHook, PkiProtocolFeeRecipient_provider)]"

definition secret_squirrel_wiring :: wiring where
  "secret_squirrel_wiring =
     [(Currency, Pallet_provider Balances),
      (RandomnessHook, Pallet_provider InsecureRandomness),
      (SchedulerHook, Pallet_provider Scheduler), (FindAuthorHook, AuraAccountFinder)]"

primrec wiring_of :: "pallet \<Rightarrow> wiring" where
  "wiring_of System = []"
| "wiring_of Timestamp = timestamp_wiring"
| "wiring_of Aura = []"
| "wiring_of Grandpa = []"
| "wiring_of Balances = balances_wiring"
| "wiring_of TransactionPayment = transaction_payment_wiring"
| "wiring_of Sudo = []"
| "wiring_of Proxy = proxy_wiring"
| "wiring_of PnsNft = []"
| "wiring_of PnsPriceOracle = price_oracle_wiring"
| "wiring_of PnsRegistry = registry_wiring"
| "wiring_of PnsRegistrar = registrar_wiring"
| "wiring_of PnsResolvers = resolvers_wiring"
| "wiring_of PnsMarketplace = marketplace_wiring"
| "wiring_of Scheduler = scheduler_wiring"
| "wiring_of Authorship = authorship_wiring"
| "wiring_of InsecureRandomness = []"
| "wiring_of ZkPki = pki_wiring"
| "wiring_of SecretSquirrel = secret_squirrel_wiring"

lemmas wiring_defs = timestamp_wiring_def balances_wiring_def transaction_payment_wiring_def
  price_oracle_wiring_def registry_wiring_def registrar_wiring_def resolvers_wiring_def
  marketplace_wiring_def scheduler_wiring_def authorship_wiring_def proxy_wiring_def
  pki_wiring_def secret_squirrel_wiring_def

subsection \<open>Hooks bound to the unit type\<close>

text \<open>
  The hooks bound to \<open>()\<close>, or to \<open>Void\<close> for the key-ownership proof of GRANDPA: what they would
  handle is dropped. Weights are not among them.
\<close>

datatype dropped =
    Single_block_migrations | On_set_code | Disabled_validators | Equivocation_report_system
  | Key_owner_proof | Max_reserves | Dust_removal | Done_slash_handler | Fee_remainder
  | Class_data | Preimages | Author_event_handler

definition system_dropped :: "dropped list" where
  "system_dropped = [Single_block_migrations, On_set_code]"

definition aura_dropped :: "dropped list" where
  "aura_dropped = [Disabled_validators]"

definition grandpa_dropped :: "dropped list" where
  "grandpa_dropped = [Key_owner_proof, Equivocation_report_system]"

definition balances_dropped :: "dropped list" where
  "balances_dropped = [Max_reserves, Dust_removal, Done_slash_handler]"

definition transaction_payment_dropped :: "dropped list" where
  "transaction_payment_dropped = [Fee_remainder]"

definition nft_dropped :: "dropped list" where
  "nft_dropped = [Class_data]"

definition scheduler_dropped :: "dropped list" where
  "scheduler_dropped = [Preimages]"

definition authorship_dropped :: "dropped list" where
  "authorship_dropped = [Author_event_handler]"

lemmas dropped_defs = system_dropped_def aura_dropped_def grandpa_dropped_def
  balances_dropped_def transaction_payment_dropped_def nft_dropped_def scheduler_dropped_def
  authorship_dropped_def

fun dropped_by :: "pallet \<Rightarrow> dropped list" where
  "dropped_by System = system_dropped"
| "dropped_by Aura = aura_dropped"
| "dropped_by Grandpa = grandpa_dropped"
| "dropped_by Balances = balances_dropped"
| "dropped_by TransactionPayment = transaction_payment_dropped"
| "dropped_by PnsNft = nft_dropped"
| "dropped_by Scheduler = scheduler_dropped"
| "dropped_by Authorship = authorship_dropped"
| "dropped_by p = []"

text \<open>
  The runtime does not act on misbehaviour of a validator: equivocation reports have no system to go to
  and no ownership proof can exist, no pallet is told which validators are disabled, and no
  handler sees who authored a block, so authors are paid only by the pallets that ask
  \<open>FindAuthor\<close> themselves.
\<close>

theorem misbehaviour_unreported:
  "(Equivocation_report_system \<in> set (dropped_by p) \<longleftrightarrow> p = Grandpa) \<and>
   (Key_owner_proof \<in> set (dropped_by p) \<longleftrightarrow> p = Grandpa) \<and>
   (Author_event_handler \<in> set (dropped_by p) \<longleftrightarrow> p = Authorship) \<and>
   (FindAuthorHook \<in> fst ` set (wiring_of p) \<longleftrightarrow> p \<in> {Authorship, ZkPki, SecretSquirrel})"
  by (cases p) (simp_all add: wiring_defs dropped_defs)

subsection \<open>Where the weights of calls come from\<close>

text \<open>
  \<open>WeightInfo\<close> is bound to the benchmarked weights the pallet's crate ships, or to \<open>()\<close>, its
  placeholder. The blocks without the item (system, whose defaults are derived, and pallets
  that have none) have no entry.
\<close>

datatype weight_source = Crate_weights | Unit_weights

definition grandpa_weights :: weight_source where
  "grandpa_weights = Unit_weights"

definition timestamp_weights :: weight_source where
  "timestamp_weights = Unit_weights"

definition balances_weights :: weight_source where
  "balances_weights = Crate_weights"

definition transaction_payment_weights :: weight_source where
  "transaction_payment_weights = Crate_weights"

definition sudo_weights :: weight_source where
  "sudo_weights = Crate_weights"

definition price_oracle_weights :: weight_source where
  "price_oracle_weights = Crate_weights"

definition registry_weights :: weight_source where
  "registry_weights = Unit_weights"

definition registrar_weights :: weight_source where
  "registrar_weights = Crate_weights"

definition resolvers_weights :: weight_source where
  "resolvers_weights = Crate_weights"

definition marketplace_weights :: weight_source where
  "marketplace_weights = Crate_weights"

definition scheduler_weights :: weight_source where
  "scheduler_weights = Crate_weights"

definition proxy_weights :: weight_source where
  "proxy_weights = Unit_weights"

definition pki_weights :: weight_source where
  "pki_weights = Crate_weights"

lemmas weights_defs = grandpa_weights_def timestamp_weights_def balances_weights_def
  transaction_payment_weights_def sudo_weights_def price_oracle_weights_def
  registry_weights_def registrar_weights_def resolvers_weights_def marketplace_weights_def
  scheduler_weights_def proxy_weights_def pki_weights_def

fun weights_of :: "pallet \<Rightarrow> weight_source option" where
  "weights_of Grandpa = Some grandpa_weights"
| "weights_of Timestamp = Some timestamp_weights"
| "weights_of Balances = Some balances_weights"
| "weights_of TransactionPayment = Some transaction_payment_weights"
| "weights_of Sudo = Some sudo_weights"
| "weights_of PnsPriceOracle = Some price_oracle_weights"
| "weights_of PnsRegistry = Some registry_weights"
| "weights_of PnsRegistrar = Some registrar_weights"
| "weights_of PnsResolvers = Some resolvers_weights"
| "weights_of PnsMarketplace = Some marketplace_weights"
| "weights_of Scheduler = Some scheduler_weights"
| "weights_of Proxy = Some proxy_weights"
| "weights_of ZkPki = Some pki_weights"
| "weights_of p = None"

subsection \<open>Properties\<close>

text \<open>The bindings of the runtime, and the pallets a pallet calls through them.\<close>

definition runtime_wiring :: "(pallet \<times> hook \<times> provider) list" where
  "runtime_wiring = concat (map (\<lambda>p. map (Pair p) (wiring_of p)) runtime_pallets)"

fun provider_pallet :: "provider \<Rightarrow> pallet option" where
  "provider_pallet (Pallet_provider p) = Some p"
| "provider_pallet (FungibleAdapter p) = Some p"
| "provider_pallet x = None"

lemma runtime_wiring_mem: "(p, h, x) \<in> set runtime_wiring \<longleftrightarrow> (h, x) \<in> set (wiring_of p)"
  by (auto simp: runtime_wiring_def set_runtime_pallets)

text \<open>The one provider of each hook.\<close>

definition hook_provider :: "hook \<Rightarrow> provider option" where
  "hook_provider h = map_of (map snd runtime_wiring) h"

lemma hook_bindings:
  "list_all (\<lambda>(p, h, x). hook_provider h = Some x) runtime_wiring"
  by (simp add: hook_provider_def runtime_wiring_def runtime_pallets_def wiring_defs)

lemma hook_binding:
  assumes "(h, x) \<in> set (wiring_of p)"
  shows "hook_provider h = Some x"
proof -
  have "(p, h, x) \<in> set runtime_wiring" using assms by (simp add: runtime_wiring_mem)
  with hook_bindings show ?thesis by (auto simp: list_all_iff dest: bspec)
qed

text \<open>
  The wiring is coherent. No pallet binds a hook twice, and two pallets that need the same
  hook are given the same provider: the three pallets that credit a block author ask the same
  finder, the three PNS pallets that move a name update the same SS58, origin and content
  records, and all payments go through one currency.
\<close>

theorem wiring_coherent:
  assumes "(h, x) \<in> set (wiring_of p)" and "(h, y) \<in> set (wiring_of q)"
  shows "x = y \<and> distinct (map fst (wiring_of p))"
proof -
  have "hook_provider h = Some x" and "hook_provider h = Some y"
    by (rule hook_binding [OF assms(1)], rule hook_binding [OF assms(2)])
  moreover have "distinct (map fst (wiring_of p))"
    by (cases p) (simp_all add: wiring_defs)
  ultimately show ?thesis by simp
qed

theorem wiring_coherent_witness:
  "(FindAuthorHook, AuraAccountFinder) \<in> set (wiring_of ZkPki) \<and>
   (FindAuthorHook, AuraAccountFinder) \<in> set (wiring_of SecretSquirrel) \<and>
   distinct (map fst (wiring_of ZkPki))"
  using wiring_coherent [of FindAuthorHook AuraAccountFinder ZkPki AuraAccountFinder SecretSquirrel]
  by (simp add: wiring_defs)

end
