(* ===== verification/Benchmarks.thy ===== *)
theory Benchmarks
  imports Runtime_Wiring
begin

section \<open>The benchmark list (\<open>runtime/src/benchmarks.rs\<close>) and its API\<close>

text \<open>
  The rows of \<open>define_benchmarks!\<close>: the name a row is selected by and what it benchmarks.
  \<open>list_benchmarks!\<close> and \<open>add_benchmarks!\<close>, which the macro generates, go through the rows in
  order; what they do with one row (\<open>list_row\<close>, \<open>add_row\<close>, of \<open>frame_benchmarking\<close>) is a
  parameter, and adding a row may fail, which ends the dispatch.
\<close>

datatype bench_target = BaselineBench | SystemBench | SystemExtensionsBench | Pallet_bench pallet

type_synonym bench_row = "string \<times> bench_target"

definition define_benchmarks :: "bench_row list" where
  "define_benchmarks =
     [(''frame_benchmarking'', BaselineBench),
      (''frame_system'', SystemBench),
      (''frame_system_extensions'', SystemExtensionsBench),
      (''pallet_balances'', Pallet_bench Balances),
      (''pallet_timestamp'', Pallet_bench Timestamp),
      (''pns_registrar::price_oracle'', Pallet_bench PnsPriceOracle),
      (''pns_registrar::registry'', Pallet_bench PnsRegistry),
      (''pns_registrar::registrar'', Pallet_bench PnsRegistrar),
      (''pns_resolvers::resolvers'', Pallet_bench PnsResolvers),
      (''pns_marketplace'', Pallet_bench PnsMarketplace),
      (''zk_pki_pallet'', Pallet_bench ZkPki)]"

definition benchmark_metadata ::
  "(bool \<Rightarrow> bench_row \<Rightarrow> 'entry list) \<Rightarrow> 'info list \<Rightarrow> bool \<Rightarrow> 'entry list \<times> 'info list" where
  "benchmark_metadata list_row storage_info extra =
     (concat (map (list_row extra) define_benchmarks), storage_info)"

primrec add_benchmarks ::
  "('batch list \<Rightarrow> bench_row \<Rightarrow> string + 'batch list) \<Rightarrow> bench_row list \<Rightarrow> 'batch list \<Rightarrow>
   string + 'batch list" where
  "add_benchmarks add_row [] batches = Inr batches"
| "add_benchmarks add_row (row # rows) batches =
     res_bind (add_row batches row) (\<lambda>batches. add_benchmarks add_row rows batches)"

definition dispatch_benchmark ::
  "('cfg \<Rightarrow> 'key list \<Rightarrow> 'batch list \<Rightarrow> bench_row \<Rightarrow> string + 'batch list) \<Rightarrow> 'key list \<Rightarrow>
   'cfg \<Rightarrow> string + 'batch list" where
  "dispatch_benchmark add_row whitelist config =
     add_benchmarks (add_row config whitelist) define_benchmarks []"

lemma add_benchmarks_append:
  "add_benchmarks f (xs @ ys) bs = res_bind (add_benchmarks f xs bs) (add_benchmarks f ys)"
proof (induction xs arbitrary: bs)
  case (Cons x xs)
  then show ?case by (cases "f bs x") simp_all
qed simp

text \<open>
  A dispatch runs the one selected row. If adding a row leaves the batches alone unless the
  row's name is the configured one, the outcome is that of the selected row, and no batches
  when the name is not listed.
\<close>

lemma add_benchmarks_skip:
  "(\<And>bs row. fst row \<noteq> name \<Longrightarrow> f bs row = Inr bs) \<Longrightarrow> name \<notin> fst ` set rows \<Longrightarrow>
     add_benchmarks f rows bs = Inr bs"
  by (induction rows) auto

lemma add_benchmarks_select:
  assumes skip: "\<And>bs row. fst row \<noteq> name \<Longrightarrow> f bs row = Inr bs"
    and "distinct (map fst rows)" and "(name, target) \<in> set rows"
  shows "add_benchmarks f rows bs = f bs (name, target)"
proof -
  obtain pre post where rows: "rows = pre @ (name, target) # post"
    using assms(3) by (auto simp: in_set_conv_decomp)
  then have "name \<notin> fst ` set pre" and "name \<notin> fst ` set post"
    using assms(2) by auto
  then have "add_benchmarks f pre bs = Inr bs" and "\<And>bs. add_benchmarks f post bs = Inr bs"
    by (auto intro!: add_benchmarks_skip [of name] skip)
  then show ?thesis
    by (cases "f bs (name, target)") (simp_all add: rows add_benchmarks_append)
qed

lemma benchmark_names_distinct: "distinct (map fst define_benchmarks)"
  by (simp add: define_benchmarks_def)

text \<open>
  Dispatching by name. With rows that only act when selected, a benchmark dispatch for a
  listed name is that row's own outcome, error included, and for any other name it succeeds
  with no batches; so every name stands for one row and no row runs by accident.
\<close>

theorem dispatch_selects_row:
  assumes "\<And>bs row. fst row \<noteq> pallet_of config \<Longrightarrow> add_row config whitelist bs row = Inr bs"
  shows "dispatch_benchmark add_row whitelist config =
    (case map_of define_benchmarks (pallet_of config) of
       None \<Rightarrow> Inr []
     | Some target \<Rightarrow> add_row config whitelist [] (pallet_of config, target))"
proof (cases "map_of define_benchmarks (pallet_of config)")
  case None
  then have "pallet_of config \<notin> fst ` set define_benchmarks" by (simp add: map_of_eq_None_iff)
  with None assms show ?thesis
    unfolding dispatch_benchmark_def by (auto intro!: add_benchmarks_skip)
next
  case (Some target)
  then have "(pallet_of config, target) \<in> set define_benchmarks" by (rule map_of_SomeD)
  with Some show ?thesis
    unfolding dispatch_benchmark_def
    by (auto intro!: add_benchmarks_select assms benchmark_names_distinct)
qed

definition sample_add_row ::
  "string \<Rightarrow> unit list \<Rightarrow> string list \<Rightarrow> bench_row \<Rightarrow> string + string list" where
  "sample_add_row name whitelist bs row =
     (if fst row = name then Inr (bs @ [name]) else Inr bs)"

theorem dispatch_selects_row_witness:
  "dispatch_benchmark sample_add_row [] ''pns_marketplace'' = Inr [''pns_marketplace'']"
  by (subst dispatch_selects_row [where pallet_of = "\<lambda>n. n"])
    (simp_all add: sample_add_row_def define_benchmarks_def)

text \<open>
  Benchmarks and weights. Of the pallets with a benchmark, exactly the timestamp pallet and the
  PNS registry still take placeholder weights; every PNS and ZK-PKI pallet that takes weights
  of its crate is benchmarked, so they can be replaced by measured ones.
\<close>

theorem benchmarked_weights:
  "(Pallet_bench p \<in> snd ` set define_benchmarks \<and> weights_of p = Some Unit_weights \<longleftrightarrow>
      p \<in> {Timestamp, PnsRegistry}) \<and>
   (p \<in> {PnsPriceOracle, PnsRegistrar, PnsResolvers, PnsMarketplace, ZkPki} \<longleftrightarrow>
      Pallet_bench p \<in> snd ` set define_benchmarks \<and> weights_of p = Some Crate_weights \<and>
      p \<noteq> Balances)"
  by (cases p) (simp_all add: define_benchmarks_def weights_defs)

end
