(* ===== verification/Genesis.thy ===== *)
theory Genesis
  imports Runtime_Config
begin

section \<open>Genesis presets (\<open>runtime/src/genesis_config_presets.rs\<close>)\<close>

text \<open>
  The genesis patch of the two presets, the seed-derived authority keys with their panicking
  unwraps, and the preset lookup. A computation that may panic is \<open>string + 'a\<close>, with \<open>Inl\<close>
  for the panic. The development keyring, key derivation, the JSON printer and the preset ids
  are code of other crates: the fields of \<open>genesis_ext\<close>. The registrar's \<open>infos\<close> and
  \<open>reserved_list\<close>, left at their defaults by the source, are left out; \<open>origin\<close> is an empty
  vector whose element type the source does not show.
\<close>

record ('aura, 'gran, 'rec) genesis_config =
  gc_balances :: "(account_id \<times> u128) list"
  gc_aura_authorities :: "'aura list"
  gc_grandpa_authorities :: "('gran \<times> u64) list"
  gc_sudo_key :: "account_id option"
  gc_nft_tokens :: "(account_id \<times> bytes \<times> unit \<times> (account_id \<times> bytes \<times> 'rec \<times> domain_hash) list) list"
  gc_base_prices :: "u128 list"
  gc_rent_prices :: "u128 list"
  gc_init_rate :: u128
  gc_official :: "account_id option"
  gc_origin :: "bytes list"
  gc_reserved_names :: "string list"

record ('k, 'aura, 'gran, 'rec, 'err) genesis_ext =
  kr_Alice :: 'k
  kr_Bob :: 'k
  kr_AliceStash :: 'k
  kr_BobStash :: 'k
  kr_One :: 'k
  kr_Two :: 'k
  kr_iter :: "'k list"
  kr_to_account_id :: "'k \<Rightarrow> account_id"
  sr25519_public_from_string :: "string \<Rightarrow> 'aura option"
  ed25519_public_from_string :: "string \<Rightarrow> 'gran option"
  record_default :: 'rec
  native_basenode :: domain_hash
  DEV_RUNTIME_PRESET :: string
  LOCAL_TESTNET_RUNTIME_PRESET :: string
  to_json :: "('aura, 'gran, 'rec) genesis_config \<Rightarrow> 'err + bytes"

text \<open>The file has its own \<open>UNIT\<close>.\<close>

definition preset_UNIT :: u128 where
  "preset_UNIT = 1000000000000"

definition testnet_genesis ::
  "('k, 'aura, 'gran, 'rec, 'err) genesis_ext \<Rightarrow> ('aura \<times> 'gran) list \<Rightarrow> account_id list \<Rightarrow>
   account_id \<Rightarrow> ('aura, 'gran, 'rec) genesis_config" where
  "testnet_genesis ext initial_authorities endowed_accounts root =
     \<lparr>gc_balances = map (\<lambda>k. (k, push_bit 60 1)) endowed_accounts,
      gc_aura_authorities = map fst initial_authorities,
      gc_grandpa_authorities = map (\<lambda>x. (snd x, 1)) initial_authorities,
      gc_sudo_key = Some root,
      gc_nft_tokens =
        [(root, [], (), [(root, [], record_default ext, native_basenode ext)])],
      gc_base_prices =
        [1000 * preset_UNIT, 100 * preset_UNIT, 45 * preset_UNIT, 25 * preset_UNIT,
         10 * preset_UNIT, preset_UNIT div 2, preset_UNIT div 2, preset_UNIT div 2,
         preset_UNIT div 2, preset_UNIT div 2, preset_UNIT div 2],
      gc_rent_prices = [0, 0, 0, 0, 0, 0, 0, 0, 0, 0, 0],
      gc_init_rate = 1,
      gc_official = Some root,
      gc_origin = [],
      gc_reserved_names =
        [''polkadot'', ''kusama'', ''paseo'', ''westend'', ''fellowship'', ''hub'',
         ''polkadothub'', ''assethub'', ''collectives'', ''pusd'', ''pop'', ''revive'',
         ''jam'', ''people'', ''dap'']\<rparr>"

definition authority_keys_from_seed ::
  "('k, 'aura, 'gran, 'rec, 'err) genesis_ext \<Rightarrow> string \<Rightarrow> string + 'aura \<times> 'gran" where
  "authority_keys_from_seed ext s =
     res_bind (ok_or (sr25519_public_from_string ext (''//'' @ s)) ''unwrap on Err'')
       (\<lambda>a. res_bind (ok_or (ed25519_public_from_string ext (''//'' @ s)) ''unwrap on Err'')
         (\<lambda>g. Inr (a, g)))"

definition development_config_genesis ::
  "('k, 'aura, 'gran, 'rec, 'err) genesis_ext \<Rightarrow> string + ('aura, 'gran, 'rec) genesis_config" where
  "development_config_genesis ext =
     res_bind (authority_keys_from_seed ext ''Alice'') (\<lambda>alice.
       Inr (testnet_genesis ext [alice]
         [kr_to_account_id ext (kr_Alice ext), kr_to_account_id ext (kr_Bob ext),
          kr_to_account_id ext (kr_AliceStash ext), kr_to_account_id ext (kr_BobStash ext)]
         (kr_to_account_id ext (kr_Alice ext))))"

definition local_config_genesis ::
  "('k, 'aura, 'gran, 'rec, 'err) genesis_ext \<Rightarrow> string + ('aura, 'gran, 'rec) genesis_config" where
  "local_config_genesis ext =
     res_bind (authority_keys_from_seed ext ''Alice'') (\<lambda>alice.
     res_bind (authority_keys_from_seed ext ''Bob'') (\<lambda>bob.
       Inr (testnet_genesis ext [alice, bob]
         (map (kr_to_account_id ext)
            (filter (\<lambda>v. v \<noteq> kr_One ext \<and> v \<noteq> kr_Two ext) (kr_iter ext)))
         (kr_to_account_id ext (kr_Alice ext)))))"

definition serialize_preset ::
  "('k, 'aura, 'gran, 'rec, 'err) genesis_ext \<Rightarrow> ('aura, 'gran, 'rec) genesis_config \<Rightarrow>
   string + bytes option" where
  "serialize_preset ext patch =
     res_map_err (\<lambda>_. ''serialization to json is expected to work. qed.'')
       (res_map Some (to_json ext patch))"

definition get_preset ::
  "('k, 'aura, 'gran, 'rec, 'err) genesis_ext \<Rightarrow> string \<Rightarrow> string + bytes option" where
  "get_preset ext i =
     (if i = DEV_RUNTIME_PRESET ext
      then res_bind (development_config_genesis ext) (serialize_preset ext)
      else if i = LOCAL_TESTNET_RUNTIME_PRESET ext
      then res_bind (local_config_genesis ext) (serialize_preset ext)
      else Inr None)"

definition preset_names :: "('k, 'aura, 'gran, 'rec, 'err) genesis_ext \<Rightarrow> string list" where
  "preset_names ext = [DEV_RUNTIME_PRESET ext, LOCAL_TESTNET_RUNTIME_PRESET ext]"

subsection \<open>The contract between \<open>preset_names\<close> and \<open>get_preset\<close>\<close>

text \<open>
  The genesis builder API and the chain specs of the node name presets by id: an id is
  listed exactly when the lookup does not answer \<open>None\<close>.
\<close>

locale genesis_presets =
  fixes names :: "'id list"
    and preset :: "'id \<Rightarrow> 'panic + 'blob option"
  assumes unlisted_None: "i \<notin> set names \<Longrightarrow> preset i = Inr None"
    and listed_not_None: "i \<in> set names \<Longrightarrow> preset i \<noteq> Inr None"
begin

lemma preset_None_iff: "preset i = Inr None \<longleftrightarrow> i \<notin> set names"
  using unlisted_None listed_not_None by blast

lemma listed_outcome: "i \<in> set names \<Longrightarrow> (\<exists>p. preset i = Inl p) \<or> (\<exists>b. preset i = Inr (Some b))"
  using listed_not_None [of i] by (cases "preset i") auto

end

lemma serialize_not_None: "serialize_preset ext g \<noteq> Inr None"
  by (auto simp: serialize_preset_def result_simps)

interpretation runtime_presets: genesis_presets "preset_names ext" "get_preset ext" for ext
  by unfold_locales
    (auto simp: preset_names_def get_preset_def result_simps serialize_not_None)

subsection \<open>The genesis builder API (\<open>runtime/src/apis.rs\<close>)\<close>

text \<open>
  \<open>GenesisBuilder\<close>: \<open>build_state\<close> and the helper behind \<open>get_preset\<close> are functions of
  \<open>frame_support\<close>, the parameters \<open>build\<close> and \<open>helper\<close>. The helper serves the default
  configuration for no id and asks the given function for an id (\<open>preset_helper_law\<close>).
\<close>

definition api_build_state :: "(bytes \<Rightarrow> 'st \<Rightarrow> 'r \<times> 'st) \<Rightarrow> bytes \<Rightarrow> 'st \<Rightarrow> 'r \<times> 'st" where
  "api_build_state build config s = build config s"

definition api_get_preset ::
  "(string option \<Rightarrow> (string \<Rightarrow> string + bytes option) \<Rightarrow> string + bytes option) \<Rightarrow>
   ('k, 'aura, 'gran, 'rec, 'err) genesis_ext \<Rightarrow> string option \<Rightarrow> string + bytes option" where
  "api_get_preset helper ext i = helper i (get_preset ext)"

definition api_preset_names :: "('k, 'aura, 'gran, 'rec, 'err) genesis_ext \<Rightarrow> string list" where
  "api_preset_names ext = preset_names ext"

definition preset_helper_law ::
  "bytes \<Rightarrow>
   (string option \<Rightarrow> (string \<Rightarrow> string + bytes option) \<Rightarrow> string + bytes option) \<Rightarrow> bool" where
  "preset_helper_law default_config helper \<longleftrightarrow>
     (\<forall>i f. helper i f = (case i of None \<Rightarrow> Inr (Some default_config) | Some n \<Rightarrow> f n))"

lemma api_get_preset_None:
  "preset_helper_law d helper \<Longrightarrow>
     api_get_preset helper ext i = Inr None \<longleftrightarrow>
     (\<exists>n. i = Some n \<and> n \<notin> set (api_preset_names ext))"
  by (cases i)
    (simp_all add: preset_helper_law_def api_get_preset_def api_preset_names_def
      runtime_presets.preset_None_iff)

subsection \<open>Well-formed genesis\<close>

text \<open>
  What the pallets' genesis builds need of a patch: balances listed once, each at least the
  existential deposit, with a total that fits \<open>u128\<close>; a nonempty authority set within the
  pallets' bounds, the same size for Aura and GRANDPA; a sudo key that is funded, is the PNS
  official and owns the base node; NFT metadata within the bounds of the NFT pallet; eleven
  price tiers.
\<close>

definition wf_genesis :: "('aura, 'gran, 'rec) genesis_config \<Rightarrow> bool" where
  "wf_genesis g \<longleftrightarrow>
     distinct (map fst (gc_balances g)) \<and>
     list_all (\<lambda>(_, b). EXISTENTIAL_DEPOSIT \<le> b) (gc_balances g) \<and>
     sum_list (map (\<lambda>(_, b). unat b) (gc_balances g)) < 2 ^ 128 \<and>
     gc_aura_authorities g \<noteq> [] \<and>
     length (gc_aura_authorities g) \<le> unat (aura_max_authorities consensus_config) \<and>
     length (gc_grandpa_authorities g) \<le> unat (grandpa_max_authorities consensus_config) \<and>
     length (gc_aura_authorities g) = length (gc_grandpa_authorities g) \<and>
     (\<exists>root. gc_sudo_key g = Some root \<and> gc_official g = Some root \<and>
        root \<in> fst ` set (gc_balances g) \<and>
        (\<exists>(own, _, _, tokens) \<in> set (gc_nft_tokens g). own = root \<and> fst ` set tokens = {root})) \<and>
     list_all (\<lambda>(_, class_meta, _, tokens).
        length class_meta \<le> unat (nft_max_class_metadata nft_config) \<and>
        list_all (\<lambda>(_, token_meta, _, _).
          length token_meta \<le> unat (nft_max_token_metadata nft_config)) tokens)
       (gc_nft_tokens g) \<and>
     length (gc_base_prices g) = 11 \<and> length (gc_rent_prices g) = 11"

lemma wf_testnet_genesis:
  assumes "distinct endowed" and "root \<in> set endowed" and "auths \<noteq> []"
    and "length auths \<le> 32" and "length endowed < 2 ^ 68"
  shows "wf_genesis (testnet_genesis ext auths endowed root)"
proof -
  have fst_map: "map fst (map (\<lambda>k. (k, b)) endowed) = endowed" for b :: u128
    by (simp add: comp_def)
  have total: "sum_list (map (\<lambda>(_, b). unat b) (map (\<lambda>k. (k, push_bit 60 (1::u128))) endowed))
     = length endowed * 2 ^ 60"
    by (simp add: comp_def sum_list_triv)
  have "length endowed * 2 ^ 60 < 2 ^ 68 * (2 ^ 60 :: nat)"
    using assms(5) by (simp only: mult_less_mono1 zero_less_power zero_less_numeral)
  then have bound: "length endowed * 2 ^ 60 < (2 ^ 128 :: nat)" by (simp flip: power_add)
  show ?thesis
    using assms bound total fst_map
    by (auto simp: wf_genesis_def testnet_genesis_def consensus_config_def comp_def
        list_all_iff config_simps image_image)
qed

subsection \<open>Properties\<close>

text \<open>
  C35: The development preset. When the key derivation works and the four development
  accounts are different, the patch exists, is well formed, has Alice as its one authority
  and endows exactly the four accounts.
\<close>

theorem development_genesis_wf:
  assumes "sr25519_public_from_string ext ''//Alice'' = Some a"
    and "ed25519_public_from_string ext ''//Alice'' = Some g"
    and "distinct (map (kr_to_account_id ext) [kr_Alice ext, kr_Bob ext, kr_AliceStash ext, kr_BobStash ext])"
  shows "\<exists>gen. development_config_genesis ext = Inr gen \<and> wf_genesis gen \<and>
    gc_aura_authorities gen = [a] \<and> gc_grandpa_authorities gen = [(g, 1)] \<and>
    map fst (gc_balances gen) =
      map (kr_to_account_id ext) [kr_Alice ext, kr_Bob ext, kr_AliceStash ext, kr_BobStash ext]"
proof -
  let ?accs = "map (kr_to_account_id ext) [kr_Alice ext, kr_Bob ext, kr_AliceStash ext, kr_BobStash ext]"
  let ?gen = "testnet_genesis ext [(a, g)] ?accs (kr_to_account_id ext (kr_Alice ext))"
  have "development_config_genesis ext = Inr ?gen"
    by (simp add: development_config_genesis_def authority_keys_from_seed_def assms(1,2))
  moreover have "wf_genesis ?gen" by (rule wf_testnet_genesis) (use assms(3) in simp_all)
  ultimately show ?thesis by (simp add: testnet_genesis_def)
qed

text \<open>A keyring of bytes: Alice 1, Bob 2, their stashes 3 and 4, One 5, Two 6.\<close>

definition sample_keyring :: "(u8, string, string, unit, unit) genesis_ext" where
  "sample_keyring =
     \<lparr>kr_Alice = 1, kr_Bob = 2, kr_AliceStash = 3, kr_BobStash = 4, kr_One = 5, kr_Two = 6,
      kr_iter = [1, 2, 3, 4, 5, 6], kr_to_account_id = (\<lambda>k. replicate 32 k),
      sr25519_public_from_string = Some, ed25519_public_from_string = Some,
      record_default = (), native_basenode = replicate 32 0,
      DEV_RUNTIME_PRESET = ''development'', LOCAL_TESTNET_RUNTIME_PRESET = ''local_testnet'',
      to_json = (\<lambda>g. Inr [])\<rparr>"

theorem development_genesis_wf_witness:
  "\<exists>gen. development_config_genesis sample_keyring = Inr gen \<and> wf_genesis gen \<and>
     gc_aura_authorities gen = [''//Alice'']"
  using development_genesis_wf [of sample_keyring "''//Alice''" "''//Alice''"]
  by (auto simp: sample_keyring_def replicate_eq_replicate)

text \<open>
  C30: the local testnet preset. When the key derivation works and the keyring lists Alice and
  has different accounts for its different keys, the patch exists, is well formed, has Alice
  and Bob as its authorities, and endows every listed key but the derived \<open>One\<close> and \<open>Two\<close>.
\<close>

theorem local_genesis_wf:
  assumes "sr25519_public_from_string ext ''//Alice'' = Some a1"
    and "ed25519_public_from_string ext ''//Alice'' = Some g1"
    and "sr25519_public_from_string ext ''//Bob'' = Some a2"
    and "ed25519_public_from_string ext ''//Bob'' = Some g2"
    and "distinct (kr_iter ext)" and "inj_on (kr_to_account_id ext) (set (kr_iter ext))"
    and "kr_Alice ext \<in> set (kr_iter ext) - {kr_One ext, kr_Two ext}"
    and "length (kr_iter ext) < 2 ^ 68"
  shows "\<exists>gen. local_config_genesis ext = Inr gen \<and> wf_genesis gen \<and>
    gc_aura_authorities gen = [a1, a2] \<and> gc_grandpa_authorities gen = [(g1, 1), (g2, 1)] \<and>
    fst ` set (gc_balances gen) =
      kr_to_account_id ext ` (set (kr_iter ext) - {kr_One ext, kr_Two ext})"
proof -
  let ?ks = "filter (\<lambda>v. v \<noteq> kr_One ext \<and> v \<noteq> kr_Two ext) (kr_iter ext)"
  let ?gen = "testnet_genesis ext [(a1, g1), (a2, g2)] (map (kr_to_account_id ext) ?ks)
    (kr_to_account_id ext (kr_Alice ext))"
  have gen: "local_config_genesis ext = Inr ?gen"
    by (simp add: local_config_genesis_def authority_keys_from_seed_def assms(1-4))
  have "wf_genesis ?gen"
  proof (rule wf_testnet_genesis)
    have "inj_on (kr_to_account_id ext) (set ?ks)"
      using assms(6) by (rule inj_on_subset) auto
    then show "distinct (map (kr_to_account_id ext) ?ks)"
      using assms(5) by (simp add: distinct_map)
    have "length ?ks < 2 ^ 68" using length_filter_le assms(8) by (rule order_le_less_trans)
    then show "length (map (kr_to_account_id ext) ?ks) < 2 ^ 68" by simp
  qed (use assms(7) in auto)
  with gen show ?thesis
    by (auto simp: testnet_genesis_def image_image)
qed

theorem local_genesis_wf_witness:
  "\<exists>gen. local_config_genesis sample_keyring = Inr gen \<and> wf_genesis gen \<and>
     fst ` set (gc_balances gen) = {replicate 32 1, replicate 32 2, replicate 32 3, replicate 32 4}"
proof -
  have "{1, 2, 3, 4, 5, 6} - {5, 6} = {1, 2, 3, 4 :: u8}" by auto
  then show ?thesis
    using local_genesis_wf [of sample_keyring "''//Alice''" "''//Alice''" "''//Bob''" "''//Bob''"]
    by (auto simp: sample_keyring_def inj_on_def replicate_eq_replicate)
qed

text \<open>
  The runtime answers \<open>None\<close> for exactly the ids that \<open>preset_names\<close> does not list; for a
  listed id it either serves the preset or panics, never "unknown preset".
\<close>

theorem get_preset_listed:
  "(get_preset ext i = Inr None \<longleftrightarrow> i \<notin> set (preset_names ext)) \<and>
   (if i \<in> set (preset_names ext)
    then (\<exists>p. get_preset ext i = Inl p) \<or> (\<exists>b. get_preset ext i = Inr (Some b)) else True)"
  using runtime_presets.preset_None_iff [of ext i] runtime_presets.listed_outcome [of i ext] by simp

text \<open>
  The price tables: one price per label length up to eleven, longer labels never cost
  more, no name is free to register and every rent is free, and the reserved names are
  fifteen different ones.
\<close>

theorem genesis_prices:
  "length (gc_base_prices (testnet_genesis ext auths endowed root)) = 11 \<and>
   length (gc_rent_prices (testnet_genesis ext auths endowed root)) = 11 \<and>
   sorted_wrt (\<ge>) (gc_base_prices (testnet_genesis ext auths endowed root)) \<and>
   list_all (\<lambda>p. EXISTENTIAL_DEPOSIT \<le> p) (gc_base_prices (testnet_genesis ext auths endowed root)) \<and>
   list_all (\<lambda>p. p = 0) (gc_rent_prices (testnet_genesis ext auths endowed root)) \<and>
   distinct (gc_reserved_names (testnet_genesis ext auths endowed root)) \<and>
   length (gc_reserved_names (testnet_genesis ext auths endowed root)) = 15"
proof -
  have half: "preset_UNIT div 2 = 500000000000" and unit: "preset_UNIT = 1000000000000"
    by (simp_all add: preset_UNIT_def)
  show ?thesis
    by (simp add: testnet_genesis_def half unit config_simps)
qed

end
