(* ===== verification/Service.thy ===== *)
theory Service
  imports Prelude
begin

section \<open>Assembling the node (\<open>node/src/service.rs\<close>)\<close>

text \<open>
  \<open>new_partial\<close> and \<open>new_full\<close> call the SDK in a fixed order, stop at the first call that
  fails (\<open>?\<close>) and spawn tasks on the way. The model runs them against an environment that
  says which call fails, and keeps the log of what was done: calls of the SDK with the
  arguments that depend on the configuration or on constants of the file, and tasks spawned.
  The handles the calls return (client, backend, pool, ...) carry no logic of this file and
  are not modelled; a call that is not fallible in the source is logged without a failure.
\<close>

subsection \<open>Configuration and events\<close>

definition GRANDPA_JUSTIFICATION_PERIOD :: u32 where
  "GRANDPA_JUSTIFICATION_PERIOD = 512"

record node_config =
  cfg_telemetry_endpoints :: "string list option"
  cfg_is_authority :: bool
  cfg_offchain_worker_enabled :: bool
  cfg_force_authoring :: bool
  cfg_disable_grandpa :: bool
  cfg_node_name :: string

datatype task_class = Ordinary | Essential | Essential_blocking

record task =
  task_name :: string
  task_group :: "string option"
  task_class :: task_class

record grandpa_params =
  gp_gossip_millis :: nat
  gp_justification_period :: u32
  gp_name :: string
  gp_observer_enabled :: bool
  gp_keystore :: bool
  gp_role_is_authority :: bool

datatype sdk_call =
    Telemetry_worker_new nat
  | New_full_parts
  | Grandpa_block_import u32
  | Aura_import_queue
  | Genesis_block_hash
  | Build_network
  | Offchain_workers_new bool
  | Rpc_and_spawn_tasks
  | Aura_slot_duration
  | Start_aura bool "nat \<times> nat"
  | Run_grandpa_voter grandpa_params

text \<open>Fallible calls, the infallible building of the pool, and spawned tasks.\<close>

datatype event = Call sdk_call | Build_transaction_pool bool | Spawn task

datatype 'err service_error = Service_error 'err | Panicked string

text \<open>A program appends to a log of events and may stop with an error.\<close>

type_synonym ('ev, 'err, 'a) prog = "'ev list \<Rightarrow> ('err service_error + 'a) \<times> 'ev list"

type_synonym ('err, 'a) svc = "(event, 'err, 'a) prog"

subsection \<open>Running in order, stopping at the first failure\<close>

definition svc_return :: "'a \<Rightarrow> ('ev, 'err, 'a) prog" where
  "svc_return a log = (Inr a, log)"

definition svc_bind ::
  "('ev, 'err, 'a) prog \<Rightarrow> ('a \<Rightarrow> ('ev, 'err, 'b) prog) \<Rightarrow> ('ev, 'err, 'b) prog" where
  "svc_bind m f log =
     (case m log of (Inl e, log') \<Rightarrow> (Inl e, log') | (Inr a, log') \<Rightarrow> f a log')"

definition svc_seq :: "('ev, 'err, unit) prog list \<Rightarrow> ('ev, 'err, unit) prog" where
  "svc_seq ms = foldr (\<lambda>m k. svc_bind m (\<lambda>_. k)) ms (svc_return ())"

definition svc_when :: "bool \<Rightarrow> ('ev, 'err, unit) prog \<Rightarrow> ('ev, 'err, unit) prog" where
  "svc_when b m = (if b then m else svc_return ())"

text \<open>A fallible call, logged whether or not it fails; \<open>expect\<close> panics with its message.\<close>

definition svc_call :: "(sdk_call \<Rightarrow> 'err option) \<Rightarrow> sdk_call \<Rightarrow> ('err, unit) svc" where
  "svc_call env c log =
     (case env c of None \<Rightarrow> (Inr (), log @ [Call c])
                  | Some e \<Rightarrow> (Inl (Service_error e), log @ [Call c]))"

definition svc_expect :: "(sdk_call \<Rightarrow> 'err option) \<Rightarrow> sdk_call \<Rightarrow> string \<Rightarrow> ('err, unit) svc" where
  "svc_expect env c msg log =
     (case env c of None \<Rightarrow> (Inr (), log @ [Call c])
                  | Some e \<Rightarrow> (Inl (Panicked msg), log @ [Call c]))"

definition svc_build_pool :: "bool \<Rightarrow> ('err, unit) svc" where
  "svc_build_pool is_authority log = (Inr (), log @ [Build_transaction_pool is_authority])"

definition svc_spawn :: "task \<Rightarrow> ('err, unit) svc" where
  "svc_spawn t log = (Inr (), log @ [Spawn t])"

subsection \<open>\<open>new_partial\<close> and \<open>new_full\<close>\<close>

definition telemetry_wanted :: "node_config \<Rightarrow> bool" where
  "telemetry_wanted config =
     (case cfg_telemetry_endpoints config of None \<Rightarrow> False | Some x \<Rightarrow> x \<noteq> [])"

definition telemetry_task :: task where
  "telemetry_task = \<lparr>task_name = ''telemetry'', task_group = None, task_class = Ordinary\<rparr>"

definition offchain_task :: task where
  "offchain_task = \<lparr>task_name = ''offchain-workers-runner'',
     task_group = Some ''offchain-worker'', task_class = Ordinary\<rparr>"

definition aura_task :: task where
  "aura_task = \<lparr>task_name = ''aura'', task_group = Some ''block-authoring'',
     task_class = Essential_blocking\<rparr>"

definition grandpa_task :: task where
  "grandpa_task = \<lparr>task_name = ''grandpa-voter'', task_group = None,
     task_class = Essential_blocking\<rparr>"

definition new_partial :: "(sdk_call \<Rightarrow> 'err option) \<Rightarrow> node_config \<Rightarrow> ('err, unit) svc" where
  "new_partial env config =
     (let telemetry = telemetry_wanted config
      in svc_seq
          [svc_when telemetry (svc_call env (Telemetry_worker_new 16)),
           svc_call env New_full_parts,
           svc_when telemetry (svc_spawn telemetry_task),
           svc_build_pool (cfg_is_authority config),
           svc_call env (Grandpa_block_import GRANDPA_JUSTIFICATION_PERIOD),
           svc_call env Aura_import_queue])"

definition grandpa_params_of :: "node_config \<Rightarrow> grandpa_params" where
  "grandpa_params_of config =
     (let role = cfg_is_authority config; keystore = (if role then True else False)
      in \<lparr>gp_gossip_millis = 333, gp_justification_period = GRANDPA_JUSTIFICATION_PERIOD,
          gp_name = cfg_node_name config, gp_observer_enabled = False,
          gp_keystore = keystore, gp_role_is_authority = role\<rparr>)"

definition start_authoring :: "(sdk_call \<Rightarrow> 'err option) \<Rightarrow> node_config \<Rightarrow> ('err, unit) svc" where
  "start_authoring env config =
     svc_seq
       [svc_call env Aura_slot_duration,
        svc_call env (Start_aura (cfg_force_authoring config) (2, 3)),
        svc_spawn aura_task]"

definition start_grandpa :: "(sdk_call \<Rightarrow> 'err option) \<Rightarrow> node_config \<Rightarrow> ('err, unit) svc" where
  "start_grandpa env config =
     svc_seq
       [svc_call env (Run_grandpa_voter (grandpa_params_of config)),
        svc_spawn grandpa_task]"

definition new_full :: "(sdk_call \<Rightarrow> 'err option) \<Rightarrow> node_config \<Rightarrow> ('err, unit) svc" where
  "new_full env config =
     svc_seq
       [new_partial env config,
        svc_expect env Genesis_block_hash ''Genesis block exists; qed'',
        svc_call env Build_network,
        svc_when (cfg_offchain_worker_enabled config)
          (svc_seq [svc_call env (Offchain_workers_new (cfg_is_authority config)),
                    svc_spawn offchain_task]),
        svc_call env Rpc_and_spawn_tasks,
        svc_when (cfg_is_authority config) (start_authoring env config),
        svc_when (\<not> cfg_disable_grandpa config) (start_grandpa env config)]"

subsection \<open>Stopping at the first failure\<close>

text \<open>
  The error a failing call ends the start-up with: the genesis hash is unwrapped by \<open>expect\<close>,
  every other error is passed on.
\<close>

definition error_of :: "sdk_call \<Rightarrow> 'err \<Rightarrow> 'err service_error" where
  "error_of c d = (if c = Genesis_block_hash then Panicked ''Genesis block exists; qed''
     else Service_error d)"

text \<open>
  \<open>runs_ok env es\<close>: no call of \<open>es\<close> fails. \<open>fail_stop\<close>: a run only appends to the log; when
  it succeeds none of the appended calls fails, and when it fails the last appended event is
  the failing call and none before it fails.
\<close>

definition runs_ok :: "(sdk_call \<Rightarrow> 'err option) \<Rightarrow> event list \<Rightarrow> bool" where
  "runs_ok env es \<longleftrightarrow>
     (\<forall>c. Call c \<in> set es \<longrightarrow> env c = None)"

definition fail_stop :: "(sdk_call \<Rightarrow> 'err option) \<Rightarrow> ('err, 'a) svc \<Rightarrow> bool" where
  "fail_stop env m \<longleftrightarrow>
     (\<forall>log. \<exists>new. snd (m log) = log @ new \<and>
        (case fst (m log) of
           Inr a \<Rightarrow> runs_ok env new
         | Inl e \<Rightarrow> (\<exists>before c d. new = before @ [Call c] \<and> runs_ok env before \<and> env c = Some d \<and> e = error_of c d)))"

lemma runs_ok_simps [simp]:
  "runs_ok env []" "runs_ok env (Spawn t # es) \<longleftrightarrow> runs_ok env es"
  "runs_ok env (Build_transaction_pool b # es) \<longleftrightarrow> runs_ok env es"
  "runs_ok env (Call c # es) \<longleftrightarrow> env c = None \<and> runs_ok env es"
  "runs_ok env (xs @ ys) \<longleftrightarrow> runs_ok env xs \<and> runs_ok env ys"
  by (auto simp: runs_ok_def)

named_theorems fail_stop_intros \<open>the combinators stop at the first failure\<close>

lemma fail_stop_return [fail_stop_intros]: "fail_stop env (svc_return a)"
  by (simp add: fail_stop_def svc_return_def)

lemma fail_stop_bind [fail_stop_intros]:
  assumes m: "fail_stop env m" and f: "\<And>a. fail_stop env (f a)"
  shows "fail_stop env (svc_bind m f)"
  unfolding fail_stop_def
proof (intro allI, goal_cases)
  case (1 log)
  obtain new where new: "snd (m log) = log @ new"
    and res: "case fst (m log) of Inr a \<Rightarrow> runs_ok env new
       | Inl e \<Rightarrow> (\<exists>before c d. new = before @ [Call c] \<and> runs_ok env before \<and> env c = Some d \<and> e = error_of c d)"
    using m unfolding fail_stop_def by blast
  show ?case
  proof (cases "fst (m log)")
    case (Inl e)
    then have "m log = (Inl e, log @ new)" using new by (metis prod.collapse)
    with res Inl show ?thesis by (auto simp: svc_bind_def)
  next
    case (Inr a)
    then have ml: "m log = (Inr a, log @ new)" and ok: "runs_ok env new"
      using new res by (metis prod.collapse, simp)
    obtain new' where new': "snd (f a (log @ new)) = (log @ new) @ new'"
      and res': "case fst (f a (log @ new)) of Inr a \<Rightarrow> runs_ok env new'
       | Inl e \<Rightarrow> (\<exists>before c d. new' = before @ [Call c] \<and> runs_ok env before \<and> env c = Some d \<and> e = error_of c d)"
      using f [of a] unfolding fail_stop_def by blast
    show ?thesis
    proof (intro exI [of _ "new @ new'"] conjI)
      show "snd (svc_bind m f log) = log @ new @ new'"
        using new' by (simp add: svc_bind_def ml)
      show "case fst (svc_bind m f log) of Inr a \<Rightarrow> runs_ok env (new @ new')
         | Inl e \<Rightarrow> \<exists>before c d. new @ new' = before @ [Call c] \<and> runs_ok env before \<and> env c = Some d \<and> e = error_of c d"
        using res' ok
        by (auto simp: svc_bind_def ml split: sum.splits)
    qed
  qed
qed

lemma fail_stop_seq [fail_stop_intros]:
  "list_all (fail_stop env) ms \<Longrightarrow> fail_stop env (svc_seq ms)"
  by (induction ms) (auto simp: svc_seq_def intro: fail_stop_return fail_stop_bind)

lemma fail_stop_when [fail_stop_intros]: "fail_stop env m \<Longrightarrow> fail_stop env (svc_when b m)"
  by (simp add: svc_when_def fail_stop_return)

lemma fail_stop_call [fail_stop_intros]:
  "c \<noteq> Genesis_block_hash \<Longrightarrow> fail_stop env (svc_call env c)"
  by (auto simp: error_of_def fail_stop_def svc_call_def split: option.splits)

lemma fail_stop_expect [fail_stop_intros]:
  "fail_stop env (svc_expect env Genesis_block_hash ''Genesis block exists; qed'')"
  by (auto simp: error_of_def fail_stop_def svc_expect_def split: option.splits)

lemma fail_stop_spawn [fail_stop_intros]: "fail_stop env (svc_spawn t)"
  by (simp add: fail_stop_def svc_spawn_def)

lemma fail_stop_build_pool [fail_stop_intros]: "fail_stop env (svc_build_pool b)"
  by (simp add: fail_stop_def svc_build_pool_def)

lemma fail_stop_new_full: "fail_stop env (new_full env config)"
  by (auto simp: new_full_def new_partial_def start_authoring_def start_grandpa_def Let_def
      intro!: fail_stop_intros)

subsection \<open>The plan a configuration stands for\<close>

text \<open>
  The abstract specification: the events of a start-up in which nothing fails, and running a
  list of events up to and including its first failing call.
\<close>

definition partial_plan :: "node_config \<Rightarrow> event list" where
  "partial_plan config =
     (if telemetry_wanted config then [Call (Telemetry_worker_new 16)] else []) @
     [Call New_full_parts] @
     (if telemetry_wanted config then [Spawn telemetry_task] else []) @
     [Build_transaction_pool (cfg_is_authority config),
      Call (Grandpa_block_import GRANDPA_JUSTIFICATION_PERIOD), Call Aura_import_queue]"

definition plan :: "node_config \<Rightarrow> event list" where
  "plan config =
     partial_plan config @
     [Call Genesis_block_hash, Call Build_network] @
     (if cfg_offchain_worker_enabled config
      then [Call (Offchain_workers_new (cfg_is_authority config)), Spawn offchain_task] else []) @
     [Call Rpc_and_spawn_tasks] @
     (if cfg_is_authority config
      then [Call Aura_slot_duration, Call (Start_aura (cfg_force_authoring config) (2, 3)),
            Spawn aura_task] else []) @
     (if cfg_disable_grandpa config then []
      else [Call (Run_grandpa_voter (grandpa_params_of config)), Spawn grandpa_task])"

fun run_plan :: "(sdk_call \<Rightarrow> 'err option) \<Rightarrow> event list \<Rightarrow> event list" where
  "run_plan env [] = []"
| "run_plan env (Call c # es) = Call c # (if env c = None then run_plan env es else [])"
| "run_plan env (e # es) = e # run_plan env es"

lemma run_plan_ok: "runs_ok env es \<Longrightarrow> run_plan env es = es"
  by (induction env es rule: run_plan.induct) auto

lemma run_plan_append:
  "run_plan env (xs @ ys) = (if runs_ok env xs then xs @ run_plan env ys else run_plan env xs)"
  by (induction env xs rule: run_plan.induct) auto

lemma set_run_plan: "set (run_plan env es) \<subseteq> set es"
  by (induction env es rule: run_plan.induct) auto

definition implements ::
  "(sdk_call \<Rightarrow> 'err option) \<Rightarrow> ('err, unit) svc \<Rightarrow> event list \<Rightarrow> bool" where
  "implements env m es \<longleftrightarrow>
     (\<forall>log. snd (m log) = log @ run_plan env es \<and> (is_ok (fst (m log)) \<longleftrightarrow> runs_ok env es))"

named_theorems implements_intros \<open>the combinators implement the plans they are written for\<close>

lemma implements_return [implements_intros]: "implements env (svc_return ()) []"
  by (simp add: implements_def svc_return_def)

lemma implements_bind:
  assumes "implements env m xs" and "implements env k ys"
  shows "implements env (svc_bind m (\<lambda>_. k)) (xs @ ys)"
  unfolding implements_def
proof
  fix log
  have m: "snd (m log) = log @ run_plan env xs" "is_ok (fst (m log)) \<longleftrightarrow> runs_ok env xs"
    and k: "snd (k log') = log' @ run_plan env ys" "is_ok (fst (k log')) \<longleftrightarrow> runs_ok env ys" for log'
    using assms by (auto simp: implements_def)
  show "snd (svc_bind m (\<lambda>_. k) log) = log @ run_plan env (xs @ ys) \<and>
      (is_ok (fst (svc_bind m (\<lambda>_. k) log)) \<longleftrightarrow> runs_ok env (xs @ ys))"
  proof (cases "fst (m log)")
    case (Inl e)
    then show ?thesis
      using m by (auto simp: svc_bind_def run_plan_append split: prod.splits)
  next
    case (Inr u)
    then show ?thesis
      using m k by (auto simp: svc_bind_def run_plan_append run_plan_ok split: prod.splits)
  qed
qed

lemma implements_seq_Nil [implements_intros]: "implements env (svc_seq []) []"
  by (simp add: svc_seq_def implements_return)

lemma implements_seq_Cons [implements_intros]:
  "implements env m xs \<Longrightarrow> implements env (svc_seq ms) ys \<Longrightarrow> implements env (svc_seq (m # ms)) (xs @ ys)"
  by (simp add: svc_seq_def implements_bind)

lemma implements_when [implements_intros]:
  "implements env m xs \<Longrightarrow> implements env (svc_when b m) (if b then xs else [])"
  by (simp add: svc_when_def implements_return)

lemma implements_call [implements_intros]: "implements env (svc_call env c) [Call c]"
  by (simp add: implements_def svc_call_def split: option.splits)

lemma implements_expect [implements_intros]: "implements env (svc_expect env c msg) [Call c]"
  by (simp add: implements_def svc_expect_def split: option.splits)

lemma implements_spawn [implements_intros]: "implements env (svc_spawn t) [Spawn t]"
  by (simp add: implements_def svc_spawn_def)

lemma implements_build_pool [implements_intros]:
  "implements env (svc_build_pool b) [Build_transaction_pool b]"
  by (simp add: implements_def svc_build_pool_def)

lemma implements_eq: "implements env m xs \<Longrightarrow> xs = ys \<Longrightarrow> implements env m ys"
  by simp

lemma new_partial_implements [implements_intros]:
  "implements env (new_partial env config) (partial_plan config)"
  unfolding new_partial_def Let_def
  by (rule implements_eq, (rule implements_intros)+) (simp add: partial_plan_def)

lemma new_full_implements: "implements env (new_full env config) (plan config)"
  unfolding new_full_def start_authoring_def start_grandpa_def
  by (rule implements_eq, (rule implements_intros)+) (simp add: plan_def)

lemma new_full_events: "set (snd (new_full env config [])) \<subseteq> set (plan config)"
  using new_full_implements [of env config] set_run_plan [of env "plan config"]
  by (simp add: implements_def)

subsection \<open>Properties\<close>

text \<open>
  C23: assembling the node does exactly what its plan says: the events of \<open>new_full\<close> are the
  plan's events up to and including its first failing call, all of them when none fails, and
  it succeeds exactly in that case.
\<close>

theorem new_full_refines_plan:
  "snd (new_full env config log) = log @ run_plan env (plan config) \<and>
   (is_ok (fst (new_full env config log)) \<longleftrightarrow> runs_ok env (plan config))"
  using new_full_implements [of env config] by (simp add: implements_def)

text \<open>
  C24: a failed start-up stops at the call that failed. That call is the last thing done, no
  call before it failed, nothing is spawned after it, and its error is the one returned; only
  a missing genesis block is a panic.
\<close>

theorem new_full_fail_stop:
  assumes "new_full env config log = (Inl e, log')"
  shows "\<exists>before c d. log' = log @ before @ [Call c] \<and> env c = Some d \<and>
    (\<forall>c'. Call c' \<in> set before \<longrightarrow> env c' = None) \<and>
    e = (if c = Genesis_block_hash then Panicked ''Genesis block exists; qed'' else Service_error d)"
proof -
  obtain new where "snd (new_full env config log) = log @ new"
    and "case fst (new_full env config log) of Inr a \<Rightarrow> runs_ok env new
      | Inl e \<Rightarrow> (\<exists>before c d. new = before @ [Call c] \<and> runs_ok env before \<and> env c = Some d \<and>
          e = error_of c d)"
    using fail_stop_new_full [of env config] unfolding fail_stop_def by blast
  with assms show ?thesis by (auto simp: runs_ok_def error_of_def)
qed

definition sample_config :: node_config where
  "sample_config = \<lparr>cfg_telemetry_endpoints = Some [], cfg_is_authority = True,
     cfg_offchain_worker_enabled = False, cfg_force_authoring = False,
     cfg_disable_grandpa = False, cfg_node_name = ''alice''\<rparr>"

lemmas svc_run_defs = svc_seq_def svc_bind_def svc_return_def svc_when_def svc_call_def
  svc_expect_def svc_build_pool_def svc_spawn_def

theorem new_full_fail_stop_witness:
  "\<exists>before c d. snd (new_full (\<lambda>c. if c = Build_network then Some () else None) sample_config [])
     = before @ [Call c] \<and> c = Build_network"
  using new_full_fail_stop [of "\<lambda>c. if c = Build_network then Some () else None" sample_config "[]"
      "Service_error ()"
      "snd (new_full (\<lambda>c. if c = Build_network then Some () else None) sample_config [])"]
  by (simp add: new_full_def new_partial_def svc_run_defs sample_config_def telemetry_wanted_def)

definition spawned :: "event list \<Rightarrow> task list" where
  "spawned es = concat (map (\<lambda>e. case e of Spawn t \<Rightarrow> [t] | _ \<Rightarrow> []) es)"

text \<open>
  C25: the tasks of a running node. After a successful start exactly these were spawned, in
  this order: telemetry when endpoints are configured, the offchain workers when enabled, Aura
  block authoring on an authority, and the GRANDPA voter unless disabled; no other, so no
  server besides the ones the SDK starts.
\<close>

theorem new_full_tasks:
  assumes "new_full env config [] = (Inr (), log)"
  shows "map task_name (spawned log) =
    (if telemetry_wanted config then [''telemetry''] else []) @
    (if cfg_offchain_worker_enabled config then [''offchain-workers-runner''] else []) @
    (if cfg_is_authority config then [''aura''] else []) @
    (if cfg_disable_grandpa config then [] else [''grandpa-voter''])"
proof -
  have "runs_ok env (plan config)" and "log = run_plan env (plan config)"
    using assms new_full_implements [of env config] by (auto simp: implements_def dest: spec [of _ "[]"])
  then have "log = plan config" by (simp add: run_plan_ok)
  then show ?thesis
    by (simp add: spawned_def plan_def partial_plan_def telemetry_task_def offchain_task_def
        aura_task_def grandpa_task_def)
qed

theorem new_full_tasks_witness:
  "map task_name (spawned (snd (new_full (\<lambda>c. None :: unit option) sample_config []))) =
     [''aura'', ''grandpa-voter'']"
  using new_full_tasks [of "\<lambda>c. None :: unit option" sample_config
      "snd (new_full (\<lambda>c. None :: unit option) sample_config [])"]
  by (simp add: new_full_def new_partial_def start_authoring_def start_grandpa_def svc_run_defs
      sample_config_def telemetry_wanted_def)

text \<open>
  C26: roles. Whatever fails, a node starts authoring only as an authority, and runs a
  GRANDPA voter only when not disabled, with a keystore exactly when it is an authority and
  with the justification period its block import was created with.
\<close>

theorem new_full_roles:
  assumes "Call c \<in> set (snd (new_full env config []))"
  shows "case c of
      Start_aura force proportion \<Rightarrow> cfg_is_authority config
    | Run_grandpa_voter p \<Rightarrow> \<not> cfg_disable_grandpa config \<and>
        gp_keystore p = cfg_is_authority config \<and>
        gp_role_is_authority p = cfg_is_authority config \<and>
        Call (Grandpa_block_import (gp_justification_period p)) \<in> set (plan config)
    | Grandpa_block_import period \<Rightarrow> period = 512
    | _ \<Rightarrow> True"
proof -
  have "Call c \<in> set (plan config)" using assms new_full_events by blast
  then show ?thesis
    by (auto simp: plan_def partial_plan_def grandpa_params_of_def Let_def
        GRANDPA_JUSTIFICATION_PERIOD_def split: if_splits)
qed

theorem new_full_roles_witness:
  "\<exists>p. Call (Run_grandpa_voter p) \<in> set (snd (new_full (\<lambda>c. None :: unit option) sample_config [])) \<and>
     gp_keystore p"
  using new_full_roles [of "Run_grandpa_voter (grandpa_params_of sample_config)"
      "\<lambda>c. None :: unit option" sample_config]
  by (intro exI [of _ "grandpa_params_of sample_config"])
    (simp add: new_full_def new_partial_def start_authoring_def start_grandpa_def svc_run_defs
      sample_config_def telemetry_wanted_def)

end
