(* ===== verification/Benchmark_Ext.thy ===== *)
theory Benchmark_Ext
  imports Runtime_Config
begin

section \<open>Extrinsics for the benchmark commands (\<open>node/src/benchmarking.rs\<close>)\<close>

text \<open>
  The signed extrinsic the \<open>benchmark\<close> subcommands submit: the mortality period computed
  from \<open>BlockHashCount\<close>, the eleven transaction extensions with the implicit data signed
  along with them, and the two builders. Era construction, encoding and signing are code of
  other crates: the fields of \<open>bench_ext\<close>. The client is read through a clock, as in the RPC
  handlers; every \<open>chain_info()\<close> is its own read.
\<close>

subsection \<open>The mortality period\<close>

definition mortal_period :: "u32 \<Rightarrow> u64" where
  "mortal_period block_hash_count =
     ucast (case map_option (\<lambda>c. c div 2) (checked_next_power_of_two block_hash_count) of
       Some p \<Rightarrow> p | None \<Rightarrow> 2)"

lemma between_powers:
  assumes "1 < n"
  obtains m where "2 ^ m < n" and "n \<le> (2 :: nat) ^ Suc m"
proof -
  define m where "m = (LEAST k. n \<le> 2 ^ Suc k)"
  have "n < 2 ^ n" by (rule less_exp)
  then have "n \<le> 2 ^ Suc n" unfolding power_Suc by linarith
  then have up: "n \<le> 2 ^ Suc m" unfolding m_def by (rule LeastI)
  have "2 ^ m < n"
  proof (cases m)
    case 0
    then show ?thesis using assms by simp
  next
    case (Suc k)
    then have "\<not> n \<le> 2 ^ Suc k" unfolding m_def by (intro not_less_Least) simp
    then show ?thesis by (simp add: Suc)
  qed
  with up show thesis by (rule that [rotated])
qed

lemma find_pow2:
  assumes "2 ^ m < n" and "n \<le> 2 ^ Suc m" and "Suc m < L"
  shows "find (\<lambda>p. n \<le> p) (map (\<lambda>k. 2 ^ k) [0..<L]) = Some (2 ^ Suc m :: nat)"
  unfolding find_Some_iff
proof (intro exI [of _ "Suc m"] conjI allI impI)
  fix j assume "j < Suc m"
  then have "(2 :: nat) ^ j \<le> 2 ^ m" by simp
  then have "2 ^ j < n" using assms(1) by (rule order_le_less_trans)
  then show "\<not> n \<le> map (\<lambda>k. 2 ^ k) [0..<L] ! j"
    using assms(3) \<open>j < Suc m\<close> by (simp add: not_le)
qed (use assms in \<open>simp_all\<close>)

lemma next_power_of_two_between:
  fixes w :: "'a::len word"
  assumes "2 ^ m < unat w" and "unat w \<le> 2 ^ Suc m" and "Suc m < LENGTH('a)"
  shows "checked_next_power_of_two w = Some (2 ^ Suc m)"
  using find_pow2 [OF assms] by (simp add: checked_next_power_of_two_def)

lemma mortal_period_between:
  assumes "2 ^ m < unat w" and "unat w \<le> 2 ^ Suc m" and "Suc m < 32"
  shows "mortal_period w = 2 ^ m"
proof -
  have "checked_next_power_of_two w = Some (2 ^ Suc m)"
    by (rule next_power_of_two_between) (use assms in simp_all)
  moreover have "(2 ^ Suc m :: u32) div 2 = 2 ^ m"
    unfolding word_unat_eq_iff unat_div unat_exp_lower [where 'a = 32, simplified, OF assms(3)]
    using assms(3) by (simp add: unat_exp_lower)
  moreover have "ucast (2 ^ m :: u32) = (2 ^ m :: u64)"
    unfolding word_unat_eq_iff using assms(3)
    by (simp add: unsigned_ucast_eq unat_exp_lower take_bit_nat_eq_self)
  ultimately show ?thesis by (simp add: mortal_period_def)
qed

subsection \<open>Calls, extensions and extrinsics\<close>

text \<open>The two runtime calls the builders submit.\<close>

datatype runtime_call =
    System_remark bytes
  | Balances_transfer_keep_alive account_id u128

datatype 'era tx_ext_value =
    VAuthorizeCall
  | VCheckNonZeroSender
  | VCheckSpecVersion
  | VCheckTxVersion
  | VCheckGenesis
  | VCheckEra 'era
  | VCheckNonce u32
  | VCheckWeight
  | VChargeTransactionPayment u128
  | VCheckMetadataHash bool
  | VWeightReclaim

datatype implicit_data = IUnit | IVersion u32 | IHash h256 | INone | ISomeHash h256

record ('pair, 'era, 'sig) bench_ext =
  era_mortal :: "u64 \<Rightarrow> u64 \<Rightarrow> 'era"
  encode_payload ::
    "runtime_call \<times> 'era tx_ext_value list \<times> implicit_data list \<Rightarrow> bytes"
  pair_sign :: "'pair \<Rightarrow> bytes \<Rightarrow> 'sig"
  pair_account :: "'pair \<Rightarrow> account_id"
  kr_bob_pair :: 'pair

record bench_client =
  bc_genesis_hash :: "h256 option"
  bc_best_hash :: "nat \<Rightarrow> h256"
  bc_best_number :: "nat \<Rightarrow> u32"

record ('era, 'sig) unchecked_extrinsic =
  ux_call :: runtime_call
  ux_signer :: account_id
  ux_signature :: 'sig
  ux_ext :: "'era tx_ext_value list"

definition bench_tx_ext ::
  "('pair, 'era, 'sig) bench_ext \<Rightarrow> u32 \<Rightarrow> u32 \<Rightarrow> 'era tx_ext_value list" where
  "bench_tx_ext ext best_block nonce =
     (let period = mortal_period BlockHashCount
      in [VAuthorizeCall, VCheckNonZeroSender, VCheckSpecVersion, VCheckTxVersion,
          VCheckGenesis, VCheckEra (era_mortal ext period (ucast best_block)),
          VCheckNonce nonce, VCheckWeight, VChargeTransactionPayment 0,
          VCheckMetadataHash False, VWeightReclaim])"

definition bench_implicit :: "h256 \<Rightarrow> h256 \<Rightarrow> implicit_data list" where
  "bench_implicit genesis_hash best_hash =
     [IUnit, IUnit, IVersion (spec_version (VERSION ())),
      IVersion (transaction_version (VERSION ())), IHash genesis_hash, IHash best_hash,
      IUnit, IUnit, IUnit, INone, IUnit]"

text \<open>
  \<open>create_benchmark_extrinsic\<close>: panics (\<open>Inl\<close>) without a genesis block; the best hash is
  read at the clock \<open>t\<close>, the best number by a second read at \<open>t + 1\<close>.
\<close>

definition create_benchmark_extrinsic ::
  "('pair, 'era, 'sig) bench_ext \<Rightarrow> bench_client \<Rightarrow> nat \<Rightarrow> 'pair \<Rightarrow> runtime_call \<Rightarrow> u32 \<Rightarrow>
   string + ('era, 'sig) unchecked_extrinsic" where
  "create_benchmark_extrinsic ext client t sender call nonce =
     res_bind (ok_or (bc_genesis_hash client) ''Genesis block exists; qed'') (\<lambda>genesis_hash.
       let best_hash = bc_best_hash client t;
           best_block = bc_best_number client (t + 1);
           tx_ext = bench_tx_ext ext best_block nonce;
           raw_payload = (call, tx_ext, bench_implicit genesis_hash best_hash);
           signature = pair_sign ext sender (encode_payload ext raw_payload)
       in Inr \<lparr>ux_call = call, ux_signer = pair_account ext sender,
               ux_signature = signature, ux_ext = tx_ext\<rparr>)"

text \<open>
  \<open>inherent_benchmark_data\<close>: the inherent data of a block at time 0, filled in by the
  timestamp provider of \<open>sp_timestamp\<close>.
\<close>

definition inherent_benchmark_data ::
  "(u64 \<Rightarrow> 'inh \<Rightarrow> 'err + 'inh) \<Rightarrow> ('err \<Rightarrow> string) \<Rightarrow> 'inh \<Rightarrow> string + 'inh" where
  "inherent_benchmark_data provide_inherent_data debug_err inherent_data =
     (let d = 0
      in res_map_err (\<lambda>e. ''creating inherent data: '' @ debug_err e)
           (provide_inherent_data d inherent_data))"

subsection \<open>The builders\<close>

text \<open>The pallet and the call a \<open>RuntimeCall\<close> dispatches to.\<close>

primrec call_names :: "runtime_call \<Rightarrow> string \<times> string" where
  "call_names (System_remark remark) = (''system'', ''remark'')"
| "call_names (Balances_transfer_keep_alive dest value) = (''balances'', ''transfer_keep_alive'')"

definition RemarkBuilder_pallet :: string where
  "RemarkBuilder_pallet = ''system''"

definition RemarkBuilder_extrinsic :: string where
  "RemarkBuilder_extrinsic = ''remark''"

definition RemarkBuilder_build ::
  "('pair, 'era, 'sig) bench_ext \<Rightarrow> bench_client \<Rightarrow> nat \<Rightarrow> u32 \<Rightarrow>
   string + ('era, 'sig) unchecked_extrinsic" where
  "RemarkBuilder_build ext client t nonce =
     create_benchmark_extrinsic ext client t (kr_bob_pair ext) (System_remark []) nonce"

definition TransferKeepAliveBuilder_pallet :: string where
  "TransferKeepAliveBuilder_pallet = ''balances''"

definition TransferKeepAliveBuilder_extrinsic :: string where
  "TransferKeepAliveBuilder_extrinsic = ''transfer_keep_alive''"

definition TransferKeepAliveBuilder_build ::
  "('pair, 'era, 'sig) bench_ext \<Rightarrow> bench_client \<Rightarrow> nat \<Rightarrow> account_id \<Rightarrow> u128 \<Rightarrow> u32 \<Rightarrow>
   string + ('era, 'sig) unchecked_extrinsic" where
  "TransferKeepAliveBuilder_build ext client t dest value nonce =
     create_benchmark_extrinsic ext client t (kr_bob_pair ext)
       (Balances_transfer_keep_alive dest value) nonce"

text \<open>The builder objects, which keep the client, and the trait object the commands hold.\<close>

record remark_builder =
  rb_client :: bench_client

definition RemarkBuilder_new :: "bench_client \<Rightarrow> remark_builder" where
  "RemarkBuilder_new client = \<lparr>rb_client = client\<rparr>"

record transfer_builder =
  tb_client :: bench_client
  tb_dest :: account_id
  tb_value :: u128

definition TransferKeepAliveBuilder_new ::
  "bench_client \<Rightarrow> account_id \<Rightarrow> u128 \<Rightarrow> transfer_builder" where
  "TransferKeepAliveBuilder_new client dest v =
     \<lparr>tb_client = client, tb_dest = dest, tb_value = v\<rparr>"

datatype ext_builder =
    Remark_builder remark_builder
  | Transfer_keep_alive_builder transfer_builder

primrec builder_names :: "ext_builder \<Rightarrow> string \<times> string" where
  "builder_names (Remark_builder b) = (RemarkBuilder_pallet, RemarkBuilder_extrinsic)"
| "builder_names (Transfer_keep_alive_builder b) =
     (TransferKeepAliveBuilder_pallet, TransferKeepAliveBuilder_extrinsic)"

primrec builder_build ::
  "('pair, 'era, 'sig) bench_ext \<Rightarrow> nat \<Rightarrow> u32 \<Rightarrow> ext_builder \<Rightarrow>
   string + ('era, 'sig) unchecked_extrinsic" where
  "builder_build ext t nonce (Remark_builder b) = RemarkBuilder_build ext (rb_client b) t nonce"
| "builder_build ext t nonce (Transfer_keep_alive_builder b) =
     TransferKeepAliveBuilder_build ext (tb_client b) t (tb_dest b) (tb_value b) nonce"

text \<open>
  The contract of \<open>ExtrinsicBuilder\<close>, whose two names the \<open>benchmark extrinsic\<close> command
  selects a builder by: what is built dispatches to the call the names announce, carries the
  nonce asked for, and is signed by the account that is charged.
\<close>

locale extrinsic_builder =
  fixes ext :: "('pair, 'era, 'sig) bench_ext"
    and pallet_name :: string
    and extrinsic_name :: string
    and build :: "bench_client \<Rightarrow> nat \<Rightarrow> u32 \<Rightarrow> string + ('era, 'sig) unchecked_extrinsic"
  assumes builds_announced:
      "build client t nonce = Inr x \<Longrightarrow> call_names (ux_call x) = (pallet_name, extrinsic_name)"
    and builds_nonce: "build client t nonce = Inr x \<Longrightarrow> VCheckNonce nonce \<in> set (ux_ext x)"
    and builds_signed_by_bob:
      "build client t nonce = Inr x \<Longrightarrow> ux_signer x = pair_account ext (kr_bob_pair ext)"
    and builds_with_genesis: "bc_genesis_hash client \<noteq> None \<Longrightarrow> \<exists>x. build client t nonce = Inr x"
begin

lemma build_ok_names:
  assumes "bc_genesis_hash client \<noteq> None"
  shows "\<exists>x. build client t nonce = Inr x \<and>
    call_names (ux_call x) = (pallet_name, extrinsic_name) \<and> VCheckNonce nonce \<in> set (ux_ext x)"
  using builds_with_genesis [OF assms] builds_announced builds_nonce by blast

end

lemma create_benchmark_extrinsic_Inr:
  "create_benchmark_extrinsic ext client t sender call nonce = Inr x \<longleftrightarrow>
     (\<exists>g. bc_genesis_hash client = Some g \<and>
        x = \<lparr>ux_call = call, ux_signer = pair_account ext sender,
             ux_signature = pair_sign ext sender (encode_payload ext
               (call, bench_tx_ext ext (bc_best_number client (t + 1)) nonce,
                bench_implicit g (bc_best_hash client t))),
             ux_ext = bench_tx_ext ext (bc_best_number client (t + 1)) nonce\<rparr>)"
  by (auto simp: create_benchmark_extrinsic_def result_simps Let_def)

lemma nonce_in_bench_tx_ext: "VCheckNonce nonce \<in> set (bench_tx_ext ext b nonce)"
  by (simp add: bench_tx_ext_def Let_def)

interpretation remark_builder:
  extrinsic_builder ext RemarkBuilder_pallet RemarkBuilder_extrinsic "RemarkBuilder_build ext"
  for ext
  by unfold_locales
    (auto simp: RemarkBuilder_build_def RemarkBuilder_pallet_def RemarkBuilder_extrinsic_def
       create_benchmark_extrinsic_Inr nonce_in_bench_tx_ext)

interpretation transfer_builder:
  extrinsic_builder ext TransferKeepAliveBuilder_pallet TransferKeepAliveBuilder_extrinsic
    "\<lambda>client t. TransferKeepAliveBuilder_build ext client t dest v"
  for ext dest v
  by unfold_locales
    (auto simp: TransferKeepAliveBuilder_build_def TransferKeepAliveBuilder_pallet_def
       TransferKeepAliveBuilder_extrinsic_def create_benchmark_extrinsic_Inr
       nonce_in_bench_tx_ext)

subsection \<open>Properties\<close>

text \<open>
  C34: The mortality period is the largest power of two strictly below the block-hash count,
  for every count from 2 up to \<open>2 ^ 31\<close>; above that the next power of two does not fit and
  the period is 2. Either way an era is shorter than the number of block hashes kept.
\<close>

theorem mortal_period_spec:
  assumes "1 < unat w"
  shows "if unat w \<le> 2 ^ 31
    then \<exists>m. mortal_period w = 2 ^ m \<and> 2 ^ m < unat w \<and> unat w \<le> 2 * 2 ^ m \<and> m < 31
    else mortal_period w = 2"
proof (cases "unat w \<le> 2 ^ 31")
  case True
  obtain m where m: "2 ^ m < unat w" "unat w \<le> 2 ^ Suc m"
    using assms by (rule between_powers)
  have "(2 :: nat) ^ m < 2 ^ 31" using m(1) True by (rule order_less_le_trans)
  then have "m < 31" by (simp only: power_strict_increasing_iff)
  with m True show ?thesis by (auto simp: mortal_period_between)
next
  case False
  have "(2 :: nat) ^ k \<le> 2 ^ 31" if "k < 32" for k
    by (rule power_increasing) (use that in simp_all)
  then have "\<not> (\<exists>k < 32. unat w \<le> 2 ^ k)" using False by (meson order_trans)
  then have "checked_next_power_of_two w = None"
    by (auto simp: checked_next_power_of_two_def find_None_iff)
  with False show ?thesis by (simp add: mortal_period_def)
qed

theorem mortal_period_spec_witness:
  "\<exists>m. mortal_period BlockHashCount = 2 ^ m \<and> 2 ^ m < unat BlockHashCount"
  using mortal_period_spec [of BlockHashCount] by (auto simp: BlockHashCount_def)

definition sample_bench :: "(unit, u64, bytes) bench_ext" where
  "sample_bench = \<lparr>era_mortal = (\<lambda>period current. current mod period),
     encode_payload = (\<lambda>p. [1]), pair_sign = (\<lambda>p m. m), pair_account = (\<lambda>p. replicate 32 2),
     kr_bob_pair = ()\<rparr>"

definition sample_client :: bench_client where
  "sample_client = \<lparr>bc_genesis_hash = Some (replicate 32 9),
     bc_best_hash = (\<lambda>t. replicate 32 8), bc_best_number = (\<lambda>t. of_nat t)\<rparr>"

text \<open>
  On a client with a genesis block both builders produce an extrinsic with the nonce
  asked for that dispatches to the call the builder announces, and the two announcements
  differ, so the \<open>benchmark extrinsic\<close> command can tell the builders apart.
\<close>

theorem bench_builders_announced:
  assumes "bc_genesis_hash client \<noteq> None"
  shows "(\<exists>x. RemarkBuilder_build ext client t nonce = Inr x \<and>
      call_names (ux_call x) = (RemarkBuilder_pallet, RemarkBuilder_extrinsic) \<and>
      VCheckNonce nonce \<in> set (ux_ext x)) \<and>
    (\<exists>x. TransferKeepAliveBuilder_build ext client t dest v nonce = Inr x \<and>
      call_names (ux_call x) =
        (TransferKeepAliveBuilder_pallet, TransferKeepAliveBuilder_extrinsic) \<and>
      VCheckNonce nonce \<in> set (ux_ext x)) \<and>
    (RemarkBuilder_pallet, RemarkBuilder_extrinsic) \<noteq>
      (TransferKeepAliveBuilder_pallet, TransferKeepAliveBuilder_extrinsic)"
proof (intro conjI)
  show "(RemarkBuilder_pallet, RemarkBuilder_extrinsic) \<noteq>
      (TransferKeepAliveBuilder_pallet, TransferKeepAliveBuilder_extrinsic)"
    by (simp add: RemarkBuilder_pallet_def TransferKeepAliveBuilder_pallet_def)
qed (rule remark_builder.build_ok_names [OF assms] transfer_builder.build_ok_names [OF assms])+

theorem bench_builders_announced_witness:
  "\<exists>x. RemarkBuilder_build sample_bench sample_client 0 7 = Inr x \<and>
     call_names (ux_call x) = (''system'', ''remark'')"
  using bench_builders_announced [of sample_client sample_bench 0 7]
  by (auto simp: sample_client_def RemarkBuilder_pallet_def RemarkBuilder_extrinsic_def)

end
