(* ===== verification/Service_Handles.thy ===== *)
theory Service_Handles
  imports Service
begin

section \<open>The handles the node assembly passes on (\<open>node/src/service.rs\<close>)\<close>

text \<open>
  \<open>Service\<close> models which calls the assembly makes, in which order and when it stops. This
  theory models what flows between them: every call of the SDK with the handles it is given
  (client, backend, pool, import queue, telemetry, ...), in the parameter structs of the
  source, and the handles it returns. What the SDK answers is arbitrary: it may depend on
  everything done before. Handles have an abstract type; \<open>clone\<close>, borrowing and \<open>Arc\<close> leave a
  handle as it is. Left out of the arguments are \<open>PhantomData\<close>, fields that hold a default, an
  empty list or state, or \<open>None\<close> with no model of their own (the hard forks of the warp provider,
  \<open>custom_extensions\<close>, \<open>tracing_execute_block\<close>, \<open>check_for_equivocation\<close>, \<open>compatibility_mode\<close>,
  \<open>max_block_proposal_slot_portion\<close>, the default \<open>voting_rule\<close> and the empty \<open>shared_voter_state\<close>),
  and the configuration as a whole; its parts that are passed on are not. Which handle may go
  where is the subject of \<open>Service_Roles\<close>.
\<close>

subsection \<open>Configuration, calls and events\<close>

record 'h full_config = node_config +
  cfg_executor :: 'h
  cfg_network :: 'h
  cfg_chain_spec :: 'h
  cfg_transaction_pool :: 'h
  cfg_prometheus_registry :: "'h option"

text \<open>Handles that are read off another one.\<close>

datatype accessor =
    Get_worker_handle | Get_worker_run | Get_telemetry_handle | Get_spawn_handle
  | Get_spawn_essential_handle | Get_keystore | Get_peer_store_handle
  | Get_shared_authority_set | Get_offchain_storage

text \<open>The two inherent-data closures, by what they capture.\<close>

datatype 'h cidp = Slot_duration_at_parent 'h | Fixed_slot_duration 'h

record 'h pool_params =
  pb_spawner :: 'h
  pb_client :: 'h
  pb_is_validator :: bool
  pb_options :: 'h
  pb_prometheus :: "'h option"

record 'h import_queue_params =
  iq_block_import :: 'h
  iq_justification_import :: "'h option"
  iq_client :: 'h
  iq_create_inherent_data_providers :: "'h cidp"
  iq_spawner :: 'h
  iq_registry :: "'h option"
  iq_telemetry :: "'h option"

record 'h network_params =
  nw_net_config :: 'h
  nw_client :: 'h
  nw_transaction_pool :: 'h
  nw_spawn_handle :: 'h
  nw_spawn_essential_handle :: 'h
  nw_import_queue :: 'h
  nw_block_announce_validator_builder :: "'h option"
  nw_warp_sync :: "'h option"
  nw_block_relay :: "'h option"
  nw_metrics :: 'h

record 'h offchain_params =
  ow_runtime_api_provider :: 'h
  ow_is_validator :: bool
  ow_keystore :: "'h option"
  ow_offchain_db :: 'h
  ow_transaction_pool :: "'h option"
  ow_network_provider :: 'h
  ow_enable_http_requests :: bool

record 'h full_deps =
  fd_client :: 'h
  fd_pool :: 'h

record 'h spawn_tasks_params =
  stp_network :: 'h
  stp_client :: 'h
  stp_keystore :: 'h
  stp_task_manager :: 'h
  stp_transaction_pool :: 'h
  stp_rpc_builder :: "'h full_deps"
  stp_backend :: 'h
  stp_system_rpc_tx :: 'h
  stp_tx_handler_controller :: 'h
  stp_sync_service :: 'h
  stp_telemetry :: "'h option"

record 'h aura_params =
  au_slot_duration :: 'h
  au_client :: 'h
  au_select_chain :: 'h
  au_block_import :: 'h
  au_proposer_factory :: 'h
  au_create_inherent_data_providers :: "'h cidp"
  au_force_authoring :: bool
  au_backoff_authoring_blocks :: "'h option"
  au_keystore :: 'h
  au_sync_oracle :: 'h
  au_justification_sync_link :: 'h
  au_block_proposal_slot_portion :: "nat \<times> nat"
  au_telemetry :: "'h option"

record 'h voter_config =
  vc_gossip_millis :: nat
  vc_justification_period :: u32
  vc_name :: string
  vc_observer_enabled :: bool
  vc_keystore :: "'h option"
  vc_role_is_authority :: bool
  vc_telemetry :: "'h option"
  vc_protocol_name :: 'h

record 'h voter_params =
  vp_config :: "'h voter_config"
  vp_link :: 'h
  vp_network :: 'h
  vp_sync :: 'h
  vp_notification_service :: 'h
  vp_prometheus_registry :: "'h option"
  vp_telemetry :: "'h option"
  vp_transaction_pool :: 'h

text \<open>What \<open>new_full_parts\<close> is told to keep when it prunes blocks.\<close>

datatype pruning_filter = GrandpaPruningFilter

datatype 'h op =
    TelemetryWorker_new nat
  | New_telemetry 'h "string list"
  | New_wasm_executor 'h
  | New_full_parts_of "'h option" 'h "pruning_filter list"
  | LongestChain_new 'h
  | Pool_build "'h pool_params"
  | Block_import_new 'h u32 'h 'h "'h option"
  | Import_queue_new "'h import_queue_params"
  | Network_configuration_new 'h "'h option"
  | Register_notification_metrics "'h option"
  | Block_hash_of 'h u32
  | Protocol_standard_name 'h 'h
  | Grandpa_peers_set_config 'h 'h 'h
  | Add_notification_protocol 'h 'h
  | Warp_proof_provider_new 'h 'h
  | Network_build "'h network_params"
  | Offchain_new "'h offchain_params"
  | Offchain_run 'h 'h 'h
  | Tasks_spawn "'h spawn_tasks_params"
  | Proposer_factory_new 'h 'h 'h "'h option" "'h option"
  | Slot_duration_of 'h
  | Aura_start "'h aura_params"
  | Voter_run "'h voter_params"

text \<open>
  A call that succeeded, with the handles it returned by position; one that failed; a future
  given to a spawner.
\<close>

datatype 'h hevent = Did "'h op" "nat \<Rightarrow> 'h" | Failed "'h op" | Spawned task 'h 'h

record ('h, 'err) sdk =
  sdk_get :: "accessor \<Rightarrow> 'h \<Rightarrow> 'h"
  sdk_make :: "'h hevent list \<Rightarrow> 'h op \<Rightarrow> nat \<Rightarrow> 'h"
  sdk_try :: "'h hevent list \<Rightarrow> 'h op \<Rightarrow> 'err + (nat \<Rightarrow> 'h)"

definition h_make :: "('h, 'err) sdk \<Rightarrow> 'h op \<Rightarrow> ('h hevent, 'err, nat \<Rightarrow> 'h) prog" where
  "h_make sdk c log = (let r = sdk_make sdk log c in (Inr r, log @ [Did c r]))"

definition h_try :: "('h, 'err) sdk \<Rightarrow> 'h op \<Rightarrow> ('h hevent, 'err, nat \<Rightarrow> 'h) prog" where
  "h_try sdk c log =
     (case sdk_try sdk log c of
        Inl e \<Rightarrow> (Inl (Service_error e), log @ [Failed c])
      | Inr r \<Rightarrow> (Inr r, log @ [Did c r]))"

definition h_expect :: "('h, 'err) sdk \<Rightarrow> 'h op \<Rightarrow> string \<Rightarrow> ('h hevent, 'err, nat \<Rightarrow> 'h) prog" where
  "h_expect sdk c msg log =
     (case sdk_try sdk log c of
        Inl e \<Rightarrow> (Inl (Panicked msg), log @ [Failed c])
      | Inr r \<Rightarrow> (Inr r, log @ [Did c r]))"

definition h_spawn :: "task \<Rightarrow> 'h \<Rightarrow> 'h \<Rightarrow> ('h hevent, 'err, unit) prog" where
  "h_spawn t spawner future log = (Inr (), log @ [Spawned t spawner future])"

subsection \<open>\<open>new_partial\<close>\<close>

record 'h partial_components =
  pc_client :: 'h
  pc_backend :: 'h
  pc_task_manager :: 'h
  pc_import_queue :: 'h
  pc_keystore_container :: 'h
  pc_select_chain :: 'h
  pc_transaction_pool :: 'h
  pc_block_import :: 'h
  pc_grandpa_link :: 'h
  pc_telemetry :: "'h option"

definition h_telemetry ::
  "('h, 'err) sdk \<Rightarrow> 'h full_config \<Rightarrow> ('h hevent, 'err, ('h \<times> 'h) option) prog" where
  "h_telemetry sdk config =
     (case cfg_telemetry_endpoints config of
        None \<Rightarrow> svc_return None
      | Some endpoints \<Rightarrow>
          if endpoints = [] then svc_return None
          else svc_bind (h_try sdk (TelemetryWorker_new 16)) (\<lambda>r.
               let worker = r 0 in
               svc_bind (h_make sdk (New_telemetry (sdk_get sdk Get_worker_handle worker) endpoints)) (\<lambda>r.
               svc_return (Some (worker, r 0)))))"

definition h_run_telemetry ::
  "('h, 'err) sdk \<Rightarrow> 'h \<Rightarrow> ('h \<times> 'h) option \<Rightarrow> ('h hevent, 'err, 'h option) prog" where
  "h_run_telemetry sdk task_manager telemetry =
     (case telemetry of
        None \<Rightarrow> svc_return None
      | Some (worker, telemetry) \<Rightarrow>
          svc_bind (h_spawn telemetry_task (sdk_get sdk Get_spawn_handle task_manager)
              (sdk_get sdk Get_worker_run worker)) (\<lambda>_.
          svc_return (Some telemetry)))"

definition h_new_partial ::
  "('h, 'err) sdk \<Rightarrow> 'h full_config \<Rightarrow> ('h hevent, 'err, 'h partial_components) prog" where
  "h_new_partial sdk config =
     svc_bind (h_telemetry sdk config) (\<lambda>telemetry.
     svc_bind (h_make sdk (New_wasm_executor (cfg_executor config))) (\<lambda>r. let executor = r 0 in
     svc_bind (h_try sdk (New_full_parts_of
         (map_option (\<lambda>(_, telemetry). sdk_get sdk Get_telemetry_handle telemetry) telemetry)
         executor [GrandpaPruningFilter])) (\<lambda>r.
     let client = r 0; backend = r 1; keystore_container = r 2; task_manager = r 3 in
     svc_bind (h_run_telemetry sdk task_manager telemetry) (\<lambda>telemetry.
     svc_bind (h_make sdk (LongestChain_new backend)) (\<lambda>r. let select_chain = r 0 in
     svc_bind (h_make sdk (Pool_build
         \<lparr>pb_spawner = sdk_get sdk Get_spawn_essential_handle task_manager,
          pb_client = client, pb_is_validator = cfg_is_authority config,
          pb_options = cfg_transaction_pool config,
          pb_prometheus = cfg_prometheus_registry config\<rparr>)) (\<lambda>r. let transaction_pool = r 0 in
     svc_bind (h_try sdk (Block_import_new client GRANDPA_JUSTIFICATION_PERIOD client select_chain
         (map_option (sdk_get sdk Get_telemetry_handle) telemetry))) (\<lambda>r.
     let grandpa_block_import = r 0; grandpa_link = r 1; cidp_client = client in
     svc_bind (h_try sdk (Import_queue_new
         \<lparr>iq_block_import = grandpa_block_import,
          iq_justification_import = Some grandpa_block_import, iq_client = client,
          iq_create_inherent_data_providers = Slot_duration_at_parent cidp_client,
          iq_spawner = sdk_get sdk Get_spawn_essential_handle task_manager,
          iq_registry = cfg_prometheus_registry config,
          iq_telemetry = map_option (sdk_get sdk Get_telemetry_handle) telemetry\<rparr>)) (\<lambda>r.
     let import_queue = r 0 in
     svc_return
       \<lparr>pc_client = client, pc_backend = backend, pc_task_manager = task_manager,
        pc_import_queue = import_queue, pc_keystore_container = keystore_container,
        pc_select_chain = select_chain, pc_transaction_pool = transaction_pool,
        pc_block_import = grandpa_block_import, pc_grandpa_link = grandpa_link,
        pc_telemetry = telemetry\<rparr>))))))))"

subsection \<open>\<open>new_full\<close>\<close>

record 'h network_handles =
  nh_network :: 'h
  nh_system_rpc_tx :: 'h
  nh_tx_handler_controller :: 'h
  nh_sync_service :: 'h
  nh_protocol_name :: 'h
  nh_notification_service :: 'h

definition h_network ::
  "('h, 'err) sdk \<Rightarrow> 'h full_config \<Rightarrow> 'h partial_components \<Rightarrow>
   ('h hevent, 'err, 'h network_handles) prog" where
  "h_network sdk config pc =
     svc_bind (h_make sdk (Network_configuration_new (cfg_network config)
         (cfg_prometheus_registry config))) (\<lambda>r. let net_config = r 0 in
     svc_bind (h_make sdk (Register_notification_metrics (cfg_prometheus_registry config))) (\<lambda>r.
     let metrics = r 0; peer_store_handle = sdk_get sdk Get_peer_store_handle net_config in
     svc_bind (h_expect sdk (Block_hash_of (pc_client pc) 0) ''Genesis block exists; qed'') (\<lambda>r.
     svc_bind (h_make sdk (Protocol_standard_name (r 0) (cfg_chain_spec config))) (\<lambda>r.
     let grandpa_protocol_name = r 0 in
     svc_bind (h_make sdk (Grandpa_peers_set_config grandpa_protocol_name metrics
         peer_store_handle)) (\<lambda>r.
     let grandpa_protocol_config = r 0; grandpa_notification_service = r 1 in
     svc_bind (h_make sdk (Add_notification_protocol net_config grandpa_protocol_config)) (\<lambda>r.
     svc_bind (h_make sdk (Warp_proof_provider_new (pc_backend pc)
         (sdk_get sdk Get_shared_authority_set (pc_grandpa_link pc)))) (\<lambda>r. let warp_sync = r 0 in
     svc_bind (h_try sdk (Network_build
         \<lparr>nw_net_config = net_config, nw_client = pc_client pc,
          nw_transaction_pool = pc_transaction_pool pc,
          nw_spawn_handle = sdk_get sdk Get_spawn_handle (pc_task_manager pc),
          nw_spawn_essential_handle = sdk_get sdk Get_spawn_essential_handle (pc_task_manager pc),
          nw_import_queue = pc_import_queue pc, nw_block_announce_validator_builder = None,
          nw_warp_sync = Some warp_sync, nw_block_relay = None, nw_metrics = metrics\<rparr>)) (\<lambda>r.
     svc_return
       \<lparr>nh_network = r 0, nh_system_rpc_tx = r 1, nh_tx_handler_controller = r 2,
        nh_sync_service = r 3, nh_protocol_name = grandpa_protocol_name,
        nh_notification_service = grandpa_notification_service\<rparr>))))))))"

definition h_offchain ::
  "('h, 'err) sdk \<Rightarrow> 'h full_config \<Rightarrow> 'h partial_components \<Rightarrow> 'h network_handles \<Rightarrow>
   ('h hevent, 'err, unit) prog" where
  "h_offchain sdk config pc nh =
     svc_bind (h_try sdk (Offchain_new
         \<lparr>ow_runtime_api_provider = pc_client pc, ow_is_validator = cfg_is_authority config,
          ow_keystore = Some (sdk_get sdk Get_keystore (pc_keystore_container pc)),
          ow_offchain_db = sdk_get sdk Get_offchain_storage (pc_backend pc),
          ow_transaction_pool = Some (pc_transaction_pool pc),
          ow_network_provider = nh_network nh, ow_enable_http_requests = True\<rparr>)) (\<lambda>r.
     let offchain_workers = r 0 in
     svc_bind (h_make sdk (Offchain_run offchain_workers (pc_client pc)
         (sdk_get sdk Get_spawn_handle (pc_task_manager pc)))) (\<lambda>r.
     h_spawn offchain_task (sdk_get sdk Get_spawn_handle (pc_task_manager pc)) (r 0)))"

definition h_spawn_tasks ::
  "('h, 'err) sdk \<Rightarrow> 'h partial_components \<Rightarrow> 'h network_handles \<Rightarrow> ('h hevent, 'err, unit) prog" where
  "h_spawn_tasks sdk pc nh =
     svc_bind (h_try sdk (Tasks_spawn
         \<lparr>stp_network = nh_network nh, stp_client = pc_client pc,
          stp_keystore = sdk_get sdk Get_keystore (pc_keystore_container pc),
          stp_task_manager = pc_task_manager pc, stp_transaction_pool = pc_transaction_pool pc,
          stp_rpc_builder = \<lparr>fd_client = pc_client pc, fd_pool = pc_transaction_pool pc\<rparr>,
          stp_backend = pc_backend pc, stp_system_rpc_tx = nh_system_rpc_tx nh,
          stp_tx_handler_controller = nh_tx_handler_controller nh,
          stp_sync_service = nh_sync_service nh, stp_telemetry = pc_telemetry pc\<rparr>)) (\<lambda>_.
     svc_return ())"

definition h_authoring ::
  "('h, 'err) sdk \<Rightarrow> 'h full_config \<Rightarrow> 'h partial_components \<Rightarrow> 'h network_handles \<Rightarrow>
   ('h hevent, 'err, unit) prog" where
  "h_authoring sdk config pc nh =
     svc_bind (h_make sdk (Proposer_factory_new
         (sdk_get sdk Get_spawn_handle (pc_task_manager pc)) (pc_client pc)
         (pc_transaction_pool pc) (cfg_prometheus_registry config)
         (map_option (sdk_get sdk Get_telemetry_handle) (pc_telemetry pc)))) (\<lambda>r.
     let proposer_factory = r 0 in
     svc_bind (h_try sdk (Slot_duration_of (pc_client pc))) (\<lambda>r. let slot_duration = r 0 in
     svc_bind (h_try sdk (Aura_start
         \<lparr>au_slot_duration = slot_duration, au_client = pc_client pc,
          au_select_chain = pc_select_chain pc, au_block_import = pc_block_import pc,
          au_proposer_factory = proposer_factory,
          au_create_inherent_data_providers = Fixed_slot_duration slot_duration,
          au_force_authoring = cfg_force_authoring config, au_backoff_authoring_blocks = None,
          au_keystore = sdk_get sdk Get_keystore (pc_keystore_container pc),
          au_sync_oracle = nh_sync_service nh, au_justification_sync_link = nh_sync_service nh,
          au_block_proposal_slot_portion = (2, 3),
          au_telemetry = map_option (sdk_get sdk Get_telemetry_handle) (pc_telemetry pc)\<rparr>)) (\<lambda>r.
     h_spawn aura_task (sdk_get sdk Get_spawn_essential_handle (pc_task_manager pc)) (r 0))))"

definition h_grandpa ::
  "('h, 'err) sdk \<Rightarrow> 'h full_config \<Rightarrow> 'h partial_components \<Rightarrow> 'h network_handles \<Rightarrow>
   ('h hevent, 'err, unit) prog" where
  "h_grandpa sdk config pc nh =
     (let role = cfg_is_authority config;
          keystore = (if role then Some (sdk_get sdk Get_keystore (pc_keystore_container pc)) else None);
          grandpa_config =
            \<lparr>vc_gossip_millis = 333, vc_justification_period = GRANDPA_JUSTIFICATION_PERIOD,
             vc_name = cfg_node_name config, vc_observer_enabled = False, vc_keystore = keystore,
             vc_role_is_authority = role,
             vc_telemetry = map_option (sdk_get sdk Get_telemetry_handle) (pc_telemetry pc),
             vc_protocol_name = nh_protocol_name nh\<rparr>
      in svc_bind (h_try sdk (Voter_run
           \<lparr>vp_config = grandpa_config, vp_link = pc_grandpa_link pc,
            vp_network = nh_network nh, vp_sync = nh_sync_service nh,
            vp_notification_service = nh_notification_service nh,
            vp_prometheus_registry = cfg_prometheus_registry config,
            vp_telemetry = map_option (sdk_get sdk Get_telemetry_handle) (pc_telemetry pc),
            vp_transaction_pool = pc_transaction_pool pc\<rparr>)) (\<lambda>r.
         h_spawn grandpa_task (sdk_get sdk Get_spawn_essential_handle (pc_task_manager pc)) (r 0)))"

definition h_new_full ::
  "('h, 'err) sdk \<Rightarrow> 'h full_config \<Rightarrow> ('h hevent, 'err, 'h) prog" where
  "h_new_full sdk config =
     svc_bind (h_new_partial sdk config) (\<lambda>pc.
     svc_bind (h_network sdk config pc) (\<lambda>nh.
     svc_bind (svc_when (cfg_offchain_worker_enabled config) (h_offchain sdk config pc nh)) (\<lambda>_.
     svc_bind (h_spawn_tasks sdk pc nh) (\<lambda>_.
     svc_bind (svc_when (cfg_is_authority config) (h_authoring sdk config pc nh)) (\<lambda>_.
     svc_bind (svc_when (\<not> cfg_disable_grandpa config) (h_grandpa sdk config pc nh)) (\<lambda>_.
     svc_return (pc_task_manager pc)))))))"

subsection \<open>The calls without their handles\<close>

text \<open>What \<open>Service\<close> records of a call: nothing for calls that cannot fail, but the pool.\<close>

fun abs_op :: "'h op \<Rightarrow> event list" where
  "abs_op (TelemetryWorker_new n) = [Call (Telemetry_worker_new n)]"
| "abs_op (New_full_parts_of telemetry executor filters) = [Call New_full_parts]"
| "abs_op (Pool_build p) = [Build_transaction_pool (pb_is_validator p)]"
| "abs_op (Block_import_new client period client' select_chain telemetry) =
     [Call (Grandpa_block_import period)]"
| "abs_op (Import_queue_new p) = [Call Aura_import_queue]"
| "abs_op (Block_hash_of client n) = [Call Genesis_block_hash]"
| "abs_op (Network_build p) = [Call Build_network]"
| "abs_op (Offchain_new p) = [Call (Offchain_workers_new (ow_is_validator p))]"
| "abs_op (Tasks_spawn p) = [Call Rpc_and_spawn_tasks]"
| "abs_op (Slot_duration_of client) = [Call Aura_slot_duration]"
| "abs_op (Aura_start p) =
     [Call (Start_aura (au_force_authoring p) (au_block_proposal_slot_portion p))]"
| "abs_op (Voter_run p) =
     (let c = vp_config p in
      [Call (Run_grandpa_voter
         \<lparr>gp_gossip_millis = vc_gossip_millis c,
          gp_justification_period = vc_justification_period c, gp_name = vc_name c,
          gp_observer_enabled = vc_observer_enabled c, gp_keystore = (vc_keystore c \<noteq> None),
          gp_role_is_authority = vc_role_is_authority c\<rparr>)])"
| "abs_op c = []"

primrec abs_event :: "'h hevent \<Rightarrow> event list" where
  "abs_event (Did c r) = abs_op c"
| "abs_event (Failed c) = abs_op c"
| "abs_event (Spawned t spawner future) = [Spawn t]"

definition abs_log :: "'h hevent list \<Rightarrow> event list" where
  "abs_log es = concat (map abs_event es)"

lemma abs_log_simps [simp]:
  "abs_log [] = []" "abs_log (e # es) = abs_event e @ abs_log es"
  "abs_log (xs @ ys) = abs_log xs @ abs_log ys"
  by (simp_all add: abs_log_def)

text \<open>
  \<open>carries_out m es\<close>: seen without handles, a run of \<open>m\<close> that succeeds did \<open>es\<close>, and one that
  fails did \<open>es\<close> up to and including a call, whose error it ends with.
\<close>

definition carries_out :: "('h hevent, 'err, 'a) prog \<Rightarrow> event list \<Rightarrow> bool" where
  "carries_out m es \<longleftrightarrow>
     (\<forall>log. \<exists>new. snd (m log) = log @ new \<and>
        (case fst (m log) of
           Inr a \<Rightarrow> abs_log new = es
         | Inl e \<Rightarrow> (\<exists>pre c post d. es = pre @ Call c # post \<and> abs_log new = pre @ [Call c] \<and>
             e = error_of c d)))"

named_theorems carries_out_intros \<open>the combinators carry out the plans they are written for\<close>

lemma carries_out_return [carries_out_intros]: "carries_out (svc_return a) []"
  by (simp add: carries_out_def svc_return_def)

text \<open>\<open>yields m R\<close>: what a successful run of \<open>m\<close> returns satisfies \<open>R\<close>.\<close>

definition yields :: "('ev, 'err, 'a) prog \<Rightarrow> ('a \<Rightarrow> bool) \<Rightarrow> bool" where
  "yields m R \<longleftrightarrow> (\<forall>log a. fst (m log) = Inr a \<longrightarrow> R a)"

lemma carries_out_bind_yields:
  assumes "carries_out m xs" and "yields m R" and "\<And>a. R a \<Longrightarrow> carries_out (k a) ys"
  shows "carries_out (svc_bind m k) (xs @ ys)"
  unfolding carries_out_def
proof
  fix log
  obtain new where new: "snd (m log) = log @ new"
    and res: "case fst (m log) of Inr a \<Rightarrow> abs_log new = xs
      | Inl e \<Rightarrow> (\<exists>pre c post d. xs = pre @ Call c # post \<and> abs_log new = pre @ [Call c] \<and>
          e = error_of c d)"
    using assms(1) unfolding carries_out_def by blast
  show "\<exists>new. snd (svc_bind m k log) = log @ new \<and>
      (case fst (svc_bind m k log) of Inr a \<Rightarrow> abs_log new = xs @ ys
       | Inl e \<Rightarrow> (\<exists>pre c post d. xs @ ys = pre @ Call c # post \<and> abs_log new = pre @ [Call c] \<and>
           e = error_of c d))"
  proof (cases "fst (m log)")
    case (Inl e)
    then have "m log = (Inl e, log @ new)" using new by (metis prod.collapse)
    with res show ?thesis by (auto simp: svc_bind_def)
  next
    case (Inr a)
    then have ml: "m log = (Inr a, log @ new)" and xs: "abs_log new = xs"
      using new res by (metis prod.collapse, simp)
    have "R a" using assms(2) Inr by (simp add: yields_def)
    then obtain new' where "snd (k a (log @ new)) = (log @ new) @ new'"
      and "case fst (k a (log @ new)) of Inr b \<Rightarrow> abs_log new' = ys
        | Inl e \<Rightarrow> (\<exists>pre c post d. ys = pre @ Call c # post \<and> abs_log new' = pre @ [Call c] \<and>
            e = error_of c d)"
      using assms(3) [of a] unfolding carries_out_def by blast
    then show ?thesis
      by (intro exI [of _ "new @ new'"])
        (auto simp: svc_bind_def ml xs split: sum.splits)
  qed
qed

lemma carries_out_bind [carries_out_intros]:
  "carries_out m xs \<Longrightarrow> (\<And>a. carries_out (k a) ys) \<Longrightarrow> carries_out (svc_bind m k) (xs @ ys)"
  by (rule carries_out_bind_yields [where R = "\<lambda>a. True"]) (simp_all add: yields_def)

lemma carries_out_make:
  "abs_op c = es \<Longrightarrow> carries_out (h_make sdk c) es"
  by (simp add: carries_out_def h_make_def Let_def)

lemmas carries_out_silent [carries_out_intros] = carries_out_make [where es = "[]"]

lemma carries_out_try [carries_out_intros]:
  "abs_op c = [Call d] \<Longrightarrow> d \<noteq> Genesis_block_hash \<Longrightarrow> carries_out (h_try sdk c) [Call d]"
  by (auto simp: carries_out_def h_try_def error_of_def split: sum.splits)

lemma carries_out_expect [carries_out_intros]:
  "carries_out (h_expect sdk (Block_hash_of client n) ''Genesis block exists; qed'')
     [Call Genesis_block_hash]"
  by (auto simp: carries_out_def h_expect_def error_of_def split: sum.splits)

lemma carries_out_spawn [carries_out_intros]: "carries_out (h_spawn t sp fut) [Spawn t]"
  by (simp add: carries_out_def h_spawn_def)

lemma carries_out_when [carries_out_intros]:
  "(b \<Longrightarrow> carries_out m es) \<Longrightarrow> carries_out (svc_when b m) (if b then es else [])"
  by (simp add: svc_when_def carries_out_return)

text \<open>Calls whose recorded arguments come out of a parameter struct.\<close>

lemma carries_out_pool [carries_out_intros]:
  "carries_out (h_make sdk (Pool_build \<lparr>pb_spawner = a, pb_client = b, pb_is_validator = v,
       pb_options = c, pb_prometheus = d\<rparr>)) [Build_transaction_pool v]"
  by (rule carries_out_make) simp

lemma carries_out_offchain_new [carries_out_intros]:
  "carries_out (h_try sdk (Offchain_new \<lparr>ow_runtime_api_provider = a, ow_is_validator = v,
       ow_keystore = b, ow_offchain_db = c, ow_transaction_pool = d, ow_network_provider = e,
       ow_enable_http_requests = f\<rparr>)) [Call (Offchain_workers_new v)]"
  by (rule carries_out_try) simp_all

lemma carries_out_aura_start [carries_out_intros]:
  "carries_out (h_try sdk (Aura_start \<lparr>au_slot_duration = a, au_client = b, au_select_chain = c,
       au_block_import = d, au_proposer_factory = e, au_create_inherent_data_providers = f,
       au_force_authoring = v, au_backoff_authoring_blocks = g, au_keystore = h,
       au_sync_oracle = i, au_justification_sync_link = j,
       au_block_proposal_slot_portion = p, au_telemetry = k\<rparr>)) [Call (Start_aura v p)]"
  by (rule carries_out_try) simp_all

lemma carries_out_eq: "carries_out m es \<Longrightarrow> es = es' \<Longrightarrow> carries_out m es'"
  by simp

lemma carries_out_telemetry:
  "carries_out (h_telemetry sdk config)
     (if telemetry_wanted (node_config.truncate config) then [Call (Telemetry_worker_new 16)] else [])"
  unfolding h_telemetry_def telemetry_wanted_def node_config.truncate_def Let_def
  by (auto split: option.split intro!: carries_out_intros carries_out_eq [OF carries_out_bind])

lemma yields_telemetry:
  "yields (h_telemetry sdk config)
     (\<lambda>t. t \<noteq> None \<longleftrightarrow> telemetry_wanted (node_config.truncate config))"
  by (auto simp: yields_def h_telemetry_def telemetry_wanted_def node_config.truncate_def
      svc_return_def svc_bind_def Let_def split: option.splits if_splits sum.splits prod.splits)

lemma carries_out_run_telemetry:
  "(telemetry \<noteq> None \<longleftrightarrow> b) \<Longrightarrow>
     carries_out (h_run_telemetry sdk tm telemetry) (if b then [Spawn telemetry_task] else [])"
  unfolding h_run_telemetry_def
  by (auto split: option.split intro!: carries_out_intros carries_out_eq [OF carries_out_bind])

lemma carries_out_new_partial:
  "carries_out (h_new_partial sdk config) (partial_plan (node_config.truncate config))"
  unfolding h_new_partial_def Let_def
  by (rule carries_out_eq,
      rule carries_out_bind_yields [OF carries_out_telemetry yields_telemetry],
      (rule carries_out_intros carries_out_run_telemetry abs_op.simps sdk_call.distinct | assumption)+)
    (auto simp: partial_plan_def node_config.truncate_def)


lemma carries_out_grandpa:
  "carries_out (h_grandpa sdk config pc nh)
     [Call (Run_grandpa_voter (grandpa_params_of (node_config.truncate config))), Spawn grandpa_task]"
  unfolding h_grandpa_def Let_def
  by (rule carries_out_eq,
      rule carries_out_bind [OF carries_out_try [OF abs_op.simps(12) [unfolded Let_def]]
        carries_out_spawn])
    (auto simp: grandpa_params_of_def node_config.truncate_def Let_def)

lemma carries_out_new_full:
  "carries_out (h_new_full sdk config) (plan (node_config.truncate config))"
  unfolding h_new_full_def h_network_def h_offchain_def h_spawn_tasks_def h_authoring_def Let_def
  by (rule carries_out_eq,
      (rule carries_out_new_partial carries_out_grandpa carries_out_intros
        abs_op.simps sdk_call.distinct)+)
    (auto simp: plan_def node_config.truncate_def)


lemma distinct_plan: "distinct (plan config)"
  by (auto simp: plan_def partial_plan_def telemetry_task_def offchain_task_def aura_task_def
      grandpa_task_def)

lemma new_full_failing_at:
  assumes "plan config = pre @ Call c # post"
  shows "new_full ((\<lambda>_. None)(c := Some d)) config [] = (Inl (error_of c d), pre @ [Call c])"
proof -
  let ?env = "(\<lambda>_. None)(c := Some d)"
  have "Call c \<notin> set pre" using distinct_plan [of config] assms by auto
  then have pre: "runs_ok ?env pre" by (auto simp: runs_ok_def)
  have snd: "snd (new_full ?env config []) = pre @ [Call c]"
    and err: "\<not> is_ok (fst (new_full ?env config []))"
    using new_full_implements [of ?env config] pre assms
    by (auto simp: implements_def run_plan_append)
  from err obtain e where e: "fst (new_full ?env config []) = Inl e"
    by (cases "fst (new_full ?env config [])") auto
  have "\<exists>before c' d'. pre @ [Call c] = before @ [Call c'] \<and> ?env c' = Some d' \<and> e = error_of c' d'"
    using fail_stop_new_full [of ?env config] snd e unfolding fail_stop_def
    by (auto dest!: spec [of _ "[]"])
  then have "e = error_of c d" by auto
  with snd e show ?thesis by (metis prod.collapse)
qed

lemma new_full_succeeding: "new_full (\<lambda>_. None) config [] = (Inr (), plan config)"
proof -
  have "runs_ok (\<lambda>_. None :: 'a option) (plan config)" by (simp add: runs_ok_def)
  then have "snd (new_full (\<lambda>_. None :: 'a option) config []) = plan config"
    and "is_ok (fst (new_full (\<lambda>_. None :: 'a option) config []))"
    using new_full_implements [of "\<lambda>_. None :: 'a option" config]
    by (simp_all add: implements_def run_plan_ok)
  then show ?thesis by (cases "new_full (\<lambda>_. None :: 'a option) config []") (auto simp: is_ok_iff)
qed

subsection \<open>Properties\<close>

text \<open>
  The two models of the assembly agree. For every behaviour of the SDK there
  is a set of failing calls under which \<open>new_full\<close> of \<open>Service\<close> makes the same calls with the
  same arguments, spawns the same tasks, and succeeds or fails with the same error.
\<close>

theorem handles_refine_service:
  "\<exists>env. abs_log (snd (h_new_full sdk config [])) =
       snd (new_full env (node_config.truncate config) []) \<and>
     (case fst (h_new_full sdk config []) of
        Inl e \<Rightarrow> fst (new_full env (node_config.truncate config) []) = Inl e
      | Inr task_manager \<Rightarrow> fst (new_full env (node_config.truncate config) []) = Inr ())"
proof -
  let ?p = "plan (node_config.truncate config)"
  obtain new where new: "snd (h_new_full sdk config []) = new"
    and res: "case fst (h_new_full sdk config []) of Inr a \<Rightarrow> abs_log new = ?p
      | Inl e \<Rightarrow> (\<exists>pre c post d. ?p = pre @ Call c # post \<and> abs_log new = pre @ [Call c] \<and>
          e = error_of c d)"
    using carries_out_new_full [of sdk config] unfolding carries_out_def
    by (auto dest!: spec [of _ "[]"])
  show ?thesis
  proof (cases "fst (h_new_full sdk config [])")
    case (Inl e)
    with res obtain pre c post d where "?p = pre @ Call c # post"
      and "abs_log new = pre @ [Call c]" and "e = error_of c d" by auto
    then show ?thesis
      using new_full_failing_at [of "node_config.truncate config" pre c post d] Inl new
      by (intro exI [of _ "(\<lambda>_. None)(c := Some d)"]) simp
  next
    case (Inr a)
    with res new show ?thesis
      by (intro exI [of _ "\<lambda>_. None"]) (simp add: new_full_succeeding)
  qed
qed

end
