(* ===== verification/Service_Roles.thy ===== *)
theory Service_Roles
  imports Service_Handles "HOL-Library.Sublist"
begin

section \<open>Which handle goes where (\<open>node/src/service.rs\<close>)\<close>

text \<open>
  Every argument of a call of \<open>Service_Handles\<close> has a role (the client, the pool, the block
  import, ...), and so has every handle a call returns. Runs of the assembly are shown to use
  each handle only in the role it was given for, and to fill each role at most once.
\<close>

subsection \<open>Roles of handles\<close>

datatype role =
    R_executor_config | R_network_config | R_chain_spec | R_pool_options | R_prometheus
  | R_telemetry_worker | R_worker_handle | R_worker_run | R_telemetry | R_telemetry_handle
  | R_executor | R_client | R_backend | R_keystore | R_task_manager | R_spawner
  | R_essential_spawner | R_offchain_db | R_select_chain | R_pool | R_block_import | R_link
  | R_authority_set | R_import_queue | R_net_config | R_peer_store | R_metrics
  | R_genesis_hash | R_protocol_name | R_protocol_config | R_notification_service
  | R_warp_sync | R_network | R_system_rpc_tx | R_tx_handler_controller | R_sync
  | R_offchain_workers | R_offchain_run | R_proposer_factory | R_slot_duration | R_aura
  | R_voter

text \<open>
  The handles a call or a spawn uses, each with its role; \<open>None\<close> where an optional one is
  absent. A GRANDPA voter without a keystore uses none.
\<close>

fun cidp_uses :: "'h cidp \<Rightarrow> (role \<times> 'h option) list" where
  "cidp_uses (Slot_duration_at_parent c) = [(R_client, Some c)]"
| "cidp_uses (Fixed_slot_duration d) = [(R_slot_duration, Some d)]"

fun uses :: "'h op \<Rightarrow> (role \<times> 'h option) list" where
  "uses (TelemetryWorker_new n) = []"
| "uses (New_telemetry h endpoints) = [(R_worker_handle, Some h)]"
| "uses (New_wasm_executor c) = [(R_executor_config, Some c)]"
| "uses (New_full_parts_of t ex fs) = [(R_telemetry_handle, t), (R_executor, Some ex)]"
| "uses (LongestChain_new b) = [(R_backend, Some b)]"
| "uses (Pool_build p) =
     [(R_essential_spawner, Some (pb_spawner p)), (R_client, Some (pb_client p)),
      (R_pool_options, Some (pb_options p)), (R_prometheus, pb_prometheus p)]"
| "uses (Block_import_new c period c' sc t) =
     [(R_client, Some c), (R_client, Some c'), (R_select_chain, Some sc), (R_telemetry_handle, t)]"
| "uses (Import_queue_new p) =
     [(R_block_import, Some (iq_block_import p)), (R_block_import, iq_justification_import p),
      (R_client, Some (iq_client p)), (R_essential_spawner, Some (iq_spawner p)),
      (R_prometheus, iq_registry p), (R_telemetry_handle, iq_telemetry p)] @
     cidp_uses (iq_create_inherent_data_providers p)"
| "uses (Network_configuration_new n reg) = [(R_network_config, Some n), (R_prometheus, reg)]"
| "uses (Register_notification_metrics reg) = [(R_prometheus, reg)]"
| "uses (Block_hash_of c n) = [(R_client, Some c)]"
| "uses (Protocol_standard_name g cs) = [(R_genesis_hash, Some g), (R_chain_spec, Some cs)]"
| "uses (Grandpa_peers_set_config n m ps) =
     [(R_protocol_name, Some n), (R_metrics, Some m), (R_peer_store, Some ps)]"
| "uses (Add_notification_protocol nc pc) = [(R_net_config, Some nc), (R_protocol_config, Some pc)]"
| "uses (Warp_proof_provider_new b s) = [(R_backend, Some b), (R_authority_set, Some s)]"
| "uses (Network_build p) =
     [(R_net_config, Some (nw_net_config p)), (R_client, Some (nw_client p)),
      (R_pool, Some (nw_transaction_pool p)), (R_spawner, Some (nw_spawn_handle p)),
      (R_essential_spawner, Some (nw_spawn_essential_handle p)),
      (R_import_queue, Some (nw_import_queue p)), (R_warp_sync, nw_warp_sync p),
      (R_metrics, Some (nw_metrics p))]"
| "uses (Offchain_new p) =
     [(R_client, Some (ow_runtime_api_provider p)), (R_keystore, ow_keystore p),
      (R_offchain_db, Some (ow_offchain_db p)), (R_pool, ow_transaction_pool p),
      (R_network, Some (ow_network_provider p))]"
| "uses (Offchain_run w c sp) =
     [(R_offchain_workers, Some w), (R_client, Some c), (R_spawner, Some sp)]"
| "uses (Tasks_spawn p) =
     [(R_network, Some (stp_network p)), (R_client, Some (stp_client p)),
      (R_keystore, Some (stp_keystore p)), (R_task_manager, Some (stp_task_manager p)),
      (R_pool, Some (stp_transaction_pool p)),
      (R_client, Some (fd_client (stp_rpc_builder p))), (R_pool, Some (fd_pool (stp_rpc_builder p))),
      (R_backend, Some (stp_backend p)), (R_system_rpc_tx, Some (stp_system_rpc_tx p)),
      (R_tx_handler_controller, Some (stp_tx_handler_controller p)),
      (R_sync, Some (stp_sync_service p)), (R_telemetry, stp_telemetry p)]"
| "uses (Proposer_factory_new sp c pool reg t) =
     [(R_spawner, Some sp), (R_client, Some c), (R_pool, Some pool), (R_prometheus, reg),
      (R_telemetry_handle, t)]"
| "uses (Slot_duration_of c) = [(R_client, Some c)]"
| "uses (Aura_start p) =
     [(R_slot_duration, Some (au_slot_duration p)), (R_client, Some (au_client p)),
      (R_select_chain, Some (au_select_chain p)), (R_block_import, Some (au_block_import p)),
      (R_proposer_factory, Some (au_proposer_factory p)), (R_keystore, Some (au_keystore p)),
      (R_sync, Some (au_sync_oracle p)), (R_sync, Some (au_justification_sync_link p)),
      (R_telemetry_handle, au_telemetry p)] @
     cidp_uses (au_create_inherent_data_providers p)"
| "uses (Voter_run p) =
     (case vc_keystore (vp_config p) of None \<Rightarrow> [] | Some k \<Rightarrow> [(R_keystore, Some k)]) @
     [(R_telemetry_handle, vc_telemetry (vp_config p)),
      (R_protocol_name, Some (vc_protocol_name (vp_config p))), (R_link, Some (vp_link p)),
      (R_network, Some (vp_network p)), (R_sync, Some (vp_sync p)),
      (R_notification_service, Some (vp_notification_service p)),
      (R_prometheus, vp_prometheus_registry p), (R_telemetry_handle, vp_telemetry p),
      (R_pool, Some (vp_transaction_pool p))]"


definition spawner_role :: "task \<Rightarrow> role" where
  "spawner_role t = (if task_class t = Ordinary then R_spawner else R_essential_spawner)"

definition future_role :: "task \<Rightarrow> role" where
  "future_role t =
     (if t = telemetry_task then R_worker_run else if t = offchain_task then R_offchain_run
      else if t = aura_task then R_aura else R_voter)"

primrec ev_uses :: "'h hevent \<Rightarrow> (role \<times> 'h option) list" where
  "ev_uses (Did c r) = uses c"
| "ev_uses (Failed c) = uses c"
| "ev_uses (Spawned t spawner future) =
     [(spawner_role t, Some spawner), (future_role t, Some future)]"

text \<open>
  The handles a call returns, with those read off them, and the handles the configuration
  brings along.
\<close>

fun gives :: "('h, 'err) sdk \<Rightarrow> 'h op \<Rightarrow> (nat \<Rightarrow> 'h) \<Rightarrow> (role \<times> 'h) list" where
  "gives sdk (TelemetryWorker_new n) r =
     [(R_telemetry_worker, r 0), (R_worker_handle, sdk_get sdk Get_worker_handle (r 0)),
      (R_worker_run, sdk_get sdk Get_worker_run (r 0))]"
| "gives sdk (New_telemetry h endpoints) r =
     [(R_telemetry, r 0), (R_telemetry_handle, sdk_get sdk Get_telemetry_handle (r 0))]"
| "gives sdk (New_wasm_executor c) r = [(R_executor, r 0)]"
| "gives sdk (New_full_parts_of t ex fs) r =
     [(R_client, r 0), (R_backend, r 1), (R_keystore, sdk_get sdk Get_keystore (r 2)),
      (R_task_manager, r 3), (R_spawner, sdk_get sdk Get_spawn_handle (r 3)),
      (R_essential_spawner, sdk_get sdk Get_spawn_essential_handle (r 3)),
      (R_offchain_db, sdk_get sdk Get_offchain_storage (r 1))]"
| "gives sdk (LongestChain_new b) r = [(R_select_chain, r 0)]"
| "gives sdk (Pool_build p) r = [(R_pool, r 0)]"
| "gives sdk (Block_import_new c period c' sc t) r =
     [(R_block_import, r 0), (R_link, r 1),
      (R_authority_set, sdk_get sdk Get_shared_authority_set (r 1))]"
| "gives sdk (Import_queue_new p) r = [(R_import_queue, r 0)]"
| "gives sdk (Network_configuration_new n reg) r =
     [(R_net_config, r 0), (R_peer_store, sdk_get sdk Get_peer_store_handle (r 0))]"
| "gives sdk (Register_notification_metrics reg) r = [(R_metrics, r 0)]"
| "gives sdk (Block_hash_of c n) r = [(R_genesis_hash, r 0)]"
| "gives sdk (Protocol_standard_name g cs) r = [(R_protocol_name, r 0)]"
| "gives sdk (Grandpa_peers_set_config n m ps) r =
     [(R_protocol_config, r 0), (R_notification_service, r 1)]"
| "gives sdk (Add_notification_protocol nc pc) r = []"
| "gives sdk (Warp_proof_provider_new b s) r = [(R_warp_sync, r 0)]"
| "gives sdk (Network_build p) r =
     [(R_network, r 0), (R_system_rpc_tx, r 1), (R_tx_handler_controller, r 2), (R_sync, r 3)]"
| "gives sdk (Offchain_new p) r = [(R_offchain_workers, r 0)]"
| "gives sdk (Offchain_run w c sp) r = [(R_offchain_run, r 0)]"
| "gives sdk (Tasks_spawn p) r = []"
| "gives sdk (Proposer_factory_new sp c pool reg t) r = [(R_proposer_factory, r 0)]"
| "gives sdk (Slot_duration_of c) r = [(R_slot_duration, r 0)]"
| "gives sdk (Aura_start p) r = [(R_aura, r 0)]"
| "gives sdk (Voter_run p) r = [(R_voter, r 0)]"

primrec ev_gives :: "('h, 'err) sdk \<Rightarrow> 'h hevent \<Rightarrow> (role \<times> 'h) list" where
  "ev_gives sdk (Did c r) = gives sdk c r"
| "ev_gives sdk (Failed c) = []"
| "ev_gives sdk (Spawned t spawner future) = []"

definition config_gives :: "'h full_config \<Rightarrow> (role \<times> 'h) list" where
  "config_gives config =
     [(R_executor_config, cfg_executor config), (R_network_config, cfg_network config),
      (R_chain_spec, cfg_chain_spec config), (R_pool_options, cfg_transaction_pool config)] @
     (case cfg_prometheus_registry config of None \<Rightarrow> [] | Some h \<Rightarrow> [(R_prometheus, h)])"

definition log_gives :: "('h, 'err) sdk \<Rightarrow> 'h hevent list \<Rightarrow> (role \<times> 'h) list" where
  "log_gives sdk es = concat (map (ev_gives sdk) es)"

lemma log_gives_simps [simp]:
  "log_gives sdk [] = []" "log_gives sdk (e # es) = ev_gives sdk e @ log_gives sdk es"
  "log_gives sdk (xs @ ys) = log_gives sdk xs @ log_gives sdk ys"
  by (simp_all add: log_gives_def)

subsection \<open>Runs in which every handle plays its role\<close>

text \<open>
  \<open>wired sdk env es\<close>: every event uses, in each role, the handle that \<open>env\<close> or an event before
  it gave that role, and no optional handle is left out when there is one.
\<close>

type_synonym 'h role_env = "role \<rightharpoonup> 'h"

definition give :: "'h role_env \<Rightarrow> (role \<times> 'h) list \<Rightarrow> 'h role_env" where
  "give env gs = foldl (\<lambda>env (role, h). env(role \<mapsto> h)) env gs"

lemma give_simps [simp]:
  "give env [] = env" "give env ((role, h) # gs) = give (env(role \<mapsto> h)) gs"
  "give env (xs @ ys) = give (give env xs) ys"
  by (simp_all add: give_def)

definition fits :: "'h role_env \<Rightarrow> (role \<times> 'h option) list \<Rightarrow> bool" where
  "fits env us \<longleftrightarrow> list_all (\<lambda>(role, h). env role = h) us"

primrec wired :: "('h, 'err) sdk \<Rightarrow> 'h role_env \<Rightarrow> 'h hevent list \<Rightarrow> bool" where
  "wired sdk env [] = True"
| "wired sdk env (e # es) \<longleftrightarrow>
     fits env (ev_uses e) \<and> wired sdk (give env (ev_gives sdk e)) es"

lemma wired_append:
  "wired sdk env (xs @ ys) \<longleftrightarrow> wired sdk env xs \<and> wired sdk (give env (log_gives sdk xs)) ys"
  by (induction xs arbitrary: env) auto

text \<open>
  \<open>wires sdk env m Q\<close>: from \<open>env\<close> every run of \<open>m\<close> is wired, and when it succeeds its result and
  the roles given by then satisfy \<open>Q\<close>.
\<close>

definition wires ::
  "('h, 'err) sdk \<Rightarrow> 'h role_env \<Rightarrow> ('h hevent, 'err, 'a) prog \<Rightarrow> ('a \<Rightarrow> 'h role_env \<Rightarrow> bool) \<Rightarrow> bool"
  where
  "wires sdk env m Q \<longleftrightarrow>
     (\<forall>log. \<exists>new. snd (m log) = log @ new \<and> wired sdk env new \<and>
        (case fst (m log) of Inl e \<Rightarrow> True | Inr a \<Rightarrow> Q a (give env (log_gives sdk new))))"

named_theorems wires_intros \<open>the combinators keep handles in their roles\<close>

lemma wires_return: "Q a env \<Longrightarrow> wires sdk env (svc_return a) Q"
  by (simp add: wires_def svc_return_def)

lemma wires_bind:
  assumes "wires sdk env m R" and "\<And>a env'. R a env' \<Longrightarrow> wires sdk env' (k a) Q"
  shows "wires sdk env (svc_bind m k) Q"
  unfolding wires_def
proof
  fix log
  obtain new where new: "snd (m log) = log @ new" and w: "wired sdk env new"
    and R: "case fst (m log) of Inl e \<Rightarrow> True | Inr a \<Rightarrow> R a (give env (log_gives sdk new))"
    using assms(1) unfolding wires_def by blast
  show "\<exists>new. snd (svc_bind m k log) = log @ new \<and> wired sdk env new \<and>
      (case fst (svc_bind m k log) of Inl e \<Rightarrow> True | Inr a \<Rightarrow> Q a (give env (log_gives sdk new)))"
  proof (cases "fst (m log)")
    case (Inl e)
    then have "m log = (Inl e, log @ new)" using new by (metis prod.collapse)
    with w show ?thesis by (simp add: svc_bind_def)
  next
    case (Inr a)
    then have ml: "m log = (Inr a, log @ new)" using new by (metis prod.collapse)
    have "wires sdk (give env (log_gives sdk new)) (k a) Q" using assms(2) R Inr by simp
    then obtain new' where "snd (k a (log @ new)) = (log @ new) @ new'"
      and "wired sdk (give env (log_gives sdk new)) new'"
      and "case fst (k a (log @ new)) of Inl e \<Rightarrow> True
        | Inr b \<Rightarrow> Q b (give (give env (log_gives sdk new)) (log_gives sdk new'))"
      unfolding wires_def by blast
    with w show ?thesis
      by (intro exI [of _ "new @ new'"])
        (auto simp: svc_bind_def ml wired_append split: sum.splits)
  qed
qed

lemma wires_make:
  "fits env (uses c) \<Longrightarrow> (\<And>r. Q r (give env (gives sdk c r))) \<Longrightarrow> wires sdk env (h_make sdk c) Q"
  by (simp add: wires_def h_make_def Let_def)

lemma wires_try:
  "fits env (uses c) \<Longrightarrow> (\<And>r. Q r (give env (gives sdk c r))) \<Longrightarrow> wires sdk env (h_try sdk c) Q"
  by (auto simp: wires_def h_try_def split: sum.splits)

lemma wires_expect:
  "fits env (uses c) \<Longrightarrow> (\<And>r. Q r (give env (gives sdk c r))) \<Longrightarrow>
     wires sdk env (h_expect sdk c msg) Q"
  by (auto simp: wires_def h_expect_def split: sum.splits)

lemma wires_spawn:
  "fits env [(spawner_role t, Some sp), (future_role t, Some fut)] \<Longrightarrow> Q () env \<Longrightarrow>
     wires sdk env (h_spawn t sp fut) Q"
  by (simp add: wires_def h_spawn_def)

lemma wires_when:
  "(b \<Longrightarrow> wires sdk env m Q) \<Longrightarrow> Q () env \<Longrightarrow> wires sdk env (svc_when b m) Q"
  by (simp add: svc_when_def wires_return)

lemma wires_bind_make [wires_intros]:
  assumes "fits env (uses c)" and "\<And>r. wires sdk (give env (gives sdk c r)) (k r) Q"
  shows "wires sdk env (svc_bind (h_make sdk c) k) Q"
  by (rule wires_bind [where R = "\<lambda>r env'. env' = give env (gives sdk c r)"])
    (auto intro: wires_make assms)

lemma wires_bind_try [wires_intros]:
  assumes "fits env (uses c)" and "\<And>r. wires sdk (give env (gives sdk c r)) (k r) Q"
  shows "wires sdk env (svc_bind (h_try sdk c) k) Q"
  by (rule wires_bind [where R = "\<lambda>r env'. env' = give env (gives sdk c r)"])
    (auto intro: wires_try assms)

lemma wires_bind_expect [wires_intros]:
  assumes "fits env (uses c)" and "\<And>r. wires sdk (give env (gives sdk c r)) (k r) Q"
  shows "wires sdk env (svc_bind (h_expect sdk c msg) k) Q"
  by (rule wires_bind [where R = "\<lambda>r env'. env' = give env (gives sdk c r)"])
    (auto intro: wires_expect assms)

lemma wires_bind_spawn [wires_intros]:
  assumes "fits env [(spawner_role t, Some sp), (future_role t, Some fut)]"
    and "wires sdk env (k ()) Q"
  shows "wires sdk env (svc_bind (h_spawn t sp fut) k) Q"
  by (rule wires_bind [where R = "\<lambda>_ env'. env' = env"]) (auto intro: wires_spawn assms)

subsection \<open>The assembly keeps every handle in its role\<close>

definition config_env :: "'h full_config \<Rightarrow> 'h role_env" where
  "config_env config = give Map.empty (config_gives config)"

text \<open>The roles the configuration brings are in place.\<close>

definition config_ok :: "'h full_config \<Rightarrow> 'h role_env \<Rightarrow> bool" where
  "config_ok config env \<longleftrightarrow>
     env R_executor_config = Some (cfg_executor config) \<and>
     env R_network_config = Some (cfg_network config) \<and>
     env R_chain_spec = Some (cfg_chain_spec config) \<and>
     env R_pool_options = Some (cfg_transaction_pool config) \<and>
     env R_prometheus = cfg_prometheus_registry config"

definition partial_ok :: "('h, 'err) sdk \<Rightarrow> 'h partial_components \<Rightarrow> 'h role_env \<Rightarrow> bool" where
  "partial_ok sdk pc env \<longleftrightarrow>
     env R_client = Some (pc_client pc) \<and> env R_backend = Some (pc_backend pc) \<and>
     env R_task_manager = Some (pc_task_manager pc) \<and>
     env R_spawner = Some (sdk_get sdk Get_spawn_handle (pc_task_manager pc)) \<and>
     env R_essential_spawner = Some (sdk_get sdk Get_spawn_essential_handle (pc_task_manager pc)) \<and>
     env R_import_queue = Some (pc_import_queue pc) \<and>
     env R_keystore = Some (sdk_get sdk Get_keystore (pc_keystore_container pc)) \<and>
     env R_offchain_db = Some (sdk_get sdk Get_offchain_storage (pc_backend pc)) \<and>
     env R_select_chain = Some (pc_select_chain pc) \<and>
     env R_pool = Some (pc_transaction_pool pc) \<and>
     env R_block_import = Some (pc_block_import pc) \<and>
     env R_link = Some (pc_grandpa_link pc) \<and>
     env R_authority_set = Some (sdk_get sdk Get_shared_authority_set (pc_grandpa_link pc)) \<and>
     env R_telemetry = pc_telemetry pc \<and>
     env R_telemetry_handle = map_option (sdk_get sdk Get_telemetry_handle) (pc_telemetry pc)"

definition network_ok :: "'h network_handles \<Rightarrow> 'h role_env \<Rightarrow> bool" where
  "network_ok nh env \<longleftrightarrow>
     env R_network = Some (nh_network nh) \<and>
     env R_system_rpc_tx = Some (nh_system_rpc_tx nh) \<and>
     env R_tx_handler_controller = Some (nh_tx_handler_controller nh) \<and>
     env R_sync = Some (nh_sync_service nh) \<and>
     env R_protocol_name = Some (nh_protocol_name nh) \<and>
     env R_notification_service = Some (nh_notification_service nh)"

definition node_ok where
  "node_ok sdk config pc nh env \<longleftrightarrow>
     config_ok config env \<and> partial_ok sdk pc env \<and> network_ok nh env"

lemmas ok_defs = config_ok_def partial_ok_def network_ok_def node_ok_def

lemma task_roles [simp]:
  "spawner_role telemetry_task = R_spawner" "spawner_role offchain_task = R_spawner"
  "spawner_role aura_task = R_essential_spawner" "spawner_role grandpa_task = R_essential_spawner"
  "future_role telemetry_task = R_worker_run" "future_role offchain_task = R_offchain_run"
  "future_role aura_task = R_aura" "future_role grandpa_task = R_voter"
  by (simp_all add: spawner_role_def future_role_def telemetry_task_def offchain_task_def
      aura_task_def grandpa_task_def)

lemma wires_offchain:
  "node_ok sdk config pc nh env \<Longrightarrow>
     wires sdk env (h_offchain sdk config pc nh) (\<lambda>_. node_ok sdk config pc nh)"
  unfolding h_offchain_def Let_def
  by (intro wires_intros wires_spawn) (simp_all add: ok_defs fits_def)

lemma wires_spawn_tasks:
  "node_ok sdk config pc nh env \<Longrightarrow>
     wires sdk env (h_spawn_tasks sdk pc nh) (\<lambda>_. node_ok sdk config pc nh)"
  unfolding h_spawn_tasks_def Let_def
  by (intro wires_intros wires_return) (simp_all add: ok_defs fits_def)

lemma wires_authoring:
  "node_ok sdk config pc nh env \<Longrightarrow>
     wires sdk env (h_authoring sdk config pc nh) (\<lambda>_. node_ok sdk config pc nh)"
  unfolding h_authoring_def Let_def
  by (intro wires_intros wires_spawn) (simp_all add: ok_defs fits_def)

lemma wires_grandpa:
  "node_ok sdk config pc nh env \<Longrightarrow>
     wires sdk env (h_grandpa sdk config pc nh) (\<lambda>_. node_ok sdk config pc nh)"
  unfolding h_grandpa_def Let_def
  by (intro wires_intros wires_spawn) (simp_all add: ok_defs fits_def)

lemma wires_network:
  "config_ok config env \<Longrightarrow> partial_ok sdk pc env \<Longrightarrow>
     wires sdk env (h_network sdk config pc) (\<lambda>nh. node_ok sdk config pc nh)"
  unfolding h_network_def Let_def
  by (intro wires_intros wires_return) (simp_all add: ok_defs fits_def)


definition telemetry_ok :: "('h, 'err) sdk \<Rightarrow> ('h \<times> 'h) option \<Rightarrow> 'h role_env \<Rightarrow> bool" where
  "telemetry_ok sdk telemetry env \<longleftrightarrow>
     (case telemetry of
        None \<Rightarrow> env R_telemetry = None \<and> env R_telemetry_handle = None
      | Some (w, t) \<Rightarrow> env R_worker_run = Some (sdk_get sdk Get_worker_run w) \<and>
          env R_telemetry = Some t \<and>
          env R_telemetry_handle = Some (sdk_get sdk Get_telemetry_handle t))"

lemma wires_telemetry:
  assumes "config_ok config env" and "env R_telemetry = None" and "env R_telemetry_handle = None"
  shows "wires sdk env (h_telemetry sdk config)
    (\<lambda>telemetry env'. config_ok config env' \<and> telemetry_ok sdk telemetry env')"
  unfolding h_telemetry_def Let_def using assms
  by (auto split: option.split intro!: wires_intros wires_return
      simp: config_ok_def telemetry_ok_def fits_def)

lemma wires_run_telemetry:
  assumes "telemetry_ok sdk telemetry env"
    and "env R_spawner = Some (sdk_get sdk Get_spawn_handle tm)"
  shows "wires sdk env (h_run_telemetry sdk tm telemetry)
    (\<lambda>t env'. env' = env \<and> env R_telemetry = t \<and>
       env R_telemetry_handle = map_option (sdk_get sdk Get_telemetry_handle) t)"
  unfolding h_run_telemetry_def using assms
  by (auto split: option.split intro!: wires_return wires_intros
      simp: telemetry_ok_def fits_def)

lemma wires_new_partial:
  assumes "config_ok config env" and "env R_telemetry = None" and "env R_telemetry_handle = None"
  shows "wires sdk env (h_new_partial sdk config)
    (\<lambda>pc env'. config_ok config env' \<and> partial_ok sdk pc env')"
  unfolding h_new_partial_def Let_def
  apply (rule wires_bind [OF wires_telemetry [OF assms]])
  apply (elim conjE)
  apply (intro wires_intros)
    apply (simp add: config_ok_def fits_def)
   apply (simp add: telemetry_ok_def fits_def split: option.splits prod.splits)
  apply (rule wires_bind [OF wires_run_telemetry])
    apply (simp add: telemetry_ok_def split: option.splits prod.splits)
   apply simp
  apply (elim conjE, hypsubst)
  apply (intro wires_intros wires_return; simp add: ok_defs fits_def)
  done


lemma config_ok_env: "config_ok config (config_env config)"
  "config_env config R_telemetry = None" "config_env config R_telemetry_handle = None"
  by (simp_all add: config_ok_def config_env_def config_gives_def split: option.split)

lemma wires_new_full:
  "wires sdk (config_env config) (h_new_full sdk config) (\<lambda>tm env. env R_task_manager = Some tm)"
  unfolding h_new_full_def
  by (rule wires_bind [OF wires_new_partial [OF config_ok_env]], elim conjE,
      rule wires_bind [OF wires_network], assumption, assumption,
      rule wires_bind [OF wires_when [OF wires_offchain]], assumption, assumption,
      rule wires_bind [OF wires_spawn_tasks], assumption,
      rule wires_bind [OF wires_when [OF wires_authoring]], assumption, assumption,
      rule wires_bind [OF wires_when [OF wires_grandpa]], assumption, assumption,
      rule wires_return) (simp add: ok_defs)


subsection \<open>Each role is filled at most once\<close>

definition fills :: "('h, 'err) sdk \<Rightarrow> ('h hevent, 'err, 'a) prog \<Rightarrow> role list \<Rightarrow> bool" where
  "fills sdk m rs \<longleftrightarrow>
     (\<forall>log. \<exists>new. snd (m log) = log @ new \<and> subseq (map fst (log_gives sdk new)) rs)"

named_theorems fills_intros \<open>the roles the combinators fill, in order\<close>

lemma fills_return [fills_intros]: "fills sdk (svc_return a) []"
  by (simp add: fills_def svc_return_def)

lemma fills_bind [fills_intros]:
  assumes "fills sdk m xs" and "\<And>a. fills sdk (k a) ys"
  shows "fills sdk (svc_bind m k) (xs @ ys)"
  unfolding fills_def
proof
  fix log
  obtain new where new: "snd (m log) = log @ new" "subseq (map fst (log_gives sdk new)) xs"
    using assms(1) unfolding fills_def by blast
  show "\<exists>new. snd (svc_bind m k log) = log @ new \<and> subseq (map fst (log_gives sdk new)) (xs @ ys)"
  proof (cases "fst (m log)")
    case (Inl e)
    then have "m log = (Inl e, log @ new)" using new by (metis prod.collapse)
    then show ?thesis using new(2) by (auto simp: svc_bind_def)
  next
    case (Inr a)
    then have ml: "m log = (Inr a, log @ new)" using new by (metis prod.collapse)
    obtain new' where "snd (k a (log @ new)) = (log @ new) @ new'"
      and "subseq (map fst (log_gives sdk new')) ys"
      using assms(2) [of a] unfolding fills_def by blast
    with new(2) show ?thesis
      by (intro exI [of _ "new @ new'"]) (auto simp: svc_bind_def ml list_emb_append_mono)
  qed
qed

lemma fills_make [fills_intros]:
  "(\<And>r. map fst (gives sdk c r) = rs) \<Longrightarrow> fills sdk (h_make sdk c) rs"
  by (simp add: fills_def h_make_def Let_def)

lemma fills_try [fills_intros]:
  "(\<And>r. map fst (gives sdk c r) = rs) \<Longrightarrow> fills sdk (h_try sdk c) rs"
  by (auto simp: fills_def h_try_def split: sum.splits)

lemma fills_expect [fills_intros]:
  "(\<And>r. map fst (gives sdk c r) = rs) \<Longrightarrow> fills sdk (h_expect sdk c msg) rs"
  by (auto simp: fills_def h_expect_def split: sum.splits)

lemma fills_spawn [fills_intros]: "fills sdk (h_spawn t sp fut) []"
  by (simp add: fills_def h_spawn_def)

lemma fills_when [fills_intros]: "fills sdk m rs \<Longrightarrow> fills sdk (svc_when b m) rs"
  by (auto simp: svc_when_def fills_def svc_return_def)

lemma fills_le: "fills sdk m xs \<Longrightarrow> subseq xs ys \<Longrightarrow> fills sdk m ys"
  unfolding fills_def using subseq_order.trans by blast

lemma fills_telemetry:
  "fills sdk (h_telemetry sdk config)
     [R_telemetry_worker, R_worker_handle, R_worker_run, R_telemetry, R_telemetry_handle]"
proof -
  have "fills sdk (svc_bind (h_try sdk (TelemetryWorker_new 16)) (\<lambda>r.
      svc_bind (h_make sdk (New_telemetry (sdk_get sdk Get_worker_handle (r 0)) eps)) (\<lambda>ra.
      svc_return (Some (r 0, ra 0)))))
     ([R_telemetry_worker, R_worker_handle, R_worker_run] @ [R_telemetry, R_telemetry_handle] @ [])"
    for eps
    by (intro fills_intros) simp_all
  then show ?thesis
    by (auto simp: h_telemetry_def Let_def split: option.split
        intro: fills_le [OF fills_return])
qed

lemma fills_run_telemetry: "fills sdk (h_run_telemetry sdk tm telemetry) []"
proof -
  have "fills sdk (svc_bind (h_spawn t sp f) (\<lambda>_. svc_return x)) ([] @ [])" for t sp f x
    by (intro fills_intros)
  then show ?thesis by (auto simp: h_run_telemetry_def fills_return split: option.split)
qed

definition all_roles :: "role list" where
  "all_roles =
     [R_telemetry_worker, R_worker_handle, R_worker_run, R_telemetry, R_telemetry_handle,
      R_executor, R_client, R_backend, R_keystore, R_task_manager, R_spawner,
      R_essential_spawner, R_offchain_db, R_select_chain, R_pool, R_block_import, R_link,
      R_authority_set, R_import_queue, R_net_config, R_peer_store, R_metrics, R_genesis_hash,
      R_protocol_name, R_protocol_config, R_notification_service, R_warp_sync, R_network,
      R_system_rpc_tx, R_tx_handler_controller, R_sync, R_offchain_workers, R_offchain_run,
      R_proposer_factory, R_slot_duration, R_aura, R_voter]"

lemma fills_new_full: "fills sdk (h_new_full sdk config) all_roles"
  unfolding h_new_full_def h_new_partial_def h_network_def h_offchain_def h_spawn_tasks_def
    h_authoring_def h_grandpa_def Let_def
  by (rule fills_le,
      (rule fills_telemetry fills_run_telemetry fills_intros, (simp; fail)?)+)
    (simp add: all_roles_def)


subsection \<open>Logs of runs\<close>

lemma set_subseq: "subseq xs ys \<Longrightarrow> set xs \<subseteq> set ys"
  by (induction rule: list_emb.induct) auto

lemma distinct_subseq: "subseq xs ys \<Longrightarrow> distinct ys \<Longrightarrow> distinct xs"
  by (induction rule: list_emb.induct) (auto dest: set_subseq)

lemma give_map_of: "give env gs = env ++ map_of (rev gs)"
  by (induction gs arbitrary: env) (auto simp: map_add_assoc split: prod.splits)

lemma wired_nth:
  "wired sdk env es \<Longrightarrow> i < length es \<Longrightarrow> fits (give env (log_gives sdk (take i es))) (ev_uses (es ! i))"
proof (induction es arbitrary: env i)
  case (Cons e es)
  then show ?case by (cases i) auto
qed simp

lemma new_full_wired: "wired sdk (config_env config) (snd (h_new_full sdk config []))"
  using wires_new_full [of sdk config] unfolding wires_def by (auto dest!: spec [of _ "[]"])

definition all_gives :: "('h, 'err) sdk \<Rightarrow> 'h full_config \<Rightarrow> 'h hevent list \<Rightarrow> (role \<times> 'h) list" where
  "all_gives sdk config log = config_gives config @ log_gives sdk log"

lemma distinct_all_gives:
  "distinct (map fst (all_gives sdk config (snd (h_new_full sdk config []))))"
proof -
  let ?given = "map fst (log_gives sdk (snd (h_new_full sdk config [])))"
  have sub: "subseq ?given all_roles"
    using fills_new_full [of sdk config] unfolding fills_def by (auto dest!: spec [of _ "[]"])
  have "distinct all_roles" by (simp add: all_roles_def)
  with sub have "distinct ?given" by (rule distinct_subseq)
  moreover have "set ?given \<subseteq> set all_roles"
    by (rule set_subseq [OF sub])
  moreover have "distinct (map fst (config_gives config))"
    and "set (map fst (config_gives config)) \<inter> set all_roles = {}"
    by (auto simp: config_gives_def all_roles_def split: option.splits)
  ultimately show ?thesis by (auto simp: all_gives_def)
qed

lemma role_use:
  assumes "i < length (snd (h_new_full sdk config []))"
    and "(role, h) \<in> set (ev_uses (snd (h_new_full sdk config []) ! i))"
  shows "map_of (rev (all_gives sdk config (take i (snd (h_new_full sdk config []))))) role = h"
  using wired_nth [OF new_full_wired assms(1)] assms(2)
  by (auto simp: fits_def list_all_iff config_env_def give_map_of all_gives_def)

lemma role_use_Some:
  assumes "i < length (snd (h_new_full sdk config []))"
    and "(role, Some h) \<in> set (ev_uses (snd (h_new_full sdk config []) ! i))"
  shows "(role, h) \<in> set (all_gives sdk config (take i (snd (h_new_full sdk config []))))"
  using map_of_SomeD [OF role_use [OF assms]] by simp

lemma role_use_None:
  assumes "i < length (snd (h_new_full sdk config []))"
    and "(role, None) \<in> set (ev_uses (snd (h_new_full sdk config []) ! i))"
  shows "role \<notin> fst ` set (all_gives sdk config (take i (snd (h_new_full sdk config []))))"
  using role_use [OF assms] by (simp add: map_of_eq_None_iff)

lemma set_log_gives_take: "set (log_gives sdk (take i log)) \<subseteq> set (log_gives sdk log)"
  by (auto simp: log_gives_def dest: in_set_takeD)

lemma used_given:
  assumes "e \<in> set (snd (h_new_full sdk config []))" and "(role, Some h) \<in> set (ev_uses e)"
  shows "(role, h) \<in> set (all_gives sdk config (snd (h_new_full sdk config [])))"
proof -
  let ?log = "snd (h_new_full sdk config [])"
  obtain i where "i < length ?log" "?log ! i = e" using assms(1) by (auto simp: in_set_conv_nth)
  with assms(2) have "(role, h) \<in> set (all_gives sdk config (take i ?log))"
    by (intro role_use_Some) simp_all
  then show ?thesis using set_log_gives_take by (auto simp: all_gives_def)
qed

lemma given_by:
  "Did c r \<in> set log \<Longrightarrow> (role, h) \<in> set (gives sdk c r) \<Longrightarrow>
     (role, h) \<in> set (all_gives sdk config log)"
  by (force simp: all_gives_def log_gives_def)

lemma used_is_given:
  assumes "e \<in> set (snd (h_new_full sdk config []))" and "(role, Some h) \<in> set (ev_uses e)"
    and "(role, h') \<in> set (all_gives sdk config (snd (h_new_full sdk config [])))"
  shows "h = h'"
  by (rule eq_key_imp_eq_value [OF distinct_all_gives used_given [OF assms(1,2)] assms(3)])

subsection \<open>Where a role comes from\<close>

lemma given_from:
  assumes "(role, h) \<in> set (all_gives sdk config log)"
    and "role \<in> {R_task_manager, R_worker_run, R_offchain_workers, R_offchain_run, R_aura, R_voter}"
  obtains c r where "Did c r \<in> set log" and "(role, h) \<in> set (gives sdk c r)"
proof -
  have "(role, h) \<in> set (log_gives sdk log)"
    using assms by (auto simp: all_gives_def config_gives_def split: option.splits)
  then obtain e where "e \<in> set log" and "(role, h) \<in> set (ev_gives sdk e)"
    by (auto simp: log_gives_def)
  then show thesis by (cases e rule: hevent.exhaust) (auto intro: that)
qed

lemma gives_inverse:
  "(R_task_manager, h) \<in> set (gives sdk c r) \<longleftrightarrow>
     (\<exists>t ex fs. c = New_full_parts_of t ex fs) \<and> h = r 3"
  "(R_worker_run, h) \<in> set (gives sdk c r) \<longleftrightarrow>
     (\<exists>n. c = TelemetryWorker_new n) \<and> h = sdk_get sdk Get_worker_run (r 0)"
  "(R_offchain_workers, h) \<in> set (gives sdk c r) \<longleftrightarrow> (\<exists>p. c = Offchain_new p) \<and> h = r 0"
  "(R_offchain_run, h) \<in> set (gives sdk c r) \<longleftrightarrow> (\<exists>w cl sp. c = Offchain_run w cl sp) \<and> h = r 0"
  "(R_aura, h) \<in> set (gives sdk c r) \<longleftrightarrow> (\<exists>p. c = Aura_start p) \<and> h = r 0"
  "(R_voter, h) \<in> set (gives sdk c r) \<longleftrightarrow> (\<exists>p. c = Voter_run p) \<and> h = r 0"
  by (cases c; auto)+

lemma new_full_task_manager:
  assumes "h_new_full sdk config [] = (Inr tm, log)"
  shows "(R_task_manager, tm) \<in> set (all_gives sdk config log)"
proof -
  have "give (config_env config) (log_gives sdk log) R_task_manager = Some tm"
    using wires_new_full [of sdk config] assms unfolding wires_def
    by (auto dest!: spec [of _ "[]"])
  then have "map_of (rev (all_gives sdk config log)) R_task_manager = Some tm"
    by (simp add: config_env_def give_map_of all_gives_def)
  then show ?thesis by (auto dest: map_of_SomeD)
qed

text \<open>The tasks of a run, each with the spawner it was given to and its future.\<close>

definition h_spawned :: "'h hevent list \<Rightarrow> (task \<times> 'h \<times> 'h) list" where
  "h_spawned log =
     concat (map (\<lambda>e. case e of Spawned task spawner future \<Rightarrow> [(task, spawner, future)] | _ \<Rightarrow> []) log)"

lemma h_spawned_iff: "(task, sp, fut) \<in> set (h_spawned log) \<longleftrightarrow> Spawned task sp fut \<in> set log"
  by (force simp: h_spawned_def split: hevent.splits)

lemma spawned_abs_log: "spawned (abs_log log) = map fst (h_spawned log)"
proof (induction log)
  case (Cons e log)
  have "spawned (abs_op c) = []" for c :: "'a op"
    by (cases c) (simp_all add: spawned_def Let_def)
  with Cons show ?case by (cases e) (simp_all add: spawned_def h_spawned_def)
qed (simp add: spawned_def h_spawned_def)

lemma distinct_tasks: "distinct [telemetry_task, offchain_task, aura_task, grandpa_task]"
  by (simp add: telemetry_task_def offchain_task_def aura_task_def grandpa_task_def)

lemma truncate_parts:
  "cfg_is_authority (node_config.truncate config) = cfg_is_authority config"
  "cfg_offchain_worker_enabled (node_config.truncate config) = cfg_offchain_worker_enabled config"
  "cfg_disable_grandpa (node_config.truncate config) = cfg_disable_grandpa config"
  by (simp_all add: node_config.truncate_def)

lemma spawned_plan:
  "spawned (plan config) =
     (if telemetry_wanted config then [telemetry_task] else []) @
     (if cfg_offchain_worker_enabled config then [offchain_task] else []) @
     (if cfg_is_authority config then [aura_task] else []) @
     (if cfg_disable_grandpa config then [] else [grandpa_task])"
  by (simp add: spawned_def plan_def partial_plan_def)

lemma new_full_spawned:
  assumes "h_new_full sdk config [] = (Inr tm, log)"
  shows "map fst (h_spawned log) = spawned (plan (node_config.truncate config))"
proof -
  have "abs_log log = plan (node_config.truncate config)"
    using carries_out_new_full [of sdk config] assms unfolding carries_out_def
    by (auto dest!: spec [of _ "[]"])
  then show ?thesis using spawned_abs_log [of log] by simp
qed

lemma spawned_task:
  assumes "h_new_full sdk config [] = (Inr tm, log)" and "Spawned task sp fut \<in> set log"
  shows "task \<in> {telemetry_task, offchain_task, aura_task, grandpa_task}"
proof -
  have "task \<in> set (map fst (h_spawned log))"
    using assms(2) by (force simp: h_spawned_iff [symmetric])
  then show ?thesis
    unfolding new_full_spawned [OF assms(1)] spawned_plan by (auto split: if_splits)
qed

text \<open>Which call made the future of a task.\<close>

lemma spawned_future:
  assumes "Spawned task sp fut \<in> set (snd (h_new_full sdk config []))"
  obtains c r where "Did c r \<in> set (snd (h_new_full sdk config []))"
    and "(future_role task, fut) \<in> set (gives sdk c r)"
  using used_given [OF assms, of "future_role task" fut]
  by (rule given_from) (auto simp: future_role_def intro: that)

lemma offchain_future:
  assumes log: "log = snd (h_new_full sdk config [])"
    and parts: "Did (New_full_parts_of t ex fs) parts \<in> set log"
    and "Spawned offchain_task sp fut \<in> set log"
  shows "\<exists>p w r. Did (Offchain_new p) w \<in> set log \<and>
    Did (Offchain_run (w 0) (parts 0) (sdk_get sdk Get_spawn_handle (parts 3))) r \<in> set log \<and>
    fut = r 0"
proof -
  from assms obtain h cl spawner r where run: "Did (Offchain_run h cl spawner) r \<in> set log"
    and fut: "fut = r 0" by (auto elim!: spawned_future simp: gives_inverse)
  have use: "x = y" if "(role, Some x) \<in> set (uses (Offchain_run h cl spawner))"
    "(role, y) \<in> set (gives sdk (New_full_parts_of t ex fs) parts)" for role x y
    using used_is_given [of "Did (Offchain_run h cl spawner) r" sdk config role x y]
      given_by [OF parts that(2)] run that(1) by (simp add: log)
  have "(R_offchain_workers, h) \<in> set (all_gives sdk config log)"
    using used_given [of "Did (Offchain_run h cl spawner) r" sdk config R_offchain_workers h] run
    by (simp add: log)
  then obtain p w where "Did (Offchain_new p) w \<in> set log" and "h = w 0"
    by (rule given_from) (auto simp: gives_inverse)
  moreover have "cl = parts 0" by (rule use [of R_client]) simp_all
  moreover have "spawner = sdk_get sdk Get_spawn_handle (parts 3)"
    by (rule use [of R_spawner]) simp_all
  ultimately show ?thesis using run fut by blast
qed

lemma spawned_on:
  assumes "h_new_full sdk config [] = (Inr tm, log)"
    and parts: "Did (New_full_parts_of t ex fs) parts \<in> set log"
    and spawned: "Spawned task sp fut \<in> set log"
  shows "sp = sdk_get sdk (if task \<in> {aura_task, grandpa_task} then Get_spawn_essential_handle
    else Get_spawn_handle) (parts 3)"
proof -
  have "sp = x" if "(spawner_role task, x) \<in> set (gives sdk (New_full_parts_of t ex fs) parts)" for x
    using used_is_given [of "Spawned task sp fut" sdk config "spawner_role task" sp x]
      given_by [OF parts that] spawned assms(1) by simp
  then show ?thesis using spawned_task [OF assms(1) spawned] distinct_tasks by auto
qed

subsection \<open>Properties\<close>

text \<open>
  C8: one handle per role. In every run, failing ones included, each handle a call or a spawned
  task uses was brought by the configuration or returned by an earlier call for the role it is
  used in; an optional handle is left out only when there was none; and no role is given a
  second handle, so all users of the client, the backend, the pool, the keystore, the network,
  the telemetry and so on share one.
\<close>

theorem one_handle_per_role:
  assumes "i < length (snd (h_new_full sdk config []))"
    and "(role, h) \<in> set (ev_uses (snd (h_new_full sdk config []) ! i))"
  shows "(case h of
      Some x \<Rightarrow> (role, x) \<in> set (all_gives sdk config (take i (snd (h_new_full sdk config []))))
    | None \<Rightarrow> role \<notin> fst ` set (all_gives sdk config (take i (snd (h_new_full sdk config []))))) \<and>
    distinct (map fst (all_gives sdk config (snd (h_new_full sdk config []))))"
proof (cases h)
  case None
  with assms role_use_None [of i sdk config role] distinct_all_gives [of sdk config]
  show ?thesis by simp
next
  case (Some x)
  with assms role_use_Some [of i sdk config role x] distinct_all_gives [of sdk config]
  show ?thesis by simp
qed

text \<open>Handles as numbers; nothing fails.\<close>

definition sample_full_config :: "nat full_config" where
  "sample_full_config = node_config.extend sample_config
     \<lparr>cfg_executor = 1, cfg_network = 2, cfg_chain_spec = 3, cfg_transaction_pool = 4,
      cfg_prometheus_registry = None\<rparr>"

fun sample_result :: "nat op \<Rightarrow> nat \<Rightarrow> nat" where
  "sample_result (New_full_parts_of t ex fs) k = 20 + k"
| "sample_result (LongestChain_new b) k = 30 + k"
| "sample_result (Block_import_new c n c' sc t) k = 50 + k"
| "sample_result c k = 90 + k"

definition sample_sdk :: "(nat, string) sdk" where
  "sample_sdk = \<lparr>sdk_get = (\<lambda>a h. h + 1000), sdk_make = (\<lambda>log. sample_result),
     sdk_try = (\<lambda>log c. Inr (sample_result c))\<rparr>"

text \<open>Running the assembly on it, one call at a time.\<close>

lemma sample_runs:
  "svc_bind (h_make sample_sdk c) k log = k (sample_result c) (log @ [Did c (sample_result c)])"
  "svc_bind (h_try sample_sdk c) k log = k (sample_result c) (log @ [Did c (sample_result c)])"
  "svc_bind (h_expect sample_sdk c msg) k log = k (sample_result c) (log @ [Did c (sample_result c)])"
  "svc_bind (h_spawn t sp f) l log = l () (log @ [Spawned t sp f])"
  "sdk_get sample_sdk a h = h + 1000"
  by (simp_all add: svc_bind_def h_make_def h_try_def h_expect_def h_spawn_def sample_sdk_def Let_def)

lemma sample_config_parts:
  "cfg_telemetry_endpoints sample_full_config = Some []" "cfg_is_authority sample_full_config"
  "\<not> cfg_offchain_worker_enabled sample_full_config" "\<not> cfg_disable_grandpa sample_full_config"
  "cfg_executor sample_full_config = 1" "cfg_prometheus_registry sample_full_config = None"
  by (simp_all add: sample_full_config_def node_config.extend_def sample_config_def)

lemma svc_bind_simps:
  "svc_return a log = (Inr a, log)" "svc_bind (svc_return a) k log = k a log"
  "svc_bind (svc_bind m k) l log = svc_bind m (\<lambda>a. svc_bind (k a) l) log"
  by (auto simp: svc_bind_def svc_return_def split: prod.split sum.split)

lemmas sample_run_simps = h_new_full_def h_new_partial_def h_telemetry_def h_run_telemetry_def
  h_network_def h_spawn_tasks_def h_authoring_def h_grandpa_def sample_runs sample_config_parts svc_bind_simps
  svc_when_def


theorem one_handle_per_role_witness:
  "(R_client, Some 20) \<in> set (ev_uses (snd (h_new_full sample_sdk sample_full_config []) ! 3)) \<and>
   (R_client, 20) \<in> set (all_gives sample_sdk sample_full_config
      (take 3 (snd (h_new_full sample_sdk sample_full_config []))))"
proof -
  have run: "4 \<le> length (snd (h_new_full sample_sdk sample_full_config []))"
    and use: "(R_client, Some 20) \<in>
      set (ev_uses (snd (h_new_full sample_sdk sample_full_config []) ! 3))"
    by (simp_all add: sample_run_simps Let_def)
  from one_handle_per_role [OF _ use] run use show ?thesis by simp
qed

text \<open>
  C9: finality sees every block. Blocks received (the import queue, for blocks and for
  justifications) and blocks authored go through the one block import GRANDPA created over
  the node's client, the voter works on the link created with it, and authoring, the import
  queue, the network and the RPC all have the node's client, the RPC the network's pool.
\<close>

theorem blocks_go_through_grandpa:
  assumes log: "log = snd (h_new_full sdk config [])"
    and "Did (New_full_parts_of t ex fs) parts \<in> set log"
    and "Did (Block_import_new c period c' sc t') import \<in> set log"
  shows "c = parts 0 \<and>
    (\<forall>p r. Did (Import_queue_new p) r \<in> set log \<longrightarrow> iq_client p = parts 0 \<and>
       iq_block_import p = import 0 \<and> iq_justification_import p = Some (import 0)) \<and>
    (\<forall>p r. Did (Aura_start p) r \<in> set log \<longrightarrow> au_client p = parts 0 \<and>
       au_block_import p = import 0 \<and> au_select_chain p = sc) \<and>
    (\<forall>p r. Did (Voter_run p) r \<in> set log \<longrightarrow> vp_link p = import 1) \<and>
    (\<forall>p q r r'. Did (Network_build p) r \<in> set log \<longrightarrow> Did (Tasks_spawn q) r' \<in> set log \<longrightarrow>
       nw_client p = parts 0 \<and> fd_client (stp_rpc_builder q) = parts 0 \<and>
       fd_pool (stp_rpc_builder q) = nw_transaction_pool p \<and> stp_network q = r 0)"
proof -
  let ?given = "set (all_gives sdk config log)"
  have given: "(role, h) \<in> ?given"
    if "Did d r \<in> set log" "(role, h) \<in> set (gives sdk d r)" for d r role h
    using that by (rule given_by)
  have use: "h = h'" if "Did d r \<in> set log" "(role, Some h) \<in> set (uses d)" "(role, h') \<in> ?given"
    for d r role h h'
    using used_is_given [of "Did d r" sdk config role h h'] that by (simp add: log)
  have used: "(role, h) \<in> ?given" if "Did d r \<in> set log" "(role, Some h) \<in> set (uses d)"
    for d r role h
    using used_given [of "Did d r" sdk config role h] that by (simp add: log)
  have client: "(R_client, parts 0) \<in> ?given"
    and import: "(R_block_import, import 0) \<in> ?given" "(R_link, import 1) \<in> ?given"
    using given [OF assms(2)] given [OF assms(3)] by simp_all
  have chain: "(R_select_chain, sc) \<in> ?given" using used [OF assms(3)] by simp
  have justification: "\<exists>h. iq_justification_import p = Some h"
    if "Did (Import_queue_new p) r \<in> set log" for p r
  proof (cases "iq_justification_import p")
    case None
    obtain i where "i < length log" "log ! i = Did (Import_queue_new p) r"
      using \<open>Did (Import_queue_new p) r \<in> set log\<close> by (auto simp: in_set_conv_nth)
    with None role_use [of i sdk config R_block_import None] role_use [of i sdk config R_block_import "Some (iq_block_import p)"]
    show ?thesis by (simp add: log)
  qed simp
  show ?thesis
  proof (intro conjI allI impI)
    show "c = parts 0" by (rule use [OF assms(3) _ client]) simp
  next
    fix p r assume *: "Did (Import_queue_new p) r \<in> set log"
    show "iq_client p = parts 0" by (rule use [OF * _ client]) simp
    show "iq_block_import p = import 0" by (rule use [OF * _ import(1)]) simp
    from justification [OF *] show "iq_justification_import p = Some (import 0)"
      using use [OF * _ import(1)] by auto
  next
    fix p r assume *: "Did (Aura_start p) r \<in> set log"
    show "au_client p = parts 0" by (rule use [OF * _ client]) simp
    show "au_block_import p = import 0" by (rule use [OF * _ import(1)]) simp
    show "au_select_chain p = sc" by (rule use [OF * _ chain]) simp
  next
    fix p r assume *: "Did (Voter_run p) r \<in> set log"
    show "vp_link p = import 1" by (rule use [OF * _ import(2)]) simp
  next
    fix p q r r'
    assume *: "Did (Network_build p) r \<in> set log" and **: "Did (Tasks_spawn q) r' \<in> set log"
    have pool: "(R_pool, nw_transaction_pool p) \<in> ?given" by (rule used [OF *]) simp
    have net: "(R_network, r 0) \<in> ?given" by (rule given [OF *]) simp
    show "nw_client p = parts 0" by (rule use [OF * _ client]) simp
    show "fd_client (stp_rpc_builder q) = parts 0" by (rule use [OF ** _ client]) simp
    show "fd_pool (stp_rpc_builder q) = nw_transaction_pool p" by (rule use [OF ** _ pool]) simp
    show "stp_network q = r 0" by (rule use [OF ** _ net]) simp
  qed
qed

theorem blocks_go_through_grandpa_witness:
  "\<exists>p r. Did (Aura_start p) r \<in> set (snd (h_new_full sample_sdk sample_full_config [])) \<and>
     au_block_import p = 50 \<and> au_client p = 20"
proof -
  let ?log = "snd (h_new_full sample_sdk sample_full_config [])"
  have parts: "Did (New_full_parts_of None 90 [GrandpaPruningFilter]) (sample_result (New_full_parts_of None 90 [GrandpaPruningFilter])) \<in> set ?log"
    and import: "Did (Block_import_new 20 GRANDPA_JUSTIFICATION_PERIOD 20 30 None)
      (sample_result (Block_import_new 20 GRANDPA_JUSTIFICATION_PERIOD 20 30 None)) \<in> set ?log"
    and "\<exists>p r. Did (Aura_start p) r \<in> set ?log"
    by (simp_all add: sample_run_simps Let_def)
  then obtain p r where pr: "Did (Aura_start p) r \<in> set ?log" by blast
  have "au_client p = 20 \<and> au_block_import p = 50 \<and> au_select_chain p = 30"
    using blocks_go_through_grandpa [OF refl parts import, THEN conjunct2, THEN conjunct2,
        THEN conjunct1, rule_format, OF pr] by simp
  with pr show ?thesis by blast
qed

text \<open>
  C7: what a started node runs. When the assembly succeeds, the task manager it returns is the
  one made with the client, and on it were spawned, in this order and nothing else: telemetry
  when endpoints are configured, the offchain workers when enabled, Aura authoring on an
  authority, the GRANDPA voter unless disabled. The authoring task and the voter are essential,
  so the node stops when one of them does, the other two are not; and the future of each task is
  the one the SDK made for it: the telemetry worker's, the offchain workers' on the node's
  client, that of the Aura worker and that of the voter.
\<close>

theorem running_tasks:
  assumes "h_new_full sdk config [] = (Inr task_manager, log)"
  shows "\<exists>t ex fs parts. Did (New_full_parts_of t ex fs) parts \<in> set log \<and> task_manager = parts 3 \<and>
    map fst (h_spawned log) =
      (if telemetry_wanted (node_config.truncate config) then [telemetry_task] else []) @
      (if cfg_offchain_worker_enabled config then [offchain_task] else []) @
      (if cfg_is_authority config then [aura_task] else []) @
      (if cfg_disable_grandpa config then [] else [grandpa_task]) \<and>
    (\<forall>task spawner future. (task, spawner, future) \<in> set (h_spawned log) \<longrightarrow>
       spawner = sdk_get sdk (if task \<in> {aura_task, grandpa_task} then Get_spawn_essential_handle
         else Get_spawn_handle) (parts 3) \<and>
       (task = telemetry_task \<longrightarrow> (\<exists>n w. Did (TelemetryWorker_new n) w \<in> set log \<and>
          future = sdk_get sdk Get_worker_run (w 0))) \<and>
       (task = offchain_task \<longrightarrow> (\<exists>p w r. Did (Offchain_new p) w \<in> set log \<and>
          Did (Offchain_run (w 0) (parts 0) (sdk_get sdk Get_spawn_handle (parts 3))) r \<in> set log \<and>
          future = r 0)) \<and>
       (task = aura_task \<longrightarrow> (\<exists>p r. Did (Aura_start p) r \<in> set log \<and> future = r 0)) \<and>
       (task = grandpa_task \<longrightarrow> (\<exists>p r. Did (Voter_run p) r \<in> set log \<and> future = r 0)))"
proof -
  have log: "log = snd (h_new_full sdk config [])" using assms by simp
  obtain c parts where "Did c parts \<in> set log"
    and "(R_task_manager, task_manager) \<in> set (gives sdk c parts)"
    by (rule given_from [OF new_full_task_manager [OF assms]]) simp_all
  then obtain t ex fs where made: "Did (New_full_parts_of t ex fs) parts \<in> set log"
    and tm: "task_manager = parts 3" by (auto simp: gives_inverse)
  have future: "\<exists>c r. Did c r \<in> set log \<and> (future_role task, fut) \<in> set (gives sdk c r)"
    if "Spawned task sp fut \<in> set log" for task sp fut
    using spawned_future [OF that [unfolded log]] unfolding log by blast
  show ?thesis
  proof (rule exI [of _ t], rule exI [of _ ex], rule exI [of _ fs], rule exI [of _ parts],
      intro conjI allI impI made tm new_full_spawned [OF assms, unfolded spawned_plan truncate_parts],
      unfold h_spawned_iff)
    fix task spawner fut assume spawned: "Spawned task spawner fut \<in> set log"
    show "spawner = sdk_get sdk (if task \<in> {aura_task, grandpa_task}
        then Get_spawn_essential_handle else Get_spawn_handle) (parts 3)"
      by (rule spawned_on [OF assms made spawned])
    show "\<exists>n w. Did (TelemetryWorker_new n) w \<in> set log \<and> fut = sdk_get sdk Get_worker_run (w 0)"
      if "task = telemetry_task" using future [OF spawned] that by (auto simp: gives_inverse)
    show "\<exists>p w r. Did (Offchain_new p) w \<in> set log \<and>
        Did (Offchain_run (w 0) (parts 0) (sdk_get sdk Get_spawn_handle (parts 3))) r \<in> set log \<and>
        fut = r 0"
      if "task = offchain_task" by (rule offchain_future [OF log made spawned [unfolded that]])
    show "\<exists>p r. Did (Aura_start p) r \<in> set log \<and> fut = r 0"
      if "task = aura_task" using future [OF spawned] that by (auto simp: gives_inverse)
    show "\<exists>p r. Did (Voter_run p) r \<in> set log \<and> fut = r 0"
      if "task = grandpa_task" using future [OF spawned] that by (auto simp: gives_inverse)
  qed
qed

theorem running_tasks_witness:
  "\<exists>log p r. h_new_full sample_sdk sample_full_config [] = (Inr 23, log) \<and>
     Did (Aura_start p) r \<in> set log \<and> (aura_task, 1023, r 0) \<in> set (h_spawned log)"
proof -
  obtain log where run: "h_new_full sample_sdk sample_full_config [] = (Inr 23, log)"
    by (simp add: sample_run_simps Let_def)
  have "map fst (h_spawned log) = [aura_task, grandpa_task]"
    using running_tasks [OF run]
    by (elim exE conjE) (simp add: sample_config_parts telemetry_wanted_def node_config.truncate_def)
  then have "aura_task \<in> fst ` set (h_spawned log)" by (metis list.set_intros(1) list.set_map)
  then obtain sp fut where *: "(aura_task, sp, fut) \<in> set (h_spawned log)" by auto
  have "sp = 1023 \<and> (\<exists>p r. Did (Aura_start p) r \<in> set log \<and> fut = r 0)"
    using running_tasks [OF run]
  proof (elim exE conjE, goal_cases)
    case (1 t ex fs parts)
    from 1(4) [rule_format, OF *] 1(2) show ?case by (simp add: sample_runs)
  qed
  with run * show ?thesis by blast
qed

end
