(* ===== verification/Block_Production.thy ===== *)
theory Block_Production
  imports Service_Roles Runtime_Api Aura_Author
begin

section \<open>From the clock to the author (\<open>service.rs\<close>, \<open>apis.rs\<close>, \<open>configs/mod.rs\<close>)\<close>

text \<open>
  The inherent-data providers the node installs, one in the import queue and one in the
  authoring task, give a block its slot and timestamp. The runtime fixes the slot duration and
  finds the author from the slot. This theory models the two closures of \<open>service.rs\<close> and
  composes them with the runtime's side.

  \<open>slot_from\<close> is \<open>InherentDataProvider::from_timestamp_and_slot_duration\<close> of
  \<open>sp_consensus_aura\<close> and \<open>slot_duration_at\<close> is the function of that name of
  \<open>sc_consensus_aura\<close>; the system clock is the argument \<open>now\<close>, in milliseconds.
\<close>

definition import_inherents ::
  "(h256 \<Rightarrow> 'err + u64) \<Rightarrow> (u64 \<Rightarrow> u64 \<Rightarrow> u64) \<Rightarrow> u64 \<Rightarrow> h256 \<Rightarrow> 'err + u64 \<times> u64" where
  "import_inherents slot_duration_at slot_from now parent_hash =
     res_bind (slot_duration_at parent_hash) (\<lambda>slot_duration.
       let timestamp = now;
           slot = slot_from timestamp slot_duration
       in Inr (slot, timestamp))"

definition authoring_inherents ::
  "(u64 \<Rightarrow> u64 \<Rightarrow> u64) \<Rightarrow> u64 \<Rightarrow> u64 \<Rightarrow> 'err + u64 \<times> u64" where
  "authoring_inherents slot_from slot_duration now =
     (let timestamp = now;
          slot = slot_from timestamp slot_duration
      in Inr (slot, timestamp))"

subsection \<open>Documented behaviour of the functions called\<close>

text \<open>
  \<open>Slot::from_timestamp\<close>: the milliseconds divided by the slot duration, rounded down.
  \<open>pallet_aura::MinimumPeriodTimesTwo\<close>, to which the runtime binds Aura's \<open>SlotDuration\<close>:
  twice the minimum period of the timestamp pallet, saturating.
\<close>

definition slot_law :: "(u64 \<Rightarrow> u64 \<Rightarrow> u64) \<Rightarrow> bool" where
  "slot_law slot_from \<longleftrightarrow> (\<forall>t d. slot_from t d = t div d)"

definition twice_minimum_period :: "('st, 'g) consensus_ext \<Rightarrow> bool" where
  "twice_minimum_period cext \<longleftrightarrow>
     (\<forall>s. aura_slot_duration cext s = sat_mul (timestamp_minimum_period consensus_config) 2)"

lemma slot_duration_value:
  "twice_minimum_period cext \<Longrightarrow> api_slot_duration cext s = 6000"
  by (simp add: twice_minimum_period_def api_slot_duration_def consensus_config_def
      SLOT_DURATION_def MILLI_SECS_PER_BLOCK_def sat_mul_def)

lemma authored_slot:
  assumes "slot_law slot_from" and "twice_minimum_period cext"
  shows "authoring_inherents slot_from (api_slot_duration cext s) now = Inr (now div 6000, now)"
  using assms by (simp add: authoring_inherents_def slot_law_def slot_duration_value)

lemma unat_slot: "unat (now div 6000 :: u64) = unat now div 6000"
  by (simp add: unat_div)

subsection \<open>Properties\<close>

definition sample_consensus :: "(unit, unit) consensus_ext" where
  "sample_consensus = \<lparr>aura_slot_duration = (\<lambda>s. 6000), grandpa_authority_list = (\<lambda>s. []),
     grandpa_set_id = (\<lambda>s. 0)\<rparr>"

lemma sample_consensus_law: "twice_minimum_period sample_consensus"
  by (simp add: twice_minimum_period_def sample_consensus_def consensus_config_def
      SLOT_DURATION_def MILLI_SECS_PER_BLOCK_def sat_mul_def)

lemma div_slot_law: "slot_law (div)"
  by (simp add: slot_law_def)

text \<open>
  Slots are exact. Halving the slot duration into the timestamp pallet's minimum period and
  doubling it again loses nothing, so a slot lasts one block time; a block authored at a time
  is given the slot that contains that time; and a node importing it on a parent whose state
  it has computes the same slot and timestamp for the same clock.
\<close>

theorem slot_covers_clock:
  assumes "slot_law slot_from" and "twice_minimum_period cext"
    and "state_at parent = Inr s"
  shows "api_slot_duration cext s = MILLI_SECS_PER_BLOCK \<and>
    (\<exists>slot. authoring_inherents slot_from (api_slot_duration cext s) now = Inr (slot, now) \<and>
       unat slot * unat SLOT_DURATION \<le> unat now \<and>
       unat now < (unat slot + 1) * unat SLOT_DURATION \<and>
       import_inherents (\<lambda>h. res_map (api_slot_duration cext) (state_at h)) slot_from now parent =
         Inr (slot, now))"
proof -
  have "unat now div 6000 * 6000 \<le> unat now" and "unat now < (unat now div 6000 + 1) * 6000"
    by (simp, rule order_less_le_trans [OF dividend_less_div_times [of 6000]], simp_all)
  moreover have "slot_from x d = x div d" for x d
    using assms(1) by (simp add: slot_law_def)
  ultimately show ?thesis
    by (simp add: authoring_inherents_def import_inherents_def assms(3) unat_slot
        slot_duration_value [OF assms(2)] MILLI_SECS_PER_BLOCK_def SLOT_DURATION_def)
qed

theorem slot_covers_clock_witness:
  "\<exists>slot. authoring_inherents (div) (api_slot_duration sample_consensus ()) 12345 =
     (Inr (slot, 12345) :: unit + u64 \<times> u64) \<and> unat slot * unat SLOT_DURATION \<le> 12345"
  using slot_covers_clock [OF div_slot_law sample_consensus_law,
      of "\<lambda>h. Inr () :: unit + unit" "[]" "()" 12345]
  by auto

text \<open>
  C10: every authority gets its turn. From any time on, within as many slot durations as there
  are authorities, there is a time at which a block authored by the node's clock is
  attributed by the runtime to a given authority.
\<close>

theorem authority_gets_its_turn:
  fixes t :: u64
  assumes "slot_law slot_from" and "twice_minimum_period cext"
    and "\<And>s. decode_slot ext (enc s) = Some s"
    and "length auths \<le> max_aura_authorities" and "a \<in> set auths"
    and "unat t + length auths * unat SLOT_DURATION \<le> 2 ^ 64"
  shows "\<exists>t' slot. unat t \<le> unat t' \<and> unat t' < unat t + length auths * unat SLOT_DURATION \<and>
    authoring_inherents slot_from (api_slot_duration cext s) t' = Inr (slot, t') \<and>
    find_author ext auths [(aura_engine_id ext, enc slot)] = Some (to_account ext a)"
proof -
  obtain i where i: "i < length auths" and a: "auths ! i = a"
    using assms(5) by (auto simp: in_set_conv_nth)
  define n q k where "n = length auths" and "q = unat t div 6000"
    and "k = (i + n - q mod n) mod n"
  have ne: "auths \<noteq> []" using i by auto
  then have n: "0 < n" by (simp add: n_def)
  then have k: "k < n" by (simp add: k_def)
  have "(q + k) mod n = (q mod n + (i + n - q mod n)) mod n"
    by (simp add: k_def mod_simps)
  also have "q mod n + (i + n - q mod n) = i + n"
    using mod_less_divisor [OF n, of q] by linarith
  also have "(i + n) mod n = i" using i by (simp add: n_def)
  finally have turn: "(q + k) mod n = i" .
  have "6000 * k < 6000 * n" using k by simp
  with assms(6) have fits: "unat t + 6000 * k < unat t + n * 6000" "unat t + 6000 * k < 2 ^ 64"
    by (simp_all add: n_def SLOT_DURATION_def MILLI_SECS_PER_BLOCK_def)
  define t' where "t' = t + of_nat (6000 * k)"
  have t': "unat t' = unat t + 6000 * k"
    using fits(2) by (simp only: t'_def unat_word_ariths unat_of_nat) (simp add: mod_simps)
  have slot: "unat (t' div 6000) = q + k"
    by (simp add: unat_slot t' q_def)
  have "find_author ext auths [(aura_engine_id ext, enc (t' div 6000))] = Some (to_account ext a)"
    using find_author_hit [OF ne assms(4) assms(3), of "t' div 6000" "[]"] a slot turn
    by (simp add: n_def del: find_author.simps)
  with t' fits(1) show ?thesis
    by (intro exI [of _ t'] exI [of _ "t' div 6000"])
      (simp add: authored_slot [OF assms(1,2)] n_def SLOT_DURATION_def MILLI_SECS_PER_BLOCK_def)
qed

theorem authority_gets_its_turn_witness:
  "\<exists>t' slot. 1000000 \<le> unat t' \<and> unat t' < 1018000 \<and>
     authoring_inherents (div) (api_slot_duration sample_consensus ()) t' =
       (Inr (slot, t') :: unit + u64 \<times> u64) \<and>
     find_author (sample_aura\<lparr>decode_slot := (\<lambda>d. Some (of_nat (length d)))\<rparr>) [5, 6, 7]
       [([97], replicate (unat slot) 0)] = Some (replicate 32 7)"
  using authority_gets_its_turn [OF div_slot_law sample_consensus_law,
      of "sample_aura\<lparr>decode_slot := (\<lambda>d. Some (of_nat (length d)))\<rparr>"
        "\<lambda>s. replicate (unat s) 0" "[5, 6, 7]" 7 1000000 "()"]
  by (simp add: max_aura_authorities_value sample_aura_def SLOT_DURATION_def
      MILLI_SECS_PER_BLOCK_def del: find_author.simps)

subsection \<open>The closures the node installs\<close>

text \<open>
  Running a closure of \<open>Service_Handles\<close>: \<open>duration_at\<close> is \<open>slot_duration_at\<close> on a client handle,
  \<open>millis\<close> the duration a slot-duration handle stands for.
\<close>

definition run_cidp ::
  "('h \<Rightarrow> h256 \<Rightarrow> 'err + u64) \<Rightarrow> ('h \<Rightarrow> u64) \<Rightarrow> (u64 \<Rightarrow> u64 \<Rightarrow> u64) \<Rightarrow> 'h cidp \<Rightarrow> u64 \<Rightarrow> h256 \<Rightarrow>
   'err + u64 \<times> u64" where
  "run_cidp duration_at millis slot_from cidp now parent =
     (case cidp of
        Slot_duration_at_parent client \<Rightarrow> import_inherents (duration_at client) slot_from now parent
      | Fixed_slot_duration d \<Rightarrow> authoring_inherents slot_from (millis d) now)"

text \<open>Whichever closure a call was given, it computes with the node's client or slot duration.\<close>

lemma run_cidp_used:
  assumes e: "e \<in> set (snd (h_new_full sdk config []))" and f: "set (cidp_uses f) \<subseteq> set (ev_uses e)"
    and client: "(R_client, c) \<in> set (all_gives sdk config (snd (h_new_full sdk config [])))"
    and duration: "(R_slot_duration, d) \<in> set (all_gives sdk config (snd (h_new_full sdk config [])))"
    and "import_inherents (duration_at c) slot_from now parent = x"
    and "authoring_inherents slot_from (millis d) now = x"
  shows "run_cidp duration_at millis slot_from f now parent = x"
proof (cases f)
  case (Slot_duration_at_parent c')
  with f have "(R_client, Some c') \<in> set (ev_uses e)" by simp
  from used_is_given [OF e this client] Slot_duration_at_parent assms(5) show ?thesis
    by (simp add: run_cidp_def)
next
  case (Fixed_slot_duration d')
  with f have "(R_slot_duration, Some d') \<in> set (ev_uses e)" by simp
  from used_is_given [OF e this duration] Fixed_slot_duration assms(6) show ?thesis
    by (simp add: run_cidp_def)
qed

text \<open>
  C11: authors and importers agree on time. In a run of the node assembly, with the client
  reading the slot duration from the runtime, the closure installed in the authoring task and
  the one installed in the import queue give the same slot and timestamp for the same clock,
  whatever the parent block is: the slot is the one of 6 seconds the clock is in.
\<close>

theorem inherent_providers_agree:
  assumes "slot_law slot_from" and "twice_minimum_period cext"
    and "Did (New_full_parts_of t ex fs) parts \<in> set (snd (h_new_full sdk config []))"
    and "Did (Slot_duration_of c) d \<in> set (snd (h_new_full sdk config []))"
    and "Did (Import_queue_new p) r \<in> set (snd (h_new_full sdk config []))"
    and "Did (Aura_start q) r' \<in> set (snd (h_new_full sdk config []))"
    and "\<And>h. duration_at (parts 0) h = res_map (api_slot_duration cext) (state_at h)"
    and "millis (d 0) = api_slot_duration cext best"
    and "state_at parent = Inr s"
  shows "run_cidp duration_at millis slot_from (iq_create_inherent_data_providers p) now parent =
      Inr (now div 6000, now) \<and>
    run_cidp duration_at millis slot_from (au_create_inherent_data_providers q) now parent =
      Inr (now div 6000, now)"
proof -
  have client: "(R_client, parts 0) \<in> set (all_gives sdk config (snd (h_new_full sdk config [])))"
    by (rule given_by [OF assms(3)]) simp
  have duration: "(R_slot_duration, d 0) \<in> set (all_gives sdk config (snd (h_new_full sdk config [])))"
    by (rule given_by [OF assms(4)]) simp
  have import: "import_inherents (duration_at (parts 0)) slot_from now parent = Inr (now div 6000, now)"
    using assms(1) by (simp add: import_inherents_def assms(7,9) slot_law_def
        slot_duration_value [OF assms(2)])
  have author: "authoring_inherents slot_from (millis (d 0)) now = Inr (now div 6000, now)"
    by (simp add: assms(8) authored_slot [OF assms(1,2)])
  show ?thesis
    using run_cidp_used [where duration_at = duration_at and millis = millis and parent = parent,
        OF assms(5) _ client duration import author]
      run_cidp_used [where duration_at = duration_at and millis = millis and parent = parent,
        OF assms(6) _ client duration import author]
    by auto
qed

theorem inherent_providers_agree_witness:
  "\<exists>q r. Did (Aura_start q) r \<in> set (snd (h_new_full sample_sdk sample_full_config [])) \<and>
     run_cidp (\<lambda>c h. Inr 6000 :: unit + u64) (\<lambda>d. 6000) (div)
       (au_create_inherent_data_providers q) 12345 [] = Inr (2, 12345)"
proof -
  let ?log = "snd (h_new_full sample_sdk sample_full_config [])"
  have parts: "Did (New_full_parts_of None 90 [GrandpaPruningFilter]) (sample_result (New_full_parts_of None 90 [GrandpaPruningFilter])) \<in> set ?log"
    and duration: "Did (Slot_duration_of 20) (sample_result (Slot_duration_of 20)) \<in> set ?log"
    and "\<exists>p r. Did (Import_queue_new p) r \<in> set ?log"
    and "\<exists>q r. Did (Aura_start q) r \<in> set ?log"
    by (simp_all add: sample_run_simps Let_def)
  then obtain p r q r' where p: "Did (Import_queue_new p) r \<in> set ?log"
    and q: "Did (Aura_start q) r' \<in> set ?log" by blast
  have "run_cidp (\<lambda>c h. Inr 6000 :: unit + u64) (\<lambda>d. 6000) (div)
      (au_create_inherent_data_providers q) 12345 [] = Inr (12345 div 6000, 12345)"
    by (rule inherent_providers_agree [OF div_slot_law sample_consensus_law parts duration p q,
          where state_at = "\<lambda>h. Inr ()" and s = "()" and best = "()", THEN conjunct2])
      (simp_all add: api_slot_duration_def sample_consensus_def)
  with q show ?thesis by (auto intro!: exI [of _ q] exI [of _ r'])
qed

end
