(* ===== verification/Node_Rpc.thy ===== *)
theory Node_Rpc
  imports Prelude
begin

section \<open>Merging the RPC extensions (\<open>node/src/rpc.rs\<close>)\<close>

text \<open>
  \<open>create_full\<close> merges four extensions into an empty \<open>jsonrpsee\<close> module and stops at the
  first clash. The module type, \<open>RpcModule::new\<close>, \<open>merge\<close> and the modules the extensions
  become (\<open>into_rpc\<close>) are code of other crates and parameters. What \<open>jsonrpsee\<close> documents of
  \<open>merge\<close> is the predicate \<open>merge_law\<close>: it fails when a method is present on both sides, and
  otherwise the merged module has the methods of both.
\<close>

datatype rpc_extension =
  System_extension | TransactionPayment_extension | Pns_extension | ZkPki_extension

text \<open>The methods of the trait \<open>PnsStorageApi\<close> of \<open>node/src/pns_rpc.rs\<close>.\<close>

definition pns_rpc_methods :: "string list" where
  "pns_rpc_methods =
     [''pns_getInfo'', ''pns_resolveName'', ''pns_lookup'', ''pns_getListing'',
      ''pns_lookupByName'']"

definition create_full ::
  "('m \<Rightarrow> 'm \<Rightarrow> 'err + 'm) \<Rightarrow> 'm \<Rightarrow> (rpc_extension \<Rightarrow> 'm) \<Rightarrow> 'err + 'm" where
  "create_full merge module into_rpc =
     res_bind (merge module (into_rpc System_extension)) (\<lambda>module.
     res_bind (merge module (into_rpc TransactionPayment_extension)) (\<lambda>module.
     res_bind (merge module (into_rpc Pns_extension)) (\<lambda>module.
     res_bind (merge module (into_rpc ZkPki_extension)) (\<lambda>module.
       Inr module))))"

definition merge_law :: "('m \<Rightarrow> string set) \<Rightarrow> ('m \<Rightarrow> 'm \<Rightarrow> 'err + 'm) \<Rightarrow> bool" where
  "merge_law methods merge \<longleftrightarrow>
     (\<forall>a b. case merge a b of
        Inl e \<Rightarrow> methods a \<inter> methods b \<noteq> {}
      | Inr m \<Rightarrow> methods a \<inter> methods b = {} \<and> methods m = methods a \<union> methods b)"

lemma merge_law_Inr:
  "merge_law methods merge \<Longrightarrow> merge a b = Inr m \<Longrightarrow>
     methods a \<inter> methods b = {} \<and> methods m = methods a \<union> methods b"
  unfolding merge_law_def by (drule spec [of _ a], drule spec [of _ b]) simp

lemma merge_law_disjoint:
  "merge_law methods merge \<Longrightarrow> methods a \<inter> methods b = {} \<Longrightarrow> \<exists>m. merge a b = Inr m"
  unfolding merge_law_def by (drule spec [of _ a], drule spec [of _ b]) (auto split: sum.splits)

text \<open>Merging a list of modules, stopping at the first clash, and what it amounts to.\<close>

primrec merge_all :: "('m \<Rightarrow> 'm \<Rightarrow> 'err + 'm) \<Rightarrow> 'm \<Rightarrow> 'm list \<Rightarrow> 'err + 'm" where
  "merge_all merge m [] = Inr m"
| "merge_all merge m (x # xs) = res_bind (merge m x) (\<lambda>m. merge_all merge m xs)"

lemma create_full_merge_all:
  "create_full merge m into = merge_all merge m
     (map into [System_extension, TransactionPayment_extension, Pns_extension, ZkPki_extension])"
  by (simp add: create_full_def)

lemma merge_all_ok:
  assumes law: "merge_law methods merge"
  shows "is_ok (merge_all merge m xs) \<longleftrightarrow>
     (\<forall>x \<in> set xs. methods m \<inter> methods x = {}) \<and>
     sorted_wrt (\<lambda>x y. methods x \<inter> methods y = {}) xs"
proof (induction xs arbitrary: m)
  case Nil
  then show ?case by simp
next
  case (Cons x xs)
  show ?case
  proof (cases "merge m x")
    case (Inl e)
    then have "methods m \<inter> methods x \<noteq> {}" using merge_law_disjoint [OF law] by force
    with Inl show ?thesis by simp
  next
    case (Inr m')
    from merge_law_Inr [OF law Inr] show ?thesis by (auto simp: Inr Cons.IH)
  qed
qed

lemma merge_all_methods:
  assumes law: "merge_law methods merge"
  shows "merge_all merge m xs = Inr m' \<Longrightarrow> methods m' = methods m \<union> \<Union> (methods ` set xs)"
  by (induction xs arbitrary: m) (auto simp: result_simps dest!: merge_law_Inr [OF law])

subsection \<open>Properties\<close>

definition extension_list :: "rpc_extension list" where
  "extension_list =
     [System_extension, TransactionPayment_extension, Pns_extension, ZkPki_extension]"

text \<open>
  The node's RPC module. Merging into an empty module, with the PNS extension registering
  the five methods of its trait, succeeds exactly when no method name is claimed by two of the
  four extensions; the module then answers the methods of all four, the PNS ones included.
\<close>

theorem create_full_ok:
  assumes "merge_law methods merge" and "methods empty_module = {}"
    and "methods (into_rpc Pns_extension) = set pns_rpc_methods"
  shows "(is_ok (create_full merge empty_module into_rpc) \<longleftrightarrow>
      sorted_wrt (\<lambda>x y. methods (into_rpc x) \<inter> methods (into_rpc y) = {}) extension_list) \<and>
    (case create_full merge empty_module into_rpc of Inl e \<Rightarrow> True
     | Inr m \<Rightarrow> methods m = (\<Union>x \<in> set extension_list. methods (into_rpc x)) \<and>
         set pns_rpc_methods \<subseteq> methods m)"
proof -
  have full: "create_full merge empty_module into_rpc =
      merge_all merge empty_module (map into_rpc extension_list)"
    by (simp add: create_full_merge_all extension_list_def)
  have "is_ok (create_full merge empty_module into_rpc) \<longleftrightarrow>
      sorted_wrt (\<lambda>x y. methods (into_rpc x) \<inter> methods (into_rpc y) = {}) extension_list"
    by (simp add: full merge_all_ok [OF assms(1)] assms(2) sorted_wrt_map)
  moreover have "methods m = (\<Union>x \<in> set extension_list. methods (into_rpc x))"
    if "create_full merge empty_module into_rpc = Inr m" for m
    using merge_all_methods [OF assms(1) that [unfolded full]] by (simp add: assms(2))
  ultimately show ?thesis
    by (auto simp: assms(3) [symmetric] extension_list_def split: sum.split)
qed

text \<open>Modules as lists of method names.\<close>

definition sample_merge :: "string list \<Rightarrow> string list \<Rightarrow> string + string list" where
  "sample_merge a b = (if set a \<inter> set b = {} then Inr (a @ b) else Inl ''already registered'')"

primrec sample_modules :: "rpc_extension \<Rightarrow> string list" where
  "sample_modules System_extension = [''system_accountNextIndex'']"
| "sample_modules TransactionPayment_extension = [''payment_queryInfo'']"
| "sample_modules Pns_extension = pns_rpc_methods"
| "sample_modules ZkPki_extension = [''zkPki_certStatus'']"

theorem create_full_ok_witness:
  "is_ok (create_full sample_merge [] sample_modules)"
  using create_full_ok [of set sample_merge "[]" sample_modules]
  by (simp add: merge_law_def sample_merge_def extension_list_def pns_rpc_methods_def)

end
