(* ===== verification/Node_Cli.thy ===== *)
theory Node_Cli
  imports Genesis Service Benchmark_Ext
begin

section \<open>Chain specs and the command line (\<open>node/src/chain_spec.rs\<close>, \<open>cli.rs\<close>, \<open>command.rs\<close>)\<close>

text \<open>
  The two built-in chain specs, \<open>load_spec\<close>, and the dispatch of \<open>run\<close> over the subcommands.
  The result of \<open>run\<close> is the command handed to the SDK, with the parts of the partial
  components it is given, or the error that stops the dispatch before that. The node is
  assembled by \<open>new_partial\<close> and \<open>new_full\<close> of \<open>Service\<close>, whose SDK calls fail as \<open>env_sdk\<close>
  says; an error of theirs becomes an error of the command (\<open>env_service_error\<close>; a panic is
  not told apart from an error). Payloads of subcommands (type \<open>'c\<close>), the SDK's runner and
  spec files are external.
\<close>

subsection \<open>Chain specs\<close>

datatype chain_type = Development_chain | Local_chain

record chain_spec =
  cs_name :: string
  cs_id :: string
  cs_chain_type :: chain_type
  cs_preset :: string

definition development_chain_spec ::
  "('k, 'aura, 'gran, 'rec, 'err) genesis_ext \<Rightarrow> bytes option \<Rightarrow> string + chain_spec" where
  "development_chain_spec ext wasm_binary =
     res_bind (ok_or wasm_binary ''Development wasm not available'') (\<lambda>wasm.
       Inr \<lparr>cs_name = ''Development'', cs_id = ''dev'', cs_chain_type = Development_chain,
            cs_preset = DEV_RUNTIME_PRESET ext\<rparr>)"

definition local_chain_spec ::
  "('k, 'aura, 'gran, 'rec, 'err) genesis_ext \<Rightarrow> bytes option \<Rightarrow> string + chain_spec" where
  "local_chain_spec ext wasm_binary =
     res_bind (ok_or wasm_binary ''Development wasm not available'') (\<lambda>wasm.
       Inr \<lparr>cs_name = ''Local Testnet'', cs_id = ''local_testnet'', cs_chain_type = Local_chain,
            cs_preset = LOCAL_TESTNET_RUNTIME_PRESET ext\<rparr>)"

datatype 'file loaded_spec = Builtin chain_spec | From_file 'file

definition load_spec ::
  "('k, 'aura, 'gran, 'rec, 'err) genesis_ext \<Rightarrow> bytes option \<Rightarrow> (string \<Rightarrow> string + 'file) \<Rightarrow>
   string \<Rightarrow> string + 'file loaded_spec" where
  "load_spec ext wasm_binary from_json_file i =
     (if i = ''dev'' then res_map Builtin (development_chain_spec ext wasm_binary)
      else if i = '''' \<or> i = ''local'' then res_map Builtin (local_chain_spec ext wasm_binary)
      else res_map From_file (from_json_file i))"

lemma load_spec_Builtin:
  "load_spec ext wasm ff i = Inr (Builtin cs) \<Longrightarrow>
     wasm \<noteq> None \<and> i \<in> {''dev'', '''', ''local''} \<and> cs_preset cs \<in> set (preset_names ext)"
  by (auto simp: load_spec_def development_chain_spec_def local_chain_spec_def result_simps
      preset_names_def split: if_splits)

subsection \<open>What the program says of itself\<close>

text \<open>
  \<open>impl SubstrateCli for Cli\<close>: three strings come from the build environment, the record
  \<open>build_env\<close>.
\<close>

record build_env =
  be_cli_impl_version :: string
  be_description :: string
  be_authors :: string

record cli_info =
  ci_impl_name :: string
  ci_impl_version :: string
  ci_description :: string
  ci_author :: string
  ci_support_url :: string
  ci_copyright_start_year :: int

definition cli_info :: "build_env \<Rightarrow> cli_info" where
  "cli_info benv =
     \<lparr>ci_impl_name = ''Paseo Unified Node'', ci_impl_version = be_cli_impl_version benv,
      ci_description = be_description benv, ci_author = be_authors benv,
      ci_support_url = ''https://github.com/prodigalwon'', ci_copyright_start_year = 2025\<rparr>"

subsection \<open>Subcommands\<close>

datatype 'c benchmark_cmd =
    Bench_pallet 'c | Bench_block 'c | Bench_storage 'c | Bench_overhead 'c
  | Bench_extrinsic 'c | Bench_machine 'c

datatype 'c subcommand =
    Key 'c | BuildSpec 'c | ExportChainSpec 'c string | CheckBlock 'c | ExportBlocks 'c
  | ExportState 'c | ImportBlocks 'c | PurgeChain 'c | Revert 'c
  | Benchmark "'c benchmark_cmd" | ChainInfo 'c

datatype network_backend = Libp2p | Litep2p

datatype part = Client | Backend | Import_queue | Database | Config_chain_spec | Config_network | Task_manager
  | Db_handle | Storage_handle | Shared_trie_cache | Inherent_data | Ext_builders "ext_builder list"
  | Grandpa_revert | Chain_spec_name | Whole_config | Reference_hardware

datatype ('c, 'file) executed =
    Run_key 'c
  | Run_export_chain_spec 'c "'file loaded_spec"
  | Run_sync 'c "part list"
  | Run_async 'c "part list"
  | Run_node network_backend "event list"

record ('c, 'err, 'file, 'serr) cli_env =
  env_create_runner :: "'c subcommand option \<Rightarrow> 'err option"
  env_config :: node_config
  env_sdk :: "sdk_call \<Rightarrow> 'serr option"
  env_service_error :: "'serr service_error \<Rightarrow> 'err"
  env_client :: bench_client
  env_alice :: account_id
  env_inherent_data :: "'err option"
  env_load_spec :: "string \<Rightarrow> string + 'file loaded_spec"
  env_input_error :: "string \<Rightarrow> 'err"
  env_runtime_benchmarks :: bool
  env_network_backend :: network_backend

text \<open>
  The outcome of \<open>service::new_partial(&config)?\<close> inside a command: its error, if any.
\<close>

definition env_new_partial :: "('c, 'err, 'file, 'serr) cli_env \<Rightarrow> 'err option" where
  "env_new_partial env =
     (case fst (new_partial (env_sdk env) (env_config env) []) of
        Inl e \<Rightarrow> Some (env_service_error env e)
      | Inr _ \<Rightarrow> None)"

definition overhead_builder :: "('c, 'err, 'file, 'serr) cli_env \<Rightarrow> ext_builder" where
  "overhead_builder env = Remark_builder (RemarkBuilder_new (env_client env))"

definition extrinsic_factory :: "('c, 'err, 'file, 'serr) cli_env \<Rightarrow> ext_builder list" where
  "extrinsic_factory env =
     [Remark_builder (RemarkBuilder_new (env_client env)),
      Transfer_keep_alive_builder
        (TransferKeepAliveBuilder_new (env_client env) (env_alice env) EXISTENTIAL_DEPOSIT)]"

definition try_step :: "'err option \<Rightarrow> 'err + 'a \<Rightarrow> 'err + 'a" where
  "try_step o' k = (case o' of Some e \<Rightarrow> Inl e | None \<Rightarrow> k)"

lemma try_step_eq [result_simps]:
  "try_step o' k = Inr a \<longleftrightarrow> o' = None \<and> k = Inr a"
  "try_step o' k = Inl e \<longleftrightarrow> o' = Some e \<or> (o' = None \<and> k = Inl e)"
  by (auto simp: try_step_def split: option.splits)

definition run_benchmark ::
  "('c, 'err, 'file, 'serr) cli_env \<Rightarrow> 'c benchmark_cmd \<Rightarrow> 'err + ('c, 'file) executed" where
  "run_benchmark env cmd =
     (case cmd of
        Bench_pallet c \<Rightarrow>
          if \<not> env_runtime_benchmarks env
          then Inl (env_input_error env ''Runtime benchmarking not enabled.'')
          else Inr (Run_sync c [Config_chain_spec])
      | Bench_block c \<Rightarrow>
          try_step (env_new_partial env) (Inr (Run_sync c [Client]))
      | Bench_storage c \<Rightarrow>
          if \<not> env_runtime_benchmarks env
          then Inl (env_input_error env
                 ''Storage benchmarking requires `--features runtime-benchmarks`.'')
          else try_step (env_new_partial env)
                 (Inr (Run_sync c [Whole_config, Client, Db_handle, Storage_handle, Shared_trie_cache]))
      | Bench_overhead c \<Rightarrow>
          try_step (env_new_partial env) (try_step (env_inherent_data env)
            (Inr (Run_sync c [Chain_spec_name, Client, Inherent_data, Ext_builders [overhead_builder env]])))
      | Bench_extrinsic c \<Rightarrow>
          try_step (env_new_partial env) (try_step (env_inherent_data env)
            (Inr (Run_sync c [Client, Inherent_data,
                              Ext_builders (extrinsic_factory env)])))
      | Bench_machine c \<Rightarrow> Inr (Run_sync c [Whole_config, Reference_hardware]))"

definition run ::
  "('c, 'err, 'file, 'serr) cli_env \<Rightarrow> 'c subcommand option \<Rightarrow> 'err + ('c, 'file) executed" where
  "run env sub =
     (case sub of
        Some (Key c) \<Rightarrow> Inr (Run_key c)
      | Some (BuildSpec c) \<Rightarrow>
          try_step (env_create_runner env sub) (Inr (Run_sync c [Config_chain_spec, Config_network]))
      | Some (CheckBlock c) \<Rightarrow>
          try_step (env_create_runner env sub) (try_step (env_new_partial env)
            (Inr (Run_async c [Client, Import_queue, Task_manager])))
      | Some (ExportChainSpec c chain) \<Rightarrow>
          res_bind (res_map_err (env_input_error env) (env_load_spec env chain))
            (\<lambda>spec. Inr (Run_export_chain_spec c spec))
      | Some (ExportBlocks c) \<Rightarrow>
          try_step (env_create_runner env sub) (try_step (env_new_partial env)
            (Inr (Run_async c [Client, Database, Task_manager])))
      | Some (ExportState c) \<Rightarrow>
          try_step (env_create_runner env sub) (try_step (env_new_partial env)
            (Inr (Run_async c [Client, Config_chain_spec, Task_manager])))
      | Some (ImportBlocks c) \<Rightarrow>
          try_step (env_create_runner env sub) (try_step (env_new_partial env)
            (Inr (Run_async c [Client, Import_queue, Task_manager])))
      | Some (PurgeChain c) \<Rightarrow>
          try_step (env_create_runner env sub) (Inr (Run_sync c [Database]))
      | Some (Revert c) \<Rightarrow>
          try_step (env_create_runner env sub) (try_step (env_new_partial env)
            (Inr (Run_async c [Client, Backend, Grandpa_revert, Task_manager])))
      | Some (Benchmark b) \<Rightarrow>
          try_step (env_create_runner env sub) (run_benchmark env b)
      | Some (ChainInfo c) \<Rightarrow>
          try_step (env_create_runner env sub) (Inr (Run_sync c [Whole_config]))
      | None \<Rightarrow>
          try_step (env_create_runner env sub)
            (case new_full (env_sdk env) (env_config env) [] of
               (Inl e, log) \<Rightarrow> Inl (env_service_error env e)
             | (Inr _, log) \<Rightarrow> Inr (Run_node (env_network_backend env) log)))"

subsection \<open>Properties\<close>

text \<open>Which subcommands create a runner, and which assemble the partial node.\<close>

primrec needs_runner :: "'c subcommand \<Rightarrow> bool" where
  "needs_runner (Key c) = False"
| "needs_runner (BuildSpec c) = True"
| "needs_runner (ExportChainSpec c chain) = False"
| "needs_runner (CheckBlock c) = True"
| "needs_runner (ExportBlocks c) = True"
| "needs_runner (ExportState c) = True"
| "needs_runner (ImportBlocks c) = True"
| "needs_runner (PurgeChain c) = True"
| "needs_runner (Revert c) = True"
| "needs_runner (Benchmark b) = True"
| "needs_runner (ChainInfo c) = True"

fun needs_client :: "'c subcommand \<Rightarrow> bool" where
  "needs_client (CheckBlock c) = True"
| "needs_client (ExportBlocks c) = True"
| "needs_client (ExportState c) = True"
| "needs_client (ImportBlocks c) = True"
| "needs_client (Revert c) = True"
| "needs_client (Benchmark (Bench_block c)) = True"
| "needs_client (Benchmark (Bench_storage c)) = True"
| "needs_client (Benchmark (Bench_overhead c)) = True"
| "needs_client (Benchmark (Bench_extrinsic c)) = True"
| "needs_client x = False"

fun needs_inherents :: "'c subcommand \<Rightarrow> bool" where
  "needs_inherents (Benchmark (Bench_overhead c)) = True"
| "needs_inherents (Benchmark (Bench_extrinsic c)) = True"
| "needs_inherents x = False"

fun needs_benchmark_build :: "'c subcommand \<Rightarrow> bool" where
  "needs_benchmark_build (Benchmark (Bench_pallet c)) = True"
| "needs_benchmark_build (Benchmark (Bench_storage c)) = True"
| "needs_benchmark_build x = False"

lemma is_ok_try_step [simp]: "is_ok (try_step o' k) \<longleftrightarrow> o' = None \<and> is_ok k"
  by (simp add: try_step_def split: option.split)

text \<open>
  C32: a subcommand reaches the SDK exactly when everything it needs is there: a runner for all
  but \<open>key\<close> and \<open>export-chain-spec\<close>, a client for those that work on the chain, inherent data for
  the overhead and extrinsic benchmarks, a \<open>runtime-benchmarks\<close> build for the pallet and
  storage benchmarks, and a loadable chain spec to export.
\<close>

theorem run_ok_iff:
  "is_ok (run env (Some sub)) \<longleftrightarrow>
     (if needs_runner sub then env_create_runner env (Some sub) = None else True) \<and>
     (if needs_client sub then env_new_partial env = None else True) \<and>
     (if needs_inherents sub then env_inherent_data env = None else True) \<and>
     (if needs_benchmark_build sub then env_runtime_benchmarks env else True) \<and>
     (case sub of ExportChainSpec c chain \<Rightarrow> is_ok (env_load_spec env chain) | _ \<Rightarrow> True)"
proof (cases sub)
  case (ExportChainSpec c chain)
  then show ?thesis by (cases "env_load_spec env chain") (simp_all add: run_def)
next
  case (Benchmark b)
  then show ?thesis by (cases b) (auto simp: run_def run_benchmark_def)
qed (simp_all add: run_def)

definition sample_env :: "(unit, string, unit, string) cli_env" where
  "sample_env = \<lparr>env_create_runner = (\<lambda>sub. None), env_config = sample_config,
     env_sdk = (\<lambda>c. if c = New_full_parts then Some ''no database'' else None),
     env_service_error = (\<lambda>e. case e of Service_error m \<Rightarrow> m | Panicked m \<Rightarrow> m),
     env_client = sample_client, env_alice = replicate 32 1,
     env_inherent_data = None, env_load_spec = (\<lambda>i. Inl ''no such file''),
     env_input_error = (\<lambda>m. m), env_runtime_benchmarks = False,
     env_network_backend = Litep2p\<rparr>"

text \<open>
  Without the \<open>runtime-benchmarks\<close> feature the pallet and storage benchmarks are refused
  with an input error naming the feature, and the storage benchmark is refused before the
  node is assembled.
\<close>

theorem benchmark_feature_gate:
  assumes "env_create_runner env (Some (Benchmark b)) = None"
    and "\<not> env_runtime_benchmarks env" and "needs_benchmark_build (Benchmark b)"
  shows "run env (Some (Benchmark b)) = Inl (env_input_error env
    (case b of Bench_pallet c \<Rightarrow> ''Runtime benchmarking not enabled.''
     | _ \<Rightarrow> ''Storage benchmarking requires `--features runtime-benchmarks`.''))"
  using assms by (cases b) (simp_all add: run_def run_benchmark_def try_step_def)

theorem benchmark_feature_gate_witness:
  "run sample_env (Some (Benchmark (Bench_storage ()))) =
     Inl ''Storage benchmarking requires `--features runtime-benchmarks`.''"
  using benchmark_feature_gate [of sample_env "Bench_storage ()"]
  by (simp add: sample_env_def)

text \<open>
  Every chain spec the node has built in names a preset the runtime serves: when
  \<open>load_spec\<close> answers with a built-in spec, the runtime does not answer "unknown" for its
  preset, and the spec is the development one exactly for the id \<open>dev\<close>.
\<close>

theorem builtin_specs_have_presets:
  assumes "load_spec ext wasm from_file i = Inr (Builtin cs)"
  shows "get_preset ext (cs_preset cs) \<noteq> Inr None \<and>
    (cs_chain_type cs = Development_chain \<longleftrightarrow> i = ''dev'')"
proof -
  have "cs_preset cs \<in> set (preset_names ext)" using load_spec_Builtin [OF assms] by simp
  then have "get_preset ext (cs_preset cs) \<noteq> Inr None"
    by (simp add: runtime_presets.preset_None_iff)
  with assms show ?thesis
    by (auto simp: load_spec_def development_chain_spec_def local_chain_spec_def result_simps
        split: if_splits)
qed

theorem builtin_specs_have_presets_witness:
  "\<exists>cs. load_spec sample_keyring (Some [0]) (\<lambda>p. Inl ''no such file'') ''local'' =
      (Inr (Builtin cs) :: string + unit loaded_spec) \<and>
     get_preset sample_keyring (cs_preset cs) \<noteq> Inr None"
  using builtin_specs_have_presets [of sample_keyring "Some [0]"
      "(\<lambda>p. Inl ''no such file'') :: string \<Rightarrow> string + unit" "''local''"
      "\<lparr>cs_name = ''Local Testnet'', cs_id = ''local_testnet'', cs_chain_type = Local_chain,
        cs_preset = LOCAL_TESTNET_RUNTIME_PRESET sample_keyring\<rparr>"]
  by (simp add: load_spec_def local_chain_spec_def)

text \<open>
  C27: starting the node. Without a subcommand the program comes to run exactly when a
  runner can be created and none of the start-up calls its configuration plans fails; the
  node then runs with the plan carried out to the end. A subcommand that needs the client
  goes through only when the first part of that plan does.
\<close>

theorem run_default_node:
  "(is_ok (run env None) \<longleftrightarrow>
      env_create_runner env None = None \<and> runs_ok (env_sdk env) (plan (env_config env))) \<and>
   (case run env None of Inl e \<Rightarrow> True
    | Inr x \<Rightarrow> x = Run_node (env_network_backend env) (plan (env_config env))) \<and>
   (env_new_partial env = None \<longleftrightarrow> runs_ok (env_sdk env) (partial_plan (env_config env)))"
proof -
  have full: "snd (new_full (env_sdk env) (env_config env) []) =
      run_plan (env_sdk env) (plan (env_config env))"
    "is_ok (fst (new_full (env_sdk env) (env_config env) [])) \<longleftrightarrow>
      runs_ok (env_sdk env) (plan (env_config env))"
    using new_full_implements [of "env_sdk env" "env_config env"] by (simp_all add: implements_def)
  have partial: "is_ok (fst (new_partial (env_sdk env) (env_config env) [])) \<longleftrightarrow>
      runs_ok (env_sdk env) (partial_plan (env_config env))"
    using new_partial_implements [of "env_sdk env" "env_config env"] by (simp add: implements_def)
  obtain r log where rl: "new_full (env_sdk env) (env_config env) [] = (r, log)" by fastforce
  show ?thesis
    using full partial
    by (cases r) (auto simp: run_def rl env_new_partial_def try_step_def run_plan_ok is_ok_iff
        split: option.splits sum.splits)
qed

text \<open>
  The factory of the extrinsic benchmark. On a client with a genesis block each of its
  builders builds the call it announces, the announcements are different, so a builder is
  selected by its names, and the transfer it submits is of the existential deposit.
\<close>

theorem extrinsic_factory_selects:
  assumes "bc_genesis_hash (env_client env) \<noteq> None"
  shows "distinct (map builder_names (extrinsic_factory env)) \<and>
    list_all (\<lambda>b. case builder_build ext t nonce b of Inl e \<Rightarrow> False
        | Inr x \<Rightarrow> call_names (ux_call x) = builder_names b)
      (extrinsic_factory env @ [overhead_builder env]) \<and>
    (case find (\<lambda>b. builder_names b = (''balances'', ''transfer_keep_alive'')) (extrinsic_factory env) of
       Some (Transfer_keep_alive_builder b) \<Rightarrow> tb_value b = EXISTENTIAL_DEPOSIT
     | _ \<Rightarrow> False)"
proof -
  obtain x where "RemarkBuilder_build ext (env_client env) t nonce = Inr x"
    "call_names (ux_call x) = (RemarkBuilder_pallet, RemarkBuilder_extrinsic)"
    using remark_builder.build_ok_names [OF assms] by blast
  moreover obtain y where "TransferKeepAliveBuilder_build ext (env_client env) t (env_alice env)
      EXISTENTIAL_DEPOSIT nonce = Inr y"
    "call_names (ux_call y) = (TransferKeepAliveBuilder_pallet, TransferKeepAliveBuilder_extrinsic)"
    using transfer_builder.build_ok_names [OF assms] by blast
  ultimately show ?thesis
    by (simp add: extrinsic_factory_def overhead_builder_def RemarkBuilder_new_def
        TransferKeepAliveBuilder_new_def RemarkBuilder_pallet_def RemarkBuilder_extrinsic_def
        TransferKeepAliveBuilder_pallet_def TransferKeepAliveBuilder_extrinsic_def)
qed

theorem extrinsic_factory_selects_witness:
  "distinct (map builder_names (extrinsic_factory sample_env))"
  using extrinsic_factory_selects [of sample_env sample_bench 0 7] by (simp add: sample_env_def sample_client_def)

end
