(* ===== verification/Rpc_Module.thy ===== *)
theory Rpc_Module
  imports Rpc_Server Node_Rpc Service_Roles
begin

section \<open>From a method name to a handler (\<open>node/src/rpc.rs\<close>, \<open>pns_rpc.rs\<close>, \<open>service.rs\<close>)\<close>

text \<open>
  \<open>service.rs\<close> hands the RPC builder a client and a pool, \<open>create_full\<close> builds the four
  extensions on them and merges their modules, and the trait \<open>PnsStorageApi\<close> says under which
  name each handler of \<open>Pns_Rpc\<close> is called and with which arguments. This theory puts the three
  together. Parameters: the modules of the other three extensions, \<open>jsonrpsee\<close>'s module with
  \<open>merge\<close> and the lookup of a method in it, and the decoding of JSON parameters, which either
  gives the typed arguments of the trait's signature or an error. \<open>PnsRpc_into_rpc\<close> stands for
  the module that \<open>jsonrpsee\<close>'s attribute on the trait generates: it is not written in the source,
  and is modelled after what the macro documents.
\<close>

subsection \<open>The PNS extension\<close>

record 'h pns_rpc =
  pr_client :: 'h

definition PnsRpc_new :: "'h \<Rightarrow> 'h pns_rpc" where
  "PnsRpc_new client = \<lparr>pr_client = client\<rparr>"

record 'p decode_ext =
  dec_node :: "'p \<Rightarrow> rpc_error + domain_hash"
  dec_name :: "'p \<Rightarrow> rpc_error + bytes"
  dec_node_types :: "'p \<Rightarrow> rpc_error + domain_hash \<times> u32 list"
  dec_name_types :: "'p \<Rightarrow> rpc_error + bytes \<times> u32 list"

text \<open>The trait: method names and argument lists, in the order of the source.\<close>

definition PnsStorageApi_trait :: "'p decode_ext \<Rightarrow> (string \<times> ('p \<Rightarrow> rpc_error + rpc_request)) list" where
  "PnsStorageApi_trait dec =
     [(''pns_getInfo'', \<lambda>p. res_map ReqGetInfo (dec_node dec p)),
      (''pns_resolveName'', \<lambda>p. res_map ReqResolveName (dec_name dec p)),
      (''pns_lookup'', \<lambda>p. res_map (\<lambda>(node, rts). ReqLookup node rts) (dec_node_types dec p)),
      (''pns_getListing'', \<lambda>p. res_map ReqGetListing (dec_name dec p)),
      (''pns_lookupByName'', \<lambda>p. res_map (\<lambda>(name, rts). ReqLookupByName name rts) (dec_name_types dec p))]"

type_synonym ('p, 'rt) rpc_method = "'p \<Rightarrow> 'rt rpc_world \<Rightarrow> rpc_result \<times> 'rt rpc_world"

text \<open>
  The module the macro \<open>#[rpc(server)]\<close> generates for \<open>PnsRpc\<close>: parameters that do not decode are answered at once,
  the others go to the handler on the extension's client.
\<close>

definition PnsRpc_into_rpc ::
  "('h \<Rightarrow> ('rt, 'err) api_ext) \<Rightarrow> 'rt dns_ext \<Rightarrow> 'p decode_ext \<Rightarrow> 'h pns_rpc \<Rightarrow>
   string \<rightharpoonup> ('p, 'rt) rpc_method" where
  "PnsRpc_into_rpc api_of dns dec rpc name =
     map_option
       (\<lambda>decode p w. case decode p of
          Inl e \<Rightarrow> (Inl e, w)
        | Inr req \<Rightarrow> handle (api_of (pr_client rpc)) dns req w)
       (map_of (PnsStorageApi_trait dec) name)"

primrec method_name :: "rpc_request \<Rightarrow> string" where
  "method_name (ReqGetInfo node) = ''pns_getInfo''"
| "method_name (ReqResolveName name) = ''pns_resolveName''"
| "method_name (ReqLookup node rts) = ''pns_lookup''"
| "method_name (ReqGetListing name) = ''pns_getListing''"
| "method_name (ReqLookupByName name rts) = ''pns_lookupByName''"

lemma method_names: "map fst (PnsStorageApi_trait dec) = pns_rpc_methods"
  by (simp add: PnsStorageApi_trait_def pns_rpc_methods_def)

lemma dom_pns_module: "dom (PnsRpc_into_rpc api_of dns dec rpc) = set pns_rpc_methods"
  by (auto simp: PnsRpc_into_rpc_def dom_def map_of_eq_None_iff simp flip: method_names [of dec])

lemma decoded_method_name:
  "map_of (PnsStorageApi_trait dec) name = Some decode \<Longrightarrow> decode p = Inr req \<Longrightarrow>
     method_name req = name"
  by (auto simp: PnsStorageApi_trait_def result_simps split: if_splits)

subsection \<open>\<open>create_full\<close> on its dependencies\<close>

text \<open>
  \<open>rx_view\<close> looks a method up in a module. The extensions that are not of this repository are
  the modules their constructors and \<open>into_rpc\<close> give; \<open>rx_pns\<close> wraps the methods of the PNS
  extension as a module.
\<close>

record ('h, 'm, 'err, 'p, 'rt) rpc_module_ext =
  rx_new :: 'm
  rx_merge :: "'m \<Rightarrow> 'm \<Rightarrow> 'err + 'm"
  rx_view :: "'m \<Rightarrow> string \<rightharpoonup> ('p, 'rt) rpc_method"
  rx_system :: "'h \<Rightarrow> 'h \<Rightarrow> 'm"
  rx_transaction_payment :: "'h \<Rightarrow> 'm"
  rx_pns :: "(string \<rightharpoonup> ('p, 'rt) rpc_method) \<Rightarrow> 'm"
  rx_zk_pki :: "'h \<Rightarrow> 'm"

primrec extension_module ::
  "('h, 'm, 'err, 'p, 'rt) rpc_module_ext \<Rightarrow> ('h pns_rpc \<Rightarrow> string \<rightharpoonup> ('p, 'rt) rpc_method) \<Rightarrow>
   'h full_deps \<Rightarrow> rpc_extension \<Rightarrow> 'm" where
  "extension_module rx pns deps System_extension = rx_system rx (fd_client deps) (fd_pool deps)"
| "extension_module rx pns deps TransactionPayment_extension =
     rx_transaction_payment rx (fd_client deps)"
| "extension_module rx pns deps Pns_extension = rx_pns rx (pns (PnsRpc_new (fd_client deps)))"
| "extension_module rx pns deps ZkPki_extension = rx_zk_pki rx (fd_client deps)"

definition create_full_on ::
  "('h, 'm, 'err, 'p, 'rt) rpc_module_ext \<Rightarrow> ('h pns_rpc \<Rightarrow> string \<rightharpoonup> ('p, 'rt) rpc_method) \<Rightarrow>
   'h full_deps \<Rightarrow> 'err + 'm" where
  "create_full_on rx pns deps = create_full (rx_merge rx) (rx_new rx) (extension_module rx pns deps)"

text \<open>
  What \<open>jsonrpsee\<close> documents: a new module is empty, merging fails when a name is on both sides
  and otherwise answers every method as the side that has it, and the module made of the PNS
  methods has these.
\<close>

definition module_law :: "('h, 'm, 'err, 'p, 'rt) rpc_module_ext \<Rightarrow> bool" where
  "module_law rx \<longleftrightarrow>
     rx_view rx (rx_new rx) = Map.empty \<and> (\<forall>ms. rx_view rx (rx_pns rx ms) = ms) \<and>
     (\<forall>a b. case rx_merge rx a b of
        Inl e \<Rightarrow> dom (rx_view rx a) \<inter> dom (rx_view rx b) \<noteq> {}
      | Inr m \<Rightarrow> dom (rx_view rx a) \<inter> dom (rx_view rx b) = {} \<and>
          rx_view rx m = rx_view rx a ++ rx_view rx b)"

lemma module_law_merge:
  "module_law rx \<Longrightarrow> rx_merge rx a b = Inr m \<Longrightarrow>
     dom (rx_view rx a) \<inter> dom (rx_view rx b) = {} \<and> rx_view rx m = rx_view rx a ++ rx_view rx b"
  unfolding module_law_def by (elim conjE) (drule spec [of _ a], drule spec [of _ b], simp)

lemma merge_all_serves:
  assumes law: "module_law rx"
  shows "merge_all (rx_merge rx) m xs = Inr m' \<Longrightarrow> x \<in> set (m # xs) \<Longrightarrow>
    rx_view rx x name = Some f \<Longrightarrow> rx_view rx m' name = Some f"
proof (induction xs arbitrary: m x)
  case Nil
  then show ?case by simp
next
  case (Cons y ys)
  obtain n where n: "rx_merge rx m y = Inr n" and rest: "merge_all (rx_merge rx) n ys = Inr m'"
    using Cons.prems(1) by (auto simp: result_simps)
  note merged = module_law_merge [OF law n]
  show ?case
  proof (cases "x \<in> set ys")
    case True
    then show ?thesis using Cons.IH [OF rest, of x] Cons.prems(3) by simp
  next
    case False
    then have "rx_view rx n name = Some f"
      using Cons.prems(2,3) merged by (auto simp: map_add_Some_iff)
    then show ?thesis using Cons.IH [OF rest, of n] by simp
  qed
qed

lemma merge_all_only:
  assumes law: "module_law rx"
  shows "merge_all (rx_merge rx) m xs = Inr m' \<Longrightarrow> rx_view rx m' name = Some f \<Longrightarrow>
    \<exists>x \<in> set (m # xs). rx_view rx x name = Some f"
proof (induction xs arbitrary: m)
  case Nil
  then show ?case by simp
next
  case (Cons y ys)
  obtain n where n: "rx_merge rx m y = Inr n" and rest: "merge_all (rx_merge rx) n ys = Inr m'"
    using Cons.prems(1) by (auto simp: result_simps)
  from Cons.IH [OF rest Cons.prems(2)] module_law_merge [OF law n] show ?case
    by (auto simp: map_add_Some_iff)
qed

lemma create_full_on_pns:
  assumes "module_law rx" and "create_full_on rx pns deps = Inr m"
  shows "pns (PnsRpc_new (fd_client deps)) name = Some f \<Longrightarrow> rx_view rx m name = Some f"
  using merge_all_serves [OF assms(1) assms(2) [unfolded create_full_on_def create_full_merge_all],
      of "extension_module rx pns deps Pns_extension" name f] assms(1)
  by (simp add: module_law_def)


subsection \<open>Properties\<close>

text \<open>
  C16: the node's RPC module. When merging succeeds, the module answers a method exactly as the
  one extension that has it, none shadows another, and the five names of the trait reach the
  handlers of \<open>pns_rpc.rs\<close>: parameters that decode to a request are answered by its handler,
  on the client the module was built with, and the others without touching the client.
\<close>

theorem module_dispatches:
  assumes law: "module_law rx"
    and full: "create_full_on rx (PnsRpc_into_rpc api_of dns dec) deps = Inr m"
  shows "(rx_view rx m name = Some f \<longleftrightarrow>
      (\<exists>x \<in> set extension_list.
         rx_view rx (extension_module rx (PnsRpc_into_rpc api_of dns dec) deps x) name = Some f)) \<and>
    (case map_of (PnsStorageApi_trait dec) name of None \<Rightarrow> name \<notin> set pns_rpc_methods
     | Some decode \<Rightarrow> (\<exists>g. rx_view rx m name = Some g \<and>
         (case decode p of Inl e \<Rightarrow> g p w = (Inl e, w)
          | Inr req \<Rightarrow> method_name req = name \<and> g p w = handle (api_of (fd_client deps)) dns req w)))"
proof -
  let ?module = "extension_module rx (PnsRpc_into_rpc api_of dns dec) deps"
  note all = full [unfolded create_full_on_def create_full_merge_all, folded extension_list_def]
  have empty: "rx_view rx (rx_new rx) = Map.empty" using law by (simp add: module_law_def)
  have "rx_view rx m name = Some f \<longleftrightarrow>
      (\<exists>x \<in> set extension_list. rx_view rx (?module x) name = Some f)"
    using merge_all_serves [OF law all] merge_all_only [OF law all] empty by fastforce
  moreover have "\<exists>g. rx_view rx m name = Some g \<and>
      (case decode p of Inl e \<Rightarrow> g p w = (Inl e, w)
       | Inr req \<Rightarrow> method_name req = name \<and> g p w = handle (api_of (fd_client deps)) dns req w)"
    if decode: "map_of (PnsStorageApi_trait dec) name = Some decode" for decode
  proof -
    let ?g = "\<lambda>p w. case decode p of Inl e \<Rightarrow> (Inl e, w)
      | Inr req \<Rightarrow> handle (api_of (pr_client (PnsRpc_new (fd_client deps)))) dns req w"
    have "PnsRpc_into_rpc api_of dns dec (PnsRpc_new (fd_client deps)) name = Some ?g"
      using decode by (simp add: PnsRpc_into_rpc_def)
    then have "rx_view rx m name = Some ?g" by (rule create_full_on_pns [OF law full])
    moreover have "case decode p of Inl e \<Rightarrow> True | Inr req \<Rightarrow> method_name req = name"
      using decoded_method_name [OF decode, of p] by (simp split: sum.split)
    ultimately show ?thesis by (intro exI [of _ ?g]) (auto simp: PnsRpc_new_def split: sum.splits)
  qed
  moreover have "name \<notin> set pns_rpc_methods" if "map_of (PnsStorageApi_trait dec) name = None"
    using that by (simp add: map_of_eq_None_iff flip: method_names [of dec])
  ultimately show ?thesis by (simp split: option.split)
qed

text \<open>Modules as maps; the other extensions have one method each; a parameter is a request.\<close>

definition sample_rx ::
  "('h, string \<rightharpoonup> (rpc_request, u16) rpc_method, unit, rpc_request, u16) rpc_module_ext" where
  "sample_rx =
     \<lparr>rx_new = Map.empty,
      rx_merge = (\<lambda>a b. if dom a \<inter> dom b = {} then Inr (a ++ b) else Inl ()),
      rx_view = (\<lambda>m. m),
      rx_system = (\<lambda>c pool. [''system_accountNextIndex'' \<mapsto> (\<lambda>p w. (Inl (invalid_params []), w))]),
      rx_transaction_payment = (\<lambda>c. [''payment_queryInfo'' \<mapsto> (\<lambda>p w. (Inl (invalid_params []), w))]),
      rx_pns = (\<lambda>ms. ms),
      rx_zk_pki = (\<lambda>c. [''zkPki_certStatus'' \<mapsto> (\<lambda>p w. (Inl (invalid_params []), w))])\<rparr>"

definition sample_dec :: "rpc_request decode_ext" where
  "sample_dec =
     \<lparr>dec_node = (\<lambda>q. case q of ReqGetInfo n \<Rightarrow> Inr n | _ \<Rightarrow> Inl (invalid_params [])),
      dec_name = (\<lambda>q. case q of ReqResolveName n \<Rightarrow> Inr n | ReqGetListing n \<Rightarrow> Inr n
        | _ \<Rightarrow> Inl (invalid_params [])),
      dec_node_types = (\<lambda>q. case q of ReqLookup n rts \<Rightarrow> Inr (n, rts) | _ \<Rightarrow> Inl (invalid_params [])),
      dec_name_types = (\<lambda>q. case q of ReqLookupByName n rts \<Rightarrow> Inr (n, rts)
        | _ \<Rightarrow> Inl (invalid_params []))\<rparr>"

lemma sample_module_law: "module_law sample_rx"
  by (simp add: module_law_def sample_rx_def)

lemma sample_module:
  "\<exists>m. create_full_on sample_rx (PnsRpc_into_rpc api_of dns sample_dec) deps = Inr m"
proof -
  have "dom (PnsRpc_into_rpc api_of dns sample_dec (PnsRpc_new (fd_client deps))) =
      set pns_rpc_methods"
    by (rule dom_pns_module)
  then show ?thesis
    by (simp add: create_full_on_def create_full_def sample_rx_def pns_rpc_methods_def)
qed

theorem module_dispatches_witness:
  "\<exists>m g. create_full_on sample_rx (PnsRpc_into_rpc (\<lambda>c. sample_api) sample_dns sample_dec)
      \<lparr>fd_client = (), fd_pool = ()\<rparr> = Inr m \<and>
    rx_view (sample_rx :: (unit, _, _, _, _) rpc_module_ext) m ''pns_resolveName'' = Some g \<and>
    g (ReqResolveName [1]) sample_world = handle sample_api sample_dns (ReqResolveName [1]) sample_world"
proof -
  obtain m where m: "create_full_on sample_rx (PnsRpc_into_rpc (\<lambda>c. sample_api) sample_dns sample_dec)
      \<lparr>fd_client = (), fd_pool = ()\<rparr> = Inr m"
    using sample_module by blast
  with module_dispatches [OF sample_module_law m, of "''pns_resolveName''" undefined "ReqResolveName [1]"
      sample_world, THEN conjunct2]
  show ?thesis by (simp add: PnsStorageApi_trait_def sample_dec_def)
qed

end
