(* ===== verification/Node_Build.thy ===== *)
theory Node_Build
  imports Build_Guard Node_Cli
begin

section \<open>Building the workspace (\<open>node/Cargo.toml\<close>, \<open>runtime/Cargo.toml\<close>, \<open>apis.rs\<close>, \<open>rpc.rs\<close>)\<close>

text \<open>
  The node crate forwards some of its features to the runtime crate, on which it depends without
  default features; cargo builds one runtime with the union of what is asked of it. Which runtime
  APIs that runtime implements follows from the unified features. Features that crates of other
  repositories ask of their dependencies are not known here and not part of the model.
\<close>

subsection \<open>Features of a build\<close>

datatype node_feature = Node_default | Node_std | Node_runtime_benchmarks | Node_try_runtime

primrec node_feature_entries :: "node_feature \<Rightarrow> node_feature list" where
  "node_feature_entries Node_default = [Node_std]"
| "node_feature_entries Node_std = []"
| "node_feature_entries Node_runtime_benchmarks = []"
| "node_feature_entries Node_try_runtime = []"

text \<open>The entries \<open>paseo-runtime/...\<close> of the node's features.\<close>

primrec forwarded :: "node_feature \<Rightarrow> feature list" where
  "forwarded Node_default = []"
| "forwarded Node_std = [Std]"
| "forwarded Node_runtime_benchmarks = [Runtime_benchmarks]"
| "forwarded Node_try_runtime = [Try_runtime]"

definition node_features :: "bool \<Rightarrow> node_feature list \<Rightarrow> node_feature set" where
  "node_features no_default requested =
     (let fs = (if no_default then requested else Node_default # requested)
      in set fs \<union> \<Union> (set ` node_feature_entries ` set fs))"

text \<open>
  A build names the packages it builds, each with \<open>--no-default-features\<close> and \<open>--features\<close>.
  The dependency of the node on the runtime turns the runtime's default features off.
\<close>

record build_command =
  build_runtime_pkg :: "(bool \<times> feature list) option"
  build_node_pkg :: "(bool \<times> node_feature list) option"

definition unified_features :: "build_command \<Rightarrow> feature set" where
  "unified_features cmd =
     (case build_runtime_pkg cmd of None \<Rightarrow> {} | Some (nd, fs) \<Rightarrow> enabled_features nd fs) \<union>
     (case build_node_pkg cmd of None \<Rightarrow> {}
      | Some (nd, fs) \<Rightarrow> \<Union> (set ` forwarded ` node_features nd fs))"

subsection \<open>Runtime APIs\<close>

datatype api_trait =
    Api_core | Api_metadata | Api_view_function | Api_block_builder | Api_tagged_transaction_queue
  | Api_offchain_worker | Api_aura | Api_session_keys | Api_grandpa | Api_account_nonce
  | Api_transaction_payment | Api_transaction_payment_call | Api_pns_storage
  | Api_secret_squirrel | Api_zk_pki | Api_benchmark | Api_try_runtime | Api_genesis_builder

text \<open>The \<open>impl\<close> blocks of \<open>apis.rs\<close>, in order; two of them depend on a feature.\<close>

definition runtime_apis :: "feature set \<Rightarrow> api_trait list" where
  "runtime_apis feats =
     [Api_core, Api_metadata, Api_view_function, Api_block_builder, Api_tagged_transaction_queue,
      Api_offchain_worker, Api_aura, Api_session_keys, Api_grandpa, Api_account_nonce,
      Api_transaction_payment, Api_transaction_payment_call, Api_pns_storage,
      Api_secret_squirrel, Api_zk_pki] @
     (if Runtime_benchmarks \<in> feats then [Api_benchmark] else []) @
     (if Try_runtime \<in> feats then [Api_try_runtime] else []) @
     [Api_genesis_builder]"

text \<open>The runtime APIs \<open>create_full\<close> asks of its client, the \<open>C::Api\<close> bounds of \<open>rpc.rs\<close>.\<close>

definition create_full_apis :: "api_trait list" where
  "create_full_apis =
     [Api_account_nonce, Api_transaction_payment, Api_pns_storage, Api_zk_pki,
      Api_secret_squirrel, Api_block_builder]"

text \<open>The command line a node binary was built into: \<open>cfg!(feature = "runtime-benchmarks")\<close>.\<close>

definition built_env ::
  "bool \<Rightarrow> node_feature list \<Rightarrow> ('c, 'err, 'file, 'serr) cli_env \<Rightarrow> ('c, 'err, 'file, 'serr) cli_env"
  where
  "built_env nd fs env = env\<lparr>env_runtime_benchmarks := Node_runtime_benchmarks \<in> node_features nd fs\<rparr>"

subsection \<open>Properties\<close>

text \<open>
  C29: what the node relies on is in the runtime it was built with. Whatever the features, the
  runtime implements every API the RPC extensions ask for, and when the program lets a pallet
  benchmark through, the runtime in the same build implements the benchmarking API.
\<close>

theorem node_finds_its_apis:
  assumes "build_node_pkg cmd = Some (nd, fs)"
  shows "set create_full_apis \<subseteq> set (runtime_apis (unified_features cmd)) \<and>
    (is_ok (run (built_env nd fs env) (Some (Benchmark (Bench_pallet c)))) \<longrightarrow>
       Api_benchmark \<in> set (runtime_apis (unified_features cmd)))"
proof -
  have "Runtime_benchmarks \<in> unified_features cmd" if "Node_runtime_benchmarks \<in> node_features nd fs"
    using that assms by (auto simp: unified_features_def intro!: bexI [of _ Node_runtime_benchmarks])
  then show ?thesis
    by (auto simp: create_full_apis_def runtime_apis_def run_def run_benchmark_def built_env_def
        split: if_splits)
qed

theorem node_finds_its_apis_witness:
  "Api_benchmark \<in> set (runtime_apis (unified_features
     \<lparr>build_runtime_pkg = None, build_node_pkg = Some (False, [Node_runtime_benchmarks])\<rparr>))"
proof -
  have "is_ok (run (built_env False [Node_runtime_benchmarks] sample_env)
      (Some (Benchmark (Bench_pallet ()))))"
    by (simp add: run_def run_benchmark_def built_env_def sample_env_def node_features_def)
  with node_finds_its_apis [of "\<lparr>build_runtime_pkg = None,
      build_node_pkg = Some (False, [Node_runtime_benchmarks])\<rparr>" False
      "[Node_runtime_benchmarks]" sample_env "()"]
  show ?thesis by simp
qed

end
