(* ===== verification/Rpc_Order.thy ===== *)
theory Rpc_Order
  imports Rpc_Server
begin

section \<open>The order of answers\<close>

text \<open>
  \<open>Rpc_Server\<close> shows that every request is answered at one block that was the best one after it
  arrived. Here the blocks of different requests are compared: positions in
  \<open>rev (srv_bests s)\<close> are the best blocks of the node in the order it had them.
\<close>

subsection \<open>What a run leaves as it was\<close>

definition continues :: "'rt server \<Rightarrow> 'rt server \<Rightarrow> bool" where
  "continues s t \<longleftrightarrow>
     (\<exists>new. srv_bests t = new @ srv_bests s) \<and>
     length (srv_requests s) \<le> length (srv_requests t) \<and>
     length (srv_arrivals t) = length (srv_requests t) \<and>
     (\<forall>i req r. i < length (srv_requests s) \<longrightarrow> srv_requests s ! i = (req, Answered r) \<longrightarrow>
        srv_requests t ! i = (req, Answered r)) \<and>
     (\<forall>j. length (srv_requests s) \<le> j \<longrightarrow> j < length (srv_requests t) \<longrightarrow>
        length (srv_bests s) \<le> srv_arrivals t ! j)"

lemma continues_refl: "server_inv api dns s \<Longrightarrow> continues s s"
  by (auto simp: continues_def server_inv_def dest: list_all2_lengthD)

lemma continues_env:
  assumes "continues s t" and "env_step t u"
  shows "continues s u"
  using assms(2)
proof (cases rule: env_step.cases)
  case (import_block ci)
  then show ?thesis using assms(1) by (auto simp: continues_def)
next
  case (arrive req)
  then show ?thesis using assms(1) by (auto simp: continues_def nth_append less_Suc_eq)
qed

lemma continues_update:
  assumes "continues s t" and "srv_requests t ! i = (req, p)" and "\<And>r. p \<noteq> Answered r"
  shows "continues s (t\<lparr>srv_requests := (srv_requests t)[i := rp], srv_calls := calls\<rparr>)"
proof -
  have "(srv_requests t)[i := rp] ! k = (req', Answered r)"
    if "srv_requests t ! k = (req', Answered r)" for k req' r
    using that assms(2,3) by (cases "k = i") auto
  with assms(1) show ?thesis by (auto simp: continues_def)
qed

lemma continues_work:
  assumes "continues s t" and "work_step api dns t u"
  shows "continues s u"
  using assms(2)
proof (cases rule: work_step.cases)
  case (reject i req msg)
  then show ?thesis
    using continues_update [OF assms(1), where i = i and req = req and p = Received and calls = "srv_calls t"] by simp
next
  case (read_chain i req)
  then show ?thesis
    using continues_update [OF assms(1), where i = i and req = req and p = Received and calls = "srv_calls t"] by simp
next
  case (call_runtime i req ci)
  then show ?thesis using continues_update [OF assms(1), where i = i and req = req and p = "Chain_read ci"] by simp
qed

lemma run_continues: "server_run api dns s n t \<Longrightarrow> continues s s \<Longrightarrow> continues s t"
  by (induction rule: server_run.induct) (auto intro: continues_env continues_work)

lemma server_run_trans:
  "server_run api dns t m u \<Longrightarrow> server_run api dns s n t \<Longrightarrow> server_run api dns s (n + m) u"
  by (induction rule: server_run.induct) (auto intro: run_env run_work)

subsection \<open>Positions in the history\<close>

lemma since_position:
  assumes "ci \<in> set (since a bests)" and "a \<le> length bests"
  shows "\<exists>b < length bests. a \<le> Suc b \<and> rev bests ! b = ci"
proof -
  from assms(1) obtain k where k: "k < length bests" "k < Suc (length bests - a)" "bests ! k = ci"
    by (auto simp: since_def in_set_conv_nth)
  then show ?thesis using assms(2)
    by (intro exI [of _ "length bests - Suc k"]) (auto simp: rev_nth)
qed

subsection \<open>Properties\<close>

text \<open>
  C4: answers never go back in time. If a request was answered before another one arrived, both
  keep the answers of their handlers run alone, the second at the same best block of the node
  or a later one, whatever was imported and whatever else was handled in between.
\<close>

theorem answers_move_forward:
  assumes "server_run api dns (server_init ci\<^sub>0) n s" and "server_run api dns s m t"
    and "i < length (srv_requests s)" and "srv_requests s ! i = (req, Answered r)"
    and "length (srv_requests s) \<le> j" and "j < length (srv_requests t)"
    and "srv_requests t ! j = (req', Answered r')"
  shows "\<exists>a b. a \<le> b \<and> b < length (srv_bests t) \<and>
    srv_requests t ! i = (req, Answered r) \<and>
    (\<forall>w. rw_chain w (rw_clock w) = rev (srv_bests t) ! a \<longrightarrow> fst (handle api dns req w) = r) \<and>
    (\<forall>w. rw_chain w (rw_clock w) = rev (srv_bests t) ! b \<longrightarrow> fst (handle api dns req' w) = r')"
proof -
  have inv: "server_inv api dns s" using assms(1) server_inv_init by (rule server_run_inv)
  have cont: "continues s t" by (rule run_continues [OF assms(2) continues_refl [OF inv]])
  then obtain new where new: "srv_bests t = new @ srv_bests s" by (auto simp: continues_def)
  have arrival: "length (srv_bests s) \<le> srv_arrivals t ! j"
    and kept: "srv_requests t ! i = (req, Answered r)"
    using cont assms(3-6) by (auto simp: continues_def)
  obtain ci where "ci \<in> set (since (srv_arrivals s ! i) (srv_bests s))"
    and first: "\<forall>w. rw_chain w (rw_clock w) = ci \<longrightarrow> fst (handle api dns req w) = r"
    using answered_at_block [OF assms(1,3,4)] by blast
  then have "ci \<in> set (rev (srv_bests s))" by (auto simp: since_def dest: in_set_takeD)
  then obtain a where a: "a < length (srv_bests s)" "rev (srv_bests s) ! a = ci"
    by (metis in_set_conv_nth length_rev)
  have run: "server_run api dns (server_init ci\<^sub>0) (n + m) t"
    by (rule server_run_trans [OF assms(2,1)])
  then have "server_inv api dns t" using server_inv_init by (rule server_run_inv)
  then have le: "srv_arrivals t ! j \<le> length (srv_bests t)"
    using assms(6) by (auto simp: server_inv_def dest: list_all2_nthD2)
  obtain ci' where "ci' \<in> set (since (srv_arrivals t ! j) (srv_bests t))"
    and second: "\<forall>w. rw_chain w (rw_clock w) = ci' \<longrightarrow> fst (handle api dns req' w) = r'"
    using answered_at_block [OF run assms(6,7)] by blast
  from since_position [OF this(1) le] obtain b where b: "b < length (srv_bests t)"
    "srv_arrivals t ! j \<le> Suc b" "rev (srv_bests t) ! b = ci'" by blast
  have "rev (srv_bests t) ! a = ci" using a by (simp add: new nth_append)
  with a b arrival kept first second show ?thesis
    by (intro exI [of _ a] exI [of _ b]) auto
qed

text \<open>The sample server answers a second request after the import.\<close>

definition second_request_server :: "u16 server" where
  "second_request_server = sample_server
     \<lparr>srv_requests := srv_requests sample_server @
        [(ReqGetInfo [1], Answered (answer_at sample_api sample_dns (sample_block 5) (ReqGetInfo [1])))],
      srv_arrivals := srv_arrivals sample_server @ [2],
      srv_calls := srv_calls sample_server @ [call_at sample_dns (sample_block 5) (ReqGetInfo [1])]\<rparr>"

lemma second_request_run: "server_run sample_api sample_dns sample_server 2 second_request_server"
proof -
  let ?req = "ReqGetInfo [1]"
  let ?s1 = "sample_server\<lparr>srv_requests := srv_requests sample_server @ [(?req, Received)],
    srv_arrivals := srv_arrivals sample_server @ [2]\<rparr>"
  let ?s2 = "?s1\<lparr>srv_requests := srv_requests sample_server @ [(?req, Chain_read (sample_block 5))]\<rparr>"
  have "env_step sample_server ?s1"
    using arrive [of sample_server ?req] by (simp add: sample_server_def one_request_server_def numeral_2_eq_2)
  moreover have "work_step sample_api sample_dns ?s1 ?s2"
    using read_chain [of 1 ?s1 ?req] by (simp add: sample_server_def one_request_server_def)
  moreover have "work_step sample_api sample_dns ?s2 second_request_server"
    using call_runtime [of 1 ?s2 ?req "sample_block 5" sample_api sample_dns]
    by (simp add: sample_server_def one_request_server_def second_request_server_def)
  ultimately have "server_run sample_api sample_dns sample_server (Suc (Suc 0)) second_request_server"
    by (meson run_start run_env run_work)
  then show ?thesis by (simp add: numeral_2_eq_2)
qed

theorem answers_move_forward_witness:
  "\<exists>a b w w'. a \<le> b \<and> b < 2 \<and> rw_chain w (rw_clock w) = [sample_block 4, sample_block 5] ! a \<and>
     fst (handle sample_api sample_dns (ReqResolveName [1]) w) =
       Inr (AnsRecord (Some (stamp_record (sample_block 4) sample_record))) \<and>
     rw_chain w' (rw_clock w') = [sample_block 4, sample_block 5] ! b \<and>
     fst (handle sample_api sample_dns (ReqGetInfo [1]) w') =
       answer_at sample_api sample_dns (sample_block 5) (ReqGetInfo [1])"
proof -
  have bests: "rev (srv_bests second_request_server) = [sample_block 4, sample_block 5]"
    by (simp add: second_request_server_def sample_server_parts)
  obtain a b where "a \<le> b" "b < 2"
    and "\<forall>w. rw_chain w (rw_clock w) = [sample_block 4, sample_block 5] ! a \<longrightarrow>
      fst (handle sample_api sample_dns (ReqResolveName [1]) w) =
      Inr (AnsRecord (Some (stamp_record (sample_block 4) sample_record)))"
    and "\<forall>w. rw_chain w (rw_clock w) = [sample_block 4, sample_block 5] ! b \<longrightarrow>
      fst (handle sample_api sample_dns (ReqGetInfo [1]) w) =
      answer_at sample_api sample_dns (sample_block 5) (ReqGetInfo [1])"
    using answers_move_forward [OF sample_server_run second_request_run, of 0 "ReqResolveName [1]"
        "Inr (AnsRecord (Some (stamp_record (sample_block 4) sample_record)))" 1 "ReqGetInfo [1]"
        "answer_at sample_api sample_dns (sample_block 5) (ReqGetInfo [1])"]
    unfolding bests by (auto simp: second_request_server_def sample_server_parts)
  then show ?thesis
    by (intro exI [of _ a] exI [of _ b]
        exI [of _ "\<lparr>rw_clock = 0, rw_chain = \<lambda>_. [sample_block 4, sample_block 5] ! a, rw_calls = []\<rparr>"]
        exI [of _ "\<lparr>rw_clock = 0, rw_chain = \<lambda>_. [sample_block 4, sample_block 5] ! b, rw_calls = []\<rparr>"])
      simp
qed

end
