(* ===== verification/Benchmark_Validity.thy ===== *)
theory Benchmark_Validity
  imports Benchmark_Ext
begin

section \<open>When the runtime accepts a benchmark extrinsic (\<open>benchmarking.rs\<close>, \<open>lib.rs\<close>, \<open>configs/mod.rs\<close>)\<close>

text \<open>
  The signature of a transaction covers its call, its extensions and the data every extension
  adds on its own (the "implicit" part). The node computes that data once, when it signs
  (\<open>bench_implicit\<close>); the runtime computes it again in the block that includes the extrinsic,
  from the same extensions and its own state. This theory has the runtime's side, with the
  era arithmetic of \<open>sp_runtime\<close>, the block hashes kept by \<open>frame_system\<close> and signature
  verification as parameters, and shows for which blocks the two agree.
\<close>

record ('era, 'sig) check_ext =
  chk_birth :: "'era \<Rightarrow> u64 \<Rightarrow> u64"
  chk_block_hash :: "u64 \<Rightarrow> u64 \<Rightarrow> h256 option"
  chk_metadata_hash :: "h256 option"
  chk_verify :: "'sig \<Rightarrow> bytes \<Rightarrow> account_id \<Rightarrow> bool"

text \<open>
  The data an extension of \<open>TxExtension\<close> adds in block \<open>now\<close>; \<open>None\<close> where it refuses the
  transaction (an era whose first block is forgotten, a metadata hash the runtime was not
  built with). \<open>chk_block_hash ck now n\<close> is the hash of block \<open>n\<close> as known in block \<open>now\<close>.
\<close>

primrec runtime_implicit ::
  "('era, 'sig) check_ext \<Rightarrow> u64 \<Rightarrow> 'era tx_ext_value \<Rightarrow> implicit_data option" where
  "runtime_implicit ck now VAuthorizeCall = Some IUnit"
| "runtime_implicit ck now VCheckNonZeroSender = Some IUnit"
| "runtime_implicit ck now VCheckSpecVersion = Some (IVersion (spec_version (VERSION ())))"
| "runtime_implicit ck now VCheckTxVersion = Some (IVersion (transaction_version (VERSION ())))"
| "runtime_implicit ck now VCheckGenesis = map_option IHash (chk_block_hash ck now 0)"
| "runtime_implicit ck now (VCheckEra era) =
     map_option IHash (chk_block_hash ck now (chk_birth ck era now))"
| "runtime_implicit ck now (VCheckNonce n) = Some IUnit"
| "runtime_implicit ck now VCheckWeight = Some IUnit"
| "runtime_implicit ck now (VChargeTransactionPayment tip) = Some IUnit"
| "runtime_implicit ck now (VCheckMetadataHash enabled) =
     (if enabled then map_option ISomeHash (chk_metadata_hash ck) else Some INone)"
| "runtime_implicit ck now VWeightReclaim = Some IUnit"

definition signature_checks ::
  "('pair, 'era, 'sig) bench_ext \<Rightarrow> ('era, 'sig) check_ext \<Rightarrow> u64 \<Rightarrow>
   ('era, 'sig) unchecked_extrinsic \<Rightarrow> bool" where
  "signature_checks ext ck now x =
     (case those (map (runtime_implicit ck now) (ux_ext x)) of
        None \<Rightarrow> False
      | Some implicit \<Rightarrow> chk_verify ck (ux_signature x)
          (encode_payload ext (ux_call x, ux_ext x, implicit)) (ux_signer x))"

subsection \<open>Documented behaviour of the functions called\<close>

text \<open>
  \<open>Era::mortal\<close> with a power of two from 4 to 4096 as period: for that many blocks, from the
  one it was made at on, that block is the era's first. \<open>frame_system\<close> knows in a block the
  hashes of the \<open>BlockHashCount\<close> blocks before it, and the genesis hash always; \<open>chain n\<close> is the
  hash of block \<open>n\<close>. What a pair signs verifies for its account.
\<close>

definition era_law :: "('pair, 'era, 'sig) bench_ext \<Rightarrow> ('era, 'sig) check_ext \<Rightarrow> bool" where
  "era_law ext ck \<longleftrightarrow>
     (\<forall>k period made now. 2 \<le> k \<and> k \<le> 12 \<and> unat period = 2 ^ k \<and> unat made \<le> unat now \<and>
        unat now < unat made + 2 ^ k \<longrightarrow> chk_birth ck (era_mortal ext period made) now = made)"

definition hash_law :: "(u64 \<Rightarrow> h256) \<Rightarrow> ('era, 'sig) check_ext \<Rightarrow> bool" where
  "hash_law chain ck \<longleftrightarrow>
     (\<forall>n now. unat n < unat now \<and> (n = 0 \<or> unat now \<le> unat n + unat BlockHashCount) \<longrightarrow>
        chk_block_hash ck now n = Some (chain n))"

definition signing_law :: "('pair, 'era, 'sig) bench_ext \<Rightarrow> ('era, 'sig) check_ext \<Rightarrow> bool" where
  "signing_law ext ck \<longleftrightarrow>
     (\<forall>p m. chk_verify ck (pair_sign ext p m) m (pair_account ext p))"

lemma bench_period: "mortal_period BlockHashCount = 2 ^ 11"
  by (rule mortal_period_between) (simp_all add: BlockHashCount_def BLOCK_HASH_COUNT_def)

lemma bench_era_birth:
  assumes "era_law ext ck" and "unat made \<le> unat now" and "unat now < unat made + 2048"
  shows "chk_birth ck (era_mortal ext (mortal_period BlockHashCount) made) now = made"
  using assms(1) [unfolded era_law_def, rule_format, of 11 "2 ^ 11" made now] assms(2,3)
  by (simp add: bench_period)

text \<open>Recomputed in a block of the era, the data is the one signed but for the era's hash.\<close>

lemma runtime_implicit_bench:
  assumes "era_law ext ck" and "hash_law chain ck"
    and "unat (ucast best :: u64) < unat now" and "unat now < unat (ucast best :: u64) + 2048"
  shows "those (map (runtime_implicit ck now) (bench_tx_ext ext best nonce)) =
    Some (bench_implicit (chain 0) (chain (ucast best)))"
proof -
  have "chk_block_hash ck now 0 = Some (chain 0)"
    and "chk_block_hash ck now (ucast best) = Some (chain (ucast best))"
    using assms(2-4) by (auto simp: hash_law_def BlockHashCount_def BLOCK_HASH_COUNT_def)
  then show ?thesis
    using bench_era_birth [OF assms(1), of "ucast best" now] assms(3,4)
    by (simp add: bench_tx_ext_def bench_implicit_def Let_def)
qed

lemma bench_implicit_inject:
  "bench_implicit g h = bench_implicit g' h' \<longleftrightarrow> g = g' \<and> h = h'"
  by (simp add: bench_implicit_def)

subsection \<open>Properties\<close>

text \<open>
  C31: how long a benchmark extrinsic is good. \<open>create_benchmark_extrinsic\<close> reads the best hash
  and the best number one after the other. If both are of the same block, the signature
  verifies in each of the 2047 blocks after it, and all that time the runtime still has the
  hash of that block. If a block was imported between the two reads, the data the runtime
  adds differs from the signed one in all of these blocks.
\<close>

theorem bench_extrinsic_validity:
  assumes "create_benchmark_extrinsic ext client t sender call nonce = Inr x"
    and "era_law ext ck" and "hash_law chain ck" and "signing_law ext ck"
    and "bc_genesis_hash client = Some (chain 0)"
    and "best = (ucast (bc_best_number client (t + 1)) :: u64)"
    and "unat best < unat now" and "unat now < unat best + 2048"
  shows "if bc_best_hash client t = chain best then signature_checks ext ck now x
    else those (map (runtime_implicit ck now) (ux_ext x)) \<noteq>
      Some (bench_implicit (chain 0) (bc_best_hash client t))"
proof -
  have x: "x = \<lparr>ux_call = call, ux_signer = pair_account ext sender,
      ux_signature = pair_sign ext sender (encode_payload ext
        (call, bench_tx_ext ext (bc_best_number client (t + 1)) nonce,
         bench_implicit (chain 0) (bc_best_hash client t))),
      ux_ext = bench_tx_ext ext (bc_best_number client (t + 1)) nonce\<rparr>"
    using assms(1,5) by (simp add: create_benchmark_extrinsic_Inr)
  have again: "those (map (runtime_implicit ck now) (ux_ext x)) =
      Some (bench_implicit (chain 0) (chain best))"
    using runtime_implicit_bench [OF assms(2,3), of "bc_best_number client (t + 1)" now nonce]
      assms(6-8) by (simp add: x)
  show ?thesis
    using assms(4) again
    by (auto simp: signature_checks_def signing_law_def bench_implicit_inject x)
qed

text \<open>The era keeps the block it was made at; signatures are the message and the account.\<close>

definition sample_check :: "(u64, bytes) check_ext" where
  "sample_check = \<lparr>chk_birth = (\<lambda>era now. era),
     chk_block_hash = (\<lambda>now n. Some (if n = 0 then replicate 32 9 else replicate 32 8)),
     chk_metadata_hash = None, chk_verify = (\<lambda>s m a. s = m)\<rparr>"

theorem bench_extrinsic_validity_witness:
  "\<exists>x. create_benchmark_extrinsic (sample_bench\<lparr>era_mortal := (\<lambda>period made. made)\<rparr>) sample_client
      4 () (System_remark []) 7 = Inr x \<and>
     signature_checks (sample_bench\<lparr>era_mortal := (\<lambda>period made. made)\<rparr>) sample_check 2000 x"
proof -
  let ?ext = "sample_bench\<lparr>era_mortal := (\<lambda>period made. made)\<rparr>"
  let ?chain = "\<lambda>n :: u64. if n = 0 then replicate 32 9 else replicate 32 (8 :: u8)"
  obtain x where x: "create_benchmark_extrinsic ?ext sample_client 4 () (System_remark []) 7 = Inr x"
    by (simp add: create_benchmark_extrinsic_Inr sample_client_def)
  have "era_law ?ext sample_check" and "hash_law ?chain sample_check"
    and "signing_law ?ext sample_check"
    by (simp_all add: era_law_def hash_law_def signing_law_def sample_check_def sample_bench_def)
  from bench_extrinsic_validity [OF x this, of 5 2000] x show ?thesis
    by (simp add: sample_client_def)
qed

end
