(* ===== verification/Chain_Start.thy ===== *)
theory Chain_Start
  imports Node_Cli Block_Production
begin

section \<open>From a chain id to the authors of blocks (\<open>command.rs\<close>, \<open>chain_spec.rs\<close>, \<open>genesis_config_presets.rs\<close>, \<open>configs/mod.rs\<close>)\<close>

text \<open>
  A node started with \<open>--chain dev\<close> or \<open>--chain local\<close> loads a built-in chain spec, which names
  a preset; the runtime answers the preset's name with a JSON patch; the genesis build puts
  the patch's authorities into Aura's storage; and the author finder picks authors from there.
  This theory composes the four steps.
\<close>

definition booted_genesis ::
  "('k, 'aura, 'gran, 'rec, 'err) genesis_ext \<Rightarrow> bytes option \<Rightarrow> (string \<Rightarrow> string + 'file) \<Rightarrow>
   (bytes \<Rightarrow> ('aura, 'gran, 'rec) genesis_config option) \<Rightarrow> string \<Rightarrow>
   ('aura, 'gran, 'rec) genesis_config option" where
  "booted_genesis ext wasm from_file parse i =
     (case load_spec ext wasm from_file i of
        Inr (Builtin cs) \<Rightarrow>
          (case get_preset ext (cs_preset cs) of
             Inr (Some json) \<Rightarrow> parse json
           | _ \<Rightarrow> None)
      | _ \<Rightarrow> None)"

subsection \<open>Documented behaviour of the keyring and of JSON\<close>

text \<open>
  \<open>sp_keyring\<close>: the public key of a development account is the one its seed derives
  (\<open>//Alice\<close>, \<open>//Bob\<close>), the accounts are different and the keyring lists them all once, the
  numbered ones apart. The author finder's conversion of an Aura key to an account is the
  keyring's. The presets' patches printed as JSON are read back, and the two presets have different names.
\<close>

definition keyring_law ::
  "('k, 'aura, 'gran, 'rec, 'err) genesis_ext \<Rightarrow> ('aura, 'z) aura_ext_scheme \<Rightarrow> bool" where
  "keyring_law ext aext \<longleftrightarrow>
     (\<exists>alice bob. sr25519_public_from_string ext ''//Alice'' = Some alice \<and>
        to_account aext alice = kr_to_account_id ext (kr_Alice ext) \<and>
        sr25519_public_from_string ext ''//Bob'' = Some bob \<and>
        to_account aext bob = kr_to_account_id ext (kr_Bob ext)) \<and>
     ed25519_public_from_string ext ''//Alice'' \<noteq> None \<and>
     ed25519_public_from_string ext ''//Bob'' \<noteq> None \<and>
     distinct (kr_iter ext) \<and> length (kr_iter ext) < 2 ^ 68 \<and>
     inj_on (kr_to_account_id ext) (set (kr_iter ext)) \<and>
     distinct [kr_Alice ext, kr_Bob ext, kr_AliceStash ext, kr_BobStash ext, kr_One ext, kr_Two ext] \<and>
     {kr_Alice ext, kr_Bob ext, kr_AliceStash ext, kr_BobStash ext} \<subseteq> set (kr_iter ext)"

definition json_law ::
  "('k, 'aura, 'gran, 'rec, 'err) genesis_ext \<Rightarrow>
   (bytes \<Rightarrow> ('aura, 'gran, 'rec) genesis_config option) \<Rightarrow> bool" where
  "json_law ext parse \<longleftrightarrow>
     (\<forall>g. development_config_genesis ext = Inr g \<or> local_config_genesis ext = Inr g \<longrightarrow>
        (\<exists>json. to_json ext g = Inr json \<and> parse json = Some g)) \<and>
     DEV_RUNTIME_PRESET ext \<noteq> LOCAL_TESTNET_RUNTIME_PRESET ext"

lemma keyring_dev_accounts:
  assumes "keyring_law ext aext"
  shows "distinct (map (kr_to_account_id ext)
    [kr_Alice ext, kr_Bob ext, kr_AliceStash ext, kr_BobStash ext])"
proof -
  have "inj_on (kr_to_account_id ext) (set (kr_iter ext))"
    and listed: "{kr_Alice ext, kr_Bob ext, kr_AliceStash ext, kr_BobStash ext} \<subseteq> set (kr_iter ext)"
    and distinct: "distinct [kr_Alice ext, kr_Bob ext, kr_AliceStash ext, kr_BobStash ext]"
    using assms by (simp_all add: keyring_law_def)
  from this(1,2) have "inj_on (kr_to_account_id ext)
      (set [kr_Alice ext, kr_Bob ext, kr_AliceStash ext, kr_BobStash ext])"
    by (simp only: list.set) (rule inj_on_subset)
  with distinct show ?thesis by (simp only: distinct_map simp_thms)
qed

subsection \<open>The genesis a built-in chain starts from\<close>

text \<open>The authorities of a chain id, by seed.\<close>

definition chain_seeds :: "string \<Rightarrow> string list" where
  "chain_seeds i = (if i = ''dev'' then [''//Alice''] else [''//Alice'', ''//Bob''])"

lemma booted_dev:
  assumes "json_law ext parse" and "wasm \<noteq> None" and "i = ''dev''"
    and "development_config_genesis ext = Inr g"
  shows "booted_genesis ext wasm from_file parse i = Some g"
proof -
  obtain json where "to_json ext g = Inr json" and "parse json = Some g"
    using assms(1,4) unfolding json_law_def by blast
  with assms show ?thesis
    by (auto simp: booted_genesis_def load_spec_def development_chain_spec_def get_preset_def
        serialize_preset_def)
qed

lemma booted_local:
  assumes "json_law ext parse" and "wasm \<noteq> None" and "i \<in> {'''', ''local''}"
    and "local_config_genesis ext = Inr g"
  shows "booted_genesis ext wasm from_file parse i = Some g"
proof -
  obtain json where "to_json ext g = Inr json" and "parse json = Some g"
    using assms(1,4) unfolding json_law_def by blast
  with assms show ?thesis
    by (auto simp: booted_genesis_def load_spec_def local_chain_spec_def get_preset_def
        serialize_preset_def json_law_def)
qed

lemma booted_genesis_exists:
  assumes keys: "keyring_law ext aext" and json: "json_law ext parse" and wasm: "wasm \<noteq> None"
    and i: "i \<in> {''dev'', '''', ''local''}"
  shows "\<exists>g. booted_genesis ext wasm from_file parse i = Some g \<and> wf_genesis g \<and>
    map Some (gc_aura_authorities g) = map (sr25519_public_from_string ext) (chain_seeds i) \<and>
    gc_sudo_key g = Some (kr_to_account_id ext (kr_Alice ext)) \<and>
    kr_to_account_id ext ` {kr_Alice ext, kr_Bob ext} \<subseteq> fst ` set (gc_balances g)"
proof -
  obtain a b ga gb where ab: "sr25519_public_from_string ext ''//Alice'' = Some a"
      "sr25519_public_from_string ext ''//Bob'' = Some b"
      "ed25519_public_from_string ext ''//Alice'' = Some ga"
      "ed25519_public_from_string ext ''//Bob'' = Some gb"
    using keys by (auto simp: keyring_law_def)
  let ?root = "kr_to_account_id ext (kr_Alice ext)"
  show ?thesis
  proof (cases "i = ''dev''")
    case True
    let ?g = "testnet_genesis ext [(a, ga)] (map (kr_to_account_id ext)
      [kr_Alice ext, kr_Bob ext, kr_AliceStash ext, kr_BobStash ext]) ?root"
    have "development_config_genesis ext = Inr ?g"
      by (simp add: development_config_genesis_def authority_keys_from_seed_def ab)
    then have "booted_genesis ext wasm from_file parse i = Some ?g"
      by (rule booted_dev [OF json wasm True])
    moreover have "wf_genesis ?g"
      by (rule wf_testnet_genesis [OF keyring_dev_accounts [OF keys]]) simp_all
    ultimately show ?thesis
      by (intro exI [of _ ?g]) (simp add: testnet_genesis_def chain_seeds_def True ab)
  next
    case False
    let ?ks = "filter (\<lambda>v. v \<noteq> kr_One ext \<and> v \<noteq> kr_Two ext) (kr_iter ext)"
    let ?g = "testnet_genesis ext [(a, ga), (b, gb)] (map (kr_to_account_id ext) ?ks) ?root"
    have alice_bob: "{kr_Alice ext, kr_Bob ext} \<subseteq> set ?ks"
      using keys by (auto simp: keyring_law_def)
    have "local_config_genesis ext = Inr ?g"
      by (simp add: local_config_genesis_def authority_keys_from_seed_def ab)
    then have "booted_genesis ext wasm from_file parse i = Some ?g"
      using i False by (intro booted_local [OF json wasm]) auto
    moreover have "wf_genesis ?g"
    proof (rule wf_testnet_genesis)
      have "inj_on (kr_to_account_id ext) (set ?ks)"
        using keys by (auto simp: keyring_law_def intro: inj_on_subset)
      then show "distinct (map (kr_to_account_id ext) ?ks)"
        using keys by (simp add: distinct_map keyring_law_def)
      have "length (kr_iter ext) < 2 ^ 68" using keys by (simp add: keyring_law_def)
      with length_filter_le show "length (map (kr_to_account_id ext) ?ks) < 2 ^ 68"
        unfolding length_map by (rule order_le_less_trans)
    qed (use alice_bob in auto)
    ultimately show ?thesis using alice_bob
      by (intro exI [of _ ?g]) (auto simp: testnet_genesis_def chain_seeds_def False ab image_image)
  qed
qed

subsection \<open>Properties\<close>

text \<open>
  C12: built-in chains come to life. A node with a runtime built in, started for \<open>dev\<close>, \<open>local\<close>
  or no chain id, gets a well-formed genesis without a panic. On the chain that starts from
  it, whoever the runtime finds as the author of a block was endowed at genesis, for \<open>dev\<close> it
  is the sudo account, and any block whose Aura digest holds a slot has an author.
\<close>

theorem built_in_chain_starts:
  assumes "keyring_law ext aext" and "json_law ext parse" and "wasm \<noteq> None"
    and "i \<in> {''dev'', '''', ''local''}"
  shows "\<exists>g. booted_genesis ext wasm from_file parse i = Some g \<and> wf_genesis g \<and>
    (\<forall>ds. case find_author aext (gc_aura_authorities g) ds of
        Some author \<Rightarrow> author \<in> fst ` set (gc_balances g) \<and>
          (if i = ''dev'' then gc_sudo_key g = Some author else True)
      | None \<Rightarrow>
          (case find (\<lambda>(engine, data). engine = aura_engine_id aext) ds of
             Some (engine, data) \<Rightarrow> decode_slot aext data = None | None \<Rightarrow> True))"
proof -
  obtain g where g: "booted_genesis ext wasm from_file parse i = Some g" "wf_genesis g"
    and auths: "map Some (gc_aura_authorities g) = map (sr25519_public_from_string ext) (chain_seeds i)"
    and sudo: "gc_sudo_key g = Some (kr_to_account_id ext (kr_Alice ext))"
    and endowed: "kr_to_account_id ext ` {kr_Alice ext, kr_Bob ext} \<subseteq> fst ` set (gc_balances g)"
    using booted_genesis_exists [OF assms] by blast
  have accounts: "to_account aext ` set (gc_aura_authorities g) =
      kr_to_account_id ext ` (if i = ''dev'' then {kr_Alice ext} else {kr_Alice ext, kr_Bob ext})"
    using assms(1) auths by (auto simp: keyring_law_def chain_seeds_def Cons_eq_map_conv
        map_eq_Cons_conv split: if_splits)
  have ne: "gc_aura_authorities g \<noteq> []" and "length (gc_aura_authorities g) \<le> max_aura_authorities"
    using g(2) by (simp_all add: wf_genesis_def max_aura_authorities_def)
  note spec = find_author_first [OF this, of aext]
  have "case find_author aext (gc_aura_authorities g) ds of
        Some author \<Rightarrow> author \<in> fst ` set (gc_balances g) \<and>
          (if i = ''dev'' then gc_sudo_key g = Some author else True)
      | None \<Rightarrow>
          (case find (\<lambda>(engine, data). engine = aura_engine_id aext) ds of
             Some (engine, data) \<Rightarrow> decode_slot aext data = None | None \<Rightarrow> True)" for ds
  proof (cases "find_author aext (gc_aura_authorities g) ds")
    case None
    then show ?thesis using spec [of ds] by (auto split: option.splits)
  next
    case (Some author)
    then have "author \<in> to_account aext ` set (gc_aura_authorities g)"
      by (rule aura_finder.find_sound)
    with Some accounts endowed sudo show ?thesis by (auto split: if_splits)
  qed
  with g show ?thesis by blast
qed

text \<open>The sample keyring; a patch is printed as the number of its authorities.\<close>

definition sample_boot :: "(u8, string, string, unit, unit) genesis_ext" where
  "sample_boot = sample_keyring\<lparr>to_json := (\<lambda>g. Inr [of_nat (length (gc_aura_authorities g))])\<rparr>"

definition sample_parse :: "bytes \<Rightarrow> (string, string, unit) genesis_config option" where
  "sample_parse json =
     (case (if json = [1] then development_config_genesis else local_config_genesis) sample_boot of
        Inl e \<Rightarrow> None | Inr g \<Rightarrow> Some g)"

definition sample_boot_aura :: "string aura_ext" where
  "sample_boot_aura = \<lparr>aura_engine_id = [97],
     decode_slot = (\<lambda>d. case d of [] \<Rightarrow> None | b # _ \<Rightarrow> Some (ucast b)),
     to_account = (\<lambda>k. replicate 32 (if k = ''//Alice'' then 1 else 2))\<rparr>"

lemma sample_boot_laws: "keyring_law sample_boot sample_boot_aura" "json_law sample_boot sample_parse"
proof -
  show "keyring_law sample_boot sample_boot_aura"
    by (simp add: keyring_law_def sample_boot_def sample_keyring_def sample_boot_aura_def
        inj_on_def replicate_eq_replicate)
  show "json_law sample_boot sample_parse"
    by (auto simp: json_law_def sample_parse_def sample_boot_def sample_keyring_def
        development_config_genesis_def local_config_genesis_def authority_keys_from_seed_def
        testnet_genesis_def)
qed

theorem built_in_chain_starts_witness:
  "\<exists>g. booted_genesis sample_boot (Some []) (\<lambda>p. Inl [] :: string + unit) sample_parse ''dev'' = Some g \<and>
     wf_genesis g"
  using built_in_chain_starts [OF sample_boot_laws, of "Some []" "''dev''"
      "\<lambda>p. Inl [] :: string + unit"] by auto

end
