(* ===== verification/Spec2Isabelle.thy ===== *)
theory Spec2Isabelle
  imports Prelude Runtime_Types Runtime_Config Chain_State Aura_Author Runtime_Hooks
    Pns_Storage_Api Pns_Api Pns_Rpc Rpc_Server Rpc_Progress Build_Guard Runtime_Api
    Runtime_Wiring Benchmarks Genesis Service Benchmark_Ext Block_Production
    Node_Rpc Node_Cli Service_Handles Service_Roles Rpc_Module Node_Build
    Rpc_Order Benchmark_Validity Chain_Start
begin

text \<open>
  \<^bold>\<open>Verification library of the Paseo unified node\<close>

  The repository is one Substrate chain: \<open>runtime/\<close> configures the on-chain state machine
  (system, consensus, balances, the Polkadot Name System PNS, ZK-PKI, Secret Squirrel) and
  \<open>node/\<close> is the client that runs it (command line, chain specs, service assembly, RPC,
  benchmark extrinsics). Almost all pallets are crates of other repositories; the code here
  configures them, answers runtime-API queries over their storage, and assembles the node.
  That code is what is modelled. Functions of other crates are parameters: records named
  \<open>..._ext\<close> (or plain function arguments) whose fields are called where the source calls the
  function. No property assumes anything about them but what its statement shows.

  \<^bold>\<open>Parts and theories\<close>

  \<^item> \<open>Prelude\<close>: \<open>u8 .. u128\<close> as words, \<open>Result\<close> as \<open>'e + 'a\<close>, saturating and checked arithmetic.
  \<^item> \<open>Runtime_Types\<close> (\<open>runtime/src/lib.rs\<close>): block times, units, \<open>VERSION\<close>, \<open>TxExtension\<close>, the
    pallets and their indices, with pallets ordered by index.
  \<^item> \<open>Runtime_Config\<close> (\<open>runtime/src/configs/mod.rs\<close>): the constants, computed at their Rust
    width, and one record per \<open>Config\<close> block. Their values are in \<open>config_simps\<close>.
  \<^item> \<open>Chain_State\<close>: the storage items the runtime's own code reads, as one record.
  \<^item> \<open>Runtime_Hooks\<close> (\<open>configs/mod.rs\<close>, \<open>proxy_validator.rs\<close>): \<open>EnsureRootAsAccountId\<close>, the proxy
    filter and validator, the PNS hooks, and \<open>pns_ext\<close>, the pallet functions they call.
  \<^item> \<open>Aura_Author\<close> (\<open>AuraAccountFinder\<close>): the digest loop, with the contract of \<open>FindAuthor\<close> as
    the locale \<open>author_finder\<close>, interpreted on it.
  \<^item> \<open>Pns_Storage_Api\<close>, \<open>Pns_Api\<close> (\<open>runtime/src/apis.rs\<close>): the locale \<open>pns_storage_api\<close> is what the
    node relies on; \<open>Pns_Api\<close> has the five queries and interprets the locale on them.
  \<^item> \<open>Runtime_Api\<close> (\<open>apis.rs\<close>): Secret Squirrel, consensus and the forwarding APIs.
  \<^item> \<open>Genesis\<close> (\<open>genesis_config_presets.rs\<close>): the presets, with \<open>wf_genesis\<close> as what genesis
    builds need; the locale \<open>genesis_presets\<close> ties \<open>preset_names\<close> to \<open>get_preset\<close>.
  \<^item> \<open>Build_Guard\<close> (\<open>Cargo.toml\<close>, \<open>build.rs\<close>, the \<open>compile_error!\<close> of \<open>lib.rs\<close>, the feature-dependent
    bindings): which invocations on the runtime the guard stops and what the others wire.
    \<open>Node_Build\<close> (\<open>node/Cargo.toml\<close>, the \<open>impl\<close> list of \<open>apis.rs\<close>): the features of builds of
    both packages and the runtime APIs that come with them.
  \<^item> \<open>Pns_Rpc\<close> (\<open>node/src/pns_rpc.rs\<close>): the JSON-RPC handlers over a client whose best block may
    change between any two reads, with a log of runtime calls; \<open>mount\<close> connects them to a
    runtime, \<open>runtime_api\<close> to the one of \<open>Pns_Api\<close>, and the contract lemmas of the handlers are
    proved in \<open>pns_storage_api\<close>.
  \<^item> \<open>Node_Rpc\<close>, \<open>Rpc_Module\<close> (\<open>rpc.rs\<close>, the trait of \<open>pns_rpc.rs\<close>): merging of the extensions, and
    the way from the dependencies \<open>service.rs\<close> hands over and a method name to a handler.
  \<^item> \<open>Benchmark_Ext\<close> (\<open>benchmarking.rs\<close>, with the locale
    \<open>extrinsic_builder\<close>), \<open>Node_Cli\<close> (\<open>chain_spec.rs\<close>, \<open>cli.rs\<close>, \<open>command.rs\<close>): the dispatch of
    subcommands over the node assembly of \<open>Service\<close> and the builders of \<open>Benchmark_Ext\<close>.
    \<open>Benchmark_Validity\<close>: the runtime's side of a benchmark extrinsic's signature.
  \<^item> \<open>Chain_Start\<close>: chain spec, preset, genesis and author finder composed.
  \<^item> \<open>Rpc_Server\<close>: the handlers of \<open>Pns_Rpc\<close> split at their reads of shared state,
    interleaved with each other and with block imports as the step relations \<open>env_step\<close> and
    \<open>work_step\<close>; \<open>server_inv\<close> is kept by both, \<open>server_cost\<close> falls with every handler step.
    \<open>Rpc_Order\<close> compares the blocks of different requests; \<open>Rpc_Progress\<close> shows that handlers left
    alone answer everything, and that \<open>outcome\<close>, the final answers and calls, is kept by their steps.
  \<^item> \<open>Runtime_Wiring\<close> (\<open>configs/mod.rs\<close>): what each hook of each pallet is bound to, and which are
    bound to the unit type or to placeholder weights.
  \<^item> \<open>Benchmarks\<close> (\<open>benchmarks.rs\<close>, \<open>apis.rs\<close>): the benchmark rows and dispatch by name.
  \<^item> \<open>Service\<close> (\<open>service.rs\<close>): \<open>new_partial\<close> and \<open>new_full\<close> as programs of a small error-and-log
    monad, the \<open>plan\<close> a configuration stands for, and the refinement between the two.
  \<^item> \<open>Service_Handles\<close>: the same assembly with every call of the SDK and the handles it is given
    and returns, in the parameter structs of the source; \<open>abs_log\<close> forgets the handles, and
    the result refines \<open>Service\<close>. \<open>Service_Roles\<close>: the role of every handle, and that each is
    used in its role only.
  \<^item> \<open>Block_Production\<close>: the inherent-data closures of \<open>service.rs\<close>, composed with the slot
    duration and the author finder of the runtime, and placed where the assembly installs them.

  \<^bold>\<open>What is shown\<close>

  \<^item> Names (C1, C14, C15, C20): when a name is visible and with which data, that
    visibility is one window in time for a fixed registration, that offers hide names for 90 days
    up to clock saturation, and that the two queries for a name agree.
  \<^item> RPC (C2, C16, C17, C18, C19, C22): no stale name is served end to end, method names
    reach their handlers, records are stamped with the block they were read at, guards, errors
    and the 16-bit cut of record types.
  \<^item> Concurrency (C3, C4, C5, C21): interleaved requests are answered as if run alone at a block
    that was the best one after the request arrived, in the order of the requests, never with a
    stale name; and handlers left alone stop with every request answered by its handler.
  \<^item> Service (C6, C7, C8, C9, C11, C23, C24, C25, C26): the plan of calls and the stop at
    the first failure, the tasks of a started node with their spawners and futures, one handle
    per role, all blocks through GRANDPA's import, authors and importers computing the same slot,
    roles; C6 joins the assembly, the RPC module and the runtime's queries.
  \<^item> Consensus and genesis (C10, C12, C13, C30, C33, C35): who the author of a block is, that every
    authority gets its turn, well-formed presets, and that the built-in chains start from them
    with authors that have funds.
  \<^item> Command line and builds (C27, C28, C29, C32): when the node comes to run and when a
    subcommand reaches the SDK; what a build of the runtime wires and that the node finds its APIs.
  \<^item> Benchmark extrinsics (C31, C34): their period and how long their signature holds. The remaining
    theorems of the theories, not numbered, state the behaviour of smaller parts (slots, the root
    origin, proxies, the registry checker, wiring, weights, session keys, presets, prices,
    durations, the merging of RPC modules, benchmark dispatch, pallet order, the agreement of the
    two models of the assembly).

  \<^bold>\<open>Bounds\<close>. All definitions are total and need no fuel. Timestamps are \<open>u64\<close> milliseconds and
  additions to them saturate as in the source. \<open>usize\<close> is 32 bits, as in the wasm runtime.
  The author finder is specified for at most \<open>MaxAuthorities\<close> (32) authorities, the bound of the
  pallet's storage. \<open>wf_genesis\<close> for the local preset asks for fewer than \<open>2 ^ 68\<close> accounts,
  which keeps the total issuance within \<open>u128\<close>. Handlers make at most two steps per request
  (\<open>server_cost\<close>). The runtime's state at a block hash is taken not to change, so pruning of old
  states during a request is not modelled.

  \<^bold>\<open>Not modelled\<close>. Pallet logic of other repositories, and what the SDK does inside a call of
  the assembly: parameters. Parsing of the command line, which \<open>clap\<close> and \<open>sc_cli\<close> do behind one
  call, and \<open>main.rs\<close>, which calls \<open>run\<close>. Generated code (metadata, runtime APIs' dispatch, benchmark
  macros), but for the module of \<open>PnsRpc\<close>. Whether a build that passes the guard compiles, which
  depends on what crates of other repositories export. Imports, type aliases and derive lists,
  which have no behaviour of their own; the build script of the node, one call; the integration
  tests with their fee helpers, which exercise external pallets. The state-changing PNS hooks
  forward to external pallets and are modelled as that.
\<close>

section \<open>Across the node and the runtime\<close>

definition sample_states :: "h256 \<Rightarrow> unit + (unit, unit) chain_state" where
  "sample_states h = (case h of [k] \<Rightarrow> Inr (sample_state (ucast k * 2200000000)) | _ \<Rightarrow> Inl ())"

text \<open>
  C2: end to end, \<open>pns_resolveName\<close> over the runtime's queries never serves a stale name.
  Every record it returns was read in the state of the block it is stamped with, and in that
  state the name's offer window was over, its registration had not expired, and the record's
  \<open>for_sale\<close> flag is what \<open>pns_getListing\<close> would answer there; the name had at most 128 bytes.
\<close>

theorem rpc_never_serves_stale_names:
  assumes "fst (rpc_resolve_name (mount dbg state_at (pns_get_info ext) (pns_resolve_name ext)
     (pns_get_listing ext) (pns_lookup ext) (pns_lookup_by_name ext)) name w) = Inr (Some r)"
  shows "length name \<le> 128 \<and>
    (\<exists>s n. state_at (nr_read_block_hash r) = Inr s \<and> name_node ext name = Some n \<and>
       offer_end s n \<le> unat (st_now s) \<and> st_now s < nr_expire r \<and>
       (nr_for_sale r \<longleftrightarrow> pns_get_listing ext s name \<noteq> None))"
  using pns_runtime.rpc_resolve_name_live [OF assms] assms
  by (auto simp: rpc_resolve_name_def invalid_params_def not_less split: if_splits)

theorem rpc_never_serves_stale_names_witness:
  "\<exists>s. sample_states [4] = Inr s \<and> offer_end s [1] \<le> unat (st_now s)"
  using rpc_never_serves_stale_names [of "\<lambda>e. []" sample_states sample_pallets "[1]" sample_world
      "name_record_of (replicate 32 7) sample_info True
         \<lparr>nr_read_block_hash := [4], nr_read_block_number := 4\<rparr>"]
  by (simp add: rpc_defs mount_def Let_def sample_world_def sample_states_def
      pns_resolve_name_eq name_node_def pns_get_info_Some offer_end_eq sample_defs
      name_record_of_def)

subsection \<open>Under concurrency\<close>

lemma answered_record:
  assumes "server_run api dns (server_init ci\<^sub>0) n s" and "i < length (srv_requests s)"
    and "srv_requests s ! i = (ReqResolveName name, Answered (Inr (AnsRecord (Some r))))"
  shows "length name \<le> 128 \<and> (\<exists>ci \<in> set (since (srv_arrivals s ! i) (srv_bests s)).
    nr_read_block_hash r = best_hash ci \<and> nr_read_block_number r = best_number ci \<and>
    fst (rpc_resolve_name api name \<lparr>rw_clock = 0, rw_chain = \<lambda>_. ci, rw_calls = []\<rparr>) = Inr (Some r))"
proof -
  have "server_inv api dns s" using assms(1) server_inv_init by (rule server_run_inv)
  then have phase: "phase_ok api dns (set (since (srv_arrivals s ! i) (srv_bests s)))
      (set (srv_calls s)) (ReqResolveName name, Answered (Inr (AnsRecord (Some r))))"
    using assms(2,3) by (auto simp: server_inv_def dest: list_all2_nthD2)
  then have len: "length name \<le> 128"
    by (auto simp: phase_ok_def split: if_splits)
  with phase obtain ci where ci: "ci \<in> set (since (srv_arrivals s ! i) (srv_bests s))"
    and ans: "answer_at api dns ci (ReqResolveName name) = Inr (AnsRecord (Some r))"
    by (auto simp: phase_ok_def)
  from ans len have "nr_read_block_hash r = best_hash ci \<and> nr_read_block_number r = best_number ci \<and>
      fst (rpc_resolve_name api name \<lparr>rw_clock = 0, rw_chain = \<lambda>_. ci, rw_calls = []\<rparr>) = Inr (Some r)"
    by (auto simp: rpc_resolve_name_def client_info_def Let_def stamp_record_def result_simps
        map_option_eq_Some)
  with ci len show ?thesis by blast
qed

text \<open>
  C5: freshness under concurrency. However requests and block imports interleave, a record the
  server has answered \<open>pns_resolveName\<close> with is stamped with a block that was the best one
  after the request arrived, and in the state of that block the name's offer window was over,
  its registration had not expired and \<open>for_sale\<close> is what \<open>pns_getListing\<close> would answer.
\<close>

theorem concurrent_answers_are_fresh:
  assumes "server_run (runtime_api dbg state_at ext) dns (server_init ci\<^sub>0) n s"
    and "i < length (srv_requests s)"
    and "srv_requests s ! i = (ReqResolveName name, Answered (Inr (AnsRecord (Some r))))"
  shows "\<exists>ci \<in> set (since (srv_arrivals s ! i) (srv_bests s)). \<exists>st node.
    nr_read_block_hash r = best_hash ci \<and> nr_read_block_number r = best_number ci \<and>
    state_at (best_hash ci) = Inr st \<and> name_node ext name = Some node \<and>
    offer_end st node \<le> unat (st_now st) \<and> st_now st < nr_expire r \<and>
    (nr_for_sale r \<longleftrightarrow> pns_get_listing ext st name \<noteq> None)"
proof -
  obtain ci where ci: "ci \<in> set (since (srv_arrivals s ! i) (srv_bests s))"
    and stamp: "nr_read_block_hash r = best_hash ci" "nr_read_block_number r = best_number ci"
    and ok: "fst (rpc_resolve_name (runtime_api dbg state_at ext) name
      \<lparr>rw_clock = 0, rw_chain = \<lambda>_. ci, rw_calls = []\<rparr>) = Inr (Some r)"
    using answered_record [OF assms] by blast
  from pns_runtime.rpc_resolve_name_live [OF ok] ci stamp show ?thesis by auto
qed

text \<open>One request, read at block 4 while block 5 is imported.\<close>

definition sample_run_api :: "(u16, unit) api_ext" where
  "sample_run_api = runtime_api (\<lambda>e. []) sample_states sample_pallets"

theorem concurrent_answers_are_fresh_witness:
  "\<exists>s r. server_run sample_run_api sample_dns (server_init (sample_block 4)) 2 s \<and>
     srv_requests s = [(ReqResolveName [1], Answered (Inr (AnsRecord (Some r))))] \<and>
     8800000000 < nr_expire r"
proof -
  let ?s = "one_request_server sample_run_api sample_dns (sample_block 4) (sample_block 5)
    (ReqResolveName [1])"
  let ?r = "name_record_of (replicate 32 7) sample_info True
     \<lparr>nr_read_block_hash := [4], nr_read_block_number := 4\<rparr>"
  have run: "server_run sample_run_api sample_dns (server_init (sample_block 4)) 2 ?s"
    by (rule one_request_run) simp
  have answered: "srv_requests ?s = [(ReqResolveName [1], Answered (Inr (AnsRecord (Some ?r))))]"
    by (simp add: one_request_server_def sample_run_api_def mount_def sample_block_def
        sample_states_def stamp_record_def pns_resolve_name_eq name_node_def pns_get_info_Some
        offer_end_eq sample_defs name_record_of_def)
  then have "\<exists>ci \<in> set (since (srv_arrivals ?s ! 0) (srv_bests ?s)). \<exists>st node.
      nr_read_block_hash ?r = best_hash ci \<and> nr_read_block_number ?r = best_number ci \<and>
      sample_states (best_hash ci) = Inr st \<and> name_node sample_pallets [1] = Some node \<and>
      offer_end st node \<le> unat (st_now st) \<and> st_now st < nr_expire ?r \<and>
      (nr_for_sale ?r \<longleftrightarrow> pns_get_listing sample_pallets st [1] \<noteq> None)"
    by (intro concurrent_answers_are_fresh [OF run [unfolded sample_run_api_def], of 0
          "[1]" ?r, folded sample_run_api_def]) simp_all
  then obtain ci :: chain_info and st where ci: "nr_read_block_hash ?r = best_hash ci"
    and st: "sample_states (best_hash ci) = Inr st" and live: "st_now st < nr_expire ?r"
    by (elim bexE exE conjE) (rule that, assumption+)
  from st have "sample_states [4] = Inr st" unfolding ci [symmetric] by simp
  with live have "8800000000 < nr_expire ?r" by (auto simp: sample_states_def sample_defs)
  with run answered show ?thesis by blast
qed

subsection \<open>From the assembled node to an answer\<close>

text \<open>
  C6: the whole node. Take any run of the assembly, the RPC module its builder makes when the
  SDK calls it, and a call of \<open>pns_resolveName\<close> by name. If the client the SDK created offers
  the runtime's queries, every record the call answers with is not stale: in the state of the
  block it is stamped with, the name was neither offered nor expired. So no other client, no
  other extension's method and no other handler comes in between.
\<close>

theorem assembled_node_serves_fresh_names:
  assumes "Did (New_full_parts_of t ex fs) parts \<in> set (snd (h_new_full sdk config []))"
    and "Did (Tasks_spawn q) r \<in> set (snd (h_new_full sdk config []))"
    and "module_law rx"
    and "create_full_on rx (PnsRpc_into_rpc api_of dns dec) (stp_rpc_builder q) = Inr m"
    and "api_of (parts 0) = runtime_api dbg state_at ext"
    and "rx_view rx m ''pns_resolveName'' = Some f"
    and "fst (f p w) = Inr (AnsRecord (Some rec))"
  shows "\<exists>name st node. dec_name dec p = Inr name \<and> length name \<le> 128 \<and>
    state_at (nr_read_block_hash rec) = Inr st \<and> name_node ext name = Some node \<and>
    offer_end st node \<le> unat (st_now st) \<and> st_now st < nr_expire rec"
proof -
  have "(R_client, parts 0) \<in> set (all_gives sdk config (snd (h_new_full sdk config [])))"
    by (rule given_by [OF assms(1)]) simp
  then have client: "fd_client (stp_rpc_builder q) = parts 0"
    by (intro used_is_given [OF assms(2)]) simp_all
  have "PnsRpc_into_rpc api_of dns dec (PnsRpc_new (fd_client (stp_rpc_builder q)))
      ''pns_resolveName'' = Some f"
  proof -
    obtain g where g: "PnsRpc_into_rpc api_of dns dec
        (PnsRpc_new (fd_client (stp_rpc_builder q))) ''pns_resolveName'' = Some g"
      by (simp add: PnsRpc_into_rpc_def PnsStorageApi_trait_def)
    with create_full_on_pns [OF assms(3,4) g] assms(6) show ?thesis by simp
  qed
  with assms(5,7) client obtain name where name: "dec_name dec p = Inr name"
    and "fst (handle (runtime_api dbg state_at ext) dns (ReqResolveName name) w) =
      Inr (AnsRecord (Some rec))"
    by (cases "dec_name dec p")
      (auto simp: PnsRpc_into_rpc_def PnsStorageApi_trait_def PnsRpc_new_def)
  then have ok: "fst (rpc_resolve_name (runtime_api dbg state_at ext) name w) = Inr (Some rec)"
    by (auto simp: result_simps)
  then have "length name \<le> 128"
    by (auto simp: rpc_resolve_name_def invalid_params_def not_less split: if_splits)
  with pns_runtime.rpc_resolve_name_live [OF ok] name show ?thesis by blast
qed

theorem assembled_node_serves_fresh_names_witness:
  "\<exists>st node. sample_states [4] = Inr st \<and> name_node sample_pallets [1] = Some node \<and>
     offer_end st node \<le> unat (st_now st)"
proof -
  let ?log = "snd (h_new_full sample_sdk sample_full_config [])"
  let ?pns = "PnsRpc_into_rpc (\<lambda>c. sample_run_api) sample_dns sample_dec"
  let ?r = "name_record_of (replicate 32 7) sample_info True
     \<lparr>nr_read_block_hash := [4], nr_read_block_number := 4\<rparr>"
  have parts: "Did (New_full_parts_of None 90 [GrandpaPruningFilter]) (sample_result (New_full_parts_of None 90 [GrandpaPruningFilter])) \<in> set ?log"
    and "\<exists>q r. Did (Tasks_spawn q) r \<in> set ?log"
    by (simp_all add: sample_run_simps Let_def)
  then obtain q r where q: "Did (Tasks_spawn q) r \<in> set ?log" by blast
  obtain m where m: "create_full_on sample_rx ?pns (stp_rpc_builder q) = Inr m"
    using sample_module by blast
  obtain f where f: "?pns (PnsRpc_new (fd_client (stp_rpc_builder q))) ''pns_resolveName'' = Some f"
    and "f (ReqResolveName [1]) sample_world = handle sample_run_api sample_dns (ReqResolveName [1]) sample_world"
    by (simp add: PnsRpc_into_rpc_def PnsStorageApi_trait_def sample_dec_def)
  then have answer: "fst (f (ReqResolveName [1]) sample_world) = Inr (AnsRecord (Some ?r))"
    by (simp add: handle_in_stages sample_run_api_def mount_def sample_states_def sample_world_def
        stamp_record_def pns_resolve_name_eq name_node_def pns_get_info_Some offer_end_eq
        sample_defs name_record_of_def)
  have view: "rx_view (sample_rx :: (nat, _, _, _, _) rpc_module_ext) m ''pns_resolveName'' = Some f"
    by (rule create_full_on_pns [OF sample_module_law m f])
  from assembled_node_serves_fresh_names [OF parts q sample_module_law m
      sample_run_api_def view answer]
  show ?thesis by (auto simp: sample_dec_def)
qed

end
